(* ===== verification/Prelude.thy ===== *)
theory Prelude
  imports Complex_Main "HOL-Library.AList"
begin

text \<open>
  Shared vocabulary of the development.

  A Go map is an association list with distinct keys (\<open>gm_wf\<close>). The order of the list is
  the order in which one run of the program happens to iterate over the map; since every
  theorem is stated for all such lists, it holds for every iteration order. A Go map that
  the code compares with \<open>nil\<close> is an \<open>option\<close> of such a list.

  A Go error is a \<open>go_error\<close>: a formatted message, or a wrapped error (\<open>%w\<close>). A call with
  results \<open>(T, error)\<close> returns \<open>go_error + 'a\<close>, and a call that changes some outside state
  \<open>'w\<close> (a driver, an engine, a cluster) also returns the new state.

  Machine integers are written as \<open>int\<close> with the wrap-around of the conversion made
  explicit (\<open>i32\<close>, \<open>i64\<close>). The locale \<open>kv_store\<close> is the contract of the keyed stores the
  runtime keeps (image cache, metrics cache, checkpoint records).
\<close>

named_theorems go_simps \<open>defining equations of the model, for evaluation and case splits\<close>
named_theorems go_inv \<open>preservation of well-formedness by the operations\<close>

section \<open>Errors and effects\<close>

datatype go_error =
    Errorf string
  | Wrapf string go_error string

fun error_string :: "go_error \<Rightarrow> string" where
  "error_string (Errorf s) = s"
| "error_string (Wrapf pre e post) = pre @ error_string e @ post"

type_synonym 'a result = "go_error + 'a"

type_synonym ('w, 'a) act = "'w \<Rightarrow> 'a result \<times> 'w"

type_synonym 'w proc = "'w \<Rightarrow> go_error option \<times> 'w"

definition is_ok :: "'a result \<Rightarrow> bool" where
  "is_ok r = (case r of Inl _ \<Rightarrow> False | Inr _ \<Rightarrow> True)"

definition bindE :: "('w, 'a) act \<Rightarrow> ('a \<Rightarrow> ('w, 'b) act) \<Rightarrow> ('w, 'b) act" where
  "bindE m f = (\<lambda>w. case m w of (Inl e, w') \<Rightarrow> (Inl e, w') | (Inr x, w') \<Rightarrow> f x w')"

definition returnE :: "'a \<Rightarrow> ('w, 'a) act" where
  "returnE x = (\<lambda>w. (Inr x, w))"

definition failE :: "go_error \<Rightarrow> ('w, 'a) act" where
  "failE e = (\<lambda>w. (Inl e, w))"

definition wrapE :: "string \<Rightarrow> ('w, 'a) act \<Rightarrow> ('w, 'a) act" where
  "wrapE pre m = (\<lambda>w. case m w of (Inl e, w') \<Rightarrow> (Inl (Wrapf pre e ''''), w') | (Inr x, w') \<Rightarrow> (Inr x, w'))"

definition procE :: "'w proc \<Rightarrow> ('w, unit) act" where
  "procE p = (\<lambda>w. case p w of (None, w') \<Rightarrow> (Inr (), w') | (Some e, w') \<Rightarrow> (Inl e, w'))"

section \<open>Machine integers\<close>

definition i32 :: "int \<Rightarrow> int" where
  "i32 x = (x + 2 ^ 31) mod 2 ^ 32 - 2 ^ 31"

definition i64 :: "int \<Rightarrow> int" where
  "i64 x = (x + 2 ^ 63) mod 2 ^ 64 - 2 ^ 63"

section \<open>Go maps\<close>

type_synonym ('k, 'v) gomap = "('k \<times> 'v) list"

abbreviation gm_wf :: "('k, 'v) gomap \<Rightarrow> bool" where
  "gm_wf m \<equiv> distinct (map fst m)"

abbreviation gm_get :: "('k, 'v) gomap \<Rightarrow> 'k \<Rightarrow> 'v option" where
  "gm_get m k \<equiv> map_of m k"

definition gm_put :: "'k \<Rightarrow> 'v \<Rightarrow> ('k, 'v) gomap \<Rightarrow> ('k, 'v) gomap" where
  "gm_put k v m = AList.update k v m"

definition gm_del :: "'k \<Rightarrow> ('k, 'v) gomap \<Rightarrow> ('k, 'v) gomap" where
  "gm_del k m = AList.delete k m"

text \<open>Reading a string-valued map gives the empty string for a missing key.\<close>

definition gm_str :: "('k, string) gomap \<Rightarrow> 'k \<Rightarrow> string" where
  "gm_str m k = (case gm_get m k of None \<Rightarrow> '''' | Some v \<Rightarrow> v)"

section \<open>The contract of a keyed store\<close>

datatype ('k, 'v) kv_op = KPut 'k 'v | KDel 'k

fun kv_abs :: "('k, 'v) kv_op \<Rightarrow> ('k \<rightharpoonup> 'v) \<Rightarrow> ('k \<rightharpoonup> 'v)" where
  "kv_abs (KPut k v) m = m(k \<mapsto> v)"
| "kv_abs (KDel k) m = m(k := None)"

locale kv_store =
  fixes empty :: 's
    and lookup :: "'s \<Rightarrow> 'k \<Rightarrow> 'v option"
    and put :: "'k \<Rightarrow> 'v \<Rightarrow> 's \<Rightarrow> 's"
    and del :: "'k \<Rightarrow> 's \<Rightarrow> 's"
    and inv :: "'s \<Rightarrow> bool"
  assumes inv_empty: "inv empty"
    and inv_put: "inv s \<Longrightarrow> inv (put k v s)"
    and inv_del: "inv s \<Longrightarrow> inv (del k s)"
    and lookup_empty: "lookup empty k = None"
    and lookup_put: "inv s \<Longrightarrow> lookup (put k v s) = (lookup s)(k \<mapsto> v)"
    and lookup_del: "inv s \<Longrightarrow> lookup (del k s) = (lookup s)(k := None)"
begin

fun kv_run :: "('k, 'v) kv_op list \<Rightarrow> 's \<Rightarrow> 's" where
  "kv_run [] s = s"
| "kv_run (KPut k v # ops) s = kv_run ops (put k v s)"
| "kv_run (KDel k # ops) s = kv_run ops (del k s)"

lemma inv_kv_run: "inv s \<Longrightarrow> inv (kv_run ops s)"
  by (induction ops s rule: kv_run.induct) (auto intro: inv_put inv_del)

lemma kv_run_refines: "inv s \<Longrightarrow> lookup (kv_run ops s) = fold kv_abs ops (lookup s)"
  by (induction ops s rule: kv_run.induct) (auto simp: lookup_put lookup_del inv_put inv_del)

lemma last_put_wins: "inv s \<Longrightarrow> lookup (put k v2 (put k v1 s)) = lookup (put k v2 s)"
  by (simp add: lookup_put inv_put)

lemma put_other: "inv s \<Longrightarrow> k' \<noteq> k \<Longrightarrow> lookup (put k v s) k' = lookup s k'"
  by (simp add: lookup_put)

lemma put_same: "inv s \<Longrightarrow> lookup (put k v s) k = Some v"
  by (simp add: lookup_put)

lemma del_put: "inv s \<Longrightarrow> lookup (del k (put k v s)) = lookup (del k s)"
  by (simp add: lookup_put lookup_del inv_put)

end

section \<open>The contract of a store that may forget\<close>

text \<open>
  A cache: \<open>put\<close> stores its entry but may evict others, and may fail to return (\<open>None\<close>). What
  a client can rely on is that a lookup never gives a value that is out of date.
\<close>

locale lossy_store =
  fixes lookup :: "'s \<Rightarrow> 'k \<Rightarrow> 'v option"
    and put :: "'k \<Rightarrow> 'v \<Rightarrow> 's \<Rightarrow> 's option"
    and del :: "'k \<Rightarrow> 's \<Rightarrow> 's"
    and inv :: "'s \<Rightarrow> bool"
  assumes put_inv: "inv s \<Longrightarrow> put k v s = Some s' \<Longrightarrow> inv s'"
    and del_inv: "inv s \<Longrightarrow> inv (del k s)"
    and put_stores: "inv s \<Longrightarrow> put k v s = Some s' \<Longrightarrow> lookup s' k = Some v"
    and put_le: "inv s \<Longrightarrow> put k v s = Some s' \<Longrightarrow> lookup s' \<subseteq>\<^sub>m (lookup s)(k \<mapsto> v)"
    and del_le: "inv s \<Longrightarrow> lookup (del k s) \<subseteq>\<^sub>m (lookup s)(k := None)"
begin

fun lossy_run :: "('k, 'v) kv_op list \<Rightarrow> 's \<Rightarrow> 's option" where
  "lossy_run [] s = Some s"
| "lossy_run (KPut k v # ops) s = Option.bind (put k v s) (lossy_run ops)"
| "lossy_run (KDel k # ops) s = lossy_run ops (del k s)"

lemma lossy_run_coherent:
  "inv s \<Longrightarrow> lookup s \<subseteq>\<^sub>m m \<Longrightarrow> lossy_run ops s = Some s' \<Longrightarrow> lookup s' \<subseteq>\<^sub>m fold kv_abs ops m"
proof (induction ops s arbitrary: m rule: lossy_run.induct)
  case (2 k v ops s)
  from "2.prems"(3) obtain s1 where p: "put k v s = Some s1" and r: "lossy_run ops s1 = Some s'"
    by (auto simp: bind_eq_Some_conv)
  from put_le [OF "2.prems"(1) p] "2.prems"(2) have "lookup s1 \<subseteq>\<^sub>m m(k \<mapsto> v)"
    by (auto simp: map_le_def dom_def)
  from "2.IH" [OF p put_inv [OF "2.prems"(1) p] this r] show ?case by (simp add: fun_upd_def)
next
  case (3 k ops s)
  from del_le [OF "3.prems"(1), of k] "3.prems"(2) have "lookup (del k s) \<subseteq>\<^sub>m m(k := None)"
    by (auto simp: map_le_def dom_def)
  from "3.IH" [OF del_inv [OF "3.prems"(1)] this] "3.prems"(3) show ?case by (simp add: fun_upd_def)
qed simp

end

sublocale kv_store \<subseteq> lossy: lossy_store lookup "\<lambda>k v s. Some (put k v s)" del inv
  by unfold_locales (auto simp: inv_put inv_del lookup_put lookup_del)

section \<open>Lemmas on errors and effects\<close>

lemma is_ok_simps [simp]: "is_ok (Inr x)" "\<not> is_ok (Inl e)"
  by (simp_all add: is_ok_def)

lemma bindE_returnE [simp]: "bindE (returnE x) f = f x"
  by (simp add: bindE_def returnE_def)

lemma bindE_failE [simp]: "bindE (failE e) f = failE e"
  by (simp add: bindE_def failE_def)

lemma bindE_assoc: "bindE (bindE m f) g = bindE m (\<lambda>x. bindE (f x) g)"
  by (rule ext) (auto simp: bindE_def split: prod.splits sum.splits)

section \<open>Lemmas on machine integers\<close>

lemma i32_id: "- (2 ^ 31) \<le> x \<Longrightarrow> x < 2 ^ 31 \<Longrightarrow> i32 x = x"
  by (simp add: i32_def)

lemma i64_id: "- (2 ^ 63) \<le> x \<Longrightarrow> x < 2 ^ 63 \<Longrightarrow> i64 x = x"
  by (simp add: i64_def)

lemma i32_bounds: "- (2 ^ 31) \<le> i32 x \<and> i32 x < 2 ^ 31"
  by (simp add: i32_def)

lemma i64_bounds: "- (2 ^ 63) \<le> i64 x \<and> i64 x < 2 ^ 63"
  by (simp add: i64_def)

lemma i64_add: "i64 (i64 a + b) = i64 (a + b)"
  unfolding i64_def by (simp add: algebra_simps) presburger

section \<open>Lemmas on Go maps\<close>

lemma gm_get_put [simp]: "gm_get (gm_put k v m) = (gm_get m)(k \<mapsto> v)"
  by (rule ext) (simp add: gm_put_def update_conv)

lemma gm_get_del [simp]: "gm_get (gm_del k m) = (gm_get m)(k := None)"
  by (rule ext) (simp add: gm_del_def delete_conv)

lemma gm_wf_put [simp, go_inv]: "gm_wf m \<Longrightarrow> gm_wf (gm_put k v m)"
  by (simp add: gm_put_def distinct_update)

lemma gm_wf_del [simp, go_inv]: "gm_wf m \<Longrightarrow> gm_wf (gm_del k m)"
  by (simp add: gm_del_def distinct_delete)

lemma gm_keys_put [simp]: "fst ` set (gm_put k v m) = insert k (fst ` set m)"
  by (simp add: gm_put_def dom_update)

lemma gm_keys_del [simp]: "fst ` set (gm_del k m) = fst ` set m - {k}"
  by (auto simp: gm_del_def AList.delete_eq image_iff)

lemma gm_del_filter: "gm_del k m = filter (\<lambda>e. fst e \<noteq> k) m"
  by (auto simp: gm_del_def AList.delete_eq intro: filter_cong)

lemma gm_put_new: "k \<notin> fst ` set m \<Longrightarrow> gm_put k v m = m @ [(k, v)]"
  unfolding gm_put_def by (induction m) (auto simp: rev_image_eqI)

lemma set_gm_put: "gm_wf m \<Longrightarrow> set (gm_put k v m) = insert (k, v) {e \<in> set m. fst e \<noteq> k}"
  unfolding gm_put_def by (induction m) (auto simp: rev_image_eqI)

lemma set_gm_del: "set (gm_del k m) = {e \<in> set m. fst e \<noteq> k}"
  by (auto simp: gm_del_filter)

lemma length_gm_put:
  "length (gm_put k v m) = (if k \<in> fst ` set m then length m else Suc (length m))"
  unfolding gm_put_def by (induction m) (auto simp: rev_image_eqI)

lemma length_gm_del_le: "length (gm_del k m) \<le> length m"
  by (simp add: gm_del_filter)

lemma length_gm_del:
  "gm_wf m \<Longrightarrow> k \<in> fst ` set m \<Longrightarrow> Suc (length (gm_del k m)) = length m"
proof (induction m)
  case (Cons e m)
  then show ?case
  proof (cases "fst e = k")
    case True
    with Cons.prems have "filter (\<lambda>x. fst x \<noteq> k) m = m"
      by (auto simp: filter_id_conv rev_image_eqI)
    with True show ?thesis by (simp add: gm_del_filter)
  qed (auto simp: gm_del_filter)
qed simp

lemma gm_mem_get: "gm_wf m \<Longrightarrow> (k, v) \<in> set m \<longleftrightarrow> gm_get m k = Some v"
  by (simp add: map_of_eq_Some_iff)

lemma gm_get_None: "gm_get m k = None \<longleftrightarrow> k \<notin> fst ` set m"
  by (rule map_of_eq_None_iff)

interpretation gomap: kv_store "[]" gm_get gm_put gm_del gm_wf
  by unfold_locales auto

section \<open>Liveness of step relations\<close>

text \<open>
  \<open>inevitable step P s\<close>: every run of \<open>step\<close> from \<open>s\<close> comes to a state with \<open>P\<close>, and no run
  gets stuck before it. A run is only required to take some step while one is possible.
\<close>

inductive inevitable :: "('s \<Rightarrow> 's \<Rightarrow> bool) \<Rightarrow> ('s \<Rightarrow> bool) \<Rightarrow> 's \<Rightarrow> bool"
  for step :: "'s \<Rightarrow> 's \<Rightarrow> bool" and P :: "'s \<Rightarrow> bool" where
  inevitable_now: "P s \<Longrightarrow> inevitable step P s"
| inevitable_later: "step s s1 \<Longrightarrow> (\<And>s'. step s s' \<Longrightarrow> inevitable step P s') \<Longrightarrow> inevitable step P s"

lemma inevitable_measure:
  fixes m :: "'s \<Rightarrow> nat"
  assumes "I s"
    and keep: "\<And>s s'. I s \<Longrightarrow> \<not> P s \<Longrightarrow> step s s' \<Longrightarrow> I s'"
    and progress: "\<And>s. I s \<Longrightarrow> \<not> P s \<Longrightarrow> \<exists>s'. step s s'"
    and decrease: "\<And>s s'. I s \<Longrightarrow> \<not> P s \<Longrightarrow> step s s' \<Longrightarrow> m s' < m s"
  shows "inevitable step P s"
  using assms(1)
proof (induction "m s" arbitrary: s rule: less_induct)
  case less
  show ?case
  proof (cases "P s")
    case False
    obtain s1 where "step s s1" using progress [OF less.prems False] by blast
    then show ?thesis
      by (rule inevitable_later) (rule less(1) [OF decrease [OF less.prems False] keep [OF less.prems False]])
  qed (rule inevitable_now)
qed

end
