(* ===== verification/Go_Time.thy ===== *)
theory Go_Time
  imports Go_Strings
begin

text \<open>
  Package \<open>time\<close>: instants and durations are nanoseconds (\<open>int\<close>). An instant counts from
  Go's zero \<open>Time\<close>, so \<open>IsZero\<close> is the test against 0 and a wall-clock reading is
  positive. The clock is never a hidden global: an operation that calls \<open>time.Now\<close> takes
  the readings as arguments. \<open>ParseDuration\<close> is the standard library's algorithm; the
  fraction of a unit is computed there in \<open>float64\<close> and here exactly, rounded down.
\<close>

type_synonym instant = int
type_synonym duration = int

abbreviation Second :: duration where "Second \<equiv> 1000000000"
abbreviation Minute :: duration where "Minute \<equiv> 60000000000"
abbreviation Hour :: duration where "Hour \<equiv> 3600000000000"

text \<open>\<open>Time.UnixNano\<close>: nanoseconds since 1970, for an instant that fits 64 bits.\<close>

definition UnixNano :: "instant \<Rightarrow> int" where
  "UnixNano t = t - 62135596800 * Second"

definition unit_map :: "string \<Rightarrow> nat option" where
  "unit_map u =
     (if u = ''ns'' then Some 1
      else if u = ''us'' \<or> u = [CHR 0xC2, CHR 0xB5, CHR ''s''] \<or> u = [CHR 0xCE, CHR 0xBC, CHR ''s'']
        then Some 1000
      else if u = ''ms'' then Some 1000000
      else if u = ''s'' then Some 1000000000
      else if u = ''m'' then Some 60000000000
      else if u = ''h'' then Some 3600000000000
      else None)"

text \<open>The digits after the point: value, scale, and whether a digit was dropped.\<close>

fun leading_fraction :: "nat \<Rightarrow> nat \<Rightarrow> bool \<Rightarrow> string \<Rightarrow> nat \<times> nat" where
  "leading_fraction x scale overflow [] = (x, scale)"
| "leading_fraction x scale overflow (c # s) =
     (let y = 10 * x + digit_val c
      in if overflow \<or> (2 ^ 63 - 1) div 10 < x \<or> 2 ^ 63 < y
         then leading_fraction x scale True s
         else leading_fraction y (10 * scale) False s)"

abbreviation num_char :: "char \<Rightarrow> bool" where
  "num_char c \<equiv> c = CHR ''.'' \<or> is_digit c"

text \<open>One number with its unit, and the rest of the string.\<close>

definition parse_term :: "string \<Rightarrow> (nat \<times> string) option" where
  "parse_term s =
     (let ds = takeWhile is_digit s; s1 = dropWhile is_digit s;
          v = digits_val ds;
          dot = (s1 \<noteq> [] \<and> hd s1 = CHR ''.'');
          fs = (if dot then takeWhile is_digit (tl s1) else []);
          s2 = (if dot then dropWhile is_digit (tl s1) else s1);
          (f, scale) = leading_fraction 0 1 False fs;
          u = takeWhile (\<lambda>c. \<not> num_char c) s2; s3 = dropWhile (\<lambda>c. \<not> num_char c) s2
      in if 2 ^ 63 < v \<or> (ds = [] \<and> fs = []) \<or> u = [] then None
         else case unit_map u of
           None \<Rightarrow> None
         | Some k \<Rightarrow>
             (if 2 ^ 63 div k < v then None
              else let w = v * k + (f * k) div scale
                   in if 2 ^ 63 < w then None else Some (w, s3)))"

fun parse_terms :: "nat \<Rightarrow> nat \<Rightarrow> string \<Rightarrow> nat option" where
  "parse_terms n d [] = Some d"
| "parse_terms 0 d (c # s) = None"
| "parse_terms (Suc n) d (c # s) =
     (case parse_term (c # s) of
        None \<Rightarrow> None
      | Some (w, s') \<Rightarrow> (if 2 ^ 63 < d + w then None else parse_terms n (d + w) s'))"

text \<open>
  Every term consumes at least one byte, so the length of the string bounds the number of
  terms (\<open>parse_terms_fuel\<close>).
\<close>

definition ParseDuration :: "string \<Rightarrow> duration option" where
  "ParseDuration s =
     (let neg = (s \<noteq> [] \<and> hd s = CHR ''-'');
          t = (if s \<noteq> [] \<and> (hd s = CHR ''-'' \<or> hd s = CHR ''+'') then tl s else s)
      in if t = ''0'' then Some 0
         else if t = [] then None
         else case parse_terms (length t) 0 t of
           None \<Rightarrow> None
         | Some d \<Rightarrow> (if neg then Some (- int d)
                     else if 2 ^ 63 \<le> d then None else Some (int d)))"

lemma parse_term_shorter:
  assumes "parse_term s = Some (w, s')"
  shows "length s' < length s"
proof -
  define s1 where "s1 = dropWhile is_digit s"
  define s2 where "s2 = (if s1 \<noteq> [] \<and> hd s1 = CHR ''.'' then dropWhile is_digit (tl s1) else s1)"
  have l1: "length s1 \<le> length s" by (simp add: s1_def length_dropWhile_le)
  have l2: "length s2 \<le> length s1"
    using length_dropWhile_le [of is_digit "tl s1"] by (auto simp: s2_def)
  from assms have u: "takeWhile (\<lambda>c. \<not> num_char c) s2 \<noteq> []"
    and s': "s' = dropWhile (\<lambda>c. \<not> num_char c) s2"
    by (auto simp: parse_term_def Let_def s1_def s2_def split: prod.splits option.splits if_splits)
  have "length s2 = length (takeWhile (\<lambda>c. \<not> num_char c) s2) + length s'"
    by (metis s' length_append takeWhile_dropWhile_id)
  moreover from u have "0 < length (takeWhile (\<lambda>c. \<not> num_char c) s2)" by blast
  ultimately show ?thesis using l1 l2 by linarith
qed

text \<open>More fuel than the length changes nothing: the bound is never what stops the loop.\<close>

lemma parse_terms_fuel: "length s \<le> n \<Longrightarrow> length s \<le> m \<Longrightarrow> parse_terms n d s = parse_terms m d s"
proof (induction n d s arbitrary: m rule: parse_terms.induct)
  case (3 n d c s)
  then obtain m' where m: "m = Suc m'" by (cases m) auto
  have "parse_terms n (d + w) s' = parse_terms m' (d + w) s'"
    if p: "parse_term (c # s) = Some (w, s')" and d: "\<not> 2 ^ 63 < d + w" for w s'
  proof -
    from parse_term_shorter [OF p] "3.prems" m have "length s' \<le> n" "length s' \<le> m'" by auto
    then show ?thesis using "3.IH" [OF p refl d] by blast
  qed
  then show ?case by (auto simp: m split: option.splits)
qed auto

lemma parse_terms_le: "parse_terms n d s = Some v \<Longrightarrow> d \<le> 2 ^ 63 \<Longrightarrow> v \<le> 2 ^ 63"
  by (induction n d s rule: parse_terms.induct) (auto split: option.splits if_splits)

lemma ParseDuration_int64:
  assumes "ParseDuration s = Some d"
  shows "- (2 ^ 63) \<le> d \<and> d < 2 ^ 63"
proof -
  have "parse_terms n 0 t = Some v \<Longrightarrow> v \<le> 2 ^ 63" for n t v
    using parse_terms_le [of n 0 t v] by simp
  then show ?thesis using assms
    by (fastforce simp: ParseDuration_def Let_def split: if_splits option.splits)
qed

lemmas parse_duration_simps =
  ParseDuration_def parse_term_def unit_map_def is_digit_def digit_val_def digits_val_def Let_def

lemma ParseDuration_168h: "ParseDuration ''168h'' = Some (168 * Hour)"
  by (simp add: parse_duration_simps)

lemma ParseDuration_mixed: "ParseDuration ''1h2m3.5s'' = Some (Hour + 2 * Minute + 3 * Second + 500000000)"
  by (simp add: parse_duration_simps)

lemma ParseDuration_bad: "ParseDuration ''2 hours'' = None" "ParseDuration '''' = None"
  by (simp_all add: parse_duration_simps)

end
