(* ===== verification/Workload_Types.thy ===== *)
theory Workload_Types
  imports Go_Time
begin

text \<open>
  The data that the runtime exchanges with the rest of kranix. The Go types are declared in
  the module \<open>kranix-packages\<close>, which is not part of this repository: each record here has
  exactly the fields that the sources of the runtime read or write, with the types those
  uses fix. A pointer that the code compares with \<open>nil\<close> is an \<open>option\<close>; the prefix of a
  field name says which Go struct it belongs to, and the rest is the Go field name.
\<close>

section \<open>Scheduling\<close>

record node_selector_requirement =
  nsr_Key :: string
  nsr_Operator :: string
  nsr_Values :: "string list"

record node_selector_term =
  nst_MatchExpressions :: "node_selector_requirement list"
  nst_MatchFields :: "node_selector_requirement list"

record preferred_scheduling_term =
  pst_Weight :: int
  pst_Preference :: node_selector_term

record node_affinity =
  na_RequiredDuringScheduling :: "node_selector_term list"
  na_PreferredDuringScheduling :: "preferred_scheduling_term list"

record pod_affinity_term =
  pat_LabelSelector :: "(string, string) gomap option"
  pat_Namespaces :: "string list"
  pat_TopologyKey :: string

record weighted_pod_affinity_term =
  wpt_Weight :: int
  wpt_PodAffinityTerm :: pod_affinity_term

record pod_affinity =
  pa_RequiredDuringScheduling :: "pod_affinity_term list"
  pa_PreferredDuringScheduling :: "weighted_pod_affinity_term list"

record affinity_config =
  ac_NodeAffinity :: "node_affinity option"
  ac_PodAffinity :: "pod_affinity option"
  ac_PodAntiAffinity :: "pod_affinity option"

record toleration =
  tol_Key :: string
  tol_Operator :: string
  tol_Value :: string
  tol_Effect :: string
  tol_TolerationSeconds :: "int option"

record node_label_preference =
  nlp_Key :: string
  nlp_Value :: string
  nlp_Weight :: int

record node_placement =
  np_Region :: string
  np_Zone :: string
  np_HardwareType :: string
  np_InstanceType :: string
  np_RequiredLabels :: "(string, string) gomap"
  np_PreferredLabels :: "node_label_preference list"

record spot_config =
  spot_Enabled :: bool
  spot_RescheduleOnNodeTermination :: bool

record scheduling_config =
  sc_Architecture :: string
  sc_NodeSelectors :: "(string, string) gomap option"
  sc_Affinity :: "affinity_config option"
  sc_PreferredRegions :: "string list"
  sc_PreferredZones :: "string list"
  sc_NodePlacement :: "node_placement option"
  sc_PriorityClassName :: string
  sc_WorkloadPriority :: string
  sc_PreemptionEnabled :: bool
  sc_Tolerations :: "toleration list"
  sc_Spot :: "spot_config option"

section \<open>Workloads\<close>

record gpu_spec =
  gpu_Count :: int
  gpu_Vendor :: string

record resource_spec =
  rs_CPURequest :: string
  rs_CPULimit :: string
  rs_MemoryRequest :: string
  rs_MemoryLimit :: string
  rs_GPU :: "gpu_spec option"

record port_spec =
  port_ContainerPort :: int
  port_Protocol :: string

record volume_spec =
  vol_Name :: string
  vol_Size :: string
  vol_AccessMode :: string
  vol_StorageClass :: string
  vol_MountPath :: string
  vol_AutoCleanup :: bool

record network_bandwidth =
  nb_Enabled :: bool
  nb_IngressLimit :: string
  nb_EgressLimit :: string

record probe_spec =
  pr_Type :: string
  pr_InitialDelaySeconds :: int
  pr_PeriodSeconds :: int
  pr_TimeoutSeconds :: int
  pr_FailureThreshold :: int
  pr_SuccessThreshold :: int
  pr_Port :: int
  pr_Command :: "string list"
  pr_Scheme :: string
  pr_Path :: string

record workload_probes =
  wp_Startup :: "probe_spec option"
  wp_Liveness :: "probe_spec option"
  wp_Readiness :: "probe_spec option"

record cron_schedule =
  cron_Schedule :: string
  cron_Suspended :: bool
  cron_ConcurrencyPolicy :: string
  cron_TimeZone :: string

record cross_namespace_traffic_policy =
  cnt_Enabled :: bool
  cnt_AllowSameNamespace :: "bool option"
  cnt_AllowedIngressNamespaces :: "string list"
  cnt_AllowedEgressNamespaces :: "string list"
  cnt_BlockClusterDNS :: bool
  cnt_AllowEgressInternet :: bool

record workload_tags =
  tag_Team :: string
  tag_Environment :: string
  tag_CostCenter :: string
  tag_Custom :: "(string, string) gomap"

record workload_spec =
  ws_Name :: string
  ws_Namespace :: string
  ws_Image :: string
  ws_Backend :: string
  ws_Replicas :: int
  ws_Command :: string
  ws_ComposeFile :: string
  ws_RemoteHost :: string
  ws_Env :: "(string, string) gomap"
  ws_Labels :: "(string, string) gomap"
  ws_Tags :: "workload_tags option"
  ws_Resources :: resource_spec
  ws_Ports :: "port_spec list"
  ws_Volumes :: "volume_spec list"
  ws_NetworkBandwidth :: "network_bandwidth option"
  ws_Probes :: "workload_probes option"
  ws_CronSchedule :: "cron_schedule option"
  ws_CrossNamespaceTraffic :: "cross_namespace_traffic_policy option"
  ws_Scheduling :: "scheduling_config option"

datatype workload_phase = WorkloadPhaseRunning

record workload_status =
  wst_ID :: string
  wst_Name :: string
  wst_Namespace :: string
  wst_State :: string
  wst_Image :: string
  wst_Host :: string
  wst_Replicas :: int
  wst_Ready :: int
  wst_ReadyReplicas :: int
  wst_Pods :: "string list"
  wst_Phase :: "workload_phase option"
  wst_LastUpdated :: instant
  wst_CronLastSchedule :: "instant option"

record volume_state =
  vs_Name :: string
  vs_ClaimName :: string
  vs_VolumeID :: string
  vs_MountPath :: string
  vs_Status :: string

record volume_lifecycle_result =
  vlr_WorkloadID :: string
  vlr_Volumes :: "volume_state list"

section \<open>Zero values\<close>

definition zero_scheduling :: scheduling_config where
  "zero_scheduling =
     \<lparr>sc_Architecture = '''', sc_NodeSelectors = None, sc_Affinity = None, sc_PreferredRegions = [],
      sc_PreferredZones = [], sc_NodePlacement = None, sc_PriorityClassName = '''',
      sc_WorkloadPriority = '''', sc_PreemptionEnabled = False, sc_Tolerations = [], sc_Spot = None\<rparr>"

definition zero_affinity :: affinity_config where
  "zero_affinity = \<lparr>ac_NodeAffinity = None, ac_PodAffinity = None, ac_PodAntiAffinity = None\<rparr>"

definition zero_node_affinity :: node_affinity where
  "zero_node_affinity = \<lparr>na_RequiredDuringScheduling = [], na_PreferredDuringScheduling = []\<rparr>"

definition zero_resources :: resource_spec where
  "zero_resources =
     \<lparr>rs_CPURequest = '''', rs_CPULimit = '''', rs_MemoryRequest = '''', rs_MemoryLimit = '''', rs_GPU = None\<rparr>"

definition zero_spec :: workload_spec where
  "zero_spec =
     \<lparr>ws_Name = '''', ws_Namespace = '''', ws_Image = '''', ws_Backend = '''', ws_Replicas = 0,
      ws_Command = '''', ws_ComposeFile = '''', ws_RemoteHost = '''', ws_Env = [], ws_Labels = [],
      ws_Tags = None, ws_Resources = zero_resources, ws_Ports = [], ws_Volumes = [],
      ws_NetworkBandwidth = None, ws_Probes = None, ws_CronSchedule = None,
      ws_CrossNamespaceTraffic = None, ws_Scheduling = None\<rparr>"

definition zero_status :: workload_status where
  "zero_status =
     \<lparr>wst_ID = '''', wst_Name = '''', wst_Namespace = '''', wst_State = '''', wst_Image = '''',
      wst_Host = '''', wst_Replicas = 0, wst_Ready = 0, wst_ReadyReplicas = 0, wst_Pods = [],
      wst_Phase = None, wst_LastUpdated = 0, wst_CronLastSchedule = None\<rparr>"

section \<open>The driver interface\<close>

text \<open>
  \<open>types.RuntimeDriver\<close>, the interface every backend implements and every client (ephemeral
  manager, migration orchestrator, edge agent, registry) programs against. \<open>'w\<close> is the
  outside state the driver acts on. \<open>Deploy\<close> receives a pointer to the spec and may write
  through it, so it also returns the spec as it leaves it.
\<close>

record 'w runtime_driver =
  drv_Deploy :: "workload_spec \<Rightarrow> 'w \<Rightarrow> workload_status result \<times> workload_spec \<times> 'w"
  drv_Destroy :: "string \<Rightarrow> 'w proc"
  drv_Restart :: "string \<Rightarrow> 'w proc"
  drv_GetStatus :: "string \<Rightarrow> ('w, workload_status) act"
  drv_ListWorkloads :: "string \<Rightarrow> ('w, workload_status list) act"
  drv_Ping :: "'w proc"
  drv_Backend :: string

text \<open>A driver keeps a view of the outside state when none of its operations changes it.\<close>

definition keeps :: "('w \<Rightarrow> 'v) \<Rightarrow> 'w runtime_driver \<Rightarrow> bool" where
  "keeps view d \<longleftrightarrow>
     (\<forall>s w. view (snd (snd (drv_Deploy d s w))) = view w) \<and>
     (\<forall>x w. view (snd (drv_Destroy d x w)) = view w) \<and>
     (\<forall>x w. view (snd (drv_Restart d x w)) = view w) \<and>
     (\<forall>x w. view (snd (drv_GetStatus d x w)) = view w) \<and>
     (\<forall>x w. view (snd (drv_ListWorkloads d x w)) = view w) \<and>
     (\<forall>w. view (snd (drv_Ping d w)) = view w)"

text \<open>
  A driver that acts on one component of a larger outside state: \<open>get\<close> reads the component
  and \<open>put\<close> replaces it.
\<close>

definition lift_driver ::
  "('w \<Rightarrow> 'v) \<Rightarrow> ('v \<Rightarrow> 'w \<Rightarrow> 'w) \<Rightarrow> 'v runtime_driver \<Rightarrow> 'w runtime_driver" where
  "lift_driver get put d =
     \<lparr>drv_Deploy = (\<lambda>s w. case drv_Deploy d s (get w) of (r, s', v) \<Rightarrow> (r, s', put v w)),
      drv_Destroy = (\<lambda>x w. case drv_Destroy d x (get w) of (e, v) \<Rightarrow> (e, put v w)),
      drv_Restart = (\<lambda>x w. case drv_Restart d x (get w) of (e, v) \<Rightarrow> (e, put v w)),
      drv_GetStatus = (\<lambda>x w. case drv_GetStatus d x (get w) of (r, v) \<Rightarrow> (r, put v w)),
      drv_ListWorkloads = (\<lambda>x w. case drv_ListWorkloads d x (get w) of (r, v) \<Rightarrow> (r, put v w)),
      drv_Ping = (\<lambda>w. case drv_Ping d (get w) of (e, v) \<Rightarrow> (e, put v w)),
      drv_Backend = drv_Backend d\<rparr>"

section \<open>A concrete driver\<close>

text \<open>
  The smallest driver with the documented behaviour: the outside state is the list of the
  workloads that run. It instantiates the driver parameter in the examples; it is no part
  of the program.
\<close>

definition list_driver :: "string \<Rightarrow> string list runtime_driver" where
  "list_driver name =
     \<lparr>drv_Deploy = (\<lambda>s w. if ws_Name s = '''' then (Inl (Errorf ''name required''), s, w)
         else (Inr (zero_status\<lparr>wst_Name := ws_Name s, wst_State := ''Running''\<rparr>), s, w @ [ws_Name s])),
      drv_Destroy = (\<lambda>x w. if x \<in> set w then (None, removeAll x w) else (Some (Errorf ''not found''), w)),
      drv_Restart = (\<lambda>x w. (if x \<in> set w then None else Some (Errorf ''not found''), w)),
      drv_GetStatus = (\<lambda>x w. (if x \<in> set w then Inr (zero_status\<lparr>wst_Name := x, wst_State := ''Running''\<rparr>)
         else Inl (Errorf ''not found''), w)),
      drv_ListWorkloads = (\<lambda>ns w. (Inr (map (\<lambda>x. zero_status\<lparr>wst_Name := x\<rparr>) w), w)),
      drv_Ping = (\<lambda>w. (None, w)),
      drv_Backend = name\<rparr>"

lemma keepsD:
  assumes "keeps view d"
  shows keeps_Deploy: "drv_Deploy d s w = (r, s', w') \<Longrightarrow> view w' = view w"
    and keeps_Destroy: "drv_Destroy d x w = (e, w') \<Longrightarrow> view w' = view w"
    and keeps_Restart: "drv_Restart d x w = (e, w') \<Longrightarrow> view w' = view w"
    and keeps_GetStatus: "drv_GetStatus d x w = (r1, w') \<Longrightarrow> view w' = view w"
    and keeps_ListWorkloads: "drv_ListWorkloads d x w = (r2, w') \<Longrightarrow> view w' = view w"
    and keeps_Ping: "drv_Ping d w = (e, w') \<Longrightarrow> view w' = view w"
  using assms unfolding keeps_def by (metis snd_conv)+

lemma keeps_lift_driver: "(\<And>v w. view (put v w) = view w) \<Longrightarrow> keeps view (lift_driver get put d)"
  by (simp add: keeps_def lift_driver_def split: prod.split)

end
