(* ===== verification/Ephemeral.thy ===== *)
theory Ephemeral
  imports Workload_Types
begin

text \<open>
  \<open>internal/ephemeral/lifecycle.go\<close>: the manager of ephemeral environments. Its state is the
  map \<open>environments\<close> and the outside state its driver acts on. Every public method runs
  under the manager's mutex, so one call is one atomic step; \<open>HandlePRMerge\<close> and
  \<open>HandlePRClose\<close> give the lock up around each teardown, which the step relation covers by
  having single teardowns as steps of their own. A clock reading is an argument: \<open>t i\<close> is
  the \<open>i\<close>-th call of \<open>time.Now\<close> in the method.
\<close>

section \<open>State\<close>

datatype env_phase = PhaseCreating | PhaseReady | PhaseTerminating | PhaseTerminated

record ephemeral_environment_spec =
  ees_Enabled :: bool
  ees_TTL :: string
  ees_MaxEnvironments :: int
  ees_TriggerType :: string
  ees_PRNumber :: int
  ees_BranchName :: string
  ees_CommitSHA :: string
  ees_NamespacePrefix :: string

record ephemeral_status =
  eph_ID :: string
  eph_Name :: string
  eph_Namespace :: string
  eph_Phase :: env_phase
  eph_TriggerType :: string
  eph_PRNumber :: int
  eph_BranchName :: string
  eph_CommitSHA :: string
  eph_CreatedAt :: instant
  eph_ExpiresAt :: instant
  eph_TerminatedAt :: "instant option"
  eph_TerminationReason :: string

type_synonym environments = "(string, ephemeral_status) gomap"

text \<open>The order in which the phases follow each other.\<close>

fun phase_rank :: "env_phase \<Rightarrow> nat" where
  "phase_rank PhaseCreating = 0"
| "phase_rank PhaseReady = 1"
| "phase_rank PhaseTerminating = 2"
| "phase_rank PhaseTerminated = 3"

instantiation env_phase :: linorder
begin

definition less_eq_env_phase :: "env_phase \<Rightarrow> env_phase \<Rightarrow> bool" where
  "less_eq_env_phase p q = (phase_rank p \<le> phase_rank q)"

definition less_env_phase :: "env_phase \<Rightarrow> env_phase \<Rightarrow> bool" where
  "less_env_phase p q = (phase_rank p < phase_rank q)"

instance
proof
  fix x y :: env_phase
  show "x \<le> y \<Longrightarrow> y \<le> x \<Longrightarrow> x = y"
    by (cases x; cases y) (auto simp: less_eq_env_phase_def)
qed (auto simp: less_eq_env_phase_def less_env_phase_def)

end

section \<open>Operations\<close>

definition countActiveEnvironments :: "environments \<Rightarrow> int" where
  "countActiveEnvironments envs = int (length (filter (\<lambda>e. eph_Phase (snd e) \<noteq> PhaseTerminated) envs))"

definition generateEnvironmentName :: "ephemeral_environment_spec \<Rightarrow> instant \<Rightarrow> string" where
  "generateEnvironmentName spec now =
     (if 0 < ees_PRNumber spec then ''pr-'' @ Itoa (ees_PRNumber spec)
      else if ees_BranchName spec \<noteq> '''' then ''branch-'' @ ees_BranchName spec
      else ''ephem-'' @ Itoa (UnixNano now))"

definition generateNamespace :: "ephemeral_environment_spec \<Rightarrow> string \<Rightarrow> string" where
  "generateNamespace spec envName =
     (let prefix = (if ees_NamespacePrefix spec = '''' then ''ephem-'' else ees_NamespacePrefix spec)
      in prefix @ envName)"

definition CreateEnvironment ::
  "'w runtime_driver \<Rightarrow> ephemeral_environment_spec \<Rightarrow> workload_spec \<Rightarrow> (nat \<Rightarrow> instant) \<Rightarrow>
   environments \<Rightarrow> 'w \<Rightarrow>
   (ephemeral_status option \<times> go_error option) \<times> environments \<times> workload_spec \<times> 'w" where
  "CreateEnvironment driver spec workloadSpec t envs w =
     (if \<not> ees_Enabled spec
      then ((None, Some (Errorf ''ephemeral environment is disabled'')), envs, workloadSpec, w)
      else if 0 < ees_MaxEnvironments spec \<and> ees_MaxEnvironments spec \<le> i32 (countActiveEnvironments envs)
      then ((None, Some (Errorf (''max concurrent environments ('' @ Itoa (ees_MaxEnvironments spec) @ '') reached''))),
            envs, workloadSpec, w)
      else
        let envName = generateEnvironmentName spec (t 0);
            envID = ''ephem-'' @ Itoa (UnixNano (t 1))
        in case ParseDuration (ees_TTL spec) of
             None \<Rightarrow> ((None, Some (Wrapf ''invalid TTL duration: '' (Errorf ''time: invalid duration'') '''')),
                      envs, workloadSpec, w)
           | Some ttl \<Rightarrow>
               let status = \<lparr>eph_ID = envID, eph_Name = envName,
                     eph_Namespace = generateNamespace spec envName, eph_Phase = PhaseCreating,
                     eph_TriggerType = ees_TriggerType spec, eph_PRNumber = ees_PRNumber spec,
                     eph_BranchName = ees_BranchName spec, eph_CommitSHA = ees_CommitSHA spec,
                     eph_CreatedAt = t 3, eph_ExpiresAt = t 2 + ttl, eph_TerminatedAt = None,
                     eph_TerminationReason = ''''\<rparr>;
                   envs1 = gm_put envID status envs
               in case drv_Deploy driver (workloadSpec\<lparr>ws_Namespace := eph_Namespace status\<rparr>) w of
                    (Inl err, wl, w') \<Rightarrow>
                      let failed = status\<lparr>eph_Phase := PhaseTerminated,
                            eph_TerminationReason := ''deployment failed: '' @ error_string err,
                            eph_TerminatedAt := Some (t 4)\<rparr>
                      in ((Some failed, Some err), gm_put envID failed envs1, wl, w')
                  | (Inr _, wl, w') \<Rightarrow>
                      let ready = status\<lparr>eph_Phase := PhaseReady\<rparr>
                      in ((Some ready, None), gm_put envID ready envs1, wl, w'))"

definition TeardownEnvironment ::
  "'w runtime_driver \<Rightarrow> string \<Rightarrow> string \<Rightarrow> instant \<Rightarrow> environments \<Rightarrow> 'w \<Rightarrow>
   go_error option \<times> environments \<times> 'w" where
  "TeardownEnvironment driver envID reason now envs w =
     (case gm_get envs envID of
        None \<Rightarrow> (Some (Errorf (''environment not found: '' @ envID)), envs, w)
      | Some status \<Rightarrow>
          if eph_Phase status = PhaseTerminated then (None, envs, w)
          else
            let status1 = status\<lparr>eph_Phase := PhaseTerminating\<rparr>;
                envs1 = gm_put envID status1 envs
            in case drv_Destroy driver (eph_Name status1) w of
                 (Some err, w') \<Rightarrow> (Some (Wrapf ''failed to destroy workload: '' err ''''), envs1, w')
               | (None, w') \<Rightarrow>
                   (None,
                    gm_put envID (status1\<lparr>eph_Phase := PhaseTerminated, eph_TerminationReason := reason,
                      eph_TerminatedAt := Some now\<rparr>) envs1, w'))"

definition GetEnvironment :: "string \<Rightarrow> environments \<Rightarrow> ephemeral_status result" where
  "GetEnvironment envID envs =
     (case gm_get envs envID of
        None \<Rightarrow> Inl (Errorf (''environment not found: '' @ envID))
      | Some status \<Rightarrow> Inr status)"

definition ListEnvironments :: "environments \<Rightarrow> ephemeral_status list" where
  "ListEnvironments envs = map snd envs"

text \<open>The range loop of the two PR handlers: the keys in iteration order.\<close>

fun pr_loop ::
  "'w runtime_driver \<Rightarrow> int \<Rightarrow> string \<Rightarrow> (nat \<Rightarrow> instant) \<Rightarrow> string list \<Rightarrow> environments \<Rightarrow> 'w \<Rightarrow>
   go_error option \<times> environments \<times> 'w" where
  "pr_loop driver prNumber reason t [] envs w = (None, envs, w)"
| "pr_loop driver prNumber reason t (k # ks) envs w =
     (case gm_get envs k of
        None \<Rightarrow> pr_loop driver prNumber reason t ks envs w
      | Some env \<Rightarrow>
          if eph_PRNumber env = prNumber \<and> eph_Phase env = PhaseReady
          then (case TeardownEnvironment driver (eph_ID env) reason (t (length ks)) envs w of
                  (Some err, envs', w') \<Rightarrow> (Some err, envs', w')
                | (None, envs', w') \<Rightarrow> pr_loop driver prNumber reason t ks envs' w')
          else pr_loop driver prNumber reason t ks envs w)"

definition HandlePRMerge ::
  "'w runtime_driver \<Rightarrow> int \<Rightarrow> (nat \<Rightarrow> instant) \<Rightarrow> environments \<Rightarrow> 'w \<Rightarrow> go_error option \<times> environments \<times> 'w" where
  "HandlePRMerge driver prNumber t envs w = pr_loop driver prNumber ''PR merged'' t (map fst envs) envs w"

definition HandlePRClose ::
  "'w runtime_driver \<Rightarrow> int \<Rightarrow> (nat \<Rightarrow> instant) \<Rightarrow> environments \<Rightarrow> 'w \<Rightarrow> go_error option \<times> environments \<times> 'w" where
  "HandlePRClose driver prNumber t envs w = pr_loop driver prNumber ''PR closed'' t (map fst envs) envs w"

text \<open>The loop of the periodic cleanup updates each entry in place.\<close>

definition expire_env :: "instant \<Rightarrow> go_error option \<Rightarrow> ephemeral_status \<Rightarrow> ephemeral_status" where
  "expire_env now e env =
     env\<lparr>eph_Phase := PhaseTerminated,
       eph_TerminationReason :=
         (case e of Some err \<Rightarrow> ''cleanup failed: '' @ error_string err | None \<Rightarrow> ''TTL expired''),
       eph_TerminatedAt := Some now\<rparr>"

fun cleanupExpiredEnvironments ::
  "'w runtime_driver \<Rightarrow> instant \<Rightarrow> environments \<Rightarrow> 'w \<Rightarrow> environments \<times> 'w" where
  "cleanupExpiredEnvironments driver now [] w = ([], w)"
| "cleanupExpiredEnvironments driver now ((k, env) # rest) w =
     (if eph_Phase env = PhaseReady \<and> eph_ExpiresAt env < now
      then let (e, w1) = drv_Destroy driver (eph_Name env) w;
               (rest', w2) = cleanupExpiredEnvironments driver now rest w1
           in ((k, expire_env now e env) # rest', w2)
      else let (rest', w2) = cleanupExpiredEnvironments driver now rest w in ((k, env) # rest', w2))"

section \<open>The manager as a state machine\<close>

text \<open>
  \<open>Start\<close> runs the cleanup at every tick until the context is done or \<open>Stop\<close> has closed
  the stop channel; closing it twice panics, so a second \<open>Stop\<close> is not a step.
\<close>

record 'w manager =
  mgr_environments :: environments
  mgr_world :: 'w
  mgr_running :: bool
  mgr_stopped :: bool

definition NewManager :: "'w \<Rightarrow> 'w manager" where
  "NewManager w = \<lparr>mgr_environments = [], mgr_world = w, mgr_running = False, mgr_stopped = False\<rparr>"

inductive manager_step :: "'w runtime_driver \<Rightarrow> 'w manager \<Rightarrow> 'w manager \<Rightarrow> bool"
  for driver :: "'w runtime_driver" where
  create: "CreateEnvironment driver spec wl t (mgr_environments m) (mgr_world m) = (r, envs, wl', w) \<Longrightarrow>
     manager_step driver m (m\<lparr>mgr_environments := envs, mgr_world := w\<rparr>)"
| teardown: "TeardownEnvironment driver envID reason now (mgr_environments m) (mgr_world m) = (e, envs, w) \<Longrightarrow>
     manager_step driver m (m\<lparr>mgr_environments := envs, mgr_world := w\<rparr>)"
| pr_merge: "HandlePRMerge driver pr t (mgr_environments m) (mgr_world m) = (e, envs, w) \<Longrightarrow>
     manager_step driver m (m\<lparr>mgr_environments := envs, mgr_world := w\<rparr>)"
| pr_close: "HandlePRClose driver pr t (mgr_environments m) (mgr_world m) = (e, envs, w) \<Longrightarrow>
     manager_step driver m (m\<lparr>mgr_environments := envs, mgr_world := w\<rparr>)"
| start: "\<not> mgr_running m \<Longrightarrow> manager_step driver m (m\<lparr>mgr_running := True\<rparr>)"
| tick: "mgr_running m \<Longrightarrow>
     cleanupExpiredEnvironments driver now (mgr_environments m) (mgr_world m) = (envs, w) \<Longrightarrow>
     manager_step driver m (m\<lparr>mgr_environments := envs, mgr_world := w\<rparr>)"
| ctx_done: "mgr_running m \<Longrightarrow> manager_step driver m (m\<lparr>mgr_running := False\<rparr>)"
| stop: "\<not> mgr_stopped m \<Longrightarrow> manager_step driver m (m\<lparr>mgr_stopped := True\<rparr>)"
| stop_seen: "mgr_running m \<Longrightarrow> mgr_stopped m \<Longrightarrow> manager_step driver m (m\<lparr>mgr_running := False\<rparr>)"

inductive manager_reachable :: "'w runtime_driver \<Rightarrow> 'w manager \<Rightarrow> bool"
  for driver :: "'w runtime_driver" where
  init: "manager_reachable driver (NewManager w)"
| step: "manager_reachable driver m \<Longrightarrow> manager_step driver m m' \<Longrightarrow> manager_reachable driver m'"

section \<open>Invariant\<close>

text \<open>
  What holds whenever no method is inside its critical section: keys are the IDs, no
  environment is left in the phase \<open>Creating\<close>, and exactly the terminated environments
  carry a termination time.
\<close>

definition env_ok :: "string \<times> ephemeral_status \<Rightarrow> bool" where
  "env_ok e \<longleftrightarrow> eph_ID (snd e) = fst e \<and> eph_Phase (snd e) \<noteq> PhaseCreating \<and>
     (eph_Phase (snd e) = PhaseTerminated \<longleftrightarrow> eph_TerminatedAt (snd e) \<noteq> None)"

definition environments_ok :: "environments \<Rightarrow> bool" where
  "environments_ok envs \<longleftrightarrow> gm_wf envs \<and> list_all env_ok envs"

text \<open>An environment moves on: same identity, later or equal phase.\<close>

definition env_le :: "ephemeral_status \<Rightarrow> ephemeral_status \<Rightarrow> bool" where
  "env_le e e' \<longleftrightarrow> eph_Phase e \<le> eph_Phase e' \<and>
     eph_ID e' = eph_ID e \<and> eph_Name e' = eph_Name e \<and> eph_Namespace e' = eph_Namespace e \<and>
     eph_PRNumber e' = eph_PRNumber e \<and> eph_CreatedAt e' = eph_CreatedAt e \<and>
     eph_ExpiresAt e' = eph_ExpiresAt e \<and>
     (eph_Phase e = PhaseTerminated \<longrightarrow> e' = e)"

definition envs_le :: "environments \<Rightarrow> environments \<Rightarrow> bool" where
  "envs_le envs envs' \<longleftrightarrow>
     (\<forall>k e. gm_get envs k = Some e \<longrightarrow> (\<exists>e'. gm_get envs' k = Some e' \<and> env_le e e'))"

text \<open>Nothing is left to tear down at key \<open>k\<close>.\<close>

definition past_ready :: "int \<Rightarrow> environments \<Rightarrow> string \<Rightarrow> bool" where
  "past_ready pr envs k \<longleftrightarrow>
     (\<exists>e. gm_get envs k = Some e \<and> (eph_PRNumber e \<noteq> pr \<or> PhaseTerminating \<le> eph_Phase e))"

text \<open>What one round of the cleanup does to one entry.\<close>

definition cleaned :: "instant \<Rightarrow> string \<times> ephemeral_status \<Rightarrow> string \<times> ephemeral_status \<Rightarrow> bool" where
  "cleaned now x y \<longleftrightarrow> fst y = fst x \<and>
     (if eph_Phase (snd x) = PhaseReady \<and> eph_ExpiresAt (snd x) < now
      then (\<exists>r. snd y = expire_env now r (snd x)) else snd y = snd x)"

section \<open>Lemmas\<close>

lemma phase_le_simps [simp]:
  "p \<le> PhaseTerminated" "PhaseTerminated \<le> p \<longleftrightarrow> p = PhaseTerminated"
  "PhaseTerminating \<le> p \<longleftrightarrow> p = PhaseTerminating \<or> p = PhaseTerminated"
  by (cases p; simp add: less_eq_env_phase_def)+

lemma env_le_refl [simp]: "env_le e e"
  by (simp add: env_le_def)

lemma env_le_trans: "env_le a b \<Longrightarrow> env_le b c \<Longrightarrow> env_le a c"
  by (auto simp: env_le_def)

lemma envs_le_refl [simp]: "envs_le envs envs"
  by (simp add: envs_le_def)

lemma envs_leD:
  "envs_le envs envs' \<Longrightarrow> gm_get envs k = Some e \<Longrightarrow> \<exists>e'. gm_get envs' k = Some e' \<and> env_le e e'"
  by (simp add: envs_le_def)

lemma envs_le_trans: "envs_le a b \<Longrightarrow> envs_le b c \<Longrightarrow> envs_le a c"
  unfolding envs_le_def by (meson env_le_trans)

lemma envs_le_put:
  assumes "\<And>e. gm_get envs k = Some e \<Longrightarrow> env_le e v"
  shows "envs_le envs (gm_put k v envs)"
  using assms by (auto simp: envs_le_def)

lemma environments_ok_put [go_inv]:
  "environments_ok envs \<Longrightarrow> env_ok (k, v) \<Longrightarrow> environments_ok (gm_put k v envs)"
  by (auto simp: environments_ok_def set_gm_put list_all_iff)

lemma environments_ok_get: "environments_ok envs \<Longrightarrow> gm_get envs k = Some e \<Longrightarrow> env_ok (k, e)"
  by (auto simp: environments_ok_def list_all_iff dest: map_of_SomeD)

section \<open>Single operations\<close>

lemma CreateEnvironment_ok:
  assumes "environments_ok envs" and "CreateEnvironment driver spec wl t envs w = (r, envs', wl', w')"
  shows "environments_ok envs'"
proof -
  have put: "environments_ok (gm_put k b (gm_put k a envs))" if "env_ok (k, b)" for k a b
    using assms(1) that by (auto simp: environments_ok_def set_gm_put list_all_iff)
  show ?thesis using assms
    by (auto simp: CreateEnvironment_def Let_def env_ok_def intro!: put
        split: if_splits option.splits prod.splits sum.splits)
qed

lemma TeardownEnvironment_ok:
  assumes "environments_ok envs" and "TeardownEnvironment driver x reason now envs w = (e, envs', w')"
  shows "environments_ok envs'"
proof -
  have put: "environments_ok (gm_put x b (gm_put x a envs))" if "env_ok (x, b)" for a b
    using assms(1) that by (auto simp: environments_ok_def set_gm_put list_all_iff)
  show ?thesis using assms environments_ok_get [OF assms(1), of x]
    by (auto simp: TeardownEnvironment_def Let_def env_ok_def intro!: put environments_ok_put
        split: if_splits option.splits prod.splits)
qed

lemma TeardownEnvironment_le:
  assumes "TeardownEnvironment driver x reason now envs w = (e, envs', w')"
  shows "envs_le envs envs'"
proof -
  have rank: "p \<noteq> PhaseTerminated \<Longrightarrow> p \<le> PhaseTerminating" for p
    by (cases p) (auto simp: less_eq_env_phase_def)
  show ?thesis using assms
    by (auto simp: TeardownEnvironment_def Let_def envs_le_def env_le_def rank
        split: if_splits option.splits prod.splits)
qed

lemma TeardownEnvironment_other:
  assumes "TeardownEnvironment driver x reason now envs w = (e, envs', w')" and "k \<noteq> x"
  shows "gm_get envs' k = gm_get envs k"
  using assms
  by (auto simp: TeardownEnvironment_def Let_def split: if_splits option.splits prod.splits)

lemma TeardownEnvironment_done:
  assumes "TeardownEnvironment driver x reason now envs w = (None, envs', w')"
  shows "\<exists>e. gm_get envs' x = Some e \<and> eph_Phase e = PhaseTerminated"
  using assms
  by (auto simp: TeardownEnvironment_def Let_def split: if_splits option.splits prod.splits)

lemma envs_le_keys: "envs_le envs envs' \<Longrightarrow> fst ` set envs \<subseteq> fst ` set envs'"
  unfolding envs_le_def by (metis gm_get_None not_None_eq option.distinct(1) subsetI)

text \<open>What every single teardown keeps, the loop keeps.\<close>

lemma pr_loop_induct:
  assumes step: "\<And>x now envs w e envs' w'. P envs \<Longrightarrow>
      TeardownEnvironment driver x reason now envs w = (e, envs', w') \<Longrightarrow> P envs'"
    and "pr_loop driver pr reason t ks envs w = (e, envs', w')" and "P envs"
  shows "P envs'"
  using assms(2,3)
proof (induction ks arbitrary: envs w)
  case (Cons k ks)
  then show ?case by (fastforce split: option.splits if_splits prod.splits dest: step)
qed simp

lemma pr_loop_ok:
  "pr_loop driver pr reason t ks envs w = (e, envs', w') \<Longrightarrow> environments_ok envs \<Longrightarrow> environments_ok envs'"
  by (rule pr_loop_induct [where P = environments_ok]) (auto intro: TeardownEnvironment_ok)

lemma pr_loop_le: "pr_loop driver pr reason t ks envs w = (e, envs', w') \<Longrightarrow> envs_le envs envs'"
  by (rule pr_loop_induct [where P = "envs_le envs"]) (auto intro: envs_le_trans TeardownEnvironment_le)

lemma past_ready_le: "past_ready pr envs k \<Longrightarrow> envs_le envs envs' \<Longrightarrow> past_ready pr envs' k"
  unfolding past_ready_def envs_le_def env_le_def by (metis order_trans)

lemma pr_loop_past_ready:
  assumes "environments_ok envs" and "set ks \<subseteq> fst ` set envs"
    and "pr_loop driver pr reason t ks envs w = (None, envs', w')" and "k \<in> set ks"
  shows "past_ready pr envs' k"
  using assms
proof (induction ks arbitrary: envs w)
  case (Cons x ks)
  from Cons.prems(2) obtain env where env: "gm_get envs x = Some env"
    by (metis gm_get_None insert_subset list.simps(15) not_None_eq)
  with environments_ok_get [OF Cons.prems(1)] have ok: "env_ok (x, env)" by simp
  obtain envs1 w1 where ok1: "environments_ok envs1" and keys: "set ks \<subseteq> fst ` set envs1"
    and rest: "pr_loop driver pr reason t ks envs1 w1 = (None, envs', w')"
    and x1: "past_ready pr envs1 x"
  proof (cases "eph_PRNumber env = pr \<and> eph_Phase env = PhaseReady")
    case True
    obtain r envs1 w1 where td: "TeardownEnvironment driver x reason (t (length ks)) envs w = (r, envs1, w1)"
      by (cases "TeardownEnvironment driver x reason (t (length ks)) envs w") auto
    with True Cons.prems(3) env ok have r: "r = None"
      and rest: "pr_loop driver pr reason t ks envs1 w1 = (None, envs', w')"
      by (auto simp: env_ok_def split: option.splits)
    have "past_ready pr envs1 x"
      using TeardownEnvironment_done [OF td [unfolded r]] by (auto simp: past_ready_def)
    moreover have "set ks \<subseteq> fst ` set envs1"
      using Cons.prems(2) envs_le_keys [OF TeardownEnvironment_le [OF td]] by auto
    ultimately show thesis using that [of envs1 w1] TeardownEnvironment_ok [OF Cons.prems(1) td] rest by simp
  next
    case False
    with Cons.prems(3) env have "pr_loop driver pr reason t ks envs w = (None, envs', w')"
      by (auto split: if_splits)
    moreover have "past_ready pr envs x"
      using False env ok by (cases "eph_Phase env") (auto simp: past_ready_def env_ok_def)
    ultimately show thesis using that [of envs w] Cons.prems(1,2) by simp
  qed
  show ?case
  proof (cases "k \<in> set ks")
    case True
    then show ?thesis using Cons.IH [OF ok1 keys rest] by simp
  next
    case False
    with Cons.prems(4) x1 pr_loop_le [OF rest] show ?thesis by (auto intro: past_ready_le)
  qed
qed simp

lemma cleanup_cleaned:
  "cleanupExpiredEnvironments driver now envs w = (envs', w') \<Longrightarrow> list_all2 (cleaned now) envs envs'"
  by (induction driver now envs w arbitrary: envs' w' rule: cleanupExpiredEnvironments.induct)
    (auto simp: cleaned_def split: prod.splits if_splits)

lemma cleaned_keys: "list_all2 (cleaned now) envs envs' \<Longrightarrow> map fst envs' = map fst envs"
  by (induction rule: list_all2_induct) (auto simp: cleaned_def)

lemma cleaned_get:
  "list_all2 (cleaned now) envs envs' \<Longrightarrow> gm_get envs k = Some e \<Longrightarrow>
   \<exists>e'. gm_get envs' k = Some e' \<and> cleaned now (k, e) (k, e')"
proof (induction envs arbitrary: envs')
  case (Cons x envs)
  then obtain y ys where "envs' = y # ys" and "cleaned now x y" and "list_all2 (cleaned now) envs ys"
    by (auto simp: list_all2_Cons1)
  note parts = this
  then have k: "fst y = fst x" by (simp add: cleaned_def)
  show ?case
  proof (cases "fst x = k")
    case True
    with parts k Cons.prems(2) show ?thesis by (cases x; cases y) auto
  next
    case False
    with Cons.prems(2) have "gm_get envs k = Some e" by (cases x) auto
    with Cons.IH [OF parts(3)] parts(1) k False show ?thesis by (cases y) auto
  qed
qed simp

lemma cleaned_ok: "env_ok x \<Longrightarrow> cleaned now x y \<Longrightarrow> env_ok y"
  by (auto simp: cleaned_def expire_env_def env_ok_def split: if_splits)

lemma cleanup_ok:
  assumes "cleanupExpiredEnvironments driver now envs w = (envs', w')" and "environments_ok envs"
  shows "environments_ok envs'"
proof -
  from cleanup_cleaned [OF assms(1)] have c: "list_all2 (cleaned now) envs envs'" .
  then have "list_all env_ok envs \<Longrightarrow> list_all env_ok envs'"
    by (induction rule: list_all2_induct) (auto intro: cleaned_ok)
  with assms(2) cleaned_keys [OF c] show ?thesis by (simp add: environments_ok_def)
qed

lemma cleanup_le:
  assumes "cleanupExpiredEnvironments driver now envs w = (envs', w')"
  shows "envs_le envs envs'"
proof -
  have "cleaned now (k, e) (k, e') \<Longrightarrow> env_le e e'" for k e e'
    by (auto simp: cleaned_def expire_env_def env_le_def split: if_splits)
  then show ?thesis
    using cleaned_get [OF cleanup_cleaned [OF assms]] unfolding envs_le_def by blast
qed

section \<open>Steps and reachable states\<close>

lemma manager_step_ok:
  "manager_step driver m m' \<Longrightarrow> environments_ok (mgr_environments m) \<Longrightarrow>
   environments_ok (mgr_environments m')"
  by (induction rule: manager_step.induct)
    (auto simp: HandlePRMerge_def HandlePRClose_def
      dest: CreateEnvironment_ok TeardownEnvironment_ok pr_loop_ok cleanup_ok)

lemma manager_reachable_ok: "manager_reachable driver m \<Longrightarrow> environments_ok (mgr_environments m)"
  by (induction rule: manager_reachable.induct)
    (auto simp: NewManager_def environments_ok_def dest: manager_step_ok)

section \<open>Properties\<close>

lemma count_put: "countActiveEnvironments (gm_put k v envs) \<le> countActiveEnvironments envs + 1"
proof -
  have "length (filter P (gm_put k v envs)) \<le> Suc (length (filter P envs))" for P
    unfolding gm_put_def by (induction envs) auto
  from this [of "\<lambda>e. eph_Phase (snd e) \<noteq> PhaseTerminated"] show ?thesis
    by (simp add: countActiveEnvironments_def)
qed

lemma count_nonneg [simp]: "0 \<le> countActiveEnvironments envs"
  by (simp add: countActiveEnvironments_def)

lemma put_put_same: "gm_put k b (gm_put k a m) = gm_put k b m"
  unfolding gm_put_def by (induction m) auto

lemma pr_loop_other:
  assumes "pr_loop driver pr reason t ks envs w = (r, envs', w')" and "environments_ok envs"
    and "gm_get envs k = Some e" and "eph_PRNumber e \<noteq> pr \<or> eph_Phase e \<noteq> PhaseReady"
  shows "gm_get envs' k = Some e"
  using assms
proof (induction driver pr reason t ks envs w rule: pr_loop.induct)
  case (2 driver pr reason t x ks envs w)
  show ?case
  proof (cases "\<exists>env. gm_get envs x = Some env \<and> eph_PRNumber env = pr \<and> eph_Phase env = PhaseReady")
    case True
    then obtain env where env: "gm_get envs x = Some env" "eph_PRNumber env = pr" "eph_Phase env = PhaseReady"
      by blast
    with "2.prems"(2,3,4) have "k \<noteq> x" and id: "eph_ID env = x"
      by (auto simp: env_ok_def dest: environments_ok_get)
    obtain r1 envs1 w1 where td: "TeardownEnvironment driver x reason (t (length ks)) envs w = (r1, envs1, w1)"
      by (cases "TeardownEnvironment driver x reason (t (length ks)) envs w") auto
    have keep: "gm_get envs1 k = Some e"
      using TeardownEnvironment_other [OF td \<open>k \<noteq> x\<close>] "2.prems"(3) by simp
    show ?thesis
    proof (cases r1)
      case None
      then have "pr_loop driver pr reason t ks envs1 w1 = (r, envs', w')"
        using "2.prems"(1) env id td by simp
      then show ?thesis
        using "2.IH"(2) [OF env(1)] env id td None keep TeardownEnvironment_ok [OF "2.prems"(2) td] "2.prems"(4)
        by auto
    next
      case (Some err)
      with "2.prems"(1) env id td keep show ?thesis by simp
    qed
  next
    case False
    then have "pr_loop driver pr reason t ks envs w = (r, envs', w')"
      using "2.prems"(1) by (auto split: option.splits if_splits)
    then show ?thesis using "2.IH"(1,3) "2.prems"(2,3,4) False by (cases "gm_get envs x") auto
  qed
qed simp

text \<open>Example data: one environment for pull request 7, holding the workload \<open>web\<close>.\<close>

definition demo_spec :: ephemeral_environment_spec where
  "demo_spec = \<lparr>ees_Enabled = True, ees_TTL = ''2h'', ees_MaxEnvironments = 1, ees_TriggerType = ''pr'',
     ees_PRNumber = 7, ees_BranchName = '''', ees_CommitSHA = ''c0ffee'', ees_NamespacePrefix = ''''\<rparr>"

definition demo_time :: "nat \<Rightarrow> instant" where
  "demo_time i = 62135596800 * Second + int i"

definition demo_status :: ephemeral_status where
  "demo_status = \<lparr>eph_ID = ''ephem-1'', eph_Name = ''pr-7'', eph_Namespace = ''ephem-pr-7'',
     eph_Phase = PhaseReady, eph_TriggerType = ''pr'', eph_PRNumber = 7, eph_BranchName = '''',
     eph_CommitSHA = ''c0ffee'', eph_CreatedAt = demo_time 3, eph_ExpiresAt = demo_time 2 + 2 * Hour,
     eph_TerminatedAt = None, eph_TerminationReason = ''''\<rparr>"

lemma demo_create:
  "CreateEnvironment (list_driver ''docker'') demo_spec (zero_spec\<lparr>ws_Name := ''web''\<rparr>) demo_time [] [] =
   ((Some demo_status, None), [(''ephem-1'', demo_status)],
    zero_spec\<lparr>ws_Name := ''web'', ws_Namespace := ''ephem-pr-7''\<rparr>, [''web''])"
  by (simp add: CreateEnvironment_def demo_spec_def demo_time_def demo_status_def list_driver_def
      countActiveEnvironments_def i32_def generateEnvironmentName_def generateNamespace_def
      UnixNano_def Itoa_def nat_str.simps parse_duration_simps gm_put_def zero_spec_def)

text \<open>
  C3. In every reachable state of the ephemeral manager, whatever operations, ticks and
  failures happened before: the keys of \<open>environments\<close> are distinct and are the IDs of
  their entries, no environment is left in the phase \<open>Creating\<close>, and exactly the
  terminated environments carry a termination time.
\<close>

theorem manager_invariant:
  assumes "manager_reachable driver m"
  shows "gm_wf (mgr_environments m) \<and>
    (\<forall>k e. gm_get (mgr_environments m) k = Some e \<longrightarrow>
       eph_ID e = k \<and> eph_Phase e \<noteq> PhaseCreating \<and>
       (eph_Phase e = PhaseTerminated \<longleftrightarrow> eph_TerminatedAt e \<noteq> None))"
  using manager_reachable_ok [OF assms]
  by (auto simp: env_ok_def dest: environments_ok_get) (simp add: environments_ok_def)

theorem manager_invariant_witness:
  "gm_get [(''ephem-1'', demo_status)] ''ephem-1'' = Some demo_status \<and> eph_ID demo_status = ''ephem-1''"
proof -
  have "CreateEnvironment (list_driver ''docker'') demo_spec (zero_spec\<lparr>ws_Name := ''web''\<rparr>) demo_time
      (mgr_environments (NewManager [])) (mgr_world (NewManager [])) =
    ((Some demo_status, None), [(''ephem-1'', demo_status)],
      zero_spec\<lparr>ws_Name := ''web'', ws_Namespace := ''ephem-pr-7''\<rparr>, [''web''])"
    by (simp add: NewManager_def demo_create)
  from manager_reachable.step [OF manager_reachable.init manager_step.create [OF this]]
  have "manager_reachable (list_driver ''docker'')
     ((NewManager [])\<lparr>mgr_environments := [(''ephem-1'', demo_status)], mgr_world := [''web'']\<rparr>)" .
  from manager_invariant [OF this] show ?thesis by simp
qed

text \<open>
  C22. The limit on concurrent environments is respected: when \<open>CreateEnvironment\<close> succeeds
  under a positive \<open>MaxEnvironments\<close>, the number of active environments afterwards is at
  most that limit, and the new environment is stored as ready under its ID.
\<close>

theorem create_respects_limit:
  assumes "CreateEnvironment driver spec wl t envs w = ((st, None), envs', wl', w')"
    and "0 < ees_MaxEnvironments spec" and "countActiveEnvironments envs < 2 ^ 31"
  shows "countActiveEnvironments envs' \<le> ees_MaxEnvironments spec \<and>
    (\<exists>s. st = Some s \<and> gm_get envs' (eph_ID s) = Some s \<and> eph_Phase s = PhaseReady)"
proof -
  have i: "i32 (countActiveEnvironments envs) = countActiveEnvironments envs"
    using assms(3) by (intro i32_id) (auto intro: order_trans [of _ 0])
  with assms(1,2) have lt: "countActiveEnvironments envs < ees_MaxEnvironments spec"
    by (auto simp: CreateEnvironment_def split: if_splits)
  from assms(1) obtain s where s: "st = Some s" "eph_Phase s = PhaseReady" "envs' = gm_put (eph_ID s) s envs"
    by (auto simp: CreateEnvironment_def Let_def put_put_same split: if_splits option.splits prod.splits sum.splits)
  with count_put [of "eph_ID s" s envs] lt show ?thesis by simp
qed

theorem create_respects_limit_witness:
  "countActiveEnvironments [(''ephem-1'', demo_status)] \<le> 1"
proof -
  have c: "countActiveEnvironments [] < 2 ^ 31" by (simp add: countActiveEnvironments_def)
  have m: "0 < ees_MaxEnvironments demo_spec" "ees_MaxEnvironments demo_spec = 1"
    by (simp_all add: demo_spec_def)
  from create_respects_limit [OF demo_create m(1) c] m(2) show ?thesis by simp
qed



text \<open>
  C25. When \<open>HandlePRMerge\<close> reports success, no environment of that pull request is left
  ready, and every environment of another pull request, and every environment that was not
  ready, is exactly as before.
\<close>

theorem merge_tears_down:
  assumes "HandlePRMerge driver pr t envs w = (None, envs', w')" and "environments_ok envs"
    and "gm_get envs k = Some e"
  shows "\<exists>e'. gm_get envs' k = Some e' \<and>
    (if eph_PRNumber e = pr \<and> eph_Phase e = PhaseReady then PhaseTerminating \<le> eph_Phase e' else e' = e)"
proof (cases "eph_PRNumber e = pr \<and> eph_Phase e = PhaseReady")
  case True
  have "k \<in> set (map fst envs)" using assms(3) by (force dest: map_of_SomeD)
  with pr_loop_past_ready [OF assms(2) _ assms(1) [unfolded HandlePRMerge_def]]
  obtain e' where "gm_get envs' k = Some e'" "eph_PRNumber e' \<noteq> pr \<or> PhaseTerminating \<le> eph_Phase e'"
    by (auto simp: past_ready_def)
  moreover from envs_leD [OF pr_loop_le [OF assms(1) [unfolded HandlePRMerge_def]] assms(3)] calculation(1)
  have "eph_PRNumber e' = eph_PRNumber e" by (auto simp: env_le_def)
  ultimately show ?thesis using True by auto
next
  case False
  with pr_loop_other [OF assms(1) [unfolded HandlePRMerge_def] assms(2,3)] show ?thesis by auto
qed

theorem merge_tears_down_witness:
  "\<exists>e'. gm_get (fst (snd (HandlePRMerge (list_driver ''docker'') 7 demo_time [(''ephem-1'', demo_status)] [''pr-7''])))
      ''ephem-1'' = Some e' \<and> PhaseTerminating \<le> eph_Phase e'"
proof -
  define d where "d = demo_status\<lparr>eph_Phase := PhaseTerminated, eph_TerminationReason := ''PR merged'',
        eph_TerminatedAt := Some (demo_time 0)\<rparr>"
  have h: "HandlePRMerge (list_driver ''docker'') 7 demo_time [(''ephem-1'', demo_status)] [''pr-7''] =
      (None, [(''ephem-1'', d)], [])"
    by (simp add: HandlePRMerge_def TeardownEnvironment_def d_def demo_status_def list_driver_def gm_put_def)
  have ok: "environments_ok [(''ephem-1'', demo_status)]"
    by (simp add: environments_ok_def env_ok_def demo_status_def)
  have p: "eph_PRNumber demo_status = 7 \<and> eph_Phase demo_status = PhaseReady" by (simp add: demo_status_def)
  from merge_tears_down [OF h ok, of "''ephem-1''" demo_status] p show ?thesis by (simp add: h)
qed

text \<open>
  C23. One round of \<open>cleanupExpiredEnvironments\<close> terminates exactly the environments that are
  ready and past their deadline, with the time of the round, whether or not the driver
  could destroy them, and leaves all other environments unchanged.
\<close>

theorem cleanup_exact:
  assumes "cleanupExpiredEnvironments driver now envs w = (envs', w')"
    and "gm_get envs k = Some e"
  shows "map fst envs' = map fst envs \<and> (\<exists>e'. gm_get envs' k = Some e' \<and>
    (if eph_Phase e = PhaseReady \<and> eph_ExpiresAt e < now
     then eph_Phase e' = PhaseTerminated \<and> eph_TerminatedAt e' = Some now \<and> eph_Name e' = eph_Name e
     else e' = e))"
proof -
  from cleaned_get [OF cleanup_cleaned [OF assms(1)] assms(2)]
  obtain e' where "gm_get envs' k = Some e'" "cleaned now (k, e) (k, e')" by blast
  then show ?thesis using cleaned_keys [OF cleanup_cleaned [OF assms(1)]]
    by (intro conjI exI [of _ e']) (auto simp: cleaned_def expire_env_def)
qed

theorem cleanup_exact_witness:
  "map fst (fst (cleanupExpiredEnvironments (list_driver ''docker'') (demo_time 3 + 3 * Hour)
     [(''ephem-1'', demo_status)] [])) = [''ephem-1'']"
proof -
  obtain envs' w' where c: "cleanupExpiredEnvironments (list_driver ''docker'') (demo_time 3 + 3 * Hour)
     [(''ephem-1'', demo_status)] [] = (envs', w')" by fastforce
  from cleanup_exact [OF c, of "''ephem-1''" demo_status] show ?thesis unfolding c by simp
qed

text \<open>
  Teardown aims at the wrong name. \<open>CreateEnvironment\<close> deploys the workload under the
  workload's own name, while \<open>TeardownEnvironment\<close> destroys the environment's name. So for
  any driver that starts what it deploys and whose \<open>Destroy\<close> stops only the named workload,
  after a successful create and a successful teardown the environment is recorded as
  terminated and its workload still runs, unless the workload happened to be called like
  the environment.
\<close>

theorem teardown_misses_workload:
  assumes deploys: "\<And>s v r s' v'. drv_Deploy driver s v = (Inr r, s', v') \<Longrightarrow> ws_Name s \<in> live v'"
    and destroys: "\<And>x v r v'. drv_Destroy driver x v = (r, v') \<Longrightarrow> live v - {x} \<subseteq> live v'"
    and create: "CreateEnvironment driver spec wl t envs w = ((Some st, None), envs1, wl1, w1)"
    and teardown: "TeardownEnvironment driver (eph_ID st) reason now envs1 w1 = (None, envs2, w2)"
    and name: "ws_Name wl \<noteq> eph_Name st"
  shows "ws_Name wl \<in> live w2 \<and>
    (\<exists>e. gm_get envs2 (eph_ID st) = Some e \<and> eph_Phase e = PhaseTerminated)"
proof
  from create have stored: "gm_get envs1 (eph_ID st) = Some st" and ph: "eph_Phase st = PhaseReady"
    by (auto simp: CreateEnvironment_def Let_def split: if_splits option.splits prod.splits sum.splits)
  from create obtain s r s' where "drv_Deploy driver s w = (Inr r, s', w1)" "ws_Name s = ws_Name wl"
    by (auto simp: CreateEnvironment_def Let_def split: if_splits option.splits prod.splits sum.splits)
  with deploys have runs: "ws_Name wl \<in> live w1" by metis
  from teardown stored ph obtain r where "drv_Destroy driver (eph_Name st) w1 = (r, w2)"
    by (auto simp: TeardownEnvironment_def Let_def split: prod.splits option.splits)
  from destroys [OF this] runs name show "ws_Name wl \<in> live w2" by auto
qed (rule TeardownEnvironment_done [OF teardown])

theorem teardown_misses_workload_witness:
  "''web'' \<in> set (snd (snd (TeardownEnvironment (list_driver ''docker'') ''ephem-1'' ''PR closed'' 9
      [(''ephem-1'', demo_status)] [''web'', ''pr-7''])))"
proof -
  define base where "base = list_driver ''docker''"
  define drv where "drv = base\<lparr>drv_Deploy := (\<lambda>s v. (Inr zero_status, s, v @ [ws_Name s, ''pr-7'']))\<rparr>"
  have c: "CreateEnvironment drv demo_spec (zero_spec\<lparr>ws_Name := ''web''\<rparr>) demo_time [] [] =
      ((Some demo_status, None), [(''ephem-1'', demo_status)],
       zero_spec\<lparr>ws_Name := ''web'', ws_Namespace := ''ephem-pr-7''\<rparr>, [''web'', ''pr-7''])"
    by (simp add: CreateEnvironment_def demo_spec_def demo_time_def demo_status_def drv_def
      countActiveEnvironments_def i32_def generateEnvironmentName_def generateNamespace_def
      UnixNano_def Itoa_def nat_str.simps parse_duration_simps gm_put_def zero_spec_def)
  define d where "d = demo_status\<lparr>eph_Phase := PhaseTerminated, eph_TerminationReason := ''PR closed'',
        eph_TerminatedAt := Some 9\<rparr>"
  have td: "TeardownEnvironment drv (eph_ID demo_status) ''PR closed'' 9
      [(''ephem-1'', demo_status)] [''web'', ''pr-7''] = (None, [(''ephem-1'', d)], [''web''])"
    by (simp add: TeardownEnvironment_def d_def demo_status_def drv_def base_def list_driver_def gm_put_def)
  have "ws_Name (zero_spec\<lparr>ws_Name := ''web''\<rparr>) \<in> set [''web''] \<and>
      (\<exists>e. gm_get [(''ephem-1'', d)] (eph_ID demo_status) = Some e \<and> eph_Phase e = PhaseTerminated)"
    by (rule teardown_misses_workload [where live = set, OF _ _ c td])
      (auto simp: drv_def base_def list_driver_def demo_status_def split: if_splits)
  moreover have "drv_Destroy drv = drv_Destroy (list_driver ''docker'')" by (simp add: drv_def base_def)
  ultimately show ?thesis using td
    by (simp add: TeardownEnvironment_def demo_status_def list_driver_def gm_put_def)
qed

text \<open>
  A failed teardown is never retried by the manager itself: an environment in the phase
  \<open>Terminating\<close> is left as it is by every cleanup round and by the PR handlers, whatever
  they return, so it keeps counting against the limit until somebody tears it down by ID.
\<close>

theorem terminating_is_stuck:
  assumes "environments_ok envs" and "gm_get envs k = Some e" and "eph_Phase e = PhaseTerminating"
  shows "gm_get (fst (cleanupExpiredEnvironments driver now envs w)) k = Some e \<and>
    gm_get (fst (snd (HandlePRMerge driver pr t envs w))) k = Some e \<and>
    gm_get (fst (snd (HandlePRClose driver pr t envs w))) k = Some e"
proof (intro conjI)
  obtain envs' w' where c: "cleanupExpiredEnvironments driver now envs w = (envs', w')" by fastforce
  from cleaned_get [OF cleanup_cleaned [OF c] assms(2)] assms(3) c
  show "gm_get (fst (cleanupExpiredEnvironments driver now envs w)) k = Some e"
    by (auto simp: cleaned_def)
  have "gm_get (fst (snd (pr_loop driver pr reason t ks envs w))) k = Some e" for reason ks
    using pr_loop_other [OF prod.collapse [symmetric, THEN trans, OF arg_cong2 [where f = Pair, OF refl prod.collapse [symmetric]]]
      assms(1,2)] assms(3) by simp
  then show "gm_get (fst (snd (HandlePRMerge driver pr t envs w))) k = Some e"
    and "gm_get (fst (snd (HandlePRClose driver pr t envs w))) k = Some e"
    by (simp_all add: HandlePRMerge_def HandlePRClose_def)
qed

theorem terminating_is_stuck_witness:
  "gm_get (fst (cleanupExpiredEnvironments (list_driver ''docker'') (demo_time 9 + 9 * Hour)
     [(''ephem-1'', demo_status\<lparr>eph_Phase := PhaseTerminating\<rparr>)] [])) ''ephem-1'' =
   Some (demo_status\<lparr>eph_Phase := PhaseTerminating\<rparr>)"
proof -
  have ok: "environments_ok [(''ephem-1'', demo_status\<lparr>eph_Phase := PhaseTerminating\<rparr>)]"
    by (simp add: environments_ok_def env_ok_def demo_status_def)
  show ?thesis
    using terminating_is_stuck [OF ok, of "''ephem-1''" "demo_status\<lparr>eph_Phase := PhaseTerminating\<rparr>"] by simp
qed

end
