(* ===== verification/Image_Cache.thy ===== *)
theory Image_Cache
  imports Go_Time
begin

text \<open>
  \<open>internal/cache/image.go\<close>: the image cache. Its state is the map \<open>cachedImages\<close> and the
  status record; \<open>Put\<close>, \<open>Invalidate\<close> and the hourly cleanup run under the mutex and are one
  atomic step each. \<open>Get\<close> takes the lock twice, so it is also given as its two sections. The
  eviction loop of \<open>enforceSizeLimits\<close> is a \<open>partial_function\<close>: \<open>None\<close> means that it never
  ends. The status floats are exact rationals here; sizes wrap around at 64 bits.
\<close>

section \<open>State\<close>

record types_image_cache_config =
  tic_Enabled :: bool
  tic_CacheSizeGB :: int
  tic_MaxCachedImages :: int
  tic_TTL :: string

record image_cache_status =
  ics_CacheLocation :: string
  ics_CachedImages :: int
  ics_TotalSizeGB :: rat
  ics_LastCleanup :: instant
  ics_HitRate :: rat

record cached_image =
  ci_ImageRef :: string
  ci_SizeBytes :: int
  ci_CachedAt :: instant
  ci_LastAccessed :: instant
  ci_AccessCount :: int
  ci_TTL :: duration

type_synonym cached_images = "(string, cached_image) gomap"

record image_cache =
  ic_config :: types_image_cache_config
  ic_cacheDir :: string
  ic_cachedImages :: cached_images
  ic_status :: image_cache_status

section \<open>Operations\<close>

definition zero_cache_status :: "string \<Rightarrow> image_cache_status" where
  "zero_cache_status loc =
     \<lparr>ics_CacheLocation = loc, ics_CachedImages = 0, ics_TotalSizeGB = 0, ics_LastCleanup = 0, ics_HitRate = 0\<rparr>"

text \<open>\<open>os.MkdirAll\<close> is an argument: the error it gives, if any. Loading the metadata cannot fail.\<close>

text \<open>Nothing is persisted: both functions for the metadata are empty in the code.\<close>

definition loadCacheMetadata :: "go_error option" where "loadCacheMetadata = None"

definition NewImageCache :: "go_error option \<Rightarrow> types_image_cache_config \<Rightarrow> image_cache result" where
  "NewImageCache mkdirAll config =
     (if \<not> tic_Enabled config
      then Inr \<lparr>ic_config = config, ic_cacheDir = '''', ic_cachedImages = [],
             ic_status = zero_cache_status ''/tmp/kranix-cache''\<rparr>
      else case mkdirAll of
             Some err \<Rightarrow> Inl (Wrapf ''failed to create cache directory: '' err '''')
           | None \<Rightarrow>
               (case loadCacheMetadata of
                  Some err \<Rightarrow> Inl (Wrapf ''failed to load cache metadata: '' err '''')
                | None \<Rightarrow> Inr \<lparr>ic_config = config, ic_cacheDir = ''/var/lib/kranix/cache'', ic_cachedImages = [],
               ic_status = zero_cache_status ''/var/lib/kranix/cache''\<rparr>))"

definition calculateTotalSize :: "cached_images \<Rightarrow> int" where
  "calculateTotalSize images = fold (\<lambda>e total. i64 (total + ci_SizeBytes (snd e))) images 0"

text \<open>The range loop of \<open>evictOldest\<close>: the reference and the time found so far.\<close>

fun oldest_loop :: "cached_images \<Rightarrow> string \<Rightarrow> instant \<Rightarrow> string \<times> instant" where
  "oldest_loop [] oldestRef oldestTime = (oldestRef, oldestTime)"
| "oldest_loop ((ref, cached) # rest) oldestRef oldestTime =
     (if oldestTime = 0 \<or> ci_LastAccessed cached < oldestTime
      then oldest_loop rest ref (ci_LastAccessed cached)
      else oldest_loop rest oldestRef oldestTime)"

definition evictOldest :: "cached_images \<Rightarrow> cached_images" where
  "evictOldest images =
     (if length images = 0 then images
      else let oldestRef = fst (oldest_loop images '''' 0)
           in if oldestRef \<noteq> '''' then gm_del oldestRef images else images)"

definition max_size_bytes :: "types_image_cache_config \<Rightarrow> int" where
  "max_size_bytes config = i64 (i64 (i64 (i64 (tic_CacheSizeGB config) * 1024) * 1024) * 1024)"

partial_function (option) evict_loop :: "int \<Rightarrow> int \<Rightarrow> cached_images \<Rightarrow> cached_images option" where
  "evict_loop maxSizeBytes newImageSize images =
     (if maxSizeBytes < i64 (calculateTotalSize images + newImageSize) \<and> 0 < length images
      then evict_loop maxSizeBytes newImageSize (evictOldest images)
      else Some images)"

text \<open>The test before the loop in the source is the first test of the loop.\<close>

definition enforceSizeLimits :: "types_image_cache_config \<Rightarrow> int \<Rightarrow> cached_images \<Rightarrow> cached_images option" where
  "enforceSizeLimits config newImageSize images =
     (if max_size_bytes config < i64 (calculateTotalSize images + newImageSize)
      then evict_loop (max_size_bytes config) newImageSize images
      else Some images)"

definition access_totals :: "cached_images \<Rightarrow> int \<times> int" where
  "access_totals images =
     fold (\<lambda>(ref, cached) (total, hits).
         (i64 (total + ci_AccessCount cached),
          if ci_AccessCount cached > 1 then i64 (hits + (ci_AccessCount cached - 1)) else hits)) images (0, 0)"

definition updateStatus :: "instant \<Rightarrow> image_cache \<Rightarrow> image_cache" where
  "updateStatus now c =
     (let images = ic_cachedImages c;
          (totalAccesses, cacheHits) = access_totals images;
          st = (ic_status c)\<lparr>ics_CachedImages := i32 (int (length images)),
                 ics_TotalSizeGB := of_int (calculateTotalSize images) / (1024 * 1024 * 1024),
                 ics_LastCleanup := now\<rparr>;
          st' = (if totalAccesses > 0
                 then st\<lparr>ics_HitRate := (of_int cacheHits / of_int totalAccesses) * 100\<rparr> else st)
      in c\<lparr>ic_status := st'\<rparr>)"

definition put_ttl :: "types_image_cache_config \<Rightarrow> duration" where
  "put_ttl config = (case ParseDuration (tic_TTL config) of None \<Rightarrow> 168 * Hour | Some ttl \<Rightarrow> ttl)"

text \<open>The section of \<open>Put\<close> that changes the map: the two limits, then the assignment.\<close>

definition put_entry :: "types_image_cache_config \<Rightarrow> string \<Rightarrow> cached_image \<Rightarrow> cached_images \<Rightarrow> cached_images option" where
  "put_entry config imageRef entry images =
     (case enforceSizeLimits config (ci_SizeBytes entry) images of
        None \<Rightarrow> None
      | Some images1 \<Rightarrow>
          let images2 = (if tic_MaxCachedImages config \<le> i32 (int (length images1)) then evictOldest images1 else images1)
          in Some (gm_put imageRef entry images2))"

definition Put :: "(nat \<Rightarrow> instant) \<Rightarrow> string \<Rightarrow> int \<Rightarrow> image_cache \<Rightarrow> image_cache option" where
  "Put t imageRef sizeBytes c =
     (if \<not> tic_Enabled (ic_config c) then Some c
      else let entry = \<lparr>ci_ImageRef = imageRef, ci_SizeBytes = sizeBytes, ci_CachedAt = t 0,
                 ci_LastAccessed = t 1, ci_AccessCount = 1, ci_TTL = put_ttl (ic_config c)\<rparr>
           in map_option (\<lambda>images. updateStatus (t 2) (c\<lparr>ic_cachedImages := images\<rparr>))
                (put_entry (ic_config c) imageRef entry (ic_cachedImages c)))"

text \<open>\<open>time.ParseDuration\<close> returns 0 with an error, which \<open>Prepull\<close> replaces by the default.\<close>

definition prepull_ttl :: "types_image_cache_config \<Rightarrow> duration" where
  "prepull_ttl config =
     (let ttl = (case ParseDuration (tic_TTL config) of None \<Rightarrow> 0 | Some d \<Rightarrow> d)
      in if ttl = 0 then 168 * Hour else ttl)"

fun prepull_loop :: "duration \<Rightarrow> (nat \<Rightarrow> instant) \<Rightarrow> string list \<Rightarrow> cached_images \<Rightarrow> cached_images" where
  "prepull_loop ttl t [] images = images"
| "prepull_loop ttl t (ref # refs) images =
     prepull_loop ttl t refs
       (if gm_get images ref = None
        then gm_put ref \<lparr>ci_ImageRef = ref, ci_SizeBytes = 0, ci_CachedAt = t (2 * length refs),
               ci_LastAccessed = t (2 * length refs + 1), ci_AccessCount = 0, ci_TTL = ttl\<rparr> images
        else images)"

definition Prepull :: "(nat \<Rightarrow> instant) \<Rightarrow> string list \<Rightarrow> image_cache \<Rightarrow> image_cache" where
  "Prepull t imageRefs c =
     (if \<not> tic_Enabled (ic_config c) then c
      else c\<lparr>ic_cachedImages := prepull_loop (prepull_ttl (ic_config c)) t imageRefs (ic_cachedImages c)\<rparr>)"

definition Invalidate :: "instant \<Rightarrow> string \<Rightarrow> image_cache \<Rightarrow> image_cache" where
  "Invalidate now imageRef c = updateStatus now (c\<lparr>ic_cachedImages := gm_del imageRef (ic_cachedImages c)\<rparr>)"

definition expired :: "instant \<Rightarrow> cached_image \<Rightarrow> bool" where
  "expired now cached \<longleftrightarrow> ci_TTL cached < now - ci_CachedAt cached"

definition cleanupExpired :: "instant \<Rightarrow> instant \<Rightarrow> image_cache \<Rightarrow> image_cache" where
  "cleanupExpired now now' c =
     updateStatus now' (c\<lparr>ic_cachedImages := filter (\<lambda>(ref, cached). \<not> expired now cached) (ic_cachedImages c)\<rparr>)"

text \<open>
  \<open>Get\<close>: the first section reads the entry, the second one deletes the key or updates the
  entry it read. The entry is behind a pointer: the update is lost when \<open>Put\<close> has replaced the
  entry by then; an entry is identified by the time it was cached at.
\<close>

definition get_read :: "string \<Rightarrow> image_cache \<Rightarrow> cached_image option" where
  "get_read imageRef c = gm_get (ic_cachedImages c) imageRef"

definition get_drop :: "string \<Rightarrow> image_cache \<Rightarrow> image_cache" where
  "get_drop imageRef c = c\<lparr>ic_cachedImages := gm_del imageRef (ic_cachedImages c)\<rparr>"

definition get_touch :: "instant \<Rightarrow> string \<Rightarrow> cached_image \<Rightarrow> image_cache \<Rightarrow> image_cache" where
  "get_touch now imageRef cached c =
     (case gm_get (ic_cachedImages c) imageRef of
        None \<Rightarrow> c
      | Some cur \<Rightarrow>
          if ci_CachedAt cur = ci_CachedAt cached
          then c\<lparr>ic_cachedImages := gm_put imageRef
                 (cur\<lparr>ci_LastAccessed := now, ci_AccessCount := i64 (ci_AccessCount cur + 1)\<rparr>) (ic_cachedImages c)\<rparr>
          else c)"

definition Get :: "(nat \<Rightarrow> instant) \<Rightarrow> string \<Rightarrow> image_cache \<Rightarrow> bool \<times> image_cache" where
  "Get t imageRef c =
     (if \<not> tic_Enabled (ic_config c) then (False, c)
      else case get_read imageRef c of
             None \<Rightarrow> (False, c)
           | Some cached \<Rightarrow>
               if expired (t 0) cached then (False, get_drop imageRef c)
               else (True, get_touch (t 1) imageRef cached c))"

definition GetStatus :: "image_cache \<Rightarrow> image_cache_status" where
  "GetStatus c = ic_status c"

section \<open>Eviction\<close>

lemma oldest_loop_from:
  "oldest_loop images r t = (r', t') \<Longrightarrow>
   (images \<noteq> [] \<and> t = 0) \<or> (r', t') \<noteq> (r, t) \<Longrightarrow> \<exists>c. (r', c) \<in> set images \<and> ci_LastAccessed c = t'"
proof (induction images r t rule: oldest_loop.induct)
  case (2 ref cached rest oldestRef oldestTime)
  show ?case
  proof (cases "oldestTime = 0 \<or> ci_LastAccessed cached < oldestTime")
    case True
    with "2.prems"(1) have o: "oldest_loop rest ref (ci_LastAccessed cached) = (r', t')" by simp
    show ?thesis
    proof (cases "(r', t') = (ref, ci_LastAccessed cached)")
      case False
      with "2.IH"(1) [OF True o] show ?thesis by auto
    qed auto
  next
    case False
    with 2 show ?thesis by auto
  qed
qed auto

lemma oldest_loop_least:
  "oldest_loop images r t = (r', t') \<Longrightarrow> 0 \<le> t \<Longrightarrow> \<forall>e \<in> set images. 0 < ci_LastAccessed (snd e) \<Longrightarrow>
   (0 < t \<longrightarrow> t' \<le> t) \<and> (\<forall>e \<in> set images. t' \<le> ci_LastAccessed (snd e))"
proof (induction images r t rule: oldest_loop.induct)
  case (2 ref cached rest oldestRef oldestTime)
  show ?case
  proof (cases "oldestTime = 0 \<or> ci_LastAccessed cached < oldestTime")
    case True
    with 2 show ?thesis by auto
  next
    case False
    with 2 show ?thesis by auto
  qed
qed auto

lemma evictOldest_choice:
  "evictOldest images = images \<or> (\<exists>ref. evictOldest images = gm_del ref images)"
  by (auto simp: evictOldest_def Let_def)

lemma set_evictOldest: "set (evictOldest images) \<subseteq> set images"
  using evictOldest_choice [of images] set_gm_del [of _ images] by auto

lemma gm_wf_evictOldest [simp, go_inv]: "gm_wf images \<Longrightarrow> gm_wf (evictOldest images)"
  using evictOldest_choice [of images] gm_wf_del by metis

lemma evictOldest_victim:
  assumes "images \<noteq> []" and "'''' \<notin> fst ` set images"
  obtains ref cached where "(ref, cached) \<in> set images" "evictOldest images = gm_del ref images"
    "oldest_loop images '''' 0 = (ref, ci_LastAccessed cached)"
proof -
  obtain ref t where o: "oldest_loop images '''' 0 = (ref, t)" by fastforce
  from oldest_loop_from [OF o] assms(1) obtain c where c: "(ref, c) \<in> set images" "ci_LastAccessed c = t" by auto
  with assms(2) have "ref \<noteq> ''''" by force
  with assms(1) o have "evictOldest images = gm_del ref images" by (simp add: evictOldest_def)
  with that [OF c(1)] o c show thesis by simp
qed

lemma length_evictOldest:
  assumes "gm_wf images" and "images \<noteq> []" and "'''' \<notin> fst ` set images"
  shows "Suc (length (evictOldest images)) = length images"
proof -
  from evictOldest_victim [OF assms(2,3)] obtain ref c
    where "(ref, c) \<in> set images" "evictOldest images = gm_del ref images" by metis
  with length_gm_del [OF assms(1), of ref] show ?thesis by force
qed

lemma map_le_subset: "gm_wf m \<Longrightarrow> set m' \<subseteq> set m \<Longrightarrow> gm_wf m' \<Longrightarrow> gm_get m' \<subseteq>\<^sub>m gm_get m"
  by (metis (no_types, lifting) domIff gm_mem_get map_le_def option.exhaust_sel subset_iff)

lemma evict_loop_result:
  "evict_loop mx n images = Some images' \<Longrightarrow>
   set images' \<subseteq> set images \<and> (gm_wf images \<longrightarrow> gm_wf images') \<and>
   (i64 (calculateTotalSize images' + n) \<le> mx \<or> images' = [])"
proof (rule evict_loop.raw_induct
    [where P = "\<lambda>mx n images images'. set images' \<subseteq> set images \<and> (gm_wf images \<longrightarrow> gm_wf images') \<and>
       (i64 (calculateTotalSize images' + n) \<le> mx \<or> images' = [])"], goal_cases)
  case (1 f mx n images images')
  show ?case
  proof (cases "mx < i64 (calculateTotalSize images + n) \<and> 0 < length images")
    case True
    with "1"(3) have "f mx n (evictOldest images) = Some images'" by simp
    from "1"(2) [OF this] set_evictOldest [of images] gm_wf_evictOldest [of images] show ?thesis by blast
  qed (use "1"(3) in auto)
qed

lemma evict_loop_returns:
  "gm_wf images \<Longrightarrow> '''' \<notin> fst ` set images \<Longrightarrow> \<exists>images'. evict_loop mx n images = Some images'"
proof (induction "length images" arbitrary: images rule: less_induct)
  case less
  show ?case
  proof (cases "images = []")
    case False
    have "\<exists>images'. evict_loop mx n (evictOldest images) = Some images'"
    proof (rule less(1))
      show "length (evictOldest images) < length images"
        using length_evictOldest [OF less(2) False less(3)] by simp
      show "'''' \<notin> fst ` set (evictOldest images)" using set_evictOldest less(3) by blast
    qed (simp add: less(2))
    then show ?thesis by (subst evict_loop.simps) auto
  qed (subst evict_loop.simps, simp)
qed

lemma enforceSizeLimits_result:
  assumes "enforceSizeLimits config n images = Some images'"
  shows "set images' \<subseteq> set images" and "gm_wf images \<Longrightarrow> gm_wf images'"
    and "i64 (calculateTotalSize images' + n) \<le> max_size_bytes config \<or> images' = []"
  using assms evict_loop_result [of "max_size_bytes config" n images images']
  by (auto simp: enforceSizeLimits_def split: if_splits)

lemma put_entry_result:
  assumes "put_entry config imageRef entry images = Some images'" and "gm_wf images"
  shows "\<exists>rest. images' = gm_put imageRef entry rest \<and> gm_wf rest \<and> set rest \<subseteq> set images"
proof -
  from assms obtain images1 where e: "enforceSizeLimits config (ci_SizeBytes entry) images = Some images1"
    by (auto simp: put_entry_def split: option.splits)
  note r = enforceSizeLimits_result [OF e]
  show ?thesis
  proof (cases "tic_MaxCachedImages config \<le> i32 (int (length images1))")
    case True
    with assms(1) e have "images' = gm_put imageRef entry (evictOldest images1)" by (simp add: put_entry_def)
    then show ?thesis using r(1,2) assms(2) set_evictOldest [of images1] gm_wf_evictOldest by blast
  next
    case False
    with assms(1) e have "images' = gm_put imageRef entry images1" by (simp add: put_entry_def)
    then show ?thesis using r(1,2) assms(2) by blast
  qed
qed

interpretation image_store: lossy_store gm_get "put_entry config" gm_del gm_wf for config
proof
  fix s k and v :: cached_image and s'
  assume wf: "gm_wf s" and p: "put_entry config k v s = Some s'"
  from put_entry_result [OF p wf] obtain rest
    where r: "s' = gm_put k v rest" "gm_wf rest" "set rest \<subseteq> set s" by blast
  show "gm_wf s'" using r by simp
  show "gm_get s' k = Some v" using r by simp
  show "gm_get s' \<subseteq>\<^sub>m (gm_get s)(k \<mapsto> v)"
    using map_le_subset [OF wf r(3,2)] by (auto simp: r(1) map_le_def)
qed (simp_all add: fun_upd_def)

section \<open>Sizes\<close>

definition image_sizes :: "cached_images \<Rightarrow> int" where
  "image_sizes images = (\<Sum>e \<in> set images. ci_SizeBytes (snd e))"

lemma fold_sizes:
  "fold (\<lambda>e total. i64 (total + ci_SizeBytes (snd e))) images (i64 a) =
   i64 (a + sum_list (map (\<lambda>e. ci_SizeBytes (snd e)) images))"
  by (induction images arbitrary: a) (simp_all add: i64_add add.assoc)

lemma calculateTotalSize_sum: "gm_wf images \<Longrightarrow> calculateTotalSize images = i64 (image_sizes images)"
  using fold_sizes [of images 0]
  by (simp add: calculateTotalSize_def image_sizes_def i64_id sum_list_distinct_conv_sum_set distinct_map)

definition sizes_ok :: "cached_images \<Rightarrow> bool" where
  "sizes_ok images \<longleftrightarrow> (\<forall>e \<in> set images. 0 \<le> ci_SizeBytes (snd e))"

lemma image_sizes_mono: "sizes_ok images \<Longrightarrow> set images' \<subseteq> set images \<Longrightarrow> image_sizes images' \<le> image_sizes images"
  unfolding image_sizes_def sizes_ok_def by (rule sum_mono2) auto

lemma image_sizes_nonneg: "sizes_ok images \<Longrightarrow> 0 \<le> image_sizes images"
  unfolding image_sizes_def sizes_ok_def by (rule sum_nonneg) auto

lemma sizes_ok_subset: "sizes_ok images \<Longrightarrow> set images' \<subseteq> set images \<Longrightarrow> sizes_ok images'"
  by (auto simp: sizes_ok_def)

lemma image_sizes_put:
  assumes "gm_wf images" "sizes_ok images"
  shows "image_sizes (gm_put k v images) \<le> image_sizes images + ci_SizeBytes v"
proof -
  have "image_sizes (gm_put k v images) =
      ci_SizeBytes v + (\<Sum>e \<in> {e \<in> set images. fst e \<noteq> k}. ci_SizeBytes (snd e))"
    unfolding image_sizes_def set_gm_put [OF assms(1)] by (subst sum.insert) auto
  also have "(\<Sum>e \<in> {e \<in> set images. fst e \<noteq> k}. ci_SizeBytes (snd e)) \<le> image_sizes images"
    using assms(2) unfolding image_sizes_def sizes_ok_def by (intro sum_mono2) auto
  finally show ?thesis by simp
qed

lemma max_size_bytes_exact:
  "0 \<le> tic_CacheSizeGB config \<Longrightarrow> tic_CacheSizeGB config < 2 ^ 33 \<Longrightarrow>
   max_size_bytes config = tic_CacheSizeGB config * 2 ^ 30"
  by (simp add: max_size_bytes_def i64_id)

section \<open>Properties\<close>

text \<open>The surroundings in which the limits mean what they say: no overflow, no empty key.\<close>

definition cache_sane :: "image_cache \<Rightarrow> bool" where
  "cache_sane c \<longleftrightarrow> tic_Enabled (ic_config c) \<and> gm_wf (ic_cachedImages c) \<and>
     '''' \<notin> fst ` set (ic_cachedImages c) \<and> sizes_ok (ic_cachedImages c) \<and>
     0 \<le> tic_CacheSizeGB (ic_config c) \<and> tic_CacheSizeGB (ic_config c) < 2 ^ 33 \<and>
     1 \<le> tic_MaxCachedImages (ic_config c) \<and> tic_MaxCachedImages (ic_config c) < 2 ^ 31 \<and>
     int (length (ic_cachedImages c)) \<le> tic_MaxCachedImages (ic_config c)"

lemma put_entry_bounds:
  assumes "cache_sane c" and "0 \<le> ci_SizeBytes entry"
    and fits: "image_sizes (ic_cachedImages c) + ci_SizeBytes entry < 2 ^ 63"
  shows "\<exists>images'. put_entry (ic_config c) ref entry (ic_cachedImages c) = Some images' \<and>
    image_sizes images' \<le> max (tic_CacheSizeGB (ic_config c) * 2 ^ 30) (ci_SizeBytes entry) \<and>
    0 \<le> image_sizes images' \<and> int (length images') \<le> tic_MaxCachedImages (ic_config c)"
proof -
  let ?im = "ic_cachedImages c" and ?cfg = "ic_config c" and ?n = "ci_SizeBytes entry"
  from assms(1) have wf: "gm_wf ?im" and ne: "'''' \<notin> fst ` set ?im" and ok: "sizes_ok ?im"
    and gb: "0 \<le> tic_CacheSizeGB ?cfg" "tic_CacheSizeGB ?cfg < 2 ^ 33"
    and mx: "1 \<le> tic_MaxCachedImages ?cfg" "tic_MaxCachedImages ?cfg < 2 ^ 31"
    and len: "int (length ?im) \<le> tic_MaxCachedImages ?cfg"
    by (auto simp: cache_sane_def)
  obtain images1 where e: "enforceSizeLimits ?cfg ?n ?im = Some images1"
    using evict_loop_returns [OF wf ne, of "max_size_bytes ?cfg" ?n] by (cases "enforceSizeLimits ?cfg ?n ?im")
      (auto simp: enforceSizeLimits_def split: if_splits)
  note r = enforceSizeLimits_result [OF e]
  from r(2) wf have wf1: "gm_wf images1" by simp
  from r(1) ok have ok1: "sizes_ok images1" by (rule sizes_ok_subset [rotated])
  from image_sizes_mono [OF ok r(1)] image_sizes_nonneg [OF ok1] fits assms(2)
  have s1: "image_sizes images1 + ?n < 2 ^ 63" "0 \<le> image_sizes images1" by linarith+
  from r(3) have lim: "image_sizes images1 + ?n \<le> max (tic_CacheSizeGB ?cfg * 2 ^ 30) ?n"
    using calculateTotalSize_sum [OF wf1] s1 assms(2) max_size_bytes_exact [OF gb]
    by (auto simp: i64_id image_sizes_def)
  from card_mono [OF _ r(1)] distinct_card wf wf1 have "length images1 \<le> length ?im"
    by (metis List.finite_set distinct_map)
  with len have len1: "int (length images1) \<le> tic_MaxCachedImages ?cfg" by linarith
  with mx have i: "i32 (int (length images1)) = int (length images1)" by (intro i32_id) auto
  define images2 where "images2 = (if tic_MaxCachedImages ?cfg \<le> int (length images1) then evictOldest images1 else images1)"
  have p: "put_entry ?cfg ref entry ?im = Some (gm_put ref entry images2)"
    by (simp add: put_entry_def e images2_def i)
  have sub: "set images2 \<subseteq> set images1" using set_evictOldest by (auto simp: images2_def)
  have wf2: "gm_wf images2" using wf1 by (simp add: images2_def)
  from sizes_ok_subset [OF ok1 sub] have ok2: "sizes_ok images2" .
  have "int (length images2) < tic_MaxCachedImages ?cfg"
  proof (cases "tic_MaxCachedImages ?cfg \<le> int (length images1)")
    case True
    with mx have "images1 \<noteq> []" by auto
    moreover have "'''' \<notin> fst ` set images1" using ne r(1) by blast
    ultimately show ?thesis using length_evictOldest [OF wf1] True len1 by (simp add: images2_def)
  qed (simp add: images2_def)
  then have "int (length (gm_put ref entry images2)) \<le> tic_MaxCachedImages ?cfg"
    by (simp add: length_gm_put)
  moreover have "image_sizes (gm_put ref entry images2) \<le> max (tic_CacheSizeGB ?cfg * 2 ^ 30) ?n"
    using image_sizes_put [OF wf2 ok2, of ref entry] image_sizes_mono [OF ok1 sub] lim by linarith
  moreover have "0 \<le> image_sizes (gm_put ref entry images2)"
    by (rule image_sizes_nonneg) (use ok2 assms(2) in \<open>auto simp: sizes_ok_def set_gm_put [OF wf2]\<close>)
  ultimately show ?thesis using p by blast
qed

lemma updateStatus_images [simp]: "ic_cachedImages (updateStatus now c) = ic_cachedImages c"
  by (simp add: updateStatus_def Let_def split: prod.split)

lemma updateStatus_config [simp]: "ic_config (updateStatus now c) = ic_config c"
  by (simp add: updateStatus_def Let_def split: prod.split)

lemma updateStatus_size [simp]:
  "ics_TotalSizeGB (ic_status (updateStatus now c)) = of_int (calculateTotalSize (ic_cachedImages c)) / 2 ^ 30"
  by (simp add: updateStatus_def Let_def split: prod.split)


definition demo_cache :: image_cache where
  "demo_cache =
     \<lparr>ic_config = \<lparr>tic_Enabled = True, tic_CacheSizeGB = 1, tic_MaxCachedImages = 2, tic_TTL = ''1h''\<rparr>,
      ic_cacheDir = ''/var/lib/kranix/cache'',
      ic_cachedImages =
        [(''nginx'', \<lparr>ci_ImageRef = ''nginx'', ci_SizeBytes = 600000000, ci_CachedAt = 1, ci_LastAccessed = 9,
            ci_AccessCount = 3, ci_TTL = Hour\<rparr>),
         (''redis'', \<lparr>ci_ImageRef = ''redis'', ci_SizeBytes = 400000000, ci_CachedAt = 2, ci_LastAccessed = 5,
            ci_AccessCount = 1, ci_TTL = Hour\<rparr>)],
      ic_status = zero_cache_status ''/var/lib/kranix/cache''\<rparr>"


text \<open>
  The victim of an eviction is a least recently used image: when every image has an
  access time and a non-empty reference, \<open>evictOldest\<close> removes exactly one entry, and no
  remaining image was last accessed before it.
\<close>

theorem evicts_least_recently_used:
  assumes "images \<noteq> []" and "'''' \<notin> fst ` set images"
    and "\<forall>e \<in> set images. 0 < ci_LastAccessed (snd e)"
  shows "\<exists>ref victim. (ref, victim) \<in> set images \<and> evictOldest images = filter (\<lambda>e. fst e \<noteq> ref) images \<and>
    (\<forall>e \<in> set images. ci_LastAccessed victim \<le> ci_LastAccessed (snd e))"
proof -
  from evictOldest_victim [OF assms(1,2)] obtain ref victim
    where v: "(ref, victim) \<in> set images" "evictOldest images = gm_del ref images"
      "oldest_loop images '''' 0 = (ref, ci_LastAccessed victim)" .
  from oldest_loop_least [OF v(3) _ assms(3)] v(1,2) show ?thesis by (auto simp: gm_del_filter)
qed

theorem evicts_least_recently_used_witness:
  "\<exists>ref victim. (ref, victim) \<in> set (ic_cachedImages demo_cache) \<and>
    evictOldest (ic_cachedImages demo_cache) = filter (\<lambda>e. fst e \<noteq> ref) (ic_cachedImages demo_cache) \<and>
    (\<forall>e \<in> set (ic_cachedImages demo_cache). ci_LastAccessed victim \<le> ci_LastAccessed (snd e))"
  by (rule evicts_least_recently_used) (simp_all add: demo_cache_def)

lemma put_returns:
  assumes "cache_sane c" and "0 \<le> sizeBytes" and "image_sizes (ic_cachedImages c) + sizeBytes < 2 ^ 63"
  shows "\<exists>c'. Put t imageRef sizeBytes c = Some c'"
  using assms put_entry_bounds [OF assms(1), of "\<lparr>ci_ImageRef = imageRef, ci_SizeBytes = sizeBytes,
    ci_CachedAt = t 0, ci_LastAccessed = t 1, ci_AccessCount = 1, ci_TTL = put_ttl (ic_config c)\<rparr>" imageRef]
  by (auto simp: Put_def cache_sane_def)

text \<open>The empty reference is never deleted, so an eviction loop that chooses it runs forever.\<close>

lemma evict_loop_stuck:
  "evict_loop mx n images = Some r \<Longrightarrow> evictOldest images = images \<Longrightarrow> images \<noteq> [] \<Longrightarrow>
   mx < i64 (calculateTotalSize images + n) \<Longrightarrow> False"
proof (rule evict_loop.raw_induct
    [where P = "\<lambda>mx n images r. \<not> (evictOldest images = images \<and> images \<noteq> [] \<and>
       mx < i64 (calculateTotalSize images + n))", THEN notE, of mx n images r], goal_cases)
  case (1 f mx' n' images' r')
  then show ?case by (metis length_greater_0_conv)
qed auto

text \<open>
  An image may be stored under the empty reference, and such an entry cannot be
  evicted: as soon as a \<open>Put\<close> needs its space, the eviction loop never ends, with the
  mutex of the cache held.
\<close>

theorem empty_reference_hangs_put:
  assumes "tic_Enabled (ic_config c)" and "ic_cachedImages c = [('''', old)]"
    and "max_size_bytes (ic_config c) < i64 (i64 (ci_SizeBytes old) + sizeBytes)"
  shows "Put t imageRef sizeBytes c = None"
proof -
  let ?im = "[('''', old)]"
  have total: "calculateTotalSize ?im = i64 (ci_SizeBytes old)" by (simp add: calculateTotalSize_def)
  have stuck: "evictOldest ?im = ?im" by (simp add: evictOldest_def)
  have "enforceSizeLimits (ic_config c) sizeBytes ?im = None"
    using evict_loop_stuck [OF _ stuck] assms(3) total
    by (cases "evict_loop (max_size_bytes (ic_config c)) sizeBytes ?im") (auto simp: enforceSizeLimits_def)
  then show ?thesis using assms by (simp add: Put_def put_entry_def)
qed

theorem empty_reference_hangs_put_witness:
  "\<exists>c. Put (\<lambda>i. 1) '''' 800000000 (demo_cache\<lparr>ic_cachedImages := []\<rparr>) = Some c \<and>
       Put (\<lambda>i. 2) ''nginx'' 600000000 c = None"
proof -
  let ?old = "\<lparr>ci_ImageRef = '''', ci_SizeBytes = 800000000, ci_CachedAt = 1, ci_LastAccessed = 1,
    ci_AccessCount = 1, ci_TTL = put_ttl (ic_config demo_cache)\<rparr>"
  let ?c = "updateStatus 1 (demo_cache\<lparr>ic_cachedImages := [('''', ?old)]\<rparr>)"
  have "Put (\<lambda>i. 1) '''' 800000000 (demo_cache\<lparr>ic_cachedImages := []\<rparr>) = Some ?c"
    by (simp add: Put_def put_entry_def enforceSizeLimits_def calculateTotalSize_def demo_cache_def
        max_size_bytes_def i64_def i32_def gm_put_def put_ttl_def)
  moreover have "Put (\<lambda>i. 2) ''nginx'' 600000000 ?c = None"
    by (rule empty_reference_hangs_put [where old = ?old])
      (simp_all add: demo_cache_def max_size_bytes_def i64_def)
  ultimately show ?thesis by blast
qed

text \<open>
  \<open>Get\<close> on every branch. It reports a hit exactly when the cache is enabled and holds
  an entry that has not outlived its TTL; a hit changes nothing but that entry's access time
  and count, a miss on an expired entry removes just that entry, and any other miss changes
  nothing.
\<close>

theorem get_behaviour:
  "Get t ref c =
     (if tic_Enabled (ic_config c)
      then case gm_get (ic_cachedImages c) ref of
             None \<Rightarrow> (False, c)
           | Some e \<Rightarrow>
               if t 0 - ci_CachedAt e \<le> ci_TTL e
               then (True, c\<lparr>ic_cachedImages := gm_put ref
                      (e\<lparr>ci_LastAccessed := t 1, ci_AccessCount := i64 (ci_AccessCount e + 1)\<rparr>) (ic_cachedImages c)\<rparr>)
               else (False, c\<lparr>ic_cachedImages := filter (\<lambda>x. fst x \<noteq> ref) (ic_cachedImages c)\<rparr>)
      else (False, c))"
  by (auto simp: Get_def get_read_def get_drop_def get_touch_def expired_def gm_del_filter split: option.split)

text \<open>
  Between the two locked sections of \<open>Get\<close> another goroutine may store the image again.
  \<open>Get\<close> then deletes the fresh entry: after a \<open>Put\<close> that returned, the image is gone.
\<close>

theorem get_race_drops_fresh_image:
  assumes "get_read ref c = Some stale" and "expired now stale"
    and "gm_wf (ic_cachedImages c)" and "tic_Enabled (ic_config c)" and "Put t ref sizeBytes c = Some c'"
  shows "(\<exists>fresh. gm_get (ic_cachedImages c') ref = Some fresh \<and> ci_CachedAt fresh = t 0) \<and>
    gm_get (ic_cachedImages (get_drop ref c')) ref = None"
proof -
  from assms(4,5) obtain images' entry where "put_entry (ic_config c) ref entry (ic_cachedImages c) = Some images'"
    and c': "ic_cachedImages c' = images'" "ci_CachedAt entry = t 0" by (auto simp: Put_def)
  with image_store.put_stores [OF assms(3)] show ?thesis by (auto simp: get_drop_def)
qed

theorem get_race_drops_fresh_image_witness:
  "\<exists>c'. Put (\<lambda>i. 5000000000000) ''nginx'' 600000000 (demo_cache\<lparr>ic_cachedImages := take 1 (ic_cachedImages demo_cache)\<rparr>) = Some c' \<and>
     gm_get (ic_cachedImages c') ''nginx'' \<noteq> None \<and> gm_get (ic_cachedImages (get_drop ''nginx'' c')) ''nginx'' = None"
proof -
  let ?c = "demo_cache\<lparr>ic_cachedImages := take 1 (ic_cachedImages demo_cache)\<rparr>"
  let ?e = "\<lparr>ci_ImageRef = ''nginx'', ci_SizeBytes = 600000000, ci_CachedAt = 1, ci_LastAccessed = 9,
    ci_AccessCount = 3, ci_TTL = Hour\<rparr>"
  have sane: "cache_sane ?c" by (simp add: cache_sane_def demo_cache_def sizes_ok_def)
  have "image_sizes (ic_cachedImages ?c) + 600000000 < 2 ^ 63"
    by (simp add: image_sizes_def demo_cache_def)
  from put_returns [OF sane _ this] obtain c'
    where p: "Put (\<lambda>i. 5000000000000) ''nginx'' 600000000 ?c = Some c'" by auto
  have "get_read ''nginx'' ?c = Some ?e" "expired 5000000000000 ?e"
    "gm_wf (ic_cachedImages ?c)" "tic_Enabled (ic_config ?c)"
    by (simp_all add: get_read_def demo_cache_def expired_def)
  from get_race_drops_fresh_image [OF this p] p show ?thesis by blast
qed

text \<open>
  The hourly cleanup keeps exactly the entries that have not expired, in every cache,
  the status then counts them, and a second run at the same time removes nothing more.
\<close>

theorem cleanup_removes_exactly_expired:
  "(\<forall>e. e \<in> set (ic_cachedImages (cleanupExpired now now' c)) \<longleftrightarrow>
      e \<in> set (ic_cachedImages c) \<and> \<not> expired now (snd e)) \<and>
   ics_CachedImages (ic_status (cleanupExpired now now' c)) = i32 (int (length (ic_cachedImages (cleanupExpired now now' c)))) \<and>
   ic_cachedImages (cleanupExpired now now'' (cleanupExpired now now' c)) = ic_cachedImages (cleanupExpired now now' c)"
  by (auto simp: cleanupExpired_def updateStatus_def Let_def split_def)



end
