(* ===== verification/Metrics.thy ===== *)
theory Metrics
  imports Go_Time
begin

text \<open>
  \<open>internal/metrics/collector.go\<close>: the cache of resource metrics, one Go map under a mutex, and
  the collection of one sample per backend. Floating-point figures are rationals; a clock
  reading is an argument. The cache is an instance of the keyed-store contract.
\<close>

section \<open>Samples\<close>

record cpu_metrics =
  cpu_UsageCores :: rat
  cpu_UsagePercent :: rat
  cpu_RequestCores :: string
  cpu_LimitCores :: string

record memory_metrics =
  mem_UsageBytes :: int
  mem_UsagePercent :: rat
  mem_RequestBytes :: int
  mem_LimitBytes :: int
  mem_CacheBytes :: int

record gpu_metrics =
  gpm_DeviceID :: int
  gpm_DeviceName :: string
  gpm_Utilization :: rat
  gpm_MemoryUsedMB :: int
  gpm_MemoryTotalMB :: int
  gpm_TemperatureC :: rat
  gpm_PowerUsageW :: rat

record network_metrics =
  nm_ReceiveBytesPerSecond :: int
  nm_TransmitBytesPerSecond :: int
  nm_ReceivePacketsPerSec :: int
  nm_TransmitPacketsPerSec :: int
  nm_ErrorsPerSec :: int

record storage_metrics =
  sm_ReadBytesPerSecond :: int
  sm_WriteBytesPerSecond :: int
  sm_ReadOpsPerSecond :: int
  sm_WriteOpsPerSecond :: int
  sm_DiskUsageBytes :: int
  sm_DiskTotalBytes :: int

record resource_metrics =
  rm_WorkloadID :: string
  rm_WorkloadName :: string
  rm_Namespace :: string
  rm_Timestamp :: instant
  rm_CPUUsage :: cpu_metrics
  rm_MemoryUsage :: memory_metrics
  rm_GPUUsage :: "gpu_metrics list"
  rm_NetworkMetrics :: network_metrics
  rm_StorageMetrics :: storage_metrics

definition blank_metrics :: resource_metrics where
  "blank_metrics =
     \<lparr>rm_WorkloadID = '''', rm_WorkloadName = '''', rm_Namespace = '''', rm_Timestamp = 0,
      rm_CPUUsage = \<lparr>cpu_UsageCores = 0, cpu_UsagePercent = 0, cpu_RequestCores = '''', cpu_LimitCores = ''''\<rparr>,
      rm_MemoryUsage = \<lparr>mem_UsageBytes = 0, mem_UsagePercent = 0, mem_RequestBytes = 0, mem_LimitBytes = 0, mem_CacheBytes = 0\<rparr>,
      rm_GPUUsage = [],
      rm_NetworkMetrics = \<lparr>nm_ReceiveBytesPerSecond = 0, nm_TransmitBytesPerSecond = 0, nm_ReceivePacketsPerSec = 0,
        nm_TransmitPacketsPerSec = 0, nm_ErrorsPerSec = 0\<rparr>,
      rm_StorageMetrics = \<lparr>sm_ReadBytesPerSecond = 0, sm_WriteBytesPerSecond = 0, sm_ReadOpsPerSecond = 0,
        sm_WriteOpsPerSecond = 0, sm_DiskUsageBytes = 0, sm_DiskTotalBytes = 0\<rparr>\<rparr>"

abbreviation MiB :: int where "MiB \<equiv> 1024 * 1024"
abbreviation GiB :: int where "GiB \<equiv> 1024 * 1024 * 1024"

definition collectDockerMetrics :: "resource_metrics \<Rightarrow> resource_metrics" where
  "collectDockerMetrics m = m\<lparr>
     rm_CPUUsage := \<lparr>cpu_UsageCores = 1 / 2, cpu_UsagePercent = 25, cpu_RequestCores = ''2'', cpu_LimitCores = ''2''\<rparr>,
     rm_MemoryUsage := \<lparr>mem_UsageBytes = 512 * MiB, mem_UsagePercent = 25, mem_RequestBytes = 2 * GiB,
       mem_LimitBytes = 2 * GiB, mem_CacheBytes = 64 * MiB\<rparr>\<rparr>"

definition collectKubernetesMetrics :: "resource_metrics \<Rightarrow> resource_metrics" where
  "collectKubernetesMetrics m = m\<lparr>
     rm_CPUUsage := \<lparr>cpu_UsageCores = 6 / 5, cpu_UsagePercent = 60, cpu_RequestCores = ''2'', cpu_LimitCores = ''2''\<rparr>,
     rm_MemoryUsage := \<lparr>mem_UsageBytes = GiB, mem_UsagePercent = 50, mem_RequestBytes = 2 * GiB,
       mem_LimitBytes = 2 * GiB, mem_CacheBytes = 128 * MiB\<rparr>,
     rm_GPUUsage := [\<lparr>gpm_DeviceID = 0, gpm_DeviceName = ''NVIDIA A100'', gpm_Utilization = 75, gpm_MemoryUsedMB = 30 * 1024,
       gpm_MemoryTotalMB = 40 * 1024, gpm_TemperatureC = 65, gpm_PowerUsageW = 250\<rparr>],
     rm_NetworkMetrics := \<lparr>nm_ReceiveBytesPerSecond = 10 * MiB, nm_TransmitBytesPerSecond = 5 * MiB,
       nm_ReceivePacketsPerSec = 1000, nm_TransmitPacketsPerSec = 500, nm_ErrorsPerSec = 0\<rparr>,
     rm_StorageMetrics := \<lparr>sm_ReadBytesPerSecond = 50 * MiB, sm_WriteBytesPerSecond = 20 * MiB, sm_ReadOpsPerSecond = 500,
       sm_WriteOpsPerSecond = 200, sm_DiskUsageBytes = 10 * GiB, sm_DiskTotalBytes = 100 * GiB\<rparr>\<rparr>"

section \<open>The collector\<close>

record collector =
  col_metricsCache :: "(string, resource_metrics) gomap"
  col_collectionInterval :: duration
  col_stopped :: bool

definition NewCollector :: "duration \<Rightarrow> collector" where
  "NewCollector interval = \<lparr>col_metricsCache = [], col_collectionInterval = interval, col_stopped = False\<rparr>"

definition GetMetrics :: "collector \<Rightarrow> string \<Rightarrow> resource_metrics result" where
  "GetMetrics c workloadID =
     (case gm_get (col_metricsCache c) workloadID of
        None \<Rightarrow> Inl (Errorf (''metrics not found for workload: '' @ workloadID))
      | Some m \<Rightarrow> Inr m)"

definition ListMetrics :: "collector \<Rightarrow> resource_metrics list" where
  "ListMetrics c = map snd (col_metricsCache c)"

text \<open>\<open>CollectMetrics\<close> has the collector as its receiver; it returns it as it leaves it.\<close>

definition CollectMetrics ::
  "instant \<Rightarrow> string \<Rightarrow> string \<Rightarrow> string \<Rightarrow> string \<Rightarrow> collector \<Rightarrow> resource_metrics \<times> collector" where
  "CollectMetrics now workloadID workloadName namespace backend c =
     (let m = blank_metrics\<lparr>rm_WorkloadID := workloadID, rm_WorkloadName := workloadName, rm_Namespace := namespace,
                            rm_Timestamp := now\<rparr>
      in (if backend = ''docker'' then collectDockerMetrics m
          else if backend = ''kubernetes'' then collectKubernetesMetrics m else m, c))"

definition UpdateMetrics :: "instant \<Rightarrow> string \<Rightarrow> resource_metrics \<Rightarrow> collector \<Rightarrow> collector" where
  "UpdateMetrics now workloadID metrics c =
     c\<lparr>col_metricsCache := gm_put workloadID (metrics\<lparr>rm_Timestamp := now\<rparr>) (col_metricsCache c)\<rparr>"

definition RemoveMetrics :: "string \<Rightarrow> collector \<Rightarrow> collector" where
  "RemoveMetrics workloadID c = c\<lparr>col_metricsCache := gm_del workloadID (col_metricsCache c)\<rparr>"

text \<open>One tick of \<open>Start\<close>: \<open>collectAllMetrics\<close> is a placeholder. \<open>Stop\<close> closes the channel once.\<close>

definition collectAllMetrics :: "collector \<Rightarrow> collector" where
  "collectAllMetrics c = c"

definition collector_Stop :: "collector \<Rightarrow> collector option" where
  "collector_Stop c = (if col_stopped c then None else Some (c\<lparr>col_stopped := True\<rparr>))"

section \<open>The cache as a keyed store\<close>

abbreviation cache_lookup :: "collector \<Rightarrow> string \<Rightarrow> resource_metrics option" where
  "cache_lookup c \<equiv> gm_get (col_metricsCache c)"

abbreviation cache_put :: "string \<Rightarrow> resource_metrics \<Rightarrow> collector \<Rightarrow> collector" where
  "cache_put k m \<equiv> UpdateMetrics (rm_Timestamp m) k m"

interpretation metrics_cache:
  kv_store "NewCollector interval" cache_lookup cache_put RemoveMetrics "\<lambda>c. gm_wf (col_metricsCache c)" for interval
  by unfold_locales (auto simp: NewCollector_def UpdateMetrics_def RemoveMetrics_def)

text \<open>The operations of a client, and what each of them means for the abstract map.\<close>

datatype collector_op =
    OpUpdate instant string resource_metrics
  | OpRemove string
  | OpCollect instant string string string string
  | OpTick

fun collector_exec :: "collector_op \<Rightarrow> collector \<Rightarrow> collector" where
  "collector_exec (OpUpdate now k m) c = UpdateMetrics now k m c"
| "collector_exec (OpRemove k) c = RemoveMetrics k c"
| "collector_exec (OpCollect now k n ns b) c = snd (CollectMetrics now k n ns b c)"
| "collector_exec OpTick c = collectAllMetrics c"

fun op_effect :: "collector_op \<Rightarrow> (string, resource_metrics) kv_op list" where
  "op_effect (OpUpdate now k m) = [KPut k (m\<lparr>rm_Timestamp := now\<rparr>)]"
| "op_effect (OpRemove k) = [KDel k]"
| "op_effect (OpCollect now k n ns b) = []"
| "op_effect OpTick = []"

lemma collector_exec_kv: "collector_exec op c = metrics_cache.kv_run (op_effect op) c"
  by (cases op) (simp_all add: UpdateMetrics_def CollectMetrics_def collectAllMetrics_def Let_def)

lemma collector_run_kv: "fold collector_exec ops c = metrics_cache.kv_run (concat (map op_effect ops)) c"
proof (induction ops arbitrary: c)
  case (Cons op ops)
  have "metrics_cache.kv_run (xs @ ys) c = metrics_cache.kv_run ys (metrics_cache.kv_run xs c)" for xs ys c
    by (induction xs c rule: metrics_cache.kv_run.induct) simp_all
  with Cons show ?case by (simp add: collector_exec_kv)
qed simp

section \<open>Properties\<close>

text \<open>
  C12. The metrics cache implements a map: after any sequence of updates, removals, collections and
  ticks, \<open>GetMetrics\<close> gives the last update of the workload with the time of that update, or an
  error when there is none or it was removed, and \<open>ListMetrics\<close> lists exactly the current
  entries.
\<close>

theorem metrics_cache_refines_map:
  "(let c = fold collector_exec ops (NewCollector interval);
        m = fold kv_abs (concat (map op_effect ops)) Map.empty
    in GetMetrics c k = (case m k of None \<Rightarrow> Inl (Errorf (''metrics not found for workload: '' @ k)) | Some v \<Rightarrow> Inr v) \<and>
       set (ListMetrics c) = ran m)"
proof -
  let ?c = "fold collector_exec ops (NewCollector interval)"
  let ?m = "fold kv_abs (concat (map op_effect ops)) Map.empty"
  have wf: "gm_wf (col_metricsCache (NewCollector interval))" by (simp add: NewCollector_def)
  have e: "cache_lookup (NewCollector interval) = Map.empty" by (simp add: NewCollector_def)
  have m: "cache_lookup ?c = ?m"
    using metrics_cache.kv_run_refines [OF wf, of "concat (map op_effect ops)"] by (simp add: collector_run_kv e)
  have "gm_wf (col_metricsCache ?c)" using metrics_cache.inv_kv_run [OF wf] by (simp add: collector_run_kv)
  then have "set (ListMetrics ?c) = ran ?m" unfolding m [symmetric] by (simp add: ListMetrics_def ran_distinct)
  then show ?thesis by (simp add: Let_def GetMetrics_def m)
qed

text \<open>
  Collecting does not feed the cache: as long as nobody calls \<open>UpdateMetrics\<close>, \<open>GetMetrics\<close> fails
  for every workload, however often \<open>CollectMetrics\<close> or the ticker ran.
\<close>

theorem collected_metrics_are_not_stored:
  assumes "\<forall>op \<in> set ops. \<not> (\<exists>now j m. op = OpUpdate now j m)"
  shows "\<not> is_ok (GetMetrics (fold collector_exec ops (NewCollector interval)) k)"
proof -
  have "col_metricsCache (fold collector_exec ops c) = []" if "col_metricsCache c = []" for c
    using assms that
  proof (induction ops arbitrary: c)
    case (Cons op ops)
    then have "col_metricsCache (collector_exec op c) = []"
      by (cases op) (auto simp: RemoveMetrics_def CollectMetrics_def collectAllMetrics_def gm_del_def Let_def)
    with Cons show ?case by simp
  qed simp
  then show ?thesis by (simp add: GetMetrics_def NewCollector_def)
qed

lemma collected_metrics_are_not_stored_witness:
  "\<not> is_ok (GetMetrics (fold collector_exec [OpCollect 7 ''web'' ''web'' ''default'' ''docker'', OpTick] (NewCollector Second)) ''web'')"
  by (rule collected_metrics_are_not_stored) simp

end
