(* ===== verification/Edge_Agent.thy ===== *)
theory Edge_Agent
  imports Workload_Types
begin

text \<open>
  \<open>internal/edge/agent.go\<close>: the agent of an edge node, with its status, its phases and its
  counter of running workloads. The runtime driver is the parameter \<open>driver\<close> (any
  \<open>runtime_driver\<close>), \<open>grpc.Dial\<close> the parameter \<open>dial\<close>; both registration and heartbeat only
  log in the code. The mutex makes every critical section one step; a panic is \<open>None\<close>.
\<close>

section \<open>State\<close>

record edge_node_spec =
  ens_NodeID :: string
  ens_NodeName :: string
  ens_IPAddress :: string
  ens_Port :: int
  ens_Labels :: "(string, string) gomap"
  ens_Capabilities :: "string list"
  ens_Resources :: "resource_spec option"
  ens_AuthToken :: string
  ens_HeartbeatInterval :: string

record edge_node_status =
  est_NodeID :: string
  est_Phase :: string
  est_Message :: string
  est_LastHeartbeat :: instant
  est_RunningWorkloads :: int
  est_TotalCPU :: string
  est_AvailableCPU :: string
  est_TotalMemory :: string
  est_AvailableMemory :: string
  est_TotalGPU :: int
  est_AvailableGPU :: int

definition PhaseConnecting :: string where "PhaseConnecting = ''Connecting''"
definition PhaseConnected :: string where "PhaseConnected = ''Connected''"
definition PhaseDisconnected :: string where "PhaseDisconnected = ''Disconnected''"
definition PhaseError :: string where "PhaseError = ''Error''"

text \<open>\<open>ea_loops\<close> counts the heartbeat goroutines that \<open>Start\<close> has launched.\<close>

record edge_agent =
  ea_spec :: edge_node_spec
  ea_status :: edge_node_status
  ea_grpcConn :: bool
  ea_stopped :: bool
  ea_loops :: nat

record register_node_request =
  rn_NodeID :: string
  rn_NodeName :: string
  rn_IPAddress :: string
  rn_Port :: int
  rn_Labels :: "(string, string) gomap"
  rn_Capabilities :: "string list"
  rn_Resources :: "resource_spec option"
  rn_AuthToken :: string

record heartbeat_request =
  hb_NodeID :: string
  hb_Timestamp :: int
  hb_AvailableGPU :: int
  hb_TotalGPU :: int
  hb_AvailableMemory :: string
  hb_TotalMemory :: string
  hb_AvailableCPU :: string
  hb_TotalCPU :: string
  hb_RunningWorkloads :: int

section \<open>Operations\<close>

definition NewEdgeAgent :: "edge_node_spec \<Rightarrow> instant \<Rightarrow> edge_agent" where
  "NewEdgeAgent spec now =
     \<lparr>ea_spec = spec,
      ea_status = \<lparr>est_NodeID = ens_NodeID spec, est_Phase = PhaseConnecting, est_Message = '''', est_LastHeartbeat = now,
        est_RunningWorkloads = 0, est_TotalCPU = '''', est_AvailableCPU = '''', est_TotalMemory = '''',
        est_AvailableMemory = '''', est_TotalGPU = 0, est_AvailableGPU = 0\<rparr>,
      ea_grpcConn = False, ea_stopped = False, ea_loops = 0\<rparr>"

definition updateStatus :: "string \<Rightarrow> string \<Rightarrow> edge_agent \<Rightarrow> edge_agent" where
  "updateStatus phase message a = a\<lparr>ea_status := (ea_status a)\<lparr>est_Phase := phase, est_Message := message\<rparr>\<rparr>"

text \<open>The request is built and then only logged; no call is made, so none fails.\<close>

definition registerNode :: "edge_agent \<Rightarrow> register_node_request \<times> go_error option" where
  "registerNode a =
     (let s = ea_spec a in
      (\<lparr>rn_NodeID = ens_NodeID s, rn_NodeName = ens_NodeName s, rn_IPAddress = ens_IPAddress s, rn_Port = ens_Port s,
        rn_Labels = ens_Labels s, rn_Capabilities = ens_Capabilities s, rn_Resources = ens_Resources s,
        rn_AuthToken = ens_AuthToken s\<rparr>, None))"

text \<open>The interval of the ticker; \<open>time.NewTicker\<close> panics when it is not positive.\<close>

definition heartbeat_interval :: "edge_node_spec \<Rightarrow> duration" where
  "heartbeat_interval spec = (case ParseDuration (ens_HeartbeatInterval spec) of None \<Rightarrow> 30 * Second | Some d \<Rightarrow> d)"

definition heartbeatLoop :: "edge_agent \<Rightarrow> edge_agent option" where
  "heartbeatLoop a = (if heartbeat_interval (ea_spec a) \<le> 0 then None else Some (a\<lparr>ea_loops := Suc (ea_loops a)\<rparr>))"

definition edge_Start :: "(string \<Rightarrow> go_error option) \<Rightarrow> string \<Rightarrow> edge_agent \<Rightarrow> (go_error option \<times> edge_agent) option" where
  "edge_Start dial controlPlaneURL a =
     (let a1 = a\<lparr>ea_status := (ea_status a)\<lparr>est_Phase := PhaseConnecting\<rparr>\<rparr> in
      case dial controlPlaneURL of
        Some e \<Rightarrow> Some (Some (Wrapf ''failed to connect to control plane: '' e ''''),
                       updateStatus PhaseError (''failed to connect to control plane: '' @ error_string e) a1)
      | None \<Rightarrow>
          (let a2 = a1\<lparr>ea_grpcConn := True\<rparr> in
           case snd (registerNode a2) of
             Some e \<Rightarrow> Some (Some (Wrapf ''node registration failed: '' e ''''),
                            updateStatus PhaseError (''registration failed: '' @ error_string e) a2)
           | None \<Rightarrow>
               map_option (\<lambda>a3. (None, a3))
                 (heartbeatLoop (updateStatus PhaseConnected ''Successfully connected to control plane'' a2))))"

definition edge_Stop :: "edge_agent \<Rightarrow> edge_agent option" where
  "edge_Stop a = (if ea_stopped a then None else Some (a\<lparr>ea_stopped := True, ea_grpcConn := False\<rparr>))"

text \<open>The clock is read for the request (in whole seconds) and again for the status.\<close>

definition sendHeartbeat :: "instant \<Rightarrow> instant \<Rightarrow> edge_agent \<Rightarrow> heartbeat_request \<times> edge_agent" where
  "sendHeartbeat sent now a =
     (let s = ea_status a in
      (\<lparr>hb_NodeID = ens_NodeID (ea_spec a), hb_Timestamp = UnixNano sent div Second, hb_AvailableGPU = est_AvailableGPU s, hb_TotalGPU = est_TotalGPU s,
        hb_AvailableMemory = est_AvailableMemory s, hb_TotalMemory = est_TotalMemory s, hb_AvailableCPU = est_AvailableCPU s,
        hb_TotalCPU = est_TotalCPU s, hb_RunningWorkloads = est_RunningWorkloads s\<rparr>,
       a\<lparr>ea_status := s\<lparr>est_LastHeartbeat := now\<rparr>\<rparr>))"

definition set_running :: "int \<Rightarrow> edge_agent \<Rightarrow> edge_agent" where
  "set_running n a = a\<lparr>ea_status := (ea_status a)\<lparr>est_RunningWorkloads := n\<rparr>\<rparr>"

abbreviation running :: "edge_agent \<Rightarrow> int" where
  "running a \<equiv> est_RunningWorkloads (ea_status a)"

definition DeployWorkload ::
  "'w runtime_driver \<Rightarrow> workload_spec \<Rightarrow> edge_agent \<Rightarrow> 'w \<Rightarrow> go_error option \<times> edge_agent \<times> 'w" where
  "DeployWorkload driver spec a w =
     (case drv_Deploy driver spec w of
        (Inl e, s, w1) \<Rightarrow> (Some (Wrapf ''failed to deploy workload on edge node: '' e ''''), a, w1)
      | (Inr st, s, w1) \<Rightarrow> (None, set_running (i32 (running a + 1)) a, w1))"

definition DestroyWorkload ::
  "'w runtime_driver \<Rightarrow> string \<Rightarrow> edge_agent \<Rightarrow> 'w \<Rightarrow> go_error option \<times> edge_agent \<times> 'w" where
  "DestroyWorkload driver workloadID a w =
     (case drv_Destroy driver workloadID w of
        (Some e, w1) \<Rightarrow> (Some (Wrapf ''failed to destroy workload on edge node: '' e ''''), a, w1)
      | (None, w1) \<Rightarrow> (None, if 0 < running a then set_running (running a - 1) a else a, w1))"

definition DiscoverLocalResources :: "edge_agent \<Rightarrow> edge_agent" where
  "DiscoverLocalResources a =
     (let s = (ea_status a)\<lparr>est_TotalCPU := ''4'', est_AvailableCPU := ''4'', est_TotalMemory := ''16Gi'', est_AvailableMemory := ''16Gi''\<rparr>
      in a\<lparr>ea_status :=
           (case ens_Resources (ea_spec a) of
              None \<Rightarrow> s
            | Some r \<Rightarrow> (case rs_GPU r of
                None \<Rightarrow> s
              | Some g \<Rightarrow> s\<lparr>est_TotalGPU := gpu_Count g, est_AvailableGPU := gpu_Count g\<rparr>))\<rparr>)"

text \<open>
  \<open>GetStatus\<close> returns the pointer to the agent's own status, so that a caller reads whatever
  the status is when it reads, not a copy.
\<close>

definition edge_GetStatus :: "edge_agent \<Rightarrow> edge_node_status" where
  "edge_GetStatus a = ea_status a"

section \<open>The agent as a state machine\<close>

datatype edge_event =
    EvStart string | EvStop | EvTick instant instant | EvDeploy workload_spec | EvDestroy string | EvDiscover

text \<open>
  One event; \<open>None\<close> is a panic. A tick has an effect while a heartbeat goroutine runs, until
  the stop channel is closed.
\<close>

fun edge_exec ::
  "'w runtime_driver \<Rightarrow> (string \<Rightarrow> go_error option) \<Rightarrow> edge_event \<Rightarrow> edge_agent \<times> 'w \<Rightarrow> (edge_agent \<times> 'w) option" where
  "edge_exec driver dial (EvStart url) (a, w) = map_option (\<lambda>(e, a'). (a', w)) (edge_Start dial url a)"
| "edge_exec driver dial EvStop (a, w) = map_option (\<lambda>a'. (a', w)) (edge_Stop a)"
| "edge_exec driver dial (EvTick sent now) (a, w) =
     (if 0 < ea_loops a \<and> \<not> ea_stopped a then Some (snd (sendHeartbeat sent now a), w) else Some (a, w))"
| "edge_exec driver dial (EvDeploy spec) (a, w) = Some (snd (DeployWorkload driver spec a w))"
| "edge_exec driver dial (EvDestroy x) (a, w) = Some (snd (DestroyWorkload driver x a w))"
| "edge_exec driver dial EvDiscover (a, w) = Some (DiscoverLocalResources a, w)"

inductive edge_reach ::
  "'w runtime_driver \<Rightarrow> (string \<Rightarrow> go_error option) \<Rightarrow> edge_agent \<times> 'w \<Rightarrow> edge_agent \<times> 'w \<Rightarrow> bool"
  for driver dial s0 where
  edge_init: "edge_reach driver dial s0 s0"
| edge_next: "edge_reach driver dial s0 s \<Longrightarrow> edge_exec driver dial ev s = Some s' \<Longrightarrow> edge_reach driver dial s0 s'"

text \<open>
  A driver that keeps a set of running workloads: a successful \<open>Deploy\<close> adds the name, a
  successful \<open>Destroy\<close> removes one that was there, a failing call changes nothing.
\<close>

definition running_view :: "('w \<Rightarrow> string set) \<Rightarrow> 'w runtime_driver \<Rightarrow> bool" where
  "running_view run d \<longleftrightarrow>
     (\<forall>w. finite (run w)) \<and>
     (\<forall>s w. run (snd (snd (drv_Deploy d s w))) =
        (if is_ok (fst (drv_Deploy d s w)) then insert (ws_Name s) (run w) else run w)) \<and>
     (\<forall>x w. run (snd (drv_Destroy d x w)) = (if fst (drv_Destroy d x w) = None then run w - {x} else run w)) \<and>
     (\<forall>x w. fst (drv_Destroy d x w) = None \<longrightarrow> x \<in> run w)"

text \<open>The events of a control plane that deploys every name once.\<close>

fun edge_run ::
  "('w \<Rightarrow> string set) \<Rightarrow> 'w runtime_driver \<Rightarrow> (string \<Rightarrow> go_error option) \<Rightarrow> edge_event list \<Rightarrow> edge_agent \<times> 'w \<Rightarrow>
   (edge_agent \<times> 'w) option" where
  "edge_run run driver dial [] s = Some s"
| "edge_run run driver dial (ev # evs) s =
     (if (case ev of EvDeploy spec \<Rightarrow> ws_Name spec \<in> run (snd s) | _ \<Rightarrow> False) then None
      else Option.bind (edge_exec driver dial ev s) (edge_run run driver dial evs))"

section \<open>Lemmas\<close>

fun_cases edge_exec_StartE: "edge_exec driver dial (EvStart url) s = Some s'"
fun_cases edge_exec_TickE: "edge_exec driver dial (EvTick sent now) s = Some s'"
inductive_cases edge_reachE: "edge_reach driver dial s0 s"

lemma running_simps [simp]:
  "running (set_running n a) = n" "running (updateStatus p m a) = running a"
  "running (NewEdgeAgent spec now) = 0" "running (snd (sendHeartbeat sent now a)) = running a"
  "running (DiscoverLocalResources a) = running a"
  by (auto simp: set_running_def updateStatus_def NewEdgeAgent_def sendHeartbeat_def DiscoverLocalResources_def Let_def
      split: option.split)

lemma phase_simps [simp]:
  "est_Phase (ea_status (set_running n a)) = est_Phase (ea_status a)"
  "est_Phase (ea_status (updateStatus p m a)) = p"
  "est_Phase (ea_status (NewEdgeAgent spec now)) = PhaseConnecting"
  "est_Phase (ea_status (snd (sendHeartbeat sent now a))) = est_Phase (ea_status a)"
  "est_Phase (ea_status (DiscoverLocalResources a)) = est_Phase (ea_status a)"
  by (auto simp: set_running_def updateStatus_def NewEdgeAgent_def sendHeartbeat_def DiscoverLocalResources_def Let_def
      split: option.split)

lemma edge_Start_result:
  "edge_Start dial url a = Some (e, a') \<Longrightarrow> running a' = running a \<and>
    est_Phase (ea_status a') = (if e = None then PhaseConnected else PhaseError)"
  by (auto simp: edge_Start_def registerNode_def heartbeatLoop_def updateStatus_def Let_def split: option.splits if_splits)

lemma phases_differ [simp]:
  "PhaseConnecting \<noteq> PhaseDisconnected" "PhaseConnected \<noteq> PhaseDisconnected" "PhaseError \<noteq> PhaseDisconnected"
  "PhaseConnected \<noteq> PhaseError" "PhaseConnecting \<noteq> PhaseError"
  by (simp_all add: PhaseConnecting_def PhaseConnected_def PhaseDisconnected_def PhaseError_def)

definition edge_ok :: "edge_agent \<Rightarrow> bool" where
  "edge_ok a \<longleftrightarrow> est_Phase (ea_status a) \<in> {PhaseConnecting, PhaseConnected, PhaseError} \<and>
     - (2 ^ 31) \<le> running a \<and> running a < 2 ^ 31"

lemma edge_ok_step: "edge_ok a \<Longrightarrow> edge_exec driver dial ev (a, w) = Some (a', w') \<Longrightarrow> edge_ok a'"
proof (cases ev)
  case (EvStart url)
  then show "edge_ok a \<Longrightarrow> edge_exec driver dial ev (a, w) = Some (a', w') \<Longrightarrow> ?thesis"
    by (auto simp: edge_ok_def dest: edge_Start_result split: if_splits)
qed (use i32_bounds [of "running a + 1"] in \<open>auto simp: edge_ok_def DeployWorkload_def DestroyWorkload_def edge_Stop_def
    split: prod.splits sum.splits option.splits if_splits\<close>)

lemma edge_ok_reach: "edge_reach driver dial s0 s \<Longrightarrow> edge_ok (fst s0) \<Longrightarrow> edge_ok (fst s)"
proof (induction rule: edge_reach.induct)
  case (edge_next s ev s')
  then show ?case using edge_ok_step [of "fst s" driver dial ev "snd s" "fst s'" "snd s'"] by simp
qed

lemma running_exec:
  assumes "running_view run driver" and "edge_exec driver dial ev (a, w) = Some (a', w')"
    and "running a = int (card (run w))" and "\<And>spec. ev = EvDeploy spec \<Longrightarrow> ws_Name spec \<notin> run w"
    and "card (run w) < 2 ^ 31 - 1"
  shows "running a' = int (card (run w'))"
proof (cases ev)
  case (EvStart url)
  with assms(2,3) show ?thesis by (auto dest: edge_Start_result)
next
  case (EvDeploy spec)
  obtain r s w1 where d: "drv_Deploy driver spec w = (r, s, w1)" by (metis surj_pair)
  have w1: "run w1 = (if is_ok r then insert (ws_Name spec) (run w) else run w)"
    using assms(1) d unfolding running_view_def by (metis fst_conv snd_conv)
  have f: "finite (run w)" using assms(1) by (simp add: running_view_def)
  have i: "i32 (int (card (run w)) + 1) = int (card (run w)) + 1" using assms(5) by (intro i32_id) simp_all
  have n: "ws_Name spec \<notin> run w" by (rule assms(4)) (rule EvDeploy)
  show ?thesis
  proof (cases r)
    case (Inl e)
    with w1 EvDeploy assms(2,3) d show ?thesis by (simp add: DeployWorkload_def)
  next
    case (Inr st)
    with EvDeploy assms(2) d have "a' = set_running (i32 (running a + 1)) a" "w' = w1"
      by (simp_all add: DeployWorkload_def)
    with w1 Inr i assms(3) f n show ?thesis by simp
  qed
next
  case (EvDestroy x)
  obtain e w1 where d: "drv_Destroy driver x w = (e, w1)" by (metis surj_pair)
  have w1: "run w1 = (if e = None then run w - {x} else run w)" "e = None \<Longrightarrow> x \<in> run w"
    using assms(1) d unfolding running_view_def by (metis fst_conv snd_conv)+
  have f: "finite (run w)" using assms(1) by (simp add: running_view_def)
  show ?thesis
  proof (cases e)
    case None
    then have c: "card (run w) = Suc (card (run w1))" using w1 f by (metis card.remove)
    then have "0 < running a" using assms(3) by simp
    with None EvDestroy assms(2) d have "a' = set_running (running a - 1) a" "w' = w1"
      by (simp_all add: DestroyWorkload_def)
    with c assms(3) show ?thesis by simp
  next
    case (Some err)
    with w1 EvDestroy assms(2,3) d show ?thesis by (simp add: DestroyWorkload_def)
  qed
qed (use assms(2,3) in \<open>auto simp: edge_Stop_def split: if_splits\<close>)

section \<open>Properties\<close>



text \<open>The smallest edge node, over the list driver of running workloads.\<close>

definition demo_node :: "string \<Rightarrow> edge_node_spec" where
  "demo_node interval =
     \<lparr>ens_NodeID = ''n1'', ens_NodeName = ''edge'', ens_IPAddress = ''10.0.0.1'', ens_Port = 7000, ens_Labels = [],
      ens_Capabilities = [], ens_Resources = None, ens_AuthToken = '''', ens_HeartbeatInterval = interval\<rparr>"

definition demo_edge_spec :: workload_spec where
  "demo_edge_spec = zero_spec\<lparr>ws_Name := ''web''\<rparr>"

lemma list_driver_running: "running_view set (list_driver name)"
  by (auto simp: running_view_def list_driver_def is_ok_def)


lemma card_exec:
  assumes "running_view run driver" and "edge_exec driver dial ev (a, w) = Some (a', w')"
  shows "card (run w') \<le> Suc (card (run w))"
proof (cases ev)
  case (EvDeploy spec)
  obtain r s w1 where d: "drv_Deploy driver spec w = (r, s, w1)" by (metis surj_pair)
  have "run w1 = (if is_ok r then insert (ws_Name spec) (run w) else run w)"
    using assms(1) d unfolding running_view_def by (metis fst_conv snd_conv)
  moreover have "w' = w1" using EvDeploy assms(2) d by (cases r) (simp_all add: DeployWorkload_def)
  ultimately show ?thesis by (cases "finite (run w)") (simp_all add: card_insert_if)
next
  case (EvDestroy x)
  obtain e w1 where d: "drv_Destroy driver x w = (e, w1)" by (metis surj_pair)
  have "run w1 = (if e = None then run w - {x} else run w)"
    using assms(1) d unfolding running_view_def by (metis fst_conv snd_conv)
  moreover have "w' = w1" using EvDestroy assms(2) d by (cases e) (simp_all add: DestroyWorkload_def)
  moreover have "card (run w - {x}) \<le> Suc (card (run w))" using card_Diff1_le [of "run w" x] by simp
  ultimately show ?thesis by simp
qed (use assms(2) in \<open>auto split: if_splits\<close>)

lemma edge_run_counts:
  "running_view run driver \<Longrightarrow> edge_run run driver dial evs (a, w) = Some (a', w') \<Longrightarrow>
   running a = int (card (run w)) \<Longrightarrow> card (run w) + length evs < 2 ^ 31 \<Longrightarrow> running a' = int (card (run w'))"
proof (induction evs arbitrary: a w)
  case (Cons ev evs)
  from Cons.prems(2) obtain a1 w1 where e: "edge_exec driver dial ev (a, w) = Some (a1, w1)"
    and r: "edge_run run driver dial evs (a1, w1) = Some (a', w')"
    by (auto simp: bind_eq_Some_conv split: if_splits)
  have fresh: "ws_Name spec \<notin> run w" if "ev = EvDeploy spec" for spec
    using Cons.prems(2) that by (auto split: if_splits)
  have "running a1 = int (card (run w1))"
    using running_exec [OF Cons.prems(1) e Cons.prems(3) fresh] Cons.prems(4) by simp
  moreover have "card (run w1) + length evs < 2 ^ 31"
    using card_exec [OF Cons.prems(1) e] Cons.prems(4) by simp
  ultimately show ?case using Cons.IH [OF Cons.prems(1) r] by simp
qed simp



text \<open>
  Deploying a workload again counts it again: over the same kind of driver, two successful
  deployments of one spec raise the counter by two while one workload runs, and the destroy
  that removes it leaves the counter one too high.
\<close>

theorem edge_redeploy_drifts:
  assumes "running_view run driver" and "running a < 2 ^ 31 - 2" and "0 \<le> running a"
    and "DeployWorkload driver spec a w = (None, a1, w1)" and "DeployWorkload driver spec a1 w1 = (None, a2, w2)"
    and "DestroyWorkload driver (ws_Name spec) a2 w2 = (None, a3, w3)" and "ws_Name spec \<notin> run w"
  shows "running a3 = running a + 1 \<and> run w3 = run w"
proof -
  obtain st s where d1: "drv_Deploy driver spec w = (Inr st, s, w1)" and a1: "a1 = set_running (i32 (running a + 1)) a"
    using assms(4) by (auto simp: DeployWorkload_def split: prod.splits sum.splits)
  obtain st' s' where d2: "drv_Deploy driver spec w1 = (Inr st', s', w2)" and a2: "a2 = set_running (i32 (running a1 + 1)) a1"
    using assms(5) by (auto simp: DeployWorkload_def split: prod.splits sum.splits)
  have "i32 (running a + 1) = running a + 1" "i32 (2 + running a) = running a + 2"
    using assms(2,3) i32_id [of "running a + 1"] i32_id [of "2 + running a"] by simp_all
  then have r2: "running a2 = running a + 2" using a1 a2 by simp
  have d3: "drv_Destroy driver (ws_Name spec) w2 = (None, w3)" and a3: "a3 = (if 0 < running a2 then set_running (running a2 - 1) a2 else a2)"
    using assms(6) by (auto simp: DestroyWorkload_def split: prod.splits option.splits)
  have "run w1 = insert (ws_Name spec) (run w)" "run w2 = insert (ws_Name spec) (run w1)"
    using assms(1) d1 d2 unfolding running_view_def by (metis fst_conv snd_conv is_ok_simps(1))+
  moreover have "run w3 = run w2 - {ws_Name spec}"
    using assms(1) d3 unfolding running_view_def by (metis fst_conv snd_conv)
  ultimately show ?thesis using r2 a3 assms(3,7) by simp
qed

lemma edge_redeploy_drifts_witness:
  "\<exists>a3. running a3 = 1 \<and>
    DestroyWorkload (list_driver ''list'') ''web'' (set_running 2 (NewEdgeAgent (demo_node ''30s'') 5)) [''web'', ''web''] = (None, a3, [])"
proof -
  let ?a = "NewEdgeAgent (demo_node ''30s'') 5"
  let ?d = "list_driver ''list''"
  have i: "i32 1 = 1" "i32 2 = 2" by (simp_all add: i32_def)
  have "DeployWorkload ?d demo_edge_spec ?a [] = (None, set_running 1 ?a, [''web''])"
    "DeployWorkload ?d demo_edge_spec (set_running 1 ?a) [''web''] = (None, set_running 2 ?a, [''web'', ''web''])"
    by (simp_all add: DeployWorkload_def list_driver_def demo_edge_spec_def zero_spec_def i) (simp_all add: set_running_def)
  moreover obtain a3 where d: "DestroyWorkload ?d ''web'' (set_running 2 ?a) [''web'', ''web''] = (None, a3, [])"
    by (simp add: DestroyWorkload_def list_driver_def)
  ultimately have "running a3 = running ?a + 1 \<and> set [] = set ([] :: string list)"
    by (intro edge_redeploy_drifts [OF list_driver_running, where spec = demo_edge_spec])
      (simp_all add: demo_edge_spec_def zero_spec_def)
  with d show ?thesis by (intro exI [of _ a3]) simp
qed

text \<open>
  A start crashes the process exactly when the control plane accepts the connection and the
  configured heartbeat interval parses to zero or less (\<open>0\<close>, \<open>-1s\<close>); an interval that does not
  parse falls back to 30 seconds.
\<close>

theorem edge_start_panics_iff:
  "edge_Start dial url a = None \<longleftrightarrow>
     dial url = None \<and> (case ParseDuration (ens_HeartbeatInterval (ea_spec a)) of Some d \<Rightarrow> d \<le> 0 | None \<Rightarrow> False)"
  by (auto simp: edge_Start_def registerNode_def heartbeatLoop_def heartbeat_interval_def updateStatus_def Let_def
      split: option.splits)

end
