(* ===== verification/Background_Loops.thy ===== *)
theory Background_Loops
  imports Ephemeral Image_Cache Metrics Edge_Agent
begin

text \<open>
  The background goroutines of the runtime: \<open>cleanupRoutine\<close> of the image cache, \<open>Start\<close> of the
  ephemeral manager and of the metrics collector, \<open>heartbeatLoop\<close> of the edge agent. All of them
  are one loop, a \<open>select\<close> over a ticker, (except for the cache) the context and a stop channel. The
  loop, what stops it and what it shares with the callers of the component is one contract,
  \<open>background\<close>, interpreted for the four components.
\<close>

section \<open>The loop\<close>

text \<open>
  A stop channel is nil when it was never made, and closing a nil or a closed channel panics. A
  receive from a nil channel blocks forever, one from a closed channel never does.
\<close>

datatype stop_chan = NilChan | OpenChan | ClosedChan

definition close_chan :: "stop_chan \<Rightarrow> stop_chan option" where
  "close_chan ch = (case ch of OpenChan \<Rightarrow> Some ClosedChan | _ \<Rightarrow> None)"

text \<open>
  \<open>lp_state\<close> is the state of the component, \<open>lp_tick\<close> whether a tick waits in the ticker's
  channel (which holds one), \<open>lp_on\<close> whether the goroutine runs.
\<close>

record 's loop =
  lp_state :: 's
  lp_stop :: stop_chan
  lp_done :: bool
  lp_tick :: bool
  lp_on :: bool

text \<open>
  One round of the goroutine: \<open>select\<close> takes any case that is ready. \<open>handle\<close> is what the
  component does at a tick, \<open>watches\<close> whether the loop also looks at the context.
\<close>

inductive loop_step :: "('s \<Rightarrow> 's \<Rightarrow> bool) \<Rightarrow> bool \<Rightarrow> 's loop \<Rightarrow> 's loop \<Rightarrow> bool"
  for handle :: "'s \<Rightarrow> 's \<Rightarrow> bool" and watches :: bool where
  take_tick: "lp_on l \<Longrightarrow> lp_tick l \<Longrightarrow> handle (lp_state l) s' \<Longrightarrow>
     loop_step handle watches l (l\<lparr>lp_state := s', lp_tick := False\<rparr>)"
| take_done: "lp_on l \<Longrightarrow> watches \<Longrightarrow> lp_done l \<Longrightarrow> loop_step handle watches l (l\<lparr>lp_on := False\<rparr>)"
| take_stop: "lp_on l \<Longrightarrow> lp_stop l = ClosedChan \<Longrightarrow> loop_step handle watches l (l\<lparr>lp_on := False\<rparr>)"

text \<open>The surroundings: the ticker fires, the context ends, the component is stopped or called.\<close>

inductive loop_env :: "('s \<Rightarrow> 's \<Rightarrow> bool) \<Rightarrow> 's loop \<Rightarrow> 's loop \<Rightarrow> bool"
  for call :: "'s \<Rightarrow> 's \<Rightarrow> bool" where
  fire: "lp_on l \<Longrightarrow> loop_env call l (l\<lparr>lp_tick := True\<rparr>)"
| cancel_ctx: "loop_env call l (l\<lparr>lp_done := True\<rparr>)"
| call_stop: "close_chan (lp_stop l) = Some ch \<Longrightarrow> loop_env call l (l\<lparr>lp_stop := ch\<rparr>)"
| call_op: "call (lp_state l) s' \<Longrightarrow> loop_env call l (l\<lparr>lp_state := s'\<rparr>)"

inductive loop_reach ::
  "('s \<Rightarrow> 's \<Rightarrow> bool) \<Rightarrow> bool \<Rightarrow> ('s \<Rightarrow> 's \<Rightarrow> bool) \<Rightarrow> 's loop \<Rightarrow> 's loop \<Rightarrow> bool"
  for handle watches call l0 where
  reach_here: "loop_reach handle watches call l0 l0"
| reach_loop: "loop_reach handle watches call l0 l \<Longrightarrow> loop_step handle watches l l' \<Longrightarrow> loop_reach handle watches call l0 l'"
| reach_env: "loop_reach handle watches call l0 l \<Longrightarrow> loop_env call l l' \<Longrightarrow> loop_reach handle watches call l0 l'"

inductive_cases loop_stepE: "loop_step handle watches l l'"
inductive_cases loop_envE: "loop_env call l l'"

section \<open>The contract\<close>

locale background =
  fixes handle :: "'s \<Rightarrow> 's \<Rightarrow> bool" and call :: "'s \<Rightarrow> 's \<Rightarrow> bool" and inv :: "'s \<Rightarrow> bool"
  assumes handle_inv: "inv s \<Longrightarrow> handle s s' \<Longrightarrow> inv s'"
    and call_inv: "inv s \<Longrightarrow> call s s' \<Longrightarrow> inv s'"
    and handle_total: "\<exists>s'. handle s s'"
begin

text \<open>What ticks and calls keep holds in every state of the component, however they interleave.\<close>

lemma reach_inv: "loop_reach handle watches call l0 l \<Longrightarrow> inv (lp_state l0) \<Longrightarrow> inv (lp_state (l :: 's loop))"
proof (induction rule: loop_reach.induct)
  case (reach_loop l l')
  then show ?case by (auto elim!: loop_stepE intro: handle_inv)
next
  case (reach_env l l')
  then show ?case by (auto elim!: loop_envE intro: call_inv)
qed

definition rounds_left :: "'s loop \<Rightarrow> nat" where
  "rounds_left l = of_bool (lp_on l) + of_bool (lp_on l \<and> lp_tick l)"

text \<open>A loop that is asked to end does so after at most the one tick that may be waiting.\<close>

lemma ends:
  assumes "lp_stop l = ClosedChan \<or> (watches \<and> lp_done l)"
  shows "inevitable (loop_step handle watches) (\<lambda>l. \<not> lp_on l) (l :: 's loop)"
proof (rule inevitable_measure [where m = rounds_left and I = "\<lambda>l :: 's loop. lp_stop l = ClosedChan \<or> (watches \<and> lp_done l)"])
  show "lp_stop l = ClosedChan \<or> (watches \<and> lp_done l)" by (rule assms)
next
  fix l l' :: "'s loop" assume "lp_stop l = ClosedChan \<or> (watches \<and> lp_done l)" "loop_step handle watches l l'"
  then show "lp_stop l' = ClosedChan \<or> (watches \<and> lp_done l')" by (auto elim: loop_stepE)
next
  fix l :: "'s loop" assume "lp_stop l = ClosedChan \<or> (watches \<and> lp_done l)" "\<not> \<not> lp_on l"
  then show "\<exists>l'. loop_step handle watches l l'" by (auto intro: take_stop take_done)
next
  fix l l' :: "'s loop" assume "loop_step handle watches l l'"
  then show "rounds_left l' < rounds_left l" by (auto elim!: loop_stepE simp: rounds_left_def)
qed

end

section \<open>The image cache\<close>

text \<open>\<open>NewImageCache\<close> makes the stop channel and starts the goroutine only for an enabled cache.\<close>

definition image_cache_start :: "go_error option \<Rightarrow> types_image_cache_config \<Rightarrow> image_cache loop result" where
  "image_cache_start mkdirAll config =
     (case NewImageCache mkdirAll config of
        Inl e \<Rightarrow> Inl e
      | Inr c \<Rightarrow>
          Inr \<lparr>lp_state = c, lp_stop = (if tic_Enabled config then OpenChan else NilChan), lp_done = False,
             lp_tick = False, lp_on = tic_Enabled config\<rparr>)"

definition image_cache_Stop :: "image_cache loop \<Rightarrow> image_cache loop option" where
  "image_cache_Stop l = map_option (\<lambda>ch. l\<lparr>lp_stop := ch\<rparr>) (close_chan (lp_stop l))"

inductive cleanup_tick :: "image_cache \<Rightarrow> image_cache \<Rightarrow> bool" where
  "cleanup_tick c (cleanupExpired now now' c)"

inductive image_cache_call :: "image_cache \<Rightarrow> image_cache \<Rightarrow> bool" where
  call_get_drop: "image_cache_call c (get_drop ref c)"
| call_get_touch: "image_cache_call c (get_touch now ref cached c)"
| call_put: "Put t ref n c = Some c' \<Longrightarrow> image_cache_call c c'"
| call_prepull: "image_cache_call c (Prepull t refs c)"
| call_invalidate: "image_cache_call c (Invalidate now ref c)"

section \<open>The metrics collector\<close>

text \<open>\<open>Start\<close> is the loop itself; \<open>time.NewTicker\<close> panics when the interval is not positive.\<close>

definition collector_Start :: "collector loop \<Rightarrow> collector loop option" where
  "collector_Start l = (if col_collectionInterval (lp_state l) \<le> 0 then None else Some (l\<lparr>lp_on := True\<rparr>))"

inductive collector_tick :: "collector \<Rightarrow> collector \<Rightarrow> bool" where
  "collector_tick c (collectAllMetrics c)"

inductive collector_call :: "collector \<Rightarrow> collector \<Rightarrow> bool" where
  "collector_call c (collector_exec op c)"

section \<open>The ephemeral manager\<close>

inductive manager_tick :: "'w runtime_driver \<Rightarrow> environments \<times> 'w \<Rightarrow> environments \<times> 'w \<Rightarrow> bool"
  for driver where
  "manager_tick driver (envs, w) (cleanupExpiredEnvironments driver now envs w)"

inductive manager_call :: "'w runtime_driver \<Rightarrow> environments \<times> 'w \<Rightarrow> environments \<times> 'w \<Rightarrow> bool"
  for driver where
  call_create: "CreateEnvironment driver spec wl t envs w = (r, envs', wl', w') \<Longrightarrow> manager_call driver (envs, w) (envs', w')"
| call_teardown: "TeardownEnvironment driver x reason now envs w = (e, envs', w') \<Longrightarrow> manager_call driver (envs, w) (envs', w')"

section \<open>The edge agent\<close>

inductive agent_tick :: "edge_agent \<Rightarrow> edge_agent \<Rightarrow> bool" where
  "agent_tick a (snd (sendHeartbeat sent now a))"

inductive agent_call :: "'w runtime_driver \<Rightarrow> edge_agent \<Rightarrow> edge_agent \<Rightarrow> bool" for driver where
  call_deploy: "DeployWorkload driver spec a w = (e, a', w') \<Longrightarrow> agent_call driver a a'"
| call_destroy: "DestroyWorkload driver x a w = (e, a', w') \<Longrightarrow> agent_call driver a a'"
| call_discover: "agent_call driver a (DiscoverLocalResources a)"

section \<open>The four loops keep the contract\<close>

definition entries_ok :: "cached_images \<Rightarrow> bool" where
  "entries_ok m \<longleftrightarrow> gm_wf m \<and> (\<forall>(ref, cached) \<in> set m. ci_ImageRef cached = ref)"

lemma entries_ok_put: "entries_ok m \<Longrightarrow> ci_ImageRef v = k \<Longrightarrow> entries_ok (gm_put k v m)"
  by (auto simp: entries_ok_def set_gm_put)

lemma entries_ok_subset: "entries_ok m \<Longrightarrow> gm_wf m' \<Longrightarrow> set m' \<subseteq> set m \<Longrightarrow> entries_ok m'"
  by (auto simp: entries_ok_def)

lemma entries_ok_del: "entries_ok m \<Longrightarrow> entries_ok (gm_del k m)"
  by (rule entries_ok_subset) (auto simp: entries_ok_def set_gm_del)

lemma prepull_loop_ok: "entries_ok m \<Longrightarrow> entries_ok (prepull_loop ttl t refs m)"
proof (induction ttl t refs m rule: prepull_loop.induct)
  case (2 ttl t ref refs images)
  show ?case unfolding prepull_loop.simps
    by (rule 2(1)) (use 2(2) in \<open>auto intro: entries_ok_put\<close>)
qed simp

lemma put_ok:
  assumes "entries_ok (ic_cachedImages c)" and "Put t ref n c = Some c'"
  shows "entries_ok (ic_cachedImages c')"
proof (cases "tic_Enabled (ic_config c)")
  case True
  let ?e = "\<lparr>ci_ImageRef = ref, ci_SizeBytes = n, ci_CachedAt = t 0, ci_LastAccessed = t 1, ci_AccessCount = 1,
    ci_TTL = put_ttl (ic_config c)\<rparr>"
  from assms(2) True obtain images where p: "put_entry (ic_config c) ref ?e (ic_cachedImages c) = Some images"
    and c': "c' = Image_Cache.updateStatus (t 2) (c\<lparr>ic_cachedImages := images\<rparr>)" by (auto simp: Put_def)
  from assms(1) have wf: "gm_wf (ic_cachedImages c)" by (simp add: entries_ok_def)
  from put_entry_result [OF p wf] obtain rest
    where r: "images = gm_put ref ?e rest" "gm_wf rest" "set rest \<subseteq> set (ic_cachedImages c)" by blast
  show ?thesis unfolding c' r(1) updateStatus_images
    using entries_ok_put [OF entries_ok_subset [OF assms(1) r(2,3)], of ?e ref] by simp
qed (use assms in \<open>simp add: Put_def\<close>)

lemma get_touch_ok: "entries_ok (ic_cachedImages c) \<Longrightarrow> entries_ok (ic_cachedImages (get_touch now ref cached c))"
  by (auto simp: get_touch_def entries_ok_def set_gm_put dest: map_of_SomeD split: option.split)

lemma image_cache_call_ok:
  "image_cache_call c c' \<Longrightarrow> entries_ok (ic_cachedImages c) \<Longrightarrow> entries_ok (ic_cachedImages c')"
  by (induction rule: image_cache_call.induct)
    (auto simp: get_drop_def Invalidate_def Prepull_def
      intro: entries_ok_del get_touch_ok put_ok prepull_loop_ok)

lemma cleanup_tick_ok: "cleanup_tick c c' \<Longrightarrow> entries_ok (ic_cachedImages c) \<Longrightarrow> entries_ok (ic_cachedImages c')"
  by (induction rule: cleanup_tick.induct)
    (auto simp: cleanupExpired_def entries_ok_def distinct_map_filter)

interpretation image_cache_loop: background cleanup_tick image_cache_call "\<lambda>c. entries_ok (ic_cachedImages c)"
  by unfold_locales (auto intro: cleanup_tick_ok image_cache_call_ok cleanup_tick.intros)

lemma collector_exec_ok: "gm_wf (col_metricsCache c) \<Longrightarrow> gm_wf (col_metricsCache (collector_exec op c))"
  by (cases op) (auto simp: UpdateMetrics_def RemoveMetrics_def CollectMetrics_def collectAllMetrics_def Let_def)

interpretation collector_loop: background collector_tick collector_call "\<lambda>c. gm_wf (col_metricsCache c)"
  by unfold_locales
    (auto elim!: collector_tick.cases collector_call.cases intro: collector_exec_ok collector_tick.intros
      simp: collectAllMetrics_def)

interpretation manager_loop: background "manager_tick driver" "manager_call driver"
  "\<lambda>m. environments_ok (fst m)" for driver :: "'w runtime_driver"
proof
  fix s s' :: "environments \<times> 'w" assume "environments_ok (fst s)" "manager_tick driver s s'"
  then show "environments_ok (fst s')"
    by (auto elim!: manager_tick.cases) (metis cleanup_ok prod.collapse)
next
  fix s s' :: "environments \<times> 'w" assume "environments_ok (fst s)" "manager_call driver s s'"
  then show "environments_ok (fst s')"
    by (auto elim!: manager_call.cases dest: CreateEnvironment_ok TeardownEnvironment_ok)
next
  fix s :: "environments \<times> 'w" show "\<exists>s'. manager_tick driver s s'"
    by (cases s) (simp only: ex_simps, rule exI, rule manager_tick.intros)
qed

lemma agent_call_ok: "agent_call driver a a' \<Longrightarrow> edge_ok a \<Longrightarrow> edge_ok a'"
proof (induction rule: agent_call.induct)
  case (call_deploy spec a w e a' w')
  then show ?case using edge_ok_step [of a driver "\<lambda>u. None" "EvDeploy spec" w a' w'] by simp
next
  case (call_destroy x a w e a' w')
  then show ?case using edge_ok_step [of a driver "\<lambda>u. None" "EvDestroy x" w a' w'] by simp
qed (simp add: edge_ok_def)

interpretation agent_loop: background agent_tick "agent_call driver" edge_ok for driver :: "'w runtime_driver"
proof
  fix a a' :: edge_agent assume "edge_ok a" "agent_tick a a'"
  then show "edge_ok a'" by (auto elim!: agent_tick.cases simp: edge_ok_def)
qed (auto intro: agent_tick.intros agent_call_ok)

section \<open>Properties\<close>

text \<open>
  Every background goroutine ends: once the stop channel is closed, or (where the loop watches
  it) the context is done, the cleanup of the image cache, of the ephemeral manager, the
  metrics loop and the heartbeat loop inevitably end, whatever tick is still waiting.
\<close>

theorem background_loops_end:
  "(lp_stop c = ClosedChan \<longrightarrow> inevitable (loop_step cleanup_tick False) (\<lambda>l. \<not> lp_on l) c) \<and>
   (lp_stop m = ClosedChan \<or> lp_done m \<longrightarrow> inevitable (loop_step (manager_tick driver) True) (\<lambda>l. \<not> lp_on l) m) \<and>
   (lp_stop x = ClosedChan \<or> lp_done x \<longrightarrow> inevitable (loop_step collector_tick True) (\<lambda>l. \<not> lp_on l) x) \<and>
   (lp_stop a = ClosedChan \<or> lp_done a \<longrightarrow> inevitable (loop_step agent_tick True) (\<lambda>l. \<not> lp_on l) a)"
  using image_cache_loop.ends [of c False] manager_loop.ends [of m True driver]
    collector_loop.ends [of x True] agent_loop.ends [of a True] by blast

text \<open>
  \<open>Stop\<close> of the image cache panics on every cache that was created disabled, because such a
  cache has no stop channel, and on the second call for any other; the first call on an
  enabled cache succeeds.
\<close>

theorem image_cache_stop_panics_iff:
  assumes "image_cache_start mkdirAll config = Inr l" and "loop_reach cleanup_tick False image_cache_call l l'"
  shows "image_cache_Stop l' = None \<longleftrightarrow> \<not> tic_Enabled config \<or> lp_stop l' = ClosedChan"
proof -
  have "lp_stop l' = NilChan \<longleftrightarrow> lp_stop l = NilChan"
    using assms(2) by induction (auto elim!: loop_stepE loop_envE simp: close_chan_def split: stop_chan.splits)
  moreover have "lp_stop l = (if tic_Enabled config then OpenChan else NilChan)"
    using assms(1) by (auto simp: image_cache_start_def split: sum.splits)
  ultimately show ?thesis by (cases "lp_stop l'"; cases "tic_Enabled config") (simp_all add: image_cache_Stop_def close_chan_def)
qed

definition disabled_cache :: types_image_cache_config where
  "disabled_cache = (ic_config demo_cache)\<lparr>tic_Enabled := False\<rparr>"

lemma image_cache_stop_panics_iff_witness:
  "\<exists>l. image_cache_start None disabled_cache = Inr l \<and> image_cache_Stop l = None"
proof -
  obtain l where l: "image_cache_start None disabled_cache = Inr l"
    by (simp add: image_cache_start_def NewImageCache_def loadCacheMetadata_def disabled_cache_def)
  from image_cache_stop_panics_iff [OF l reach_here] show ?thesis using l
    by (auto simp: disabled_cache_def)
qed

text \<open>
  In every state that the cache's goroutine and its callers reach together, each image is stored
  under its own reference, once.
\<close>

theorem image_cache_keys:
  assumes "image_cache_start mkdirAll config = Inr l" and "loop_reach cleanup_tick False image_cache_call l l'"
  shows "entries_ok (ic_cachedImages (lp_state l'))"
proof (rule image_cache_loop.reach_inv [OF assms(2)])
  show "entries_ok (ic_cachedImages (lp_state l))"
    using assms(1) by (auto simp: image_cache_start_def NewImageCache_def loadCacheMetadata_def entries_ok_def split: sum.splits if_splits option.splits)
qed

end
