(* ===== verification/Runtime_Contract.thy ===== *)
theory Runtime_Contract
  imports Workload_Types
begin

text \<open>
  What the clients of \<open>types.RuntimeDriver\<close> (migration, ephemeral environments, edge agent) rely
  on. The type is declared in \<open>kranix-packages\<close> as an interface without laws; the contracts here
  are the ones that the implementations of this repository keep, over an engine that does
  what its documentation says. \<open>live w\<close> are the names of the workloads that a backend has in
  the outside state \<open>w\<close>, and \<open>names\<close> the names for which the laws hold: an engine also accepts
  its own identifiers in place of names, so a name must not be one of them.
\<close>

section \<open>One backend\<close>

locale backend =
  fixes d :: "'w runtime_driver" and live :: "'w \<Rightarrow> string set" and names :: "string set"
  assumes Deploy_live: "ws_Name s \<in> names \<Longrightarrow> drv_Deploy d s w = (Inr r, s', w') \<Longrightarrow> ws_Name s \<in> live w'"
    and Deploy_keeps: "ws_Name s \<in> names \<Longrightarrow> drv_Deploy d s w = (q, s', w') \<Longrightarrow> live w \<subseteq> live w'"
    and Deploy_adds: "ws_Name s \<in> names \<Longrightarrow> drv_Deploy d s w = (q, s', w') \<Longrightarrow> live w' \<subseteq> insert (ws_Name s) (live w)"
    and Destroy_removes: "x \<in> names \<Longrightarrow> drv_Destroy d x w = (None, w') \<Longrightarrow> live w' = live w - {x}"
    and Destroy_keeps: "x \<in> names \<Longrightarrow> drv_Destroy d x w = (e, w') \<Longrightarrow> live w - {x} \<subseteq> live w'"
    and Destroy_shrinks: "x \<in> names \<Longrightarrow> drv_Destroy d x w = (e, w') \<Longrightarrow> live w' \<subseteq> live w"
    and GetStatus_pure: "drv_GetStatus d x w = (g, w') \<Longrightarrow> live w' = live w"
begin

lemma Deploy_exact:
  assumes "ws_Name s \<in> names" and "drv_Deploy d s w = (Inr r, s', w')"
  shows "live w' = insert (ws_Name s) (live w)"
  using Deploy_live [OF assms] Deploy_keeps [OF assms] Deploy_adds [OF assms] by blast

lemma Destroy_between:
  assumes "x \<in> names"
  shows "live w - {x} \<subseteq> live (snd (drv_Destroy d x w))" "live (snd (drv_Destroy d x w)) \<subseteq> live w"
  using Destroy_keeps [OF assms] Destroy_shrinks [OF assms] by (metis prod.collapse)+

lemma redeploy:
  assumes "ws_Name s \<in> names" and "drv_Deploy d s w = (Inr r, s', w1)" and "drv_Destroy d (ws_Name s) w1 = (None, w2)"
  shows "live w2 = live w - {ws_Name s}"
  using Deploy_exact [OF assms(1,2)] Destroy_removes [OF assms(1,3)] by blast

end

text \<open>A backend whose status calls know exactly the live workloads by name.\<close>

locale exact_backend = backend +
  assumes GetStatus_live: "x \<in> names \<Longrightarrow> drv_GetStatus d x w = (Inr st, w') \<Longrightarrow> x \<in> live w"
begin

lemma destroyed_is_unknown:
  assumes "x \<in> names" and "drv_Destroy d x w = (None, w1)"
  shows "\<exists>e. fst (drv_GetStatus d x w1) = Inl e"
proof (cases "fst (drv_GetStatus d x w1)")
  case (Inr st)
  then have "drv_GetStatus d x w1 = (Inr st, snd (drv_GetStatus d x w1))" by (metis prod.collapse)
  from GetStatus_live [OF assms(1) this] Destroy_removes [OF assms] show ?thesis by blast
qed blast

end

text \<open>A backend on one component of a larger outside state is a backend on the whole of it.\<close>

lemma backend_lift:
  assumes "backend d live names" and "\<And>v w. get (put v w) = v"
  shows "backend (lift_driver get put d) (\<lambda>w. live (get w)) names"
  by (unfold_locales; clarsimp simp: lift_driver_def assms(2) split: prod.splits)
    (use assms(1) in \<open>blast dest: backend.Deploy_live backend.Deploy_keeps backend.Deploy_adds
      backend.Destroy_removes backend.Destroy_keeps backend.Destroy_shrinks backend.GetStatus_pure\<close>)+

lemma list_driver_backend: "exact_backend (list_driver n) set (- {''''})"
  by unfold_locales (auto simp: list_driver_def split: if_splits)

end
