(* ===== verification/Config.thy ===== *)
theory Config
  imports Go_Time
begin

text \<open>
  \<open>config/config.go\<close>: the configuration records and \<open>DefaultConfig\<close>. Reading the file
  (\<open>os.ReadFile\<close>) and \<open>yaml.Unmarshal\<close> (a third-party package) are parameters of \<open>Load\<close>.
\<close>

record runtime_config =
  rc_DefaultBackend :: string

record docker_config =
  dc_Host :: string
  dc_APIVersion :: string

record kubernetes_config =
  kc_Kubeconfig :: string
  kc_Context :: string
  kc_DefaultNamespace :: string

record podman_config =
  pc_Socket :: string

record remote_config =
  rmc_SSHKeyPath :: string
  rmc_KnownHostsPath :: string

record gpu_config =
  gc_Enabled :: bool
  gc_DefaultVendor :: string
  gc_NvidiaDevicePath :: string
  gc_AMDDevicePath :: string

record ephemeral_config =
  ec_Enabled :: bool
  ec_DefaultTTL :: string
  ec_MaxEnvironments :: int
  ec_NamespacePrefix :: string
  ec_AutoTeardown :: bool
  ec_TeardownOnMerge :: bool
  ec_TeardownOnClose :: bool
  ec_CleanupInterval :: string

record edge_agent_config =
  eac_Enabled :: bool
  eac_NodeID :: string
  eac_NodeName :: string
  eac_IPAddress :: string
  eac_Port :: int
  eac_HeartbeatInterval :: string
  eac_AuthToken :: string

record image_cache_config =
  icc_Enabled :: bool
  icc_CacheSizeGB :: int
  icc_MaxCachedImages :: int
  icc_TTL :: string
  icc_PrepullImages :: "string list"
  icc_RegistryMirrors :: "string list"

record metrics_config =
  mc_Enabled :: bool
  mc_CollectionInterval :: string
  mc_RetentionPeriod :: string
  mc_ExposeEndpoint :: bool
  mc_MetricsPort :: int

record plugin_config =
  plc_Name :: string
  plc_Module :: string
  plc_Description :: string
  plc_Enabled :: bool

record plugins_config =
  psc_Enabled :: bool
  psc_Allow :: "plugin_config list"

record checkpoint_config =
  cpc_Enabled :: bool

record bandwidth_config =
  bc_Enabled :: bool
  bc_DefaultEgressMbit :: string

record volumes_config =
  vc_Enabled :: bool
  vc_DefaultStorageClass :: string
  vc_DefaultSize :: string
  vc_AutoCleanupOnDestroy :: bool

record node_ops_config =
  noc_HealthScoring_Enabled :: bool
  noc_HealthScoring_LatencyWindow :: string
  noc_Drain_Enabled :: bool
  noc_Drain_DefaultGracePeriodSeconds :: int
  noc_Drain_IgnoreDaemonSets :: bool
  noc_MultiArch_Enabled :: bool
  noc_MultiArch_DefaultArch :: string

record migration_config =
  mgc_Enabled :: bool
  mgc_ReadyTimeout :: duration
  mgc_ZeroDowntime :: bool

record config =
  cfg_Runtime :: runtime_config
  cfg_Docker :: docker_config
  cfg_Kubernetes :: kubernetes_config
  cfg_Podman :: podman_config
  cfg_Remote :: remote_config
  cfg_GPU :: gpu_config
  cfg_Ephemeral :: ephemeral_config
  cfg_EdgeAgent :: edge_agent_config
  cfg_ImageCache :: image_cache_config
  cfg_Metrics :: metrics_config
  cfg_Plugins :: plugins_config
  cfg_Checkpoint :: checkpoint_config
  cfg_Bandwidth :: bandwidth_config
  cfg_Volumes :: volumes_config
  cfg_NodeOps :: node_ops_config
  cfg_Migration :: migration_config

definition DefaultConfig :: config where
  "DefaultConfig =
     \<lparr>cfg_Runtime = \<lparr>rc_DefaultBackend = ''kubernetes''\<rparr>,
      cfg_Docker = \<lparr>dc_Host = ''unix:///var/run/docker.sock'', dc_APIVersion = ''1.45''\<rparr>,
      cfg_Kubernetes = \<lparr>kc_Kubeconfig = '''', kc_Context = '''', kc_DefaultNamespace = ''default''\<rparr>,
      cfg_Podman = \<lparr>pc_Socket = ''unix:///run/user/1000/podman/podman.sock''\<rparr>,
      cfg_Remote = \<lparr>rmc_SSHKeyPath = ''~/.ssh/id_rsa'', rmc_KnownHostsPath = ''~/.ssh/known_hosts''\<rparr>,
      cfg_GPU = \<lparr>gc_Enabled = False, gc_DefaultVendor = ''nvidia'',
        gc_NvidiaDevicePath = ''/dev/nvidia0'', gc_AMDDevicePath = ''/dev/kfd''\<rparr>,
      cfg_Ephemeral = \<lparr>ec_Enabled = False, ec_DefaultTTL = ''2h'', ec_MaxEnvironments = 10,
        ec_NamespacePrefix = ''ephem-'', ec_AutoTeardown = True, ec_TeardownOnMerge = True,
        ec_TeardownOnClose = True, ec_CleanupInterval = ''5m''\<rparr>,
      cfg_EdgeAgent = \<lparr>eac_Enabled = False, eac_NodeID = '''', eac_NodeName = '''', eac_IPAddress = '''',
        eac_Port = 50052, eac_HeartbeatInterval = ''30s'', eac_AuthToken = ''''\<rparr>,
      cfg_ImageCache = \<lparr>icc_Enabled = False, icc_CacheSizeGB = 100, icc_MaxCachedImages = 50,
        icc_TTL = ''168h'', icc_PrepullImages = [], icc_RegistryMirrors = []\<rparr>,
      cfg_Metrics = \<lparr>mc_Enabled = True, mc_CollectionInterval = ''30s'', mc_RetentionPeriod = ''24h'',
        mc_ExposeEndpoint = True, mc_MetricsPort = 9090\<rparr>,
      cfg_Plugins = \<lparr>psc_Enabled = False, psc_Allow = []\<rparr>,
      cfg_Checkpoint = \<lparr>cpc_Enabled = False\<rparr>,
      cfg_Bandwidth = \<lparr>bc_Enabled = False, bc_DefaultEgressMbit = ''''\<rparr>,
      cfg_Volumes = \<lparr>vc_Enabled = False, vc_DefaultStorageClass = '''', vc_DefaultSize = '''',
        vc_AutoCleanupOnDestroy = False\<rparr>,
      cfg_NodeOps = \<lparr>noc_HealthScoring_Enabled = False, noc_HealthScoring_LatencyWindow = '''',
        noc_Drain_Enabled = False, noc_Drain_DefaultGracePeriodSeconds = 0,
        noc_Drain_IgnoreDaemonSets = False, noc_MultiArch_Enabled = False, noc_MultiArch_DefaultArch = ''''\<rparr>,
      cfg_Migration = \<lparr>mgc_Enabled = False, mgc_ReadyTimeout = 0, mgc_ZeroDowntime = False\<rparr>\<rparr>"

text \<open>\<open>os.ReadFile\<close> fails with an error that \<open>os.IsNotExist\<close> recognises, or with another one.\<close>

datatype read_outcome = FileData string | FileNotExist | FileError go_error

definition Load :: "(string \<Rightarrow> read_outcome) \<Rightarrow> (string \<Rightarrow> config result) \<Rightarrow> string \<Rightarrow> config result" where
  "Load ReadFile Unmarshal path =
     (case ReadFile path of
        FileNotExist \<Rightarrow> Inr DefaultConfig
      | FileError err \<Rightarrow> Inl err
      | FileData data \<Rightarrow>
          (case Unmarshal data of Inl err \<Rightarrow> Inl err | Inr cfg \<Rightarrow> Inr cfg))"

text \<open>Every duration of the default configuration parses, to a positive duration.\<close>

lemma default_durations:
  "ParseDuration (ec_DefaultTTL (cfg_Ephemeral DefaultConfig)) = Some (2 * Hour)"
  "ParseDuration (ec_CleanupInterval (cfg_Ephemeral DefaultConfig)) = Some (5 * Minute)"
  "ParseDuration (eac_HeartbeatInterval (cfg_EdgeAgent DefaultConfig)) = Some (30 * Second)"
  "ParseDuration (icc_TTL (cfg_ImageCache DefaultConfig)) = Some (168 * Hour)"
  "ParseDuration (mc_CollectionInterval (cfg_Metrics DefaultConfig)) = Some (30 * Second)"
  "ParseDuration (mc_RetentionPeriod (cfg_Metrics DefaultConfig)) = Some (24 * Hour)"
  by (simp_all add: DefaultConfig_def parse_duration_simps)

end
