(* ===== verification/Migration.thy ===== *)
theory Migration
  imports Runtime_Contract Config
begin

text \<open>
  \<open>internal/migration/orchestrator.go\<close>: moving a workload from one backend to another. The
  two drivers act on one outside state \<open>'w\<close>; resolving a driver by name may act on it too.
  \<open>cloneSpec\<close> copies the struct and the \<open>Env\<close> map, so clone and original share what is
  behind the other pointers. The drivers of this repository write through one of them,
  \<open>Scheduling\<close>; \<open>write_back\<close> is the effect of such a write on the original.
\<close>

section \<open>Data\<close>

record workload_migration_request =
  mreq_WorkloadID :: string
  mreq_SourceBackend :: string
  mreq_TargetBackend :: string
  mreq_Namespace :: string
  mreq_ReadyTimeout :: string
  mreq_ZeroDowntime :: bool
  mreq_Spec :: "workload_spec option"

record workload_migration_result =
  mres_WorkloadID :: string
  mres_SourceBackend :: string
  mres_TargetBackend :: string
  mres_State :: string
  mres_CutoverAt :: instant
  mres_Message :: string

text \<open>
  The clock: a reading of the time, and waiting for a duration unless the context is done
  first (the \<open>select\<close> between \<open>ctx.Done\<close> and \<open>time.After\<close>).
\<close>

record 'w clock =
  clk_Now :: "'w \<Rightarrow> instant"
  clk_Wait :: "duration \<Rightarrow> 'w proc"

type_synonym 'w resolver = "string \<Rightarrow> ('w, 'w runtime_driver) act"

section \<open>Operations\<close>

definition shadowSuffix :: string where "shadowSuffix = ''-migrating''"

definition validateRequest :: "workload_migration_request \<Rightarrow> go_error option" where
  "validateRequest req =
     (if TrimSpace (mreq_WorkloadID req) = '''' then Some (Errorf ''workloadId is required'')
      else if TrimSpace (mreq_TargetBackend req) = '''' then Some (Errorf ''targetBackend is required'')
      else None)"

fun firstNonEmpty :: "string list \<Rightarrow> string" where
  "firstNonEmpty [] = ''''"
| "firstNonEmpty (v # vs) = (if TrimSpace v \<noteq> '''' then TrimSpace v else firstNonEmpty vs)"

definition maxInt :: "int \<Rightarrow> int \<Rightarrow> int" where
  "maxInt a b = (if a > b then a else b)"

definition parseTimeout :: "string \<Rightarrow> duration \<Rightarrow> duration" where
  "parseTimeout raw0 fallback =
     (let raw = TrimSpace raw0
      in if raw = '''' then (if fallback \<le> 0 then 5 * Minute else fallback)
         else case ParseDuration raw of
           None \<Rightarrow> 5 * Minute
         | Some d \<Rightarrow> (if d \<le> 0 then 5 * Minute else d))"

definition cloneSpec :: "workload_spec option \<Rightarrow> workload_spec" where
  "cloneSpec spec = (case spec of None \<Rightarrow> zero_spec | Some s \<Rightarrow> s)"

definition write_back :: "workload_spec \<Rightarrow> workload_spec \<Rightarrow> workload_spec" where
  "write_back spec clone =
     (if ws_Scheduling spec = None then spec else spec\<lparr>ws_Scheduling := ws_Scheduling clone\<rparr>)"

definition status_ready :: "int \<Rightarrow> workload_status \<Rightarrow> bool" where
  "status_ready replicas status \<longleftrightarrow>
     (let ready = (if wst_ReadyReplicas status = 0 then wst_Ready status else wst_ReadyReplicas status)
      in replicas \<le> ready \<or> EqualFold (wst_State status) ''Running'')"

text \<open>The polling loop; \<open>None\<close> would mean that it never returns (see \<open>wait_loop_returns\<close>).\<close>

partial_function (option) wait_loop ::
  "'w clock \<Rightarrow> 'w runtime_driver \<Rightarrow> string \<Rightarrow> int \<Rightarrow> instant \<Rightarrow> 'w \<Rightarrow> (go_error option \<times> 'w) option" where
  "wait_loop clk driver name replicas deadline w =
     (if deadline < clk_Now clk w
      then Some (Some (Errorf (''timeout waiting for '' @ name @ '' to become ready'')), w)
      else case drv_GetStatus driver name w of
             (Inl err, w1) \<Rightarrow> Some (Some err, w1)
           | (Inr status, w1) \<Rightarrow>
               (if status_ready replicas status then Some (None, w1)
                else case clk_Wait clk (2 * Second) w1 of
                       (Some err, w2) \<Rightarrow> Some (Some err, w2)
                     | (None, w2) \<Rightarrow> wait_loop clk driver name replicas deadline w2))"

definition wait_replicas :: "int \<Rightarrow> int" where
  "wait_replicas replicas = (if replicas \<le> 0 then 1 else replicas)"

definition waitUntilReady ::
  "'w clock \<Rightarrow> 'w runtime_driver \<Rightarrow> string \<Rightarrow> int \<Rightarrow> duration \<Rightarrow> 'w \<Rightarrow> (go_error option \<times> 'w) option" where
  "waitUntilReady clk driver name replicas timeout w =
     wait_loop clk driver name (wait_replicas replicas) (clk_Now clk w + timeout) w"

definition load_spec ::
  "'w runtime_driver \<Rightarrow> workload_migration_request \<Rightarrow> string \<Rightarrow> ('w, workload_spec) act" where
  "load_spec sourceDriver req sourceBackend w =
     (case mreq_Spec req of
        Some spec \<Rightarrow> (Inr spec, w)
      | None \<Rightarrow>
          (case drv_GetStatus sourceDriver (mreq_WorkloadID req) w of
             (Inl err, w1) \<Rightarrow> (Inl (Wrapf ''load workload status: '' err ''''), w1)
           | (Inr status, w1) \<Rightarrow>
               (Inr (zero_spec\<lparr>ws_Name := mreq_WorkloadID req,
                  ws_Namespace := firstNonEmpty [mreq_Namespace req, wst_Namespace status],
                  ws_Image := wst_Image status, ws_Backend := sourceBackend,
                  ws_Replicas := maxInt (wst_Replicas status) 1\<rparr>), w1)))"

text \<open>The shadow phase: deploy the shadow on the target and wait for it.\<close>

definition deploy_shadow ::
  "'w clock \<Rightarrow> 'w runtime_driver \<Rightarrow> workload_migration_request \<Rightarrow> duration \<Rightarrow> workload_spec \<Rightarrow> 'w \<Rightarrow>
   (workload_spec result \<times> 'w) option" where
  "deploy_shadow clk targetDriver req timeout spec w =
     (if \<not> mreq_ZeroDowntime req then Some (Inr spec, w)
      else
        let shadowName = mreq_WorkloadID req @ shadowSuffix;
            shadowSpec = (cloneSpec (Some spec))\<lparr>ws_Name := shadowName, ws_Backend := mreq_TargetBackend req\<rparr>
        in case drv_Deploy targetDriver shadowSpec w of
             (Inl err, s', w1) \<Rightarrow> Some (Inl (Wrapf ''deploy shadow on target: '' err ''''), w1)
           | (Inr _, s', w1) \<Rightarrow>
               (case waitUntilReady clk targetDriver shadowName (ws_Replicas s') timeout w1 of
                  None \<Rightarrow> None
                | Some (Some err, w2) \<Rightarrow> Some (Inl err, snd (drv_Destroy targetDriver shadowName w2))
                | Some (None, w2) \<Rightarrow> Some (Inr (write_back spec s'), w2)))"

text \<open>The ignored result of destroying the shadow (\<open>_ = targetDriver.Destroy(...)\<close>).\<close>

definition drop_shadow ::
  "'w runtime_driver \<Rightarrow> workload_migration_request \<Rightarrow> 'w \<Rightarrow> 'w" where
  "drop_shadow targetDriver req w =
     (if mreq_ZeroDowntime req
      then snd (drv_Destroy targetDriver (mreq_WorkloadID req @ shadowSuffix) w) else w)"

definition deploy_final ::
  "'w clock \<Rightarrow> 'w runtime_driver \<Rightarrow> workload_migration_request \<Rightarrow> duration \<Rightarrow> workload_spec \<Rightarrow> 'w \<Rightarrow>
   (go_error option \<times> 'w) option" where
  "deploy_final clk targetDriver req timeout spec w =
     (let finalSpec = (cloneSpec (Some spec))\<lparr>ws_Name := mreq_WorkloadID req, ws_Backend := mreq_TargetBackend req\<rparr>
      in case drv_Deploy targetDriver finalSpec w of
           (Inl err, s', w1) \<Rightarrow>
             Some (Some (Wrapf ''deploy on target: '' err ''''), drop_shadow targetDriver req w1)
         | (Inr _, s', w1) \<Rightarrow>
             (case waitUntilReady clk targetDriver (mreq_WorkloadID req) (ws_Replicas s') timeout w1 of
                None \<Rightarrow> None
              | Some (Some err, w2) \<Rightarrow>
                  Some (Some err,
                    drop_shadow targetDriver req (snd (drv_Destroy targetDriver (mreq_WorkloadID req) w2)))
              | Some (None, w2) \<Rightarrow> Some (None, w2)))"

definition cutover ::
  "'w clock \<Rightarrow> 'w runtime_driver \<Rightarrow> 'w runtime_driver \<Rightarrow> workload_migration_request \<Rightarrow> string \<Rightarrow>
   ('w, workload_migration_result) act" where
  "cutover clk sourceDriver targetDriver req sourceBackend w =
     (case drv_Destroy sourceDriver (mreq_WorkloadID req) w of
        (Some err, w1) \<Rightarrow> (Inl (Wrapf ''destroy source workload: '' err ''''), w1)
      | (None, w1) \<Rightarrow>
          let w2 = drop_shadow targetDriver req w1
          in (Inr \<lparr>mres_WorkloadID = mreq_WorkloadID req, mres_SourceBackend = sourceBackend,
                mres_TargetBackend = mreq_TargetBackend req, mres_State = ''completed'',
                mres_CutoverAt = clk_Now clk w2,
                mres_Message = ''workload migrated with zero downtime cutover''\<rparr>, w2))"

definition source_backend :: "config \<Rightarrow> workload_migration_request \<Rightarrow> string" where
  "source_backend cfg req =
     (if mreq_SourceBackend req = '''' then rc_DefaultBackend (cfg_Runtime cfg) else mreq_SourceBackend req)"

text \<open>The part after the drivers are resolved.\<close>

definition migrate_between ::
  "'w clock \<Rightarrow> config \<Rightarrow> 'w runtime_driver \<Rightarrow> 'w runtime_driver \<Rightarrow> workload_migration_request \<Rightarrow> 'w \<Rightarrow>
   (workload_migration_result result \<times> 'w) option" where
  "migrate_between clk cfg sourceDriver targetDriver req w =
     (case load_spec sourceDriver req (source_backend cfg req) w of
        (Inl err, w1) \<Rightarrow> Some (Inl err, w1)
      | (Inr spec, w1) \<Rightarrow>
          let timeout = parseTimeout (mreq_ReadyTimeout req) (mgc_ReadyTimeout (cfg_Migration cfg))
          in case deploy_shadow clk targetDriver req timeout spec w1 of
               None \<Rightarrow> None
             | Some (Inl err, w2) \<Rightarrow> Some (Inl err, w2)
             | Some (Inr spec', w2) \<Rightarrow>
                 (case deploy_final clk targetDriver req timeout spec' w2 of
                    None \<Rightarrow> None
                  | Some (Some err, w3) \<Rightarrow> Some (Inl err, w3)
                  | Some (None, w3) \<Rightarrow>
                      Some (cutover clk sourceDriver targetDriver req (source_backend cfg req) w3)))"

definition MigrateWorkload ::
  "'w clock \<Rightarrow> config \<Rightarrow> 'w resolver \<Rightarrow> workload_migration_request \<Rightarrow> 'w \<Rightarrow>
   (workload_migration_result result \<times> 'w) option" where
  "MigrateWorkload clk cfg resolve req w =
     (case validateRequest req of
        Some err \<Rightarrow> Some (Inl err, w)
      | None \<Rightarrow>
          if mreq_TargetBackend req = source_backend cfg req
          then Some (Inl (Errorf (''target backend '' @ quoted (mreq_TargetBackend req) @
                 '' must differ from source backend '' @ quoted (source_backend cfg req))), w)
          else case resolve (source_backend cfg req) w of
                 (Inl err, w1) \<Rightarrow> Some (Inl (Wrapf ''source driver: '' err ''''), w1)
               | (Inr sourceDriver, w1) \<Rightarrow>
                   (case resolve (mreq_TargetBackend req) w1 of
                      (Inl err, w2) \<Rightarrow> Some (Inl (Wrapf ''target driver: '' err ''''), w2)
                    | (Inr targetDriver, w2) \<Rightarrow> migrate_between clk cfg sourceDriver targetDriver req w2))"

section \<open>The polling loop\<close>

text \<open>What the loop needs of its surroundings to end: time does not run backwards.\<close>

definition clock_advances :: "'w clock \<Rightarrow> 'w runtime_driver \<Rightarrow> bool" where
  "clock_advances clk driver \<longleftrightarrow>
     (\<forall>n w r w'. drv_GetStatus driver n w = (r, w') \<longrightarrow> clk_Now clk w \<le> clk_Now clk w') \<and>
     (\<forall>t w w'. clk_Wait clk t w = (None, w') \<longrightarrow> clk_Now clk w + t \<le> clk_Now clk w')"

definition clock_keeps :: "('w \<Rightarrow> 'v) \<Rightarrow> 'w clock \<Rightarrow> bool" where
  "clock_keeps view clk \<longleftrightarrow> (\<forall>t w. view (snd (clk_Wait clk t w)) = view w)"

definition resolver_keeps :: "('w \<Rightarrow> 'v) \<Rightarrow> 'w resolver \<Rightarrow> bool" where
  "resolver_keeps view resolve \<longleftrightarrow> (\<forall>n w. view (snd (resolve n w)) = view w)"

definition status_keeps :: "('w \<Rightarrow> 'v) \<Rightarrow> 'w runtime_driver \<Rightarrow> bool" where
  "status_keeps view d \<longleftrightarrow> (\<forall>x w. view (snd (drv_GetStatus d x w)) = view w)"

lemma resolver_keepsD: "resolver_keeps view resolve \<Longrightarrow> resolve n w = (d, w') \<Longrightarrow> view w' = view w"
  unfolding resolver_keeps_def by (metis snd_conv)

lemma status_keepsD: "status_keeps view d \<Longrightarrow> drv_GetStatus d x w = (s, w') \<Longrightarrow> view w' = view w"
  unfolding status_keeps_def by (metis snd_conv)

lemma clock_keepsD: "clock_keeps view clk \<Longrightarrow> clk_Wait clk t w = (e, w') \<Longrightarrow> view w' = view w"
  unfolding clock_keeps_def by (metis snd_conv)

lemma wait_loop_returns:
  assumes "clock_advances clk driver"
  shows "\<exists>r. wait_loop clk driver name replicas deadline w = Some r"
proof (induction "nat (deadline + 2 * Second - clk_Now clk w)" arbitrary: w rule: less_induct)
  case less
  show ?case
  proof (cases "deadline < clk_Now clk w")
    case False
    obtain r w1 where g: "drv_GetStatus driver name w = (r, w1)" by fastforce
    obtain e w2 where c: "clk_Wait clk (2 * Second) w1 = (e, w2)" by fastforce
    have "\<exists>r. wait_loop clk driver name replicas deadline w2 = Some r" if "e = None"
    proof (rule less)
      from assms g have "clk_Now clk w \<le> clk_Now clk w1" by (auto simp: clock_advances_def)
      moreover from assms c that have "clk_Now clk w1 + 2 * Second \<le> clk_Now clk w2"
        unfolding clock_advances_def by blast
      ultimately show "nat (deadline + 2 * Second - clk_Now clk w2) < nat (deadline + 2 * Second - clk_Now clk w)"
        using False by linarith
    qed
    then show ?thesis
      by (subst wait_loop.simps) (auto simp: g c [simplified] split: sum.splits option.splits)
  qed (subst wait_loop.simps, simp)
qed

lemma wait_loop_ready:
  assumes "wait_loop clk driver name replicas deadline w = Some (None, w')"
  shows "\<exists>v status. drv_GetStatus driver name v = (Inr status, w') \<and> status_ready replicas status"
proof -
  have "r = (None, w') \<Longrightarrow> ?thesis"
    if "wait_loop clk driver name replicas deadline w = Some r" for r
  proof (rule wait_loop.raw_induct
      [where P = "\<lambda>c d n k dl w r. r = (None, w') \<longrightarrow>
         (\<exists>v status. drv_GetStatus d n v = (Inr status, w') \<and> status_ready k status)",
       OF _ that, THEN mp], goal_cases)
    case (1 wait c d n k dl w r)
    then show ?case by (auto split: if_splits prod.splits sum.splits option.splits)
  qed
  with assms show ?thesis by blast
qed

lemma wait_loop_view:
  assumes "wait_loop clk driver name replicas deadline w = Some (r, w')"
    and "status_keeps view driver" and "clock_keeps view clk"
  shows "view w' = view w"
proof -
  have "status_keeps view driver \<longrightarrow> clock_keeps view clk \<longrightarrow> view (snd r) = view w"
    if "wait_loop clk driver name replicas deadline w = Some r" for r
  proof (rule wait_loop.raw_induct
      [where P = "\<lambda>c d n k dl w r. status_keeps view d \<longrightarrow> clock_keeps view c \<longrightarrow> view (snd r) = view w",
       OF _ that], goal_cases)
    case (1 wait c d n k dl w r)
    show ?case
    proof (intro impI)
      assume k: "status_keeps view d" and ck: "clock_keeps view c"
      obtain s w1 where g: "drv_GetStatus d n w = (s, w1)" by fastforce
      then have v1: "view w1 = view w" by (rule status_keepsD [OF k])
      obtain e w2 where c: "clk_Wait c (2 * Second) w1 = (e, w2)" by fastforce
      then have v2: "view w2 = view w1" by (rule clock_keepsD [OF ck])
      from 1 k ck show "view (snd r) = view w"
        by (auto simp: g c [simplified] v1 v2 split: if_splits sum.splits option.splits)
    qed
  qed
  with assms show ?thesis by fastforce
qed

lemma waitUntilReady_returns:
  "clock_advances clk driver \<Longrightarrow> \<exists>r. waitUntilReady clk driver name replicas timeout w = Some r"
  by (simp only: waitUntilReady_def wait_loop_returns)

lemma waitUntilReady_ready:
  "waitUntilReady clk driver name replicas timeout w = Some (None, w') \<Longrightarrow>
   \<exists>v status. drv_GetStatus driver name v = (Inr status, w') \<and> status_ready (wait_replicas replicas) status"
  unfolding waitUntilReady_def by (rule wait_loop_ready)

lemma waitUntilReady_view:
  assumes "waitUntilReady clk driver name replicas timeout w = Some (r, w')"
    and "status_keeps view driver" and "clock_keeps view clk"
  shows "view w' = view w"
  using assms unfolding waitUntilReady_def by (rule wait_loop_view)

lemma keeps_status: "keeps view d \<Longrightarrow> status_keeps view d"
  by (simp add: keeps_def status_keeps_def)

section \<open>The phases\<close>

lemma waitUntilReady_not_None:
  "clock_advances clk driver \<Longrightarrow> waitUntilReady clk driver name replicas timeout w \<noteq> None"
  using waitUntilReady_returns by (metis option.distinct(1))

lemma deploy_shadow_returns: "clock_advances clk tgt \<Longrightarrow> deploy_shadow clk tgt req timeout spec w \<noteq> None"
  by (simp add: deploy_shadow_def Let_def waitUntilReady_not_None split: prod.split sum.split option.split)

lemma deploy_final_returns: "clock_advances clk tgt \<Longrightarrow> deploy_final clk tgt req timeout spec w \<noteq> None"
  by (simp add: deploy_final_def Let_def waitUntilReady_not_None split: prod.split sum.split option.split)

lemma migrate_between_returns:
  "clock_advances clk tgt \<Longrightarrow> migrate_between clk cfg src tgt req w \<noteq> None"
  by (simp add: migrate_between_def Let_def deploy_shadow_returns deploy_final_returns
      split: prod.split sum.split option.split)

lemma drop_shadow_view: "keeps view tgt \<Longrightarrow> view (drop_shadow tgt req w) = view w"
  by (simp add: drop_shadow_def keeps_def)

lemma deploy_shadow_view:
  assumes "deploy_shadow clk tgt req timeout spec w = Some (r, w')"
    and k: "keeps view tgt" and c: "clock_keeps view clk"
  shows "view w' = view w"
proof (cases "mreq_ZeroDowntime req")
  case True
  define n where "n = mreq_WorkloadID req @ shadowSuffix"
  obtain a s w1 where d: "drv_Deploy tgt ((cloneSpec (Some spec))\<lparr>ws_Name := n, ws_Backend := mreq_TargetBackend req\<rparr>) w
      = (a, s, w1)" by (metis prod_cases3)
  then have v1: "view w1 = view w" by (rule keeps_Deploy [OF k])
  show ?thesis
  proof (cases "waitUntilReady clk tgt n (ws_Replicas s) timeout w1")
    case None
    with assms(1) True d v1 show ?thesis
      by (auto simp: deploy_shadow_def n_def [symmetric] Let_def split: sum.splits)
  next
    case (Some q)
    then obtain e w2 where q: "waitUntilReady clk tgt n (ws_Replicas s) timeout w1 = Some (e, w2)"
      by (cases q) auto
    then have v2: "view w2 = view w1" by (rule waitUntilReady_view [OF _ keeps_status [OF k] c])
    have "view (snd (drv_Destroy tgt n w2)) = view w2" using k by (simp add: keeps_def)
    with assms(1) True d v1 v2 q show ?thesis
      by (auto simp: deploy_shadow_def n_def [symmetric] Let_def split: sum.splits option.splits)
  qed
qed (use assms(1) in \<open>simp add: deploy_shadow_def\<close>)

lemma deploy_final_view:
  assumes "deploy_final clk tgt req timeout spec w = Some (r, w')"
    and k: "keeps view tgt" and c: "clock_keeps view clk"
  shows "view w' = view w"
proof -
  define n where "n = mreq_WorkloadID req"
  obtain a s w1 where d: "drv_Deploy tgt ((cloneSpec (Some spec))\<lparr>ws_Name := n, ws_Backend := mreq_TargetBackend req\<rparr>) w
      = (a, s, w1)" by (metis prod_cases3)
  then have v1: "view w1 = view w" by (rule keeps_Deploy [OF k])
  show ?thesis
  proof (cases "waitUntilReady clk tgt n (ws_Replicas s) timeout w1")
    case None
    with assms(1) d v1 drop_shadow_view [OF k] show ?thesis
      by (auto simp: deploy_final_def n_def [symmetric] Let_def split: sum.splits)
  next
    case (Some q)
    then obtain e w2 where q: "waitUntilReady clk tgt n (ws_Replicas s) timeout w1 = Some (e, w2)"
      by (cases q) auto
    then have v2: "view w2 = view w1" by (rule waitUntilReady_view [OF _ keeps_status [OF k] c])
    have "view (snd (drv_Destroy tgt n w2)) = view w2" using k by (simp add: keeps_def)
    with assms(1) d v1 v2 q drop_shadow_view [OF k] show ?thesis
      by (auto simp: deploy_final_def n_def [symmetric] Let_def split: sum.splits option.splits)
  qed
qed

lemma wait_replicas_pos: "1 \<le> wait_replicas n"
  by (simp add: wait_replicas_def)

lemma deploy_final_ready:
  assumes "deploy_final clk tgt req timeout spec w = Some (None, w')"
  shows "\<exists>k v status. 1 \<le> k \<and> drv_GetStatus tgt (mreq_WorkloadID req) v = (Inr status, w') \<and>
    status_ready k status"
proof -
  from assms obtain s :: workload_spec and w1
    where "waitUntilReady clk tgt (mreq_WorkloadID req) (ws_Replicas s) timeout w1 = Some (None, w')"
    by (auto simp: deploy_final_def Let_def split: prod.splits sum.splits option.splits)
  from waitUntilReady_ready [OF this] wait_replicas_pos show ?thesis by blast
qed

section \<open>Examples\<close>

text \<open>
  Two list drivers on their own components of the outside state, and a clock as the third
  component.
\<close>

definition demo_clock :: "('a \<times> 'b \<times> int) clock" where
  "demo_clock = \<lparr>clk_Now = (\<lambda>(a, b, t). t), clk_Wait = (\<lambda>d (a, b, t). (None, (a, b, t + d)))\<rparr>"

definition demo_source :: "(string list \<times> string list \<times> int) runtime_driver" where
  "demo_source = lift_driver fst (\<lambda>v (a, b). (v, b)) (list_driver ''docker'')"

definition demo_target :: "(string list \<times> string list \<times> int) runtime_driver" where
  "demo_target = lift_driver (\<lambda>(a, b, t). b) (\<lambda>v (a, b, t). (a, v, t)) (list_driver ''podman'')"

definition demo_resolver :: "(string list \<times> string list \<times> int) resolver" where
  "demo_resolver n w =
     (if n = ''docker'' then (Inr demo_source, w)
      else if n = ''podman'' then (Inr demo_target, w)
      else (Inl (Errorf ''driver not found''), w))"

definition demo_request :: workload_migration_request where
  "demo_request = \<lparr>mreq_WorkloadID = ''web'', mreq_SourceBackend = ''docker'', mreq_TargetBackend = ''podman'',
     mreq_Namespace = '''', mreq_ReadyTimeout = ''30s'', mreq_ZeroDowntime = True, mreq_Spec = None\<rparr>"

definition demo_result :: workload_migration_result where
  "demo_result = \<lparr>mres_WorkloadID = ''web'', mres_SourceBackend = ''docker'', mres_TargetBackend = ''podman'',
     mres_State = ''completed'', mres_CutoverAt = 0,
     mres_Message = ''workload migrated with zero downtime cutover''\<rparr>"

lemma demo_migrate:
  "MigrateWorkload demo_clock DefaultConfig demo_resolver demo_request ([''web''], [], 0) =
   Some (Inr demo_result, ([], [''web''], 0))"
  by (simp add: MigrateWorkload_def migrate_between_def load_spec_def deploy_shadow_def deploy_final_def
      cutover_def drop_shadow_def waitUntilReady_def wait_loop.simps wait_replicas_def status_ready_def
      demo_clock_def demo_source_def demo_target_def demo_resolver_def demo_request_def demo_result_def
      validateRequest_def source_backend_def TrimSpace_def is_space_def shadowSuffix_def cloneSpec_def
      write_back_def lift_driver_def list_driver_def zero_spec_def zero_status_def
      parseTimeout_def parse_duration_simps Let_def)

section \<open>Properties\<close>

text \<open>
  C13. \<open>MigrateWorkload\<close> returns. Whatever the drivers answer, the two polling loops end as
  long as time does not run backwards during a status call and a two-second wait takes two
  seconds; a context that is done ends them earlier.
\<close>

theorem migrate_returns:
  assumes "\<And>n v d v'. resolve n v = (Inr d, v') \<Longrightarrow> clock_advances clk d"
  shows "\<exists>r w'. MigrateWorkload clk cfg resolve req w = Some (r, w')"
proof -
  have "\<exists>p. migrate_between clk cfg s d req v' = Some p" if "resolve n v = (Inr d, v')" for n v d v' s
    using migrate_between_returns [OF assms [OF that]] by blast
  then show ?thesis
    by (fastforce simp: MigrateWorkload_def split: option.split prod.split sum.split)
qed

lemma demo_clock_advances: "demo_resolver n v = (Inr d, v') \<Longrightarrow> clock_advances demo_clock d"
  by (auto simp: demo_resolver_def clock_advances_def demo_clock_def demo_source_def demo_target_def
      lift_driver_def list_driver_def split: if_splits)

theorem migrate_returns_witness:
  "\<exists>r w'. MigrateWorkload demo_clock DefaultConfig demo_resolver demo_request ([], [], 5) = Some (r, w')"
  by (rule migrate_returns) (rule demo_clock_advances)

text \<open>
  How a migration between two drivers ends: it fails before the cutover, or it comes to the cutover
  after a status call on the target reported the final workload ready. What the target driver,
  the status calls on the source and the waits keep is as it was until then.
\<close>

lemma migrate_between_phases [consumes 4, case_names failed cut]:
  assumes run: "migrate_between clk cfg s t req w = Some (r, w')"
    and keep: "keeps view t" and wait: "clock_keeps view clk" and src: "status_keeps view s"
  obtains (failed) err where "r = Inl err" "view w' = view w"
    | (cut) k v status w5 where "1 \<le> k" "drv_GetStatus t (mreq_WorkloadID req) v = (Inr status, w5)" "status_ready k status"
        "view w5 = view w" "cutover clk s t req (source_backend cfg req) w5 = (r, w')"
proof -
  obtain ls w3 where ls: "load_spec s req (source_backend cfg req) w = (ls, w3)" by fastforce
  with src have v3: "view w3 = view w"
    by (auto simp: load_spec_def split: option.splits prod.splits sum.splits dest: status_keepsD)
  note run' = run [unfolded migrate_between_def ls prod.case Let_def]
  show thesis
  proof (cases ls)
    case (Inl err)
    with run' v3 show thesis by (auto intro: failed)
  next
    case (Inr spec)
    let ?t = "parseTimeout (mreq_ReadyTimeout req) (mgc_ReadyTimeout (cfg_Migration cfg))"
    from run' Inr obtain sh w4 where sh: "deploy_shadow clk t req ?t spec w3 = Some (sh, w4)"
      by (auto split: option.splits)
    note v4 = deploy_shadow_view [OF sh keep wait]
    show thesis
    proof (cases sh)
      case (Inl err)
      with run' \<open>ls = Inr spec\<close> sh v3 v4 show thesis by (auto intro: failed)
    next
      case (Inr spec')
      from run' \<open>ls = Inr spec\<close> sh Inr obtain fin w5 where fin: "deploy_final clk t req ?t spec' w4 = Some (fin, w5)"
        by (auto split: option.splits)
      note v5 = deploy_final_view [OF fin keep wait]
      show thesis
      proof (cases fin)
        case (Some err)
        with run' \<open>ls = Inr spec\<close> sh Inr fin v3 v4 v5 show thesis by (auto intro: failed)
      next
        case None
        with run' \<open>ls = Inr spec\<close> sh Inr fin have "cutover clk s t req (source_backend cfg req) w5 = (r, w')" by simp
        with deploy_final_ready [OF fin [unfolded None]] v3 v4 v5 show thesis by (auto intro: cut)
      qed
    qed
  qed
qed

text \<open>
  C1. The source workload is safe until the target serves. Let \<open>view\<close> be the state of the
  source backend, which neither the target driver nor status calls nor waiting nor resolving
  a driver changes. Then a migration either fails and leaves the source backend exactly as
  it was, or its one call of the source's \<open>Destroy\<close> is made on the untouched source
  backend, right after a status call on the target reported the final workload ready (with
  at least one replica), and the migration succeeds exactly when that call does.
\<close>

theorem source_safe_until_target_ready:
  assumes run: "MigrateWorkload clk cfg resolve req w = Some (r, w')"
    and res: "resolver_keeps view resolve"
    and wait: "clock_keeps view clk"
    and src: "\<forall>v d v'. resolve (source_backend cfg req) v = (Inr d, v') \<longrightarrow> status_keeps view d"
    and tgt: "\<forall>v d v'. resolve (mreq_TargetBackend req) v = (Inr d, v') \<longrightarrow> keeps view d"
  shows "(\<exists>err. r = Inl err \<and> view w' = view w) \<or>
    (\<exists>source target u u' u2 k v status w1 e w2.
       resolve (source_backend cfg req) u = (Inr source, u') \<and>
       resolve (mreq_TargetBackend req) u' = (Inr target, u2) \<and>
       1 \<le> k \<and> drv_GetStatus target (mreq_WorkloadID req) v = (Inr status, w1) \<and> status_ready k status \<and>
       view w1 = view w \<and> drv_Destroy source (mreq_WorkloadID req) w1 = (e, w2) \<and> view w' = view w2 \<and>
       (is_ok r \<longleftrightarrow> e = None))"
proof (cases "validateRequest req = None \<and> mreq_TargetBackend req \<noteq> source_backend cfg req")
  case True
  obtain rs w1 where rs: "resolve (source_backend cfg req) w = (rs, w1)" by fastforce
  obtain rt w2 where rt: "resolve (mreq_TargetBackend req) w1 = (rt, w2)" by fastforce
  from resolver_keepsD [OF res rs] resolver_keepsD [OF res rt] have v12: "view w1 = view w" "view w2 = view w" by simp_all
  show ?thesis
  proof (cases "\<exists>s t. rs = Inr s \<and> rt = Inr t")
    case False
    with run True rs rt v12 show ?thesis
      by (auto simp: MigrateWorkload_def split: sum.splits)
  next
    case resolved: True
    then obtain s t where s: "rs = Inr s" and t: "rt = Inr t" by blast
    from tgt rt t have keep: "keeps view t" by blast
    from src rs s have "status_keeps view s" by blast
    have "migrate_between clk cfg s t req w2 = Some (r, w')"
      using run True rs rt s t by (simp add: MigrateWorkload_def)
    from this keep wait \<open>status_keeps view s\<close> show ?thesis
    proof (cases rule: migrate_between_phases)
      case (failed err)
      with v12 show ?thesis by simp
    next
      case (cut k v status w5)
      obtain e w6 where d: "drv_Destroy s (mreq_WorkloadID req) w5 = (e, w6)" by fastforce
      with cut(5) drop_shadow_view [OF keep] have "view w' = view w6" "is_ok r \<longleftrightarrow> e = None"
        by (auto simp: cutover_def Let_def split: option.splits)
      moreover from v12 cut(4) have "view w5 = view w" by simp
      ultimately show ?thesis using rs [unfolded s] rt [unfolded t] cut(1-3) d by blast
    qed
  qed
next
  case False
  with run show ?thesis by (auto simp: MigrateWorkload_def split: option.splits if_splits)
qed

theorem source_safe_until_target_ready_witness:
  "\<exists>k v status w1 w2. 1 \<le> k \<and> drv_GetStatus demo_target ''web'' v = (Inr status, w1) \<and>
     status_ready k status \<and> fst w1 = [''web''] \<and> drv_Destroy demo_source ''web'' w1 = (None, w2) \<and> fst w2 = []"
proof -
  have res: "resolver_keeps fst demo_resolver"
    by (simp add: resolver_keeps_def demo_resolver_def)
  have wait: "clock_keeps fst demo_clock"
    by (auto simp: clock_keeps_def demo_clock_def)
  have src: "\<forall>v d v'. demo_resolver (source_backend DefaultConfig demo_request) v = (Inr d, v') \<longrightarrow> status_keeps fst d"
    by (auto simp: demo_resolver_def demo_request_def source_backend_def demo_source_def lift_driver_def
        list_driver_def status_keeps_def)
  have tgt: "\<forall>v d v'. demo_resolver (mreq_TargetBackend demo_request) v = (Inr d, v') \<longrightarrow> keeps fst d"
    by (auto simp: demo_resolver_def demo_request_def demo_target_def intro!: keeps_lift_driver)
  from source_safe_until_target_ready [OF demo_migrate res wait src tgt]
  obtain source target u u' u2 k v status w1 e w2
    where f: "demo_resolver (source_backend DefaultConfig demo_request) u = (Inr source, u')"
      "demo_resolver (mreq_TargetBackend demo_request) u' = (Inr target, u2)"
      "1 \<le> k" "drv_GetStatus target ''web'' v = (Inr status, w1)" "status_ready k status"
      "fst w1 = [''web'']" "drv_Destroy source ''web'' w1 = (e, w2)" "fst w2 = []" "e = None"
    by (auto simp: demo_request_def)
  from f(1,2) have "source = demo_source" "target = demo_target"
    by (auto simp: demo_resolver_def demo_request_def source_backend_def)
  with f show ?thesis by blast
qed



text \<open>
  A failed cutover leaks. When the final workload is ready on the target and the
  source's \<open>Destroy\<close> then fails, \<open>MigrateWorkload\<close> reports an error and returns without
  removing anything: for a target that starts what it is asked to deploy, both the shadow and
  the final workload are still running there.
\<close>

theorem failed_cutover_leaves_shadow:
  assumes "mreq_ZeroDowntime req"
    and load: "load_spec src req (source_backend cfg req) w = (Inr spec, w1)"
    and shadow: "deploy_shadow clk tgt req (parseTimeout (mreq_ReadyTimeout req) (mgc_ReadyTimeout (cfg_Migration cfg))) spec w1
      = Some (Inr spec', w2)"
    and final: "deploy_final clk tgt req (parseTimeout (mreq_ReadyTimeout req) (mgc_ReadyTimeout (cfg_Migration cfg))) spec' w2
      = Some (None, w3)"
    and fails: "drv_Destroy src (mreq_WorkloadID req) w3 = (Some err, w4)"
    and starts: "\<forall>s v r s' v'. drv_Deploy tgt s v = (Inr r, s', v') \<longrightarrow> insert (ws_Name s) (live v) \<subseteq> live v'"
    and keep: "status_keeps live tgt" "clock_keeps live clk" "keeps live src"
  shows "migrate_between clk cfg src tgt req w = Some (Inl (Wrapf ''destroy source workload: '' err ''''), w4) \<and>
    {mreq_WorkloadID req @ shadowSuffix, mreq_WorkloadID req} \<subseteq> live w4"
proof
  show "migrate_between clk cfg src tgt req w = Some (Inl (Wrapf ''destroy source workload: '' err ''''), w4)"
    by (simp add: migrate_between_def load shadow final cutover_def fails)
  from shadow assms(1) obtain r s' v u
    where "drv_Deploy tgt ((cloneSpec (Some spec))\<lparr>ws_Name := mreq_WorkloadID req @ shadowSuffix,
        ws_Backend := mreq_TargetBackend req\<rparr>) w1 = (Inr r, s', v)"
      and "waitUntilReady clk tgt (mreq_WorkloadID req @ shadowSuffix) (ws_Replicas s') u v = Some (None, w2)"
    by (auto simp: deploy_shadow_def Let_def split: prod.splits sum.splits option.splits)
  with starts waitUntilReady_view [OF _ keep(1,2)] have s2: "mreq_WorkloadID req @ shadowSuffix \<in> live w2"
    by fastforce
  from final obtain r s' v u
    where "drv_Deploy tgt ((cloneSpec (Some spec'))\<lparr>ws_Name := mreq_WorkloadID req,
        ws_Backend := mreq_TargetBackend req\<rparr>) w2 = (Inr r, s', v)"
      and "waitUntilReady clk tgt (mreq_WorkloadID req) (ws_Replicas s') u v = Some (None, w3)"
    by (auto simp: deploy_final_def Let_def split: prod.splits sum.splits option.splits)
  with starts waitUntilReady_view [OF _ keep(1,2)] s2
  have "{mreq_WorkloadID req @ shadowSuffix, mreq_WorkloadID req} \<subseteq> live w3" by fastforce
  with keeps_Destroy [OF keep(3) fails] show "{mreq_WorkloadID req @ shadowSuffix, mreq_WorkloadID req} \<subseteq> live w4"
    by simp
qed

theorem failed_cutover_leaves_shadow_witness:
  "migrate_between demo_clock DefaultConfig demo_source demo_target
     (demo_request\<lparr>mreq_Spec := Some (zero_spec\<lparr>ws_Name := ''web''\<rparr>)\<rparr>) ([], [], 0) =
   Some (Inl (Wrapf ''destroy source workload: '' (Errorf ''not found'') ''''), ([], [''web-migrating'', ''web''], 0))"
proof -
  define req where "req = demo_request\<lparr>mreq_Spec := Some (zero_spec\<lparr>ws_Name := ''web''\<rparr>)\<rparr>"
  note defs = req_def demo_request_def demo_clock_def demo_target_def lift_driver_def list_driver_def
    shadowSuffix_def cloneSpec_def write_back_def zero_spec_def zero_status_def waitUntilReady_def
    wait_loop.simps wait_replicas_def status_ready_def parseTimeout_def TrimSpace_def is_space_def parse_duration_simps
  have z: "mreq_ZeroDowntime req" by (simp add: defs)
  have l: "load_spec demo_source req (source_backend DefaultConfig req) ([], [], 0) =
      (Inr (zero_spec\<lparr>ws_Name := ''web''\<rparr>), ([], [], 0))"
    by (simp add: load_spec_def req_def)
  have sh: "deploy_shadow demo_clock demo_target req
      (parseTimeout (mreq_ReadyTimeout req) (mgc_ReadyTimeout (cfg_Migration DefaultConfig)))
      (zero_spec\<lparr>ws_Name := ''web''\<rparr>) ([], [], 0) = Some (Inr (zero_spec\<lparr>ws_Name := ''web''\<rparr>), ([], [''web-migrating''], 0))"
    by (simp add: deploy_shadow_def defs)
  have fin: "deploy_final demo_clock demo_target req
      (parseTimeout (mreq_ReadyTimeout req) (mgc_ReadyTimeout (cfg_Migration DefaultConfig)))
      (zero_spec\<lparr>ws_Name := ''web''\<rparr>) ([], [''web-migrating''], 0) = Some (None, ([], [''web-migrating'', ''web''], 0))"
    by (simp add: deploy_final_def defs)
  have f: "drv_Destroy demo_source (mreq_WorkloadID req) ([], [''web-migrating'', ''web''], 0) =
      (Some (Errorf ''not found''), ([], [''web-migrating'', ''web''], 0))"
    by (simp add: demo_source_def lift_driver_def list_driver_def)
  define live where "live = (\<lambda>w :: string list \<times> string list \<times> int. set (fst (snd w)))"
  have st: "\<forall>s v r s' v'. drv_Deploy demo_target s v = (Inr r, s', v') \<longrightarrow> insert (ws_Name s) (live v) \<subseteq> live v'"
    by (auto simp: demo_target_def lift_driver_def list_driver_def live_def split: prod.splits if_splits)
  have k1: "status_keeps live demo_target"
    by (auto simp: status_keeps_def demo_target_def lift_driver_def list_driver_def live_def)
  have k2: "clock_keeps live demo_clock" by (auto simp: clock_keeps_def demo_clock_def live_def)
  have k3: "keeps live demo_source" unfolding demo_source_def
    by (rule keeps_lift_driver) (auto simp: live_def)
  from failed_cutover_leaves_shadow [OF z l sh fin f st k1 k2 k3]
  show ?thesis by (simp add: req_def)
qed


section \<open>Between two backends\<close>

text \<open>
  A migration between two drivers that keep the contract of a backend, each with workloads of its
  own in the outside state: neither touches the other's, and waiting touches none.
\<close>

locale migration_pair =
  source: backend src lsrc names + target: backend tgt ltgt names
  for src :: "'w runtime_driver" and lsrc and tgt and ltgt and names +
  fixes clk :: "'w clock"
  assumes target_apart: "keeps lsrc tgt" and source_apart: "keeps ltgt src"
    and wait_source: "clock_keeps lsrc clk" and wait_target: "clock_keeps ltgt clk"
begin

lemma target_status: "status_keeps ltgt tgt"
  unfolding status_keeps_def using target.GetStatus_pure by (metis prod.collapse)

lemma source_status: "status_keeps lsrc src"
  unfolding status_keeps_def using source.GetStatus_pure by (metis prod.collapse)

lemmas ready_target = waitUntilReady_view [OF _ target_status wait_target]

lemma load_spec_pure:
  assumes "load_spec src req backendName w = (r, w')"
  shows "lsrc w' = lsrc w" "ltgt w' = ltgt w"
  using assms status_keepsD [OF source_status] status_keepsD [OF keeps_status [OF source_apart]]
  by (auto simp: load_spec_def split: option.splits prod.splits sum.splits)

lemma shadow_phase:
  assumes "deploy_shadow clk tgt req timeout spec w = Some (Inr spec', w')"
    and "mreq_WorkloadID req @ shadowSuffix \<in> names"
  shows "ltgt w' = (if mreq_ZeroDowntime req then insert (mreq_WorkloadID req @ shadowSuffix) (ltgt w) else ltgt w)"
proof (cases "mreq_ZeroDowntime req")
  case True
  with assms(1) obtain r s u v where d: "drv_Deploy tgt ((cloneSpec (Some spec))\<lparr>ws_Name := mreq_WorkloadID req @ shadowSuffix,
        ws_Backend := mreq_TargetBackend req\<rparr>) w = (Inr r, s, v)"
    and "waitUntilReady clk tgt (mreq_WorkloadID req @ shadowSuffix) (ws_Replicas s) u v = Some (None, w')"
    by (auto simp: deploy_shadow_def Let_def split: prod.splits sum.splits option.splits)
  with ready_target True target.Deploy_exact [OF _ d] assms(2) show ?thesis by simp
qed (use assms(1) in \<open>simp add: deploy_shadow_def\<close>)

lemma final_phase:
  assumes "deploy_final clk tgt req timeout spec w = Some (None, w')" and "mreq_WorkloadID req \<in> names"
  shows "ltgt w' = insert (mreq_WorkloadID req) (ltgt w)"
proof -
  from assms(1) obtain r s u v where d: "drv_Deploy tgt ((cloneSpec (Some spec))\<lparr>ws_Name := mreq_WorkloadID req,
        ws_Backend := mreq_TargetBackend req\<rparr>) w = (Inr r, s, v)"
    and "waitUntilReady clk tgt (mreq_WorkloadID req) (ws_Replicas s) u v = Some (None, w')"
    by (auto simp: deploy_final_def Let_def split: prod.splits sum.splits option.splits)
  with ready_target target.Deploy_exact [OF _ d] assms(2) show ?thesis by simp
qed

lemma drop_phase:
  assumes "mreq_WorkloadID req @ shadowSuffix \<in> names"
  shows "ltgt w - {mreq_WorkloadID req @ shadowSuffix} \<subseteq> ltgt (drop_shadow tgt req w)"
    "ltgt (drop_shadow tgt req w) \<subseteq> ltgt w"
  using target.Destroy_between [OF assms] by (auto simp: drop_shadow_def)

lemma cutover_phase:
  assumes "cutover clk src tgt req backendName w = (Inr res, w')"
    and "mreq_WorkloadID req \<in> names" "mreq_WorkloadID req @ shadowSuffix \<in> names"
  shows "lsrc w' = lsrc w - {mreq_WorkloadID req}"
    "ltgt w - {mreq_WorkloadID req @ shadowSuffix} \<subseteq> ltgt w'" "ltgt w' \<subseteq> ltgt w"
proof -
  from assms(1) obtain w1 where d: "drv_Destroy src (mreq_WorkloadID req) w = (None, w1)"
    and w': "w' = drop_shadow tgt req w1"
    by (auto simp: cutover_def Let_def split: prod.splits option.splits)
  show "lsrc w' = lsrc w - {mreq_WorkloadID req}"
    using drop_shadow_view [OF target_apart] source.Destroy_removes [OF assms(2) d] w' by simp
  show "ltgt w - {mreq_WorkloadID req @ shadowSuffix} \<subseteq> ltgt w'" "ltgt w' \<subseteq> ltgt w"
    using drop_phase [OF assms(3), of w1] keeps_Destroy [OF source_apart d] w' by simp_all
qed

lemma moves:
  assumes "migrate_between clk cfg src tgt req w = Some (Inr res, w')"
    and n: "mreq_WorkloadID req \<in> names" "mreq_WorkloadID req @ shadowSuffix \<in> names"
  shows "lsrc w' = lsrc w - {mreq_WorkloadID req}"
    and "insert (mreq_WorkloadID req) (ltgt w - {mreq_WorkloadID req @ shadowSuffix}) \<subseteq> ltgt w'"
    and "ltgt w' \<subseteq> insert (mreq_WorkloadID req) (insert (mreq_WorkloadID req @ shadowSuffix) (ltgt w))"
proof -
  define timeout where "timeout = parseTimeout (mreq_ReadyTimeout req) (mgc_ReadyTimeout (cfg_Migration cfg))"
  from assms(1) obtain spec w1 spec' w2 w3
    where l: "load_spec src req (source_backend cfg req) w = (Inr spec, w1)"
      and s: "deploy_shadow clk tgt req timeout spec w1 = Some (Inr spec', w2)"
      and f: "deploy_final clk tgt req timeout spec' w2 = Some (None, w3)"
      and c: "cutover clk src tgt req (source_backend cfg req) w3 = (Inr res, w')"
    by (auto simp: migrate_between_def timeout_def Let_def split: prod.splits sum.splits option.splits)
  have ne: "mreq_WorkloadID req \<noteq> mreq_WorkloadID req @ shadowSuffix" by (simp add: shadowSuffix_def)
  have "lsrc w3 = lsrc w"
    using deploy_final_view [OF f target_apart wait_source] deploy_shadow_view [OF s target_apart wait_source]
      load_spec_pure(1) [OF l] by simp
  then show "lsrc w' = lsrc w - {mreq_WorkloadID req}" using cutover_phase(1) [OF c n] by simp
  have t: "ltgt w3 = insert (mreq_WorkloadID req)
      (if mreq_ZeroDowntime req then insert (mreq_WorkloadID req @ shadowSuffix) (ltgt w) else ltgt w)"
    using final_phase [OF f n(1)] shadow_phase [OF s n(2)] load_spec_pure(2) [OF l] by simp
  show "insert (mreq_WorkloadID req) (ltgt w - {mreq_WorkloadID req @ shadowSuffix}) \<subseteq> ltgt w'"
    using cutover_phase(2) [OF c n] t ne by (auto split: if_splits)
  show "ltgt w' \<subseteq> insert (mreq_WorkloadID req) (insert (mreq_WorkloadID req @ shadowSuffix) (ltgt w))"
    using cutover_phase(3) [OF c n] t by (auto split: if_splits)
qed

end

end
