(* ===== verification/Registry.thy ===== *)
theory Registry
  imports Migration
begin

text \<open>
  \<open>internal/registry/registry.go\<close>, \<open>internal/plugin/manager.go\<close> and the start-up sequence of
  \<open>cmd/runtime/main.go\<close>. The global map of drivers and the plugin manager are explicit
  states. A factory takes the configuration and acts on the outside state \<open>'w\<close>. The two
  type assertions of the registry ask whether a driver also implements \<open>NodeOperations\<close>
  or \<open>RuntimeExtendedOperations\<close>; a driver object carries these interfaces as options.
  A panic is \<open>None\<close>.
\<close>

section \<open>The driver registry\<close>

record ('w, 'n, 'x) driver_object =
  obj_driver :: "'w runtime_driver"
  obj_NodeOperations :: "'n option"
  obj_ExtendedOperations :: "'x option"

type_synonym ('w, 'n, 'x) driver_factory = "config \<Rightarrow> ('w, ('w, 'n, 'x) driver_object) act"

type_synonym ('w, 'n, 'x) drivers = "(string, ('w, 'n, 'x) driver_factory) gomap"

definition Register ::
  "string \<Rightarrow> ('w, 'n, 'x) driver_factory \<Rightarrow> ('w, 'n, 'x) drivers \<Rightarrow> ('w, 'n, 'x) drivers option" where
  "Register name factory drivers =
     (if gm_get drivers name \<noteq> None then None else Some (gm_put name factory drivers))"

definition RegisterIfAbsent ::
  "string \<Rightarrow> ('w, 'n, 'x) driver_factory \<Rightarrow> ('w, 'n, 'x) drivers \<Rightarrow> ('w, 'n, 'x) drivers" where
  "RegisterIfAbsent name factory drivers =
     (if gm_get drivers name \<noteq> None then drivers else gm_put name factory drivers)"

definition registry_Get ::
  "('w, 'n, 'x) drivers \<Rightarrow> string \<Rightarrow> config \<Rightarrow> ('w, ('w, 'n, 'x) driver_object) act" where
  "registry_Get drivers name cfg =
     (case gm_get drivers name of
        None \<Rightarrow> failE (Errorf (''driver '' @ quoted name @ '' not found''))
      | Some factory \<Rightarrow> factory cfg)"

definition GetNodeOperations :: "('w, 'n, 'x) drivers \<Rightarrow> string \<Rightarrow> config \<Rightarrow> ('w, 'n) act" where
  "GetNodeOperations drivers name cfg =
     bindE (registry_Get drivers name cfg) (\<lambda>driver.
       case obj_NodeOperations driver of
         Some ops \<Rightarrow> returnE ops
       | None \<Rightarrow> failE (Errorf (''driver '' @ quoted name @ '' does not support node operations'')))"

definition GetExtendedOperations :: "('w, 'n, 'x) drivers \<Rightarrow> string \<Rightarrow> config \<Rightarrow> ('w, 'x) act" where
  "GetExtendedOperations drivers name cfg =
     bindE (registry_Get drivers name cfg) (\<lambda>driver.
       case obj_ExtendedOperations driver of
         Some ops \<Rightarrow> returnE ops
       | None \<Rightarrow> failE (Errorf (''driver '' @ quoted name @ '' does not support extended operations'')))"

definition GetMigrationOperations ::
  "('w, 'n, 'x) drivers \<Rightarrow> 'w clock \<Rightarrow> config \<Rightarrow> workload_migration_request \<Rightarrow> 'w \<Rightarrow>
   (workload_migration_result result \<times> 'w) option" where
  "GetMigrationOperations drivers clk cfg =
     MigrateWorkload clk cfg (\<lambda>name. bindE (registry_Get drivers name cfg) (\<lambda>d. returnE (obj_driver d)))"

definition registry_List :: "('w, 'n, 'x) drivers \<Rightarrow> string list" where
  "registry_List drivers = map fst drivers"

fun register_all ::
  "(string \<times> ('w, 'n, 'x) driver_factory) list \<Rightarrow> ('w, 'n, 'x) drivers \<Rightarrow> ('w, 'n, 'x) drivers option" where
  "register_all [] drivers = Some drivers"
| "register_all ((name, factory) # rest) drivers =
     Option.bind (Register name factory drivers) (register_all rest)"

text \<open>\<open>init\<close>, with the five constructors \<open>docker.New\<close> ... \<open>remote.New\<close> as arguments.\<close>

definition registry_init ::
  "('w, 'n, 'x) driver_factory \<Rightarrow> ('w, 'n, 'x) driver_factory \<Rightarrow> ('w, 'n, 'x) driver_factory \<Rightarrow>
   ('w, 'n, 'x) driver_factory \<Rightarrow> ('w, 'n, 'x) driver_factory \<Rightarrow> ('w, 'n, 'x) drivers \<Rightarrow>
   ('w, 'n, 'x) drivers option" where
  "registry_init docker kubernetes podman compose remote =
     register_all [(''docker'', docker), (''kubernetes'', kubernetes), (''podman'', podman),
       (''compose'', compose), (''remote'', remote)]"

section \<open>The plugin manager\<close>

record ('w, 'n, 'x) descriptor =
  pd_Name :: string
  pd_Version :: string
  pd_Description :: string
  pd_Builtin :: bool
  pd_Factory :: "('w, 'n, 'x) driver_factory option"

record ('w, 'n, 'x) plugin_manager =
  pm_plugins :: "(string, ('w, 'n, 'x) descriptor) gomap"
  pm_enabled :: "(string, bool) gomap"

record runtime_plugin_info =
  rpi_Name :: string
  rpi_Version :: string
  rpi_Description :: string
  rpi_Builtin :: bool
  rpi_Enabled :: bool

definition NewManager_plugin :: "('w, 'n, 'x) plugin_manager" where
  "NewManager_plugin = \<lparr>pm_plugins = [], pm_enabled = []\<rparr>"

definition plugin_Register ::
  "('w, 'n, 'x) descriptor \<Rightarrow> ('w, 'n, 'x) plugin_manager \<Rightarrow> ('w, 'n, 'x) plugin_manager option" where
  "plugin_Register desc m =
     (if pd_Name desc = '''' \<or> pd_Factory desc = None then None
      else if gm_get (pm_plugins m) (pd_Name desc) \<noteq> None then None
      else Some \<lparr>pm_plugins = gm_put (pd_Name desc) desc (pm_plugins m),
             pm_enabled = gm_put (pd_Name desc) True (pm_enabled m)\<rparr>)"

text \<open>\<open>registerDriverLocked\<close> never fails.\<close>

definition registerDriverLocked ::
  "('w, 'n, 'x) descriptor \<Rightarrow> ('w, 'n, 'x) drivers \<Rightarrow> ('w, 'n, 'x) drivers" where
  "registerDriverLocked desc drivers =
     (case pd_Factory desc of None \<Rightarrow> drivers | Some f \<Rightarrow> RegisterIfAbsent (pd_Name desc) f drivers)"

fun load_loop ::
  "plugin_config list \<Rightarrow> ('w, 'n, 'x) plugin_manager \<Rightarrow> ('w, 'n, 'x) drivers \<Rightarrow>
   go_error option \<times> ('w, 'n, 'x) plugin_manager \<times> ('w, 'n, 'x) drivers" where
  "load_loop [] m drivers = (None, m, drivers)"
| "load_loop (p # ps) m drivers =
     (if \<not> plc_Enabled p then load_loop ps (m\<lparr>pm_enabled := gm_put (plc_Name p) False (pm_enabled m)\<rparr>) drivers
      else case gm_get (pm_plugins m) (plc_Name p) of
             None \<Rightarrow> (Some (Errorf (''plugin '' @ quoted (plc_Name p) @ '' enabled in config but not registered'')), m, drivers)
           | Some desc \<Rightarrow>
               load_loop ps (m\<lparr>pm_enabled := gm_put (plc_Name p) True (pm_enabled m)\<rparr>) (registerDriverLocked desc drivers))"

definition LoadFromConfig ::
  "config option \<Rightarrow> ('w, 'n, 'x) plugin_manager \<Rightarrow> ('w, 'n, 'x) drivers \<Rightarrow>
   go_error option \<times> ('w, 'n, 'x) plugin_manager \<times> ('w, 'n, 'x) drivers" where
  "LoadFromConfig cfg m drivers =
     (case cfg of
        None \<Rightarrow> (None, m, drivers)
      | Some c \<Rightarrow> if \<not> psc_Enabled (cfg_Plugins c) then (None, m, drivers)
                 else load_loop (psc_Allow (cfg_Plugins c)) m drivers)"

definition is_enabled :: "('w, 'n, 'x) plugin_manager \<Rightarrow> string \<Rightarrow> bool" where
  "is_enabled m name = (gm_get (pm_enabled m) name = Some True)"

definition ActivateAll ::
  "('w, 'n, 'x) plugin_manager \<Rightarrow> ('w, 'n, 'x) drivers \<Rightarrow> ('w, 'n, 'x) drivers" where
  "ActivateAll m drivers =
     fold (\<lambda>(name, desc) ds. if is_enabled m name then registerDriverLocked desc ds else ds) (pm_plugins m) drivers"

definition plugin_List :: "('w, 'n, 'x) plugin_manager \<Rightarrow> runtime_plugin_info list" where
  "plugin_List m =
     map (\<lambda>(name, desc). \<lparr>rpi_Name = name, rpi_Version = pd_Version desc, rpi_Description = pd_Description desc,
            rpi_Builtin = pd_Builtin desc, rpi_Enabled = is_enabled m name\<rparr>) (pm_plugins m)"

definition builtin_descriptor :: "string \<Rightarrow> string \<Rightarrow> ('w, 'n, 'x) descriptor" where
  "builtin_descriptor name text =
     \<lparr>pd_Name = name, pd_Version = ''1.0'', pd_Description = text, pd_Builtin = True, pd_Factory = None\<rparr>"

definition builtins :: "('w, 'n, 'x) descriptor list" where
  "builtins =
     [builtin_descriptor ''docker'' ''Docker Engine API driver'',
      builtin_descriptor ''kubernetes'' ''Kubernetes API driver'',
      builtin_descriptor ''podman'' ''Podman CLI driver'',
      builtin_descriptor ''compose'' ''Docker Compose driver'',
      builtin_descriptor ''remote'' ''Remote SSH driver'']"

definition RegisterBuiltins :: "('w, 'n, 'x) plugin_manager \<Rightarrow> ('w, 'n, 'x) plugin_manager" where
  "RegisterBuiltins m =
     fold (\<lambda>b m. \<lparr>pm_plugins = gm_put (pd_Name b) b (pm_plugins m),
                pm_enabled = gm_put (pd_Name b) True (pm_enabled m)\<rparr>) builtins m"

section \<open>Start-up\<close>

text \<open>
  \<open>main\<close> up to the moment the server runs. \<open>load\<close> is \<open>config.Load\<close> on the path of the flag,
  \<open>listen\<close> is \<open>net.Listen\<close> on the port of the flag. \<open>log.Fatalf\<close> ends the process.
\<close>

datatype 'w main_outcome =
    Fatalf string go_error
  | Serving "'w runtime_driver"

definition runtime_main ::
  "config result \<Rightarrow> ('w, unit) act \<Rightarrow> ('w, 'n, 'x) plugin_manager \<Rightarrow> ('w, 'n, 'x) drivers \<Rightarrow> 'w \<Rightarrow>
   'w main_outcome \<times> 'w" where
  "runtime_main load listen pm drivers w =
     (case load of
        Inl err \<Rightarrow> (Fatalf ''Failed to load config: '' err, w)
      | Inr cfg \<Rightarrow>
          case LoadFromConfig (Some cfg) (RegisterBuiltins pm) drivers of
            (Some err, pm', drivers') \<Rightarrow> (Fatalf ''Failed to load runtime plugins: '' err, w)
          | (None, pm', drivers') \<Rightarrow>
              (case registry_Get drivers' (rc_DefaultBackend (cfg_Runtime cfg)) cfg w of
                 (Inl err, w1) \<Rightarrow>
                   (Fatalf (''Failed to initialize driver '' @ quoted (rc_DefaultBackend (cfg_Runtime cfg)) @ '': '') err, w1)
               | (Inr d, w1) \<Rightarrow>
                   (case drv_Ping (obj_driver d) w1 of
                      (Some err, w2) \<Rightarrow> (Fatalf ''Driver ping failed: '' err, w2)
                    | (None, w2) \<Rightarrow>
                        (case listen w2 of
                           (Inl err, w3) \<Rightarrow> (Fatalf ''Failed to listen: '' err, w3)
                         | (Inr u, w3) \<Rightarrow> (Serving (obj_driver d), w3)))))"

section \<open>Lemmas\<close>

lemma RegisterIfAbsent_le: "gm_get drivers \<subseteq>\<^sub>m gm_get (RegisterIfAbsent name f drivers)"
  by (auto simp: RegisterIfAbsent_def map_le_def)

lemma RegisterIfAbsent_wf [simp, go_inv]: "gm_wf drivers \<Longrightarrow> gm_wf (RegisterIfAbsent name f drivers)"
  by (simp add: RegisterIfAbsent_def)

lemma RegisterIfAbsent_dom: "dom (gm_get (RegisterIfAbsent name f drivers)) = insert name (dom (gm_get drivers))"
  by (auto simp: RegisterIfAbsent_def)

lemma registerDriverLocked_le: "gm_get drivers \<subseteq>\<^sub>m gm_get (registerDriverLocked desc drivers)"
  using RegisterIfAbsent_le by (auto simp: registerDriverLocked_def split: option.split)

lemma registerDriverLocked_dom:
  "dom (gm_get (registerDriverLocked desc drivers)) =
   dom (gm_get drivers) \<union> (if pd_Factory desc = None then {} else {pd_Name desc})"
  by (simp add: registerDriverLocked_def RegisterIfAbsent_dom split: option.split)

lemma load_loop_le:
  "load_loop ps m drivers = (e, m', drivers') \<Longrightarrow> gm_get drivers \<subseteq>\<^sub>m gm_get drivers' \<and> pm_plugins m' = pm_plugins m"
proof (induction ps m drivers rule: load_loop.induct)
  case (2 p ps m drivers)
  then show ?case using registerDriverLocked_le [THEN map_le_trans]
    by (auto split: if_splits option.splits)
qed auto

text \<open>The entries of the configuration that are enabled; a manager's descriptors carry their own name.\<close>

definition enabled_names :: "plugin_config list \<Rightarrow> string set" where
  "enabled_names ps = plc_Name ` {p \<in> set ps. plc_Enabled p}"

definition named :: "('w, 'n, 'x) plugin_manager \<Rightarrow> bool" where
  "named m \<longleftrightarrow> (\<forall>k d. gm_get (pm_plugins m) k = Some d \<longrightarrow> pd_Name d = k)"

definition custom_names :: "('w, 'n, 'x) plugin_manager \<Rightarrow> string set" where
  "custom_names m = {k. \<exists>d. gm_get (pm_plugins m) k = Some d \<and> pd_Factory d \<noteq> None}"

lemma custom_names_enabled [simp]: "custom_names (m\<lparr>pm_enabled := e\<rparr>) = custom_names m"
  by (simp add: custom_names_def)

lemma named_enabled [simp]: "named (m\<lparr>pm_enabled := e\<rparr>) = named m"
  by (simp add: named_def)

lemma enabled_names_Cons:
  "enabled_names (p # ps) = (if plc_Enabled p then insert (plc_Name p) (enabled_names ps) else enabled_names ps)"
  by (auto simp: enabled_names_def)

lemma load_loop_dom:
  "load_loop ps m drivers = (e, m', drivers') \<Longrightarrow> named m \<Longrightarrow>
   (e = None \<longleftrightarrow> enabled_names ps \<subseteq> dom (gm_get (pm_plugins m))) \<and>
   (e = None \<longrightarrow> dom (gm_get drivers') = dom (gm_get drivers) \<union> (enabled_names ps \<inter> custom_names m))"
proof (induction ps m drivers rule: load_loop.induct)
  case (2 p ps m drivers)
  show ?case
  proof (cases "plc_Enabled p")
    case False
    with 2 show ?thesis by (auto simp: enabled_names_Cons)
  next
    case en: True
    show ?thesis
    proof (cases "gm_get (pm_plugins m) (plc_Name p)")
      case None
      with 2 en show ?thesis by (auto simp: enabled_names_Cons)
    next
      case (Some d)
      with "2.prems"(2) have "pd_Name d = plc_Name p" by (simp add: named_def)
      with Some have "insert (plc_Name p) A \<inter> custom_names m =
          (if pd_Factory d = None then {} else {pd_Name d}) \<union> (A \<inter> custom_names m)" for A
        by (auto simp: custom_names_def)
      with 2 en Some show ?thesis
        by (auto simp: enabled_names_Cons registerDriverLocked_dom split: if_splits)
    qed
  qed
qed (auto simp: enabled_names_def)

lemma pm_plugins_RegisterBuiltins:
  "gm_get (pm_plugins (RegisterBuiltins m)) =
   (gm_get (pm_plugins m))(''docker'' \<mapsto> builtin_descriptor ''docker'' ''Docker Engine API driver'',
      ''kubernetes'' \<mapsto> builtin_descriptor ''kubernetes'' ''Kubernetes API driver'',
      ''podman'' \<mapsto> builtin_descriptor ''podman'' ''Podman CLI driver'',
      ''compose'' \<mapsto> builtin_descriptor ''compose'' ''Docker Compose driver'',
      ''remote'' \<mapsto> builtin_descriptor ''remote'' ''Remote SSH driver'')"
  by (rule ext) (simp add: RegisterBuiltins_def builtins_def builtin_descriptor_def)

section \<open>Properties\<close>

text \<open>
  After \<open>init\<close> on the empty registry exactly the five built-in backends are known, no
  registration panics, each name resolves to its own constructor, and any other name is
  the error \<open>driver ... not found\<close>, without touching the outside state.
\<close>

theorem registry_after_init:
  "\<exists>drivers. registry_init docker kubernetes podman compose remote [] = Some drivers \<and>
     registry_List drivers = [''docker'', ''kubernetes'', ''podman'', ''compose'', ''remote''] \<and>
     registry_Get drivers ''docker'' = docker \<and> registry_Get drivers ''kubernetes'' = kubernetes \<and>
     registry_Get drivers ''podman'' = podman \<and> registry_Get drivers ''compose'' = compose \<and>
     registry_Get drivers ''remote'' = remote \<and>
     (\<forall>name cfg w. name \<in> set (registry_List drivers) \<or>
        registry_Get drivers name cfg w = (Inl (Errorf (''driver '' @ quoted name @ '' not found'')), w))"
  by (simp add: registry_init_def Register_def registry_List_def registry_Get_def failE_def gm_put_new fun_eq_iff)

text \<open>
  C19. A plugin cannot take over a backend: whatever the manager holds and the configuration
  enables, a name that was registered before \<open>LoadFromConfig\<close>, whether it succeeds or fails,
  still resolves to the same driver afterwards.
\<close>

theorem plugins_cannot_replace_drivers:
  assumes "LoadFromConfig cfg m drivers = (e, m', drivers')" and "gm_get drivers name = Some factory"
  shows "registry_Get drivers' name c w = factory c w"
proof -
  have "gm_get drivers \<subseteq>\<^sub>m gm_get drivers'"
    using assms(1) load_loop_le [of _ m drivers e m' drivers']
    by (auto simp: LoadFromConfig_def split: option.splits if_splits)
  with assms(2) have "gm_get drivers' name = Some factory" by (metis domI map_le_def)
  then show ?thesis by (simp add: registry_Get_def)
qed

definition demo_factory :: "string \<Rightarrow> (string list, unit, unit) driver_factory" where
  "demo_factory name cfg w =
     (Inr \<lparr>obj_driver = list_driver name, obj_NodeOperations = None, obj_ExtendedOperations = Some ()\<rparr>, w)"

definition demo_plugin :: "string \<Rightarrow> (string list, unit, unit) descriptor" where
  "demo_plugin name =
     \<lparr>pd_Name = name, pd_Version = ''0.1'', pd_Description = '''', pd_Builtin = False,
      pd_Factory = Some (demo_factory ''custom'')\<rparr>"

definition demo_manager :: "(string list, unit, unit) plugin_manager" where
  "demo_manager = \<lparr>pm_plugins = [(''docker'', demo_plugin ''docker''), (''nomad'', demo_plugin ''nomad'')],
     pm_enabled = [(''docker'', True), (''nomad'', True)]\<rparr>"

definition allow :: "string list \<Rightarrow> config" where
  "allow names = DefaultConfig\<lparr>cfg_Plugins := \<lparr>psc_Enabled = True,
     psc_Allow = map (\<lambda>n. \<lparr>plc_Name = n, plc_Module = '''', plc_Description = '''', plc_Enabled = True\<rparr>) names\<rparr>\<rparr>"

theorem plugins_cannot_replace_drivers_witness:
  "\<exists>m' drivers'. LoadFromConfig (Some (allow [''docker''])) demo_manager [(''docker'', demo_factory ''docker'')] = (None, m', drivers') \<and>
     registry_Get drivers' ''docker'' DefaultConfig [] = demo_factory ''docker'' DefaultConfig []"
proof -
  obtain e m' drivers' where l: "LoadFromConfig (Some (allow [''docker''])) demo_manager
      [(''docker'', demo_factory ''docker'')] = (e, m', drivers')" by (metis prod.exhaust)
  then have "e = None" by (auto simp: LoadFromConfig_def allow_def demo_manager_def)
  with l plugins_cannot_replace_drivers [OF l, of "''docker''" "demo_factory ''docker''"] show ?thesis by simp
qed

text \<open>
  C18. \<open>LoadFromConfig\<close> with plugins enabled succeeds exactly when every enabled entry names a
  known plugin, and then the registry has gained exactly the enabled plugins that bring a
  factory: built-in entries, which bring none, add nothing.
\<close>

theorem load_from_config_exact:
  assumes "LoadFromConfig (Some cfg) m drivers = (e, m', drivers')" and "psc_Enabled (cfg_Plugins cfg)" and "named m"
  shows "(e = None) = (enabled_names (psc_Allow (cfg_Plugins cfg)) \<subseteq> dom (gm_get (pm_plugins m))) \<and>
    (if e = None
     then dom (gm_get drivers') = dom (gm_get drivers) \<union> (enabled_names (psc_Allow (cfg_Plugins cfg)) \<inter> custom_names m)
     else dom (gm_get drivers) \<subseteq> dom (gm_get drivers'))"
proof -
  from assms(1,2) have l: "load_loop (psc_Allow (cfg_Plugins cfg)) m drivers = (e, m', drivers')"
    by (simp add: LoadFromConfig_def)
  from load_loop_dom [OF l assms(3)] load_loop_le [OF l] show ?thesis
    by (auto dest: map_le_implies_dom_le)
qed

theorem load_from_config_exact_witness:
  "\<exists>m' drivers'. LoadFromConfig (Some (allow [''nomad''])) demo_manager [(''docker'', demo_factory ''docker'')] = (None, m', drivers') \<and>
     dom (gm_get drivers') = {''docker'', ''nomad''}"
proof -
  obtain e m' drivers' where l: "LoadFromConfig (Some (allow [''nomad''])) demo_manager
      [(''docker'', demo_factory ''docker'')] = (e, m', drivers')" by (metis prod.exhaust)
  then have e: "e = None" by (auto simp: LoadFromConfig_def allow_def demo_manager_def)
  have "named demo_manager" by (simp add: named_def demo_manager_def demo_plugin_def)
  from load_from_config_exact [OF l _ this] e
  have "dom (gm_get drivers') = insert ''docker''
      (enabled_names (psc_Allow (cfg_Plugins (allow [''nomad'']))) \<inter> custom_names demo_manager)"
    by (simp add: allow_def)
  moreover have "enabled_names (psc_Allow (cfg_Plugins (allow [''nomad'']))) = {''nomad''}"
    by (simp add: allow_def enabled_names_Cons enabled_names_def [of "[]"])
  moreover have "''nomad'' \<in> custom_names demo_manager"
    by (simp add: custom_names_def demo_manager_def demo_plugin_def)
  ultimately show ?thesis using l e by simp
qed

text \<open>
  \<open>RegisterBuiltins\<close> overwrites without a check: a custom plugin that took the name of a
  built-in backend is gone from the manager afterwards, and enabling that name in the
  configuration registers nothing, although no error is reported.
\<close>

theorem builtins_overwrite_custom:
  assumes "name \<in> {''docker'', ''kubernetes'', ''podman'', ''compose'', ''remote''}"
  shows "\<exists>m'. LoadFromConfig (Some (allow [name])) (RegisterBuiltins m) drivers = (None, m', drivers) \<and>
    (\<exists>d. gm_get (pm_plugins m') name = Some d \<and> pd_Builtin d \<and> pd_Factory d = None)"
proof -
  from assms obtain d where "gm_get (pm_plugins (RegisterBuiltins m)) name = Some d"
      and "pd_Builtin d" "pd_Factory d = None"
    by (auto simp: pm_plugins_RegisterBuiltins builtin_descriptor_def)
  then show ?thesis by (simp add: LoadFromConfig_def allow_def registerDriverLocked_def)
qed

theorem builtins_overwrite_custom_witness:
  "\<exists>m'. LoadFromConfig (Some (allow [''docker''])) (RegisterBuiltins demo_manager) [] = (None, m', [])"
  using builtins_overwrite_custom [of "''docker''" demo_manager "[]"] by auto

text \<open>
  The server starts serving only on a driver that the registry holds under the
  configured default backend and that has just answered its ping; when plugins are not
  enabled it is the driver of the registry as it was before.
\<close>

theorem serving_driver_is_live:
  assumes "runtime_main (Inr cfg) listen pm drivers w = (Serving d, w')" and "\<not> psc_Enabled (cfg_Plugins cfg)"
  shows "\<exists>obj w1 w2. registry_Get drivers (rc_DefaultBackend (cfg_Runtime cfg)) cfg w = (Inr obj, w1) \<and>
    d = obj_driver obj \<and> drv_Ping d w1 = (None, w2) \<and> listen w2 = (Inr (), w')"
  using assms by (auto simp: runtime_main_def LoadFromConfig_def split: prod.splits sum.splits option.splits)

theorem serving_driver_is_live_witness:
  "\<exists>d. runtime_main (Inr DefaultConfig) (returnE ()) demo_manager [(''kubernetes'', demo_factory ''kubernetes'')] [] = (Serving d, []) \<and>
     drv_Ping d [] = (None, [])"
proof -
  let ?d = "list_driver ''kubernetes''"
  have "runtime_main (Inr DefaultConfig) (returnE ()) demo_manager [(''kubernetes'', demo_factory ''kubernetes'')] [] = (Serving ?d, [])"
    by (simp add: runtime_main_def LoadFromConfig_def DefaultConfig_def registry_Get_def demo_factory_def
        list_driver_def returnE_def)
  with serving_driver_is_live [OF this] show ?thesis
    by (auto simp: DefaultConfig_def registry_Get_def demo_factory_def returnE_def)
qed

end
