(* ===== verification/Container_Options.thy ===== *)
theory Container_Options
  imports Workload_Types
begin

text \<open>
  The pure helpers that fill in a container: \<open>internal/gpu/gpu.go\<close>, \<open>internal/bandwidth/limit.go\<close>,
  \<open>internal/probes/convert.go\<close> and \<open>pkg/imageutil/image.go\<close>. A Go map that may be nil is an
  option. Products of \<open>int32\<close> fields wrap around as in Go (\<open>i32\<close>). The target records have
  the fields of the Kubernetes and Docker types that the code writes.
\<close>

section \<open>GPU requests\<close>

definition VendorNVIDIA :: string where "VendorNVIDIA = ''nvidia''"
definition VendorAMD :: string where "VendorAMD = ''amd''"

definition GetGPUResourceName :: "string \<Rightarrow> string result" where
  "GetGPUResourceName vendor =
     (if ToLower vendor = VendorNVIDIA then Inr ''nvidia.com/gpu''
      else if ToLower vendor = VendorAMD then Inr ''amd.com/gpu''
      else Inl (Errorf (''unsupported GPU vendor: '' @ vendor)))"

definition ValidateGPUSpec :: "gpu_spec option \<Rightarrow> go_error option" where
  "ValidateGPUSpec spec =
     (case spec of
        None \<Rightarrow> None
      | Some g \<Rightarrow>
          if gpu_Count g \<le> 0 then Some (Errorf (''GPU count must be positive, got: '' @ Itoa (gpu_Count g)))
          else if ToLower (gpu_Vendor g) \<noteq> VendorNVIDIA \<and> ToLower (gpu_Vendor g) \<noteq> VendorAMD
          then Some (Errorf (''unsupported GPU vendor: '' @ gpu_Vendor g @ '' (must be 'nvidia' or 'amd')''))
          else None)"

definition BuildDockerDeviceRequests :: "gpu_spec option \<Rightarrow> (string, string) gomap list result" where
  "BuildDockerDeviceRequests spec =
     (case spec of
        None \<Rightarrow> Inr []
      | Some g \<Rightarrow>
          (case ValidateGPUSpec spec of
             Some err \<Rightarrow> Inl err
           | None \<Rightarrow>
               Inr (if ToLower (gpu_Vendor g) = VendorNVIDIA
                    then [[(''Driver'', ''nvidia''), (''DeviceIDs'', ''all''), (''Capabilities'', ''gpu,compute,utility,display'')]]
                    else if ToLower (gpu_Vendor g) = VendorAMD
                    then [[(''Driver'', ''amdgpu''), (''DeviceIDs'', ''all'')]]
                    else [])))"

definition BuildKubernetesResourceRequirements :: "gpu_spec option \<Rightarrow> (string, string) gomap result" where
  "BuildKubernetesResourceRequirements spec =
     (case spec of
        None \<Rightarrow> Inr []
      | Some g \<Rightarrow>
          (case ValidateGPUSpec spec of
             Some err \<Rightarrow> Inl err
           | None \<Rightarrow>
               (case GetGPUResourceName (gpu_Vendor g) of
                  Inl err \<Rightarrow> Inl err
                | Inr resourceName \<Rightarrow> Inr [(resourceName, Itoa (gpu_Count g))])))"

definition DetectGPUVendor :: "(string, string) gomap \<Rightarrow> string" where
  "DetectGPUVendor nodeLabels =
     (if gm_get nodeLabels ''nvidia.com/gpu.present'' \<noteq> None then VendorNVIDIA
      else if gm_get nodeLabels ''amd.com/gpu.present'' \<noteq> None then VendorAMD
      else '''')"

section \<open>Bandwidth limits\<close>

definition annotationIngress :: string where "annotationIngress = ''kubernetes.io/ingress-bandwidth''"
definition annotationEgress :: string where "annotationEgress = ''kubernetes.io/egress-bandwidth''"

definition normalizeLimit :: "string \<Rightarrow> string" where
  "normalizeLimit raw0 =
     (let raw = TrimSpace raw0; lower = ToLower raw
      in if raw = '''' then ''''
         else if HasSuffix lower ''bit'' \<or> HasSuffix lower ''bps'' then raw
         else case Atoi raw of
                Some n \<Rightarrow> if 0 < n then Itoa n @ ''Mbit'' else raw
              | None \<Rightarrow> raw)"

definition managed_bandwidth :: "workload_spec \<Rightarrow> network_bandwidth option" where
  "managed_bandwidth spec =
     (case ws_NetworkBandwidth spec of None \<Rightarrow> None | Some b \<Rightarrow> if nb_Enabled b then Some b else None)"

definition set_limit :: "string \<Rightarrow> string \<Rightarrow> (string, string) gomap \<Rightarrow> (string, string) gomap" where
  "set_limit k v m = (if v \<noteq> '''' then gm_put k v m else m)"

definition ApplyPodAnnotations :: "workload_spec \<Rightarrow> (string, string) gomap option \<Rightarrow> (string, string) gomap option" where
  "ApplyPodAnnotations spec annotations =
     (case managed_bandwidth spec of
        None \<Rightarrow> annotations
      | Some b \<Rightarrow>
          let m = (case annotations of None \<Rightarrow> [] | Some m \<Rightarrow> m)
          in Some (set_limit annotationEgress (normalizeLimit (nb_EgressLimit b))
               (set_limit annotationIngress (normalizeLimit (nb_IngressLimit b)) m)))"

definition ApplyDockerLabels :: "workload_spec \<Rightarrow> (string, string) gomap option" where
  "ApplyDockerLabels spec =
     (case managed_bandwidth spec of
        None \<Rightarrow> None
      | Some b \<Rightarrow>
          Some (set_limit ''kranix.io/ingress-bandwidth'' (normalizeLimit (nb_IngressLimit b))
            (set_limit ''kranix.io/egress-bandwidth'' (normalizeLimit (nb_EgressLimit b))
              [(''kranix.io/bandwidth-managed'', ''true'')])))"

section \<open>Probes\<close>

datatype probe_handler =
    TCPSocket int
  | ExecAction "string list"
  | HTTPGet string int string

record k8s_probe =
  kp_InitialDelaySeconds :: int
  kp_PeriodSeconds :: int
  kp_TimeoutSeconds :: int
  kp_FailureThreshold :: int
  kp_SuccessThreshold :: int
  kp_ProbeHandler :: probe_handler

record container_probes =
  cp_StartupProbe :: "k8s_probe option"
  cp_LivenessProbe :: "k8s_probe option"
  cp_ReadinessProbe :: "k8s_probe option"

record health_config =
  hc_Test :: "string list"
  hc_Interval :: duration
  hc_Timeout :: duration
  hc_Retries :: int
  hc_StartPeriod :: duration

definition defaultInt32 :: "int \<Rightarrow> int \<Rightarrow> int" where
  "defaultInt32 v fallback = (if v \<le> 0 then fallback else v)"

definition probe_kind :: "probe_spec \<Rightarrow> string" where
  "probe_kind spec = ToLower (TrimSpace (pr_Type spec))"

definition probe_path :: "probe_spec \<Rightarrow> string" where
  "probe_path spec = (if pr_Path spec = '''' then ''/'' else pr_Path spec)"

definition probeHandler :: "probe_spec \<Rightarrow> probe_handler" where
  "probeHandler spec =
     (if probe_kind spec = ''tcp'' then TCPSocket (defaultInt32 (pr_Port spec) 8080)
      else if probe_kind spec = ''exec'' then ExecAction (pr_Command spec)
      else HTTPGet (probe_path spec) (defaultInt32 (pr_Port spec) 8080)
             (if EqualFold (pr_Scheme spec) ''HTTPS'' then ''HTTPS'' else ''HTTP''))"

definition toK8sProbe :: "probe_spec \<Rightarrow> k8s_probe" where
  "toK8sProbe spec =
     \<lparr>kp_InitialDelaySeconds = pr_InitialDelaySeconds spec,
      kp_PeriodSeconds = defaultInt32 (pr_PeriodSeconds spec) 10,
      kp_TimeoutSeconds = defaultInt32 (pr_TimeoutSeconds spec) 1,
      kp_FailureThreshold = defaultInt32 (pr_FailureThreshold spec) 3,
      kp_SuccessThreshold = defaultInt32 (pr_SuccessThreshold spec) 1,
      kp_ProbeHandler = probeHandler spec\<rparr>"

definition set_probe :: "k8s_probe option \<Rightarrow> probe_spec option \<Rightarrow> k8s_probe option" where
  "set_probe old spec = (case spec of None \<Rightarrow> old | Some p \<Rightarrow> Some (toK8sProbe p))"

definition ApplyKubernetesProbes :: "workload_probes option \<Rightarrow> container_probes \<Rightarrow> container_probes" where
  "ApplyKubernetesProbes probes c =
     (case probes of
        None \<Rightarrow> c
      | Some p \<Rightarrow> \<lparr>cp_StartupProbe = set_probe (cp_StartupProbe c) (wp_Startup p),
                   cp_LivenessProbe = set_probe (cp_LivenessProbe c) (wp_Liveness p),
                   cp_ReadinessProbe = set_probe (cp_ReadinessProbe c) (wp_Readiness p)\<rparr>)"

definition dockerHealthTest :: "probe_spec \<Rightarrow> string list" where
  "dockerHealthTest spec =
     (if probe_kind spec = ''tcp''
      then [''CMD-SHELL'', ''nc -z localhost '' @ Itoa (defaultInt32 (pr_Port spec) 8080) @ '' || exit 1'']
      else if probe_kind spec = ''exec''
      then (if length (pr_Command spec) = 0 then [''CMD-SHELL'', ''exit 0'']
            else [''CMD-SHELL'', join_with CHR '' '' (pr_Command spec)])
      else [''CMD-SHELL'', ''curl -fsS '' @ (if EqualFold (pr_Scheme spec) ''HTTPS'' then ''https'' else ''http'') @
              ''://localhost:'' @ Itoa (defaultInt32 (pr_Port spec) 8080) @ probe_path spec @ '' || exit 1''])"

definition health_probe :: "workload_probes \<Rightarrow> probe_spec option" where
  "health_probe p =
     (case wp_Liveness p of Some s \<Rightarrow> Some s
      | None \<Rightarrow> (case wp_Startup p of Some s \<Rightarrow> Some s | None \<Rightarrow> wp_Readiness p))"

definition start_period :: "workload_probes \<Rightarrow> int" where
  "start_period p =
     (case wp_Startup p of
        None \<Rightarrow> 0
      | Some s \<Rightarrow>
          let base = defaultInt32 (pr_InitialDelaySeconds s) 30
          in if 0 < pr_PeriodSeconds s \<and> 0 < pr_FailureThreshold s
             then base + i32 (pr_PeriodSeconds s * pr_FailureThreshold s) else base)"

definition ApplyDockerHealthcheck :: "workload_probes option \<Rightarrow> health_config option \<Rightarrow> health_config option" where
  "ApplyDockerHealthcheck probes hc =
     (case probes of
        None \<Rightarrow> hc
      | Some p \<Rightarrow>
          (case health_probe p of
             None \<Rightarrow> hc
           | Some spec \<Rightarrow>
               Some \<lparr>hc_Test = dockerHealthTest spec,
                 hc_Interval = defaultInt32 (pr_PeriodSeconds spec) 10 * Second,
                 hc_Timeout = defaultInt32 (pr_TimeoutSeconds spec) 1 * Second,
                 hc_Retries = defaultInt32 (pr_FailureThreshold spec) 3,
                 hc_StartPeriod = start_period p * Second\<rparr>))"

section \<open>Image references\<close>

text \<open>The placeholders of \<open>ImageHelper\<close> always fail; \<open>Exists\<close> always answers no.\<close>

definition Pull :: "string \<Rightarrow> go_error option" where
  "Pull imageRef = Some (Errorf (''image pull not implemented: '' @ imageRef))"

definition Tag :: "string \<Rightarrow> string \<Rightarrow> go_error option" where
  "Tag source target = Some (Errorf (''image tag not implemented: '' @ source @ '' -> '' @ target))"

definition Push :: "string \<Rightarrow> go_error option" where
  "Push imageRef = Some (Errorf (''image push not implemented: '' @ imageRef))"

definition Remove :: "string \<Rightarrow> bool \<Rightarrow> go_error option" where
  "Remove imageRef force = Some (Errorf (''image remove not implemented: '' @ imageRef))"

definition Exists :: "string \<Rightarrow> bool result" where
  "Exists imageRef = Inr False"

definition ParseImageRef :: "string \<Rightarrow> string \<times> string \<times> string" where
  "ParseImageRef imageRef =
     (let parts = split_on CHR '':'' imageRef;
          (repository, tag) = (if length parts = 2 then (parts ! 0, parts ! 1) else (imageRef, ''latest''));
          repoParts = split_on CHR ''/'' repository
      in if 1 < length repoParts \<and> Contains (repoParts ! 0) ''.''
         then (repoParts ! 0, join_with CHR ''/'' (tl repoParts), tag)
         else (''docker.io'', repository, tag))"

section \<open>Lemmas\<close>

lemma gpu_valid_iff:
  "ValidateGPUSpec (Some g) = None \<longleftrightarrow> 0 < gpu_Count g \<and> ToLower (gpu_Vendor g) \<in> {VendorNVIDIA, VendorAMD}"
  by (auto simp: ValidateGPUSpec_def)

lemma vendors_differ [simp]: "VendorNVIDIA \<noteq> VendorAMD"
  by (simp add: VendorNVIDIA_def VendorAMD_def)

lemma TrimSpace_normalizeLimit: "TrimSpace (normalizeLimit raw) = normalizeLimit raw"
proof -
  have "TrimSpace (Itoa n @ ''Mbit'') = Itoa n @ ''Mbit''" if "0 < n" for n
  proof (rule TrimSpace_id, rule disjI2, rule conjI)
    have "Itoa n = nat_str (nat n)" using that by (simp add: Itoa_def)
    moreover have "\<not> is_space (hd (nat_str (nat n)))"
      using hd_nat_str [of "nat n"] by (auto simp: is_digit_def is_space_def Let_def)
    ultimately show "\<not> is_space (hd (Itoa n @ ''Mbit''))" by simp
  qed (simp add: is_space_def)
  then show ?thesis by (simp add: normalizeLimit_def Let_def split: option.split)
qed

lemma HasSuffix_lower_Mbit: "HasSuffix (ToLower (s @ ''Mbit'')) ''bit''"
proof -
  have "lower_char CHR ''M'' = CHR ''m''" "lower_char CHR ''b'' = CHR ''b''" "lower_char CHR ''i'' = CHR ''i''"
    "lower_char CHR ''t'' = CHR ''t''" by code_simp+
  then have "ToLower (s @ ''Mbit'') = (ToLower s @ ''m'') @ ''bit''" by (simp add: ToLower_def)
  then show ?thesis by (simp only: HasSuffix_append)
qed

lemma split_two: "c \<notin> set s \<Longrightarrow> c \<notin> set t \<Longrightarrow> split_on c (s @ c # t) = [s, t]"
  by (simp add: split_on_append split_on_none)

lemma join_tl_split: "c \<notin> set s \<Longrightarrow> join_with c (tl (split_on c (s @ c # t))) = t"
  by (simp add: split_on_append)

lemma length_split_join: "0 < length (split_on c s)"
  by simp

section \<open>Properties\<close>

text \<open>
  The Docker and the Kubernetes translation of a GPU request accept the same requests:
  those with a positive count and a vendor that is \<open>nvidia\<close> or \<open>amd\<close> in any case. The
  Kubernetes limit carries the exact count; the Docker request is the same for every count,
  so a container gets all devices of the vendor.
\<close>

theorem gpu_translations_agree:
  "is_ok (BuildKubernetesResourceRequirements (Some g)) = is_ok (BuildDockerDeviceRequests (Some g)) \<and>
   is_ok (BuildDockerDeviceRequests (Some g)) = (0 < gpu_Count g \<and> ToLower (gpu_Vendor g) \<in> {VendorNVIDIA, VendorAMD}) \<and>
   (case BuildKubernetesResourceRequirements (Some g) of
      Inl e \<Rightarrow> True
    | Inr m \<Rightarrow> \<exists>name. m = [(name, Itoa (gpu_Count g))] \<and>
        BuildDockerDeviceRequests (Some g) = BuildDockerDeviceRequests (Some (g\<lparr>gpu_Count := 1\<rparr>)))"
proof (cases "ValidateGPUSpec (Some g)")
  case None
  then have v: "0 < gpu_Count g" "ToLower (gpu_Vendor g) \<in> {VendorNVIDIA, VendorAMD}" by (simp_all add: gpu_valid_iff)
  then have one: "ValidateGPUSpec (Some (g\<lparr>gpu_Count := 1\<rparr>)) = None" by (simp add: gpu_valid_iff)
  from v(2) show ?thesis using v(1)
    by (auto simp: BuildKubernetesResourceRequirements_def BuildDockerDeviceRequests_def None one GetGPUResourceName_def)
next
  case (Some e)
  then have "\<not> (0 < gpu_Count g \<and> ToLower (gpu_Vendor g) \<in> {VendorNVIDIA, VendorAMD})"
    using gpu_valid_iff [of g] by simp
  with Some show ?thesis
    by (auto simp: BuildKubernetesResourceRequirements_def BuildDockerDeviceRequests_def)
qed

text \<open>
  Bandwidth limits reach a normal form: the result has no surrounding white space, a
  positive plain number has become that number of \<open>Mbit\<close>, and normalising twice changes
  nothing.
\<close>

theorem bandwidth_normal_form:
  "TrimSpace (normalizeLimit raw) = normalizeLimit raw \<and>
   normalizeLimit (normalizeLimit raw) = normalizeLimit raw \<and>
   normalizeLimit (Itoa (int n)) = (if 0 < n \<and> n < 2 ^ 63 then Itoa (int n) @ ''Mbit'' else Itoa (int n))"
proof (intro conjI)
  show "TrimSpace (normalizeLimit raw) = normalizeLimit raw" by (rule TrimSpace_normalizeLimit)
  have mbit: "normalizeLimit (normalizeLimit raw) = normalizeLimit raw" if "normalizeLimit raw = Itoa n @ ''Mbit''" for n
    using TrimSpace_normalizeLimit [of raw] HasSuffix_lower_Mbit [of "Itoa n"] that
    by (simp add: normalizeLimit_def [of "Itoa n @ ''Mbit''"] Let_def)
  have "normalizeLimit raw = TrimSpace raw \<or> (\<exists>n. normalizeLimit raw = Itoa n @ ''Mbit'')"
    by (auto simp: normalizeLimit_def Let_def split: option.split)
  then show "normalizeLimit (normalizeLimit raw) = normalizeLimit raw"
  proof
    assume e: "normalizeLimit raw = TrimSpace raw"
    have "normalizeLimit (TrimSpace raw) = normalizeLimit raw" by (simp add: normalizeLimit_def)
    with e show ?thesis by simp
  qed (auto intro: mbit)
  show "normalizeLimit (Itoa (int n)) = (if 0 < n \<and> n < 2 ^ 63 then Itoa (int n) @ ''Mbit'' else Itoa (int n))"
  proof -
    have d: "list_all is_digit (Itoa (int n))" and ne: "Itoa (int n) \<noteq> []"
      by (simp_all add: Itoa_def nat_str_digits)
    have nosp: "is_digit c \<Longrightarrow> \<not> is_space c" for c by (auto simp: is_digit_def is_space_def Let_def)
    from d ne have t: "TrimSpace (Itoa (int n)) = Itoa (int n)"
      by (intro TrimSpace_id disjI2 conjI) (auto simp: list_all_iff intro!: nosp)
    have "last (ToLower (Itoa (int n))) \<noteq> CHR ''t'' \<and> last (ToLower (Itoa (int n))) \<noteq> CHR ''s''"
    proof -
      from d ne have "is_digit (last (Itoa (int n)))" by (auto simp: list_all_iff)
      with ne show ?thesis by (auto simp: ToLower_def last_map lower_char_def is_digit_def Let_def)
    qed
    then have s: "\<not> HasSuffix (ToLower (Itoa (int n))) ''bit''" "\<not> HasSuffix (ToLower (Itoa (int n))) ''bps''"
      by (auto simp: HasSuffix_iff suffix_def)
    have dv: "nat_str n = x # xs \<Longrightarrow> digits_val (x # xs) = n" for x xs
      using digits_val_nat_str [of n] by simp
    have a: "Atoi (Itoa (int n)) = (if n < 2 ^ 63 then Some (int n) else None)"
      using d ne is_digit_neq [of "hd (Itoa (int n))"]
      by (cases "Itoa (int n)") (auto simp: Atoi_def Let_def Itoa_def dv)
    show ?thesis using t s a ne by (auto simp: normalizeLimit_def Let_def)
  qed
qed

text \<open>
  A probe made for Kubernetes is always acceptable: whatever values the spec leaves at
  zero or sets below it, period, timeout and both thresholds are at least 1, a port is at
  least 1, and an HTTP path is not empty; positive values are passed on unchanged.
\<close>

theorem k8s_probe_valid:
  "1 \<le> kp_PeriodSeconds (toK8sProbe p) \<and> 1 \<le> kp_TimeoutSeconds (toK8sProbe p) \<and>
   1 \<le> kp_FailureThreshold (toK8sProbe p) \<and> 1 \<le> kp_SuccessThreshold (toK8sProbe p) \<and>
   (case kp_ProbeHandler (toK8sProbe p) of
      TCPSocket port \<Rightarrow> 1 \<le> port
    | ExecAction cmd \<Rightarrow> cmd = pr_Command p
    | HTTPGet path port scheme \<Rightarrow> path \<noteq> '''' \<and> 1 \<le> port \<and> scheme \<in> {''HTTP'', ''HTTPS''}) \<and>
   (if 0 < pr_PeriodSeconds p then kp_PeriodSeconds (toK8sProbe p) = pr_PeriodSeconds p else kp_PeriodSeconds (toK8sProbe p) = 10)"
  by (simp add: toK8sProbe_def defaultInt32_def probeHandler_def probe_path_def)

text \<open>
  The start period of a Docker health check, in \<open>int32\<close> arithmetic: while the product of
  period and threshold fits 32 bits the check waits for the initial delay plus that product,
  and never for a negative time.
\<close>

theorem start_period_exact:
  assumes "wp_Startup p = Some s" and "pr_PeriodSeconds s * pr_FailureThreshold s < 2 ^ 31"
  shows "start_period p = defaultInt32 (pr_InitialDelaySeconds s) 30 +
      (if 0 < pr_PeriodSeconds s \<and> 0 < pr_FailureThreshold s then pr_PeriodSeconds s * pr_FailureThreshold s else 0) \<and>
    0 < start_period p"
proof -
  have "i32 (pr_PeriodSeconds s * pr_FailureThreshold s) = pr_PeriodSeconds s * pr_FailureThreshold s"
    if "0 < pr_PeriodSeconds s" "0 < pr_FailureThreshold s"
    using mult_pos_pos [OF that] assms(2) by (intro i32_id) auto
  moreover have "0 < defaultInt32 (pr_InitialDelaySeconds s) 30" by (simp add: defaultInt32_def)
  ultimately show ?thesis using assms(1) by (auto simp: start_period_def Let_def add_pos_pos)
qed

definition demo_probe :: "int \<Rightarrow> int \<Rightarrow> probe_spec" where
  "demo_probe period failures =
     \<lparr>pr_Type = ''http'', pr_InitialDelaySeconds = 5, pr_PeriodSeconds = period, pr_TimeoutSeconds = 0,
      pr_FailureThreshold = failures, pr_SuccessThreshold = 0, pr_Port = 0, pr_Command = [], pr_Scheme = '''',
      pr_Path = ''''\<rparr>"

definition startup_only :: "probe_spec \<Rightarrow> workload_probes" where
  "startup_only s = \<lparr>wp_Startup = Some s, wp_Liveness = None, wp_Readiness = None\<rparr>"

theorem start_period_exact_witness: "start_period (startup_only (demo_probe 10 30)) = 305"
  using start_period_exact [of "startup_only (demo_probe 10 30)" "demo_probe 10 30"]
  by (simp add: startup_only_def demo_probe_def defaultInt32_def)

text \<open>
  Outside those bounds the product wraps around: a period and a threshold of 50000 give
  a negative start period.
\<close>

theorem start_period_wraps:
  "start_period (startup_only (demo_probe 50000 50000)) = 5 + (50000 * 50000 - 2 ^ 32) \<and>
   start_period (startup_only (demo_probe 50000 50000)) < 0"
  by (simp add: start_period_def startup_only_def demo_probe_def defaultInt32_def i32_def)

text \<open>
  An image reference with a registry host, a repository and a tag is taken apart into
  exactly these parts, for a host that contains a dot and no port.
\<close>

theorem parse_image_ref_roundtrip:
  assumes "CHR '':'' \<notin> set host" and "CHR ''/'' \<notin> set host" and "CHR ''.'' \<in> set host"
    and "CHR '':'' \<notin> set repo" and "CHR '':'' \<notin> set tag"
  shows "ParseImageRef (host @ ''/'' @ repo @ '':'' @ tag) = (host, repo, tag)"
proof -
  have s: "split_on CHR '':'' ((host @ CHR ''/'' # repo) @ CHR '':'' # tag) = [host @ CHR ''/'' # repo, tag]"
    by (rule split_two) (use assms in auto)
  have "Contains host ''.''"
    using assms(3) by (auto simp: Contains_iff sublist_def in_set_conv_decomp)
  then show ?thesis using s assms(2)
    by (simp add: ParseImageRef_def split_on_append length_split_join join_tl_split)
qed

theorem parse_image_ref_roundtrip_witness:
  "ParseImageRef ''ghcr.io/kranix/web:1.2'' = (''ghcr.io'', ''kranix/web'', ''1.2'')"
  using parse_image_ref_roundtrip [of "''ghcr.io''" "''kranix/web''" "''1.2''"] by simp

text \<open>
  A registry with a port defeats the parser: without a tag the repository is cut at the
  port and the rest becomes the tag; with a tag the tag is lost.
\<close>

theorem parse_image_ref_port:
  assumes "CHR '':'' \<notin> set host" and "CHR ''/'' \<notin> set host" and "CHR '':'' \<notin> set rest" and "CHR '':'' \<notin> set tag"
  shows "ParseImageRef (host @ '':'' @ rest) = (''docker.io'', host, rest) \<and>
    snd (snd (ParseImageRef (host @ '':'' @ rest @ '':'' @ tag))) = ''latest''"
proof
  from assms show "ParseImageRef (host @ '':'' @ rest) = (''docker.io'', host, rest)"
    by (simp add: ParseImageRef_def split_two split_on_none)
  have "length (split_on CHR '':'' (host @ CHR '':'' # (rest @ CHR '':'' # tag))) = 3"
    using assms by (simp add: split_on_append split_on_none)
  then show "snd (snd (ParseImageRef (host @ '':'' @ rest @ '':'' @ tag))) = ''latest''"
    by (simp add: ParseImageRef_def Let_def)
qed

theorem parse_image_ref_port_witness:
  "ParseImageRef ''localhost:5000/web'' = (''docker.io'', ''localhost'', ''5000/web'')"
  using parse_image_ref_port [of "''localhost''" "''5000/web''" "''1''"] by simp

end
