(* ===== verification/Scheduling.thy ===== *)
theory Scheduling
  imports Workload_Types Migration
begin

text \<open>
  What turns the scheduling part of a workload into node constraints:
  \<open>internal/placement/labels.go\<close>, \<open>internal/arch/scheduling.go\<close>, \<open>pkg/imageutil/platform.go\<close>,
  \<open>internal/kubernetes/scheduling.go\<close>, \<open>internal/kubernetes/labels.go\<close> and the affinity
  conversion of \<open>internal/kubernetes/deploy.go\<close>. The Go functions write through the spec they
  are given; here they return it. No caller passes a nil spec. The string constants that
  \<open>kranix-packages\<close> declares are the parameter \<open>tc\<close>.
\<close>

section \<open>Constants of the types module\<close>

record types_constants =
  tc_ArchARM64 :: string
  tc_ArchAMD64 :: string
  tc_WorkloadPriorityCritical :: string
  tc_WorkloadPriorityHigh :: string
  tc_WorkloadPriorityLow :: string
  tc_LabelKeyTeam :: string
  tc_LabelKeyEnvironment :: string
  tc_LabelKeyCostCenter :: string

section \<open>Placement\<close>

definition labelRegion :: string where "labelRegion = ''topology.kubernetes.io/region''"
definition labelZone :: string where "labelZone = ''topology.kubernetes.io/zone''"
definition labelInstanceType :: string where "labelInstanceType = ''node.kubernetes.io/instance-type''"
definition labelHardware :: string where "labelHardware = ''kranix.io/hardware''"

definition nodePlacementField :: "scheduling_config \<Rightarrow> (node_placement \<Rightarrow> string) \<Rightarrow> string" where
  "nodePlacementField s fn = (case sc_NodePlacement s of None \<Rightarrow> '''' | Some p \<Rightarrow> TrimSpace (fn p))"

fun firstPreferred :: "string list \<Rightarrow> string" where
  "firstPreferred [] = ''''"
| "firstPreferred (v # vs) = (if TrimSpace v \<noteq> '''' then TrimSpace v else firstPreferred vs)"

definition placement_firstNonEmpty :: "string \<Rightarrow> string \<Rightarrow> string" where
  "placement_firstNonEmpty a b = (if TrimSpace a \<noteq> '''' then TrimSpace a else TrimSpace b)"

definition put_if :: "string \<Rightarrow> string \<Rightarrow> (string, string) gomap \<Rightarrow> (string, string) gomap" where
  "put_if k v m = (if v \<noteq> '''' then gm_put k v m else m)"

definition put_required :: "(string, string) gomap \<Rightarrow> (string, string) gomap \<Rightarrow> (string, string) gomap" where
  "put_required labels m = fold (\<lambda>(k, v) m. if k \<noteq> '''' \<and> v \<noteq> '''' then gm_put k v m else m) labels m"

definition preferred_term :: "node_label_preference \<Rightarrow> preferred_scheduling_term" where
  "preferred_term pref =
     \<lparr>pst_Weight = (if nlp_Weight pref \<le> 0 then 1 else nlp_Weight pref),
      pst_Preference = \<lparr>nst_MatchExpressions =
        [\<lparr>nsr_Key = nlp_Key pref, nsr_Operator = ''In'', nsr_Values = [nlp_Value pref]\<rparr>], nst_MatchFields = []\<rparr>\<rparr>"

definition affinity_of :: "scheduling_config \<Rightarrow> affinity_config" where
  "affinity_of s = (case sc_Affinity s of None \<Rightarrow> zero_affinity | Some a \<Rightarrow> a)"

definition node_affinity_of :: "affinity_config \<Rightarrow> node_affinity" where
  "node_affinity_of a = (case ac_NodeAffinity a of None \<Rightarrow> zero_node_affinity | Some n \<Rightarrow> n)"

definition mergePreferredLabels :: "node_label_preference list \<Rightarrow> scheduling_config \<Rightarrow> scheduling_config" where
  "mergePreferredLabels prefs s =
     (if length prefs = 0 then s
      else let a = affinity_of s; n = node_affinity_of a;
               n' = n\<lparr>na_PreferredDuringScheduling := na_PreferredDuringScheduling n @
                      map preferred_term (filter (\<lambda>pref. nlp_Key pref \<noteq> '''') prefs)\<rparr>
           in s\<lparr>sc_Affinity := Some (a\<lparr>ac_NodeAffinity := Some n'\<rparr>)\<rparr>)"

definition scheduling_of :: "workload_spec \<Rightarrow> scheduling_config" where
  "scheduling_of spec = (case ws_Scheduling spec of None \<Rightarrow> zero_scheduling | Some s \<Rightarrow> s)"

definition selectors_of :: "scheduling_config \<Rightarrow> (string, string) gomap" where
  "selectors_of s = (case sc_NodeSelectors s of None \<Rightarrow> [] | Some m \<Rightarrow> m)"

definition base_selectors :: "scheduling_config \<Rightarrow> (string, string) gomap" where
  "base_selectors s =
     (let region = placement_firstNonEmpty (nodePlacementField s np_Region) (firstPreferred (sc_PreferredRegions s));
          zone = placement_firstNonEmpty (nodePlacementField s np_Zone) (firstPreferred (sc_PreferredZones s));
          m1 = put_if labelRegion region (selectors_of s);
          m2 = put_if labelZone zone m1;
          m3 = put_if labelHardware (nodePlacementField s np_HardwareType) m2
      in put_if labelInstanceType (nodePlacementField s np_InstanceType) m3)"

definition placement_selectors :: "scheduling_config \<Rightarrow> (string, string) gomap" where
  "placement_selectors s =
     (case sc_NodePlacement s of None \<Rightarrow> base_selectors s | Some p \<Rightarrow> put_required (np_RequiredLabels p) (base_selectors s))"

definition ApplyNodePlacement :: "workload_spec \<Rightarrow> workload_spec" where
  "ApplyNodePlacement spec =
     (let s = scheduling_of spec;
          s1 = s\<lparr>sc_NodeSelectors := Some (placement_selectors s)\<rparr>;
          s2 = (case sc_NodePlacement s of None \<Rightarrow> s1 | Some p \<Rightarrow> mergePreferredLabels (np_PreferredLabels p) s1)
      in spec\<lparr>ws_Scheduling := Some s2\<rparr>)"

section \<open>Architecture\<close>

definition k8sArchLabel :: string where "k8sArchLabel = ''kubernetes.io/arch''"

definition DetectFromImage :: "types_constants \<Rightarrow> string \<Rightarrow> string" where
  "DetectFromImage tc img =
     (let lower = ToLower img
      in if Contains lower ''arm64'' \<or> Contains lower ''aarch64'' then tc_ArchARM64 tc
         else if Contains lower ''arm/v7'' \<or> Contains lower ''arm32'' then ''arm''
         else if Contains lower ''amd64'' \<or> Contains lower ''x86_64'' then tc_ArchAMD64 tc
         else '''')"

definition NormalizeArchitecture :: "types_constants \<Rightarrow> string \<Rightarrow> string" where
  "NormalizeArchitecture tc arch =
     (let a = ToLower (TrimSpace arch)
      in if a = ''arm64'' \<or> a = ''aarch64'' then tc_ArchARM64 tc
         else if a = ''amd64'' \<or> a = ''x86_64'' \<or> a = ''x64'' then tc_ArchAMD64 tc
         else a)"

definition ResolveArchitecture :: "types_constants \<Rightarrow> workload_spec \<Rightarrow> string" where
  "ResolveArchitecture tc spec =
     (case ws_Scheduling spec of
        Some s \<Rightarrow> if sc_Architecture s \<noteq> '''' then NormalizeArchitecture tc (sc_Architecture s)
                  else DetectFromImage tc (ws_Image spec)
      | None \<Rightarrow> DetectFromImage tc (ws_Image spec))"

definition arch_requirement :: "string \<Rightarrow> node_selector_requirement" where
  "arch_requirement arch = \<lparr>nsr_Key = k8sArchLabel, nsr_Operator = ''In'', nsr_Values = [arch]\<rparr>"

definition has_arch :: "node_selector_term list \<Rightarrow> bool" where
  "has_arch required = list_ex (\<lambda>term. list_ex (\<lambda>expr. nsr_Key expr = k8sArchLabel) (nst_MatchExpressions term)) required"

definition ApplyArchitectureScheduling :: "types_constants \<Rightarrow> workload_spec \<Rightarrow> workload_spec" where
  "ApplyArchitectureScheduling tc spec =
     (let arch = ResolveArchitecture tc spec
      in if arch = '''' then spec
         else let s = scheduling_of spec; a = affinity_of s; n = node_affinity_of a;
                  required = na_RequiredDuringScheduling n;
                  n' = (if has_arch required then n
                        else n\<lparr>na_RequiredDuringScheduling := required @
                          [\<lparr>nst_MatchExpressions = [arch_requirement arch], nst_MatchFields = []\<rparr>]\<rparr>)
              in spec\<lparr>ws_Scheduling := Some (s\<lparr>sc_NodeSelectors := Some (gm_put k8sArchLabel arch (selectors_of s)),
                   sc_Affinity := Some (a\<lparr>ac_NodeAffinity := Some n'\<rparr>)\<rparr>)\<rparr>)"

definition arch_platform :: "types_constants \<Rightarrow> string \<Rightarrow> string" where
  "arch_platform tc arch =
     (if arch = tc_ArchARM64 tc then ''linux/arm64'' else if arch = tc_ArchAMD64 tc then ''linux/amd64'' else '''')"

definition DockerPlatform :: "types_constants \<Rightarrow> workload_spec \<Rightarrow> string" where
  "DockerPlatform tc spec = arch_platform tc (ResolveArchitecture tc spec)"

definition DetectPlatform :: "types_constants \<Rightarrow> string \<Rightarrow> string" where
  "DetectPlatform tc img = arch_platform tc (DetectFromImage tc img)"

section \<open>Priority and tolerations\<close>

definition resolvePriorityClassName :: "types_constants \<Rightarrow> scheduling_config option \<Rightarrow> string" where
  "resolvePriorityClassName tc sched =
     (case sched of
        None \<Rightarrow> ''''
      | Some s \<Rightarrow>
          if sc_PriorityClassName s \<noteq> '''' then sc_PriorityClassName s
          else let lvl = ToLower (TrimSpace (sc_WorkloadPriority s));
                   suffix = (if sc_PreemptionEnabled s then '''' else ''-np'')
               in if lvl = '''' then ''''
                  else if lvl = tc_WorkloadPriorityCritical tc then ''kranix-critical'' @ suffix
                  else if lvl = tc_WorkloadPriorityHigh tc then ''kranix-high'' @ suffix
                  else if lvl = tc_WorkloadPriorityLow tc then ''kranix-low'' @ suffix
                  else ''kranix-normal'' @ suffix)"

definition tolerationSecondsEqual :: "int option \<Rightarrow> int option \<Rightarrow> bool" where
  "tolerationSecondsEqual a b =
     (case (a, b) of (None, None) \<Rightarrow> True | (None, _) \<Rightarrow> False | (_, None) \<Rightarrow> False | (Some x, Some y) \<Rightarrow> x = y)"

fun tolExists :: "toleration list \<Rightarrow> string \<Rightarrow> string \<Rightarrow> string \<Rightarrow> string \<Rightarrow> int option \<Rightarrow> bool" where
  "tolExists [] key op val eff seconds = False"
| "tolExists (e # es) key op val eff seconds =
     (if tol_Key e \<noteq> key \<or> tol_Operator e \<noteq> op \<or> tol_Value e \<noteq> val \<or> tol_Effect e \<noteq> eff
      then tolExists es key op val eff seconds
      else if tolerationSecondsEqual (tol_TolerationSeconds e) seconds then True
      else tolExists es key op val eff seconds)"

fun mergeTolerations :: "toleration list \<Rightarrow> toleration list \<Rightarrow> toleration list" where
  "mergeTolerations next [] = next"
| "mergeTolerations next (t # ts) =
     (if tolExists next (tol_Key t) (tol_Operator t) (tol_Value t) (tol_Effect t) (tol_TolerationSeconds t)
      then mergeTolerations next ts else mergeTolerations (next @ [t]) ts)"

text \<open>The constants are those of \<open>k8s.io/api/core/v1\<close>.\<close>

definition no_execute :: "string \<Rightarrow> toleration" where
  "no_execute key = \<lparr>tol_Key = key, tol_Operator = ''Exists'', tol_Value = '''', tol_Effect = ''NoExecute'',
     tol_TolerationSeconds = Some 300\<rparr>"

definition spot_tolerations :: "toleration list" where
  "spot_tolerations = [no_execute ''node.kubernetes.io/not-ready'', no_execute ''node.kubernetes.io/unreachable'']"

definition reschedules :: "workload_spec \<Rightarrow> bool" where
  "reschedules spec =
     (case ws_Scheduling spec of None \<Rightarrow> False
      | Some s \<Rightarrow> (case sc_Spot s of None \<Rightarrow> False | Some sp \<Rightarrow> spot_Enabled sp \<and> spot_RescheduleOnNodeTermination sp))"

definition mergeSpotTolerations :: "workload_spec \<Rightarrow> toleration list" where
  "mergeSpotTolerations spec =
     (let base = (case ws_Scheduling spec of None \<Rightarrow> [] | Some s \<Rightarrow> sc_Tolerations s)
      in if reschedules spec then mergeTolerations base spot_tolerations else base)"

text \<open>\<open>copyStringMap\<close> gives nil for an empty map.\<close>

definition copyStringMap :: "(string, string) gomap \<Rightarrow> (string, string) gomap option" where
  "copyStringMap m = (if length m = 0 then None else Some (fold (\<lambda>(k, v) out. gm_put k v out) m []))"

section \<open>Labels\<close>

definition put_nonblank :: "string \<Rightarrow> string \<Rightarrow> (string, string) gomap \<Rightarrow> (string, string) gomap" where
  "put_nonblank k v m = put_if k (TrimSpace v) m"

definition mergeWorkloadLabels ::
  "types_constants \<Rightarrow> workload_spec \<Rightarrow> (string, string) gomap \<Rightarrow> (string, string) gomap" where
  "mergeWorkloadLabels tc spec base =
     (let out = fold (\<lambda>(k, v) m. gm_put k v m) base [];
          out1 = fold (\<lambda>(k, v) m. if TrimSpace k \<noteq> '''' then gm_put k (TrimSpace v) m else m) (ws_Labels spec) out
      in case ws_Tags spec of
           None \<Rightarrow> out1
         | Some tags \<Rightarrow>
             let out2 = put_nonblank (tc_LabelKeyTeam tc) (tag_Team tags) out1;
                 out3 = put_nonblank (tc_LabelKeyEnvironment tc) (tag_Environment tags) out2;
                 out4 = put_nonblank (tc_LabelKeyCostCenter tc) (tag_CostCenter tags) out3
             in fold (\<lambda>(k, v) m. if TrimSpace k \<noteq> '''' then gm_put (TrimSpace k) (TrimSpace v) m else m)
                  (tag_Custom tags) out4)"

section \<open>Lemmas\<close>

lemma gm_get_put_if: "gm_get (put_if k v m) k' = (if k' = k \<and> v \<noteq> '''' then Some v else gm_get m k')"
  by (simp add: put_if_def)

lemma fold_gm_put_get:
  "gm_wf labels \<Longrightarrow>
   gm_get (fold (\<lambda>(k, v) m. if P k v then gm_put (f k) (g v) m else m) labels m0) k' =
   (if \<exists>k v. (k, v) \<in> set labels \<and> P k v \<and> f k = k'
    then gm_get (fold (\<lambda>(k, v) m. if P k v then gm_put (f k) (g v) m else m) labels []) k'
    else gm_get m0 k')"
proof (induction labels arbitrary: m0)
  case (Cons e labels)
  obtain k v where e: "e = (k, v)" by (cases e)
  let ?F = "fold (\<lambda>(k, v) m. if P k v then gm_put (f k) (g v) m else m) labels"
  from Cons have IH: "gm_get (?F m1) k' = (if \<exists>k v. (k, v) \<in> set labels \<and> P k v \<and> f k = k'
      then gm_get (?F []) k' else gm_get m1 k')" for m1 by simp
  show ?case unfolding e by (simp add: IH [of "gm_put (f k) (g v) m0"] IH [of m0] IH [of "gm_put (f k) (g v) []"]) auto
qed simp

lemma gm_get_fold_put:
  "gm_wf labels \<Longrightarrow>
   gm_get (fold (\<lambda>(k, v) m. if P k v then gm_put k (g v) m else m) labels m0) k' =
   (case gm_get labels k' of Some v \<Rightarrow> if P k' v then Some (g v) else gm_get m0 k' | None \<Rightarrow> gm_get m0 k')"
proof (induction labels arbitrary: m0)
  case (Cons e labels)
  obtain k v where e: "e = (k, v)" by (cases e)
  with Cons.prems have n: "gm_get labels k = None" by (simp add: gm_get_None)
  from Cons show ?case using n unfolding e by (auto split: option.splits)
qed simp

lemma gm_get_put_required:
  "gm_wf labels \<Longrightarrow> gm_get (put_required labels m) k =
   (case gm_get labels k of Some v \<Rightarrow> if k \<noteq> '''' \<and> v \<noteq> '''' then Some v else gm_get m k | None \<Rightarrow> gm_get m k)"
  unfolding put_required_def using gm_get_fold_put [of labels "\<lambda>k v. k \<noteq> '''' \<and> v \<noteq> ''''" "\<lambda>v. v" m k] by simp

lemma gm_wf_put_if [simp, go_inv]: "gm_wf m \<Longrightarrow> gm_wf (put_if k v m)"
  by (simp add: put_if_def)

lemma gm_wf_fold_put: "gm_wf m \<Longrightarrow> gm_wf (fold (\<lambda>(k, v) m. if P k v then gm_put (f k) (g v) m else m) labels m)"
  by (induction labels arbitrary: m) auto

lemma sc_ApplyNodePlacement:
  "ws_Scheduling (ApplyNodePlacement spec) = Some (case sc_NodePlacement (scheduling_of spec) of
     None \<Rightarrow> (scheduling_of spec)\<lparr>sc_NodeSelectors := Some (placement_selectors (scheduling_of spec))\<rparr>
   | Some p \<Rightarrow> mergePreferredLabels (np_PreferredLabels p)
       ((scheduling_of spec)\<lparr>sc_NodeSelectors := Some (placement_selectors (scheduling_of spec))\<rparr>))"
  by (simp add: ApplyNodePlacement_def Let_def)

lemma mergePreferredLabels_keeps [simp]:
  "sc_NodeSelectors (mergePreferredLabels ps s) = sc_NodeSelectors s"
  "sc_NodePlacement (mergePreferredLabels ps s) = sc_NodePlacement s"
  "sc_PreferredRegions (mergePreferredLabels ps s) = sc_PreferredRegions s"
  "sc_PreferredZones (mergePreferredLabels ps s) = sc_PreferredZones s"
  "sc_Tolerations (mergePreferredLabels ps s) = sc_Tolerations s"
  by (simp_all add: mergePreferredLabels_def Let_def)

lemma preferred_mergePreferredLabels:
  "na_PreferredDuringScheduling (node_affinity_of (affinity_of (mergePreferredLabels ps s))) =
   na_PreferredDuringScheduling (node_affinity_of (affinity_of s)) @
   map preferred_term (filter (\<lambda>pref. nlp_Key pref \<noteq> '''') ps)"
  by (simp add: mergePreferredLabels_def Let_def affinity_of_def node_affinity_of_def)

lemma tolExists_iff:
  "tolExists es (tol_Key t) (tol_Operator t) (tol_Value t) (tol_Effect t) (tol_TolerationSeconds t) \<longleftrightarrow> t \<in> set es"
proof (induction es)
  case (Cons e es)
  have "tolerationSecondsEqual a b \<longleftrightarrow> a = b" for a b
    by (simp add: tolerationSecondsEqual_def split: option.splits)
  with Cons show ?case by (cases e; cases t) auto
qed simp

lemma mergeTolerations_adds:
  "\<exists>ys. mergeTolerations xs ts = xs @ ys \<and> set ys = set ts - set xs \<and> distinct ys"
proof (induction xs ts rule: mergeTolerations.induct)
  case (2 xs t ts)
  show ?case
  proof (cases "t \<in> set xs")
    case True
    with 2(1) obtain ys where "mergeTolerations xs ts = xs @ ys" "set ys = set ts - set xs" "distinct ys"
      by (auto simp: tolExists_iff)
    with True show ?thesis by (auto simp: tolExists_iff)
  next
    case False
    with 2(2) obtain ys where "mergeTolerations (xs @ [t]) ts = xs @ [t] @ ys" "set ys = set ts - set (xs @ [t])" "distinct ys"
      by (auto simp: tolExists_iff)
    with False show ?thesis by (intro exI [of _ "t # ys"]) (auto simp: tolExists_iff)
  qed
qed simp

section \<open>What a node must satisfy\<close>

text \<open>
  The documented meaning of the fields that the result is copied into: every node selector
  label must be on the node, and when required terms are given at least one of them must
  hold (the terms are alternatives; a term holds when all its requirements do, and an empty
  term never holds).
\<close>

definition requirement_holds :: "(string \<rightharpoonup> string) \<Rightarrow> node_selector_requirement \<Rightarrow> bool" where
  "requirement_holds labels r =
     (let op = nsr_Operator r; v = labels (nsr_Key r)
      in if op = ''In'' then (case v of None \<Rightarrow> False | Some x \<Rightarrow> x \<in> set (nsr_Values r))
         else if op = ''NotIn'' then (case v of None \<Rightarrow> True | Some x \<Rightarrow> x \<notin> set (nsr_Values r))
         else if op = ''Exists'' then v \<noteq> None
         else if op = ''DoesNotExist'' then v = None
         else if op = ''Gt'' \<or> op = ''Lt'' then
           (case (Option.bind v Atoi, nsr_Values r) of
              (Some x, [y]) \<Rightarrow> (case Atoi y of None \<Rightarrow> False | Some z \<Rightarrow> if op = ''Gt'' then z < x else x < z)
            | _ \<Rightarrow> False)
         else False)"

definition term_holds :: "(string \<rightharpoonup> string) \<Rightarrow> (string \<rightharpoonup> string) \<Rightarrow> node_selector_term \<Rightarrow> bool" where
  "term_holds labels nodeFields t =
     ((nst_MatchExpressions t \<noteq> [] \<or> nst_MatchFields t \<noteq> []) \<and>
      list_all (requirement_holds labels) (nst_MatchExpressions t) \<and>
      list_all (requirement_holds nodeFields) (nst_MatchFields t))"

definition required_terms :: "workload_spec \<Rightarrow> node_selector_term list" where
  "required_terms spec = na_RequiredDuringScheduling (node_affinity_of (affinity_of (scheduling_of spec)))"

definition affinity_admits :: "(string \<rightharpoonup> string) \<Rightarrow> (string \<rightharpoonup> string) \<Rightarrow> workload_spec \<Rightarrow> bool" where
  "affinity_admits labels nodeFields spec =
     (required_terms spec = [] \<or> list_ex (term_holds labels nodeFields) (required_terms spec))"

definition selector_admits :: "(string \<rightharpoonup> string) \<Rightarrow> workload_spec \<Rightarrow> bool" where
  "selector_admits labels spec =
     list_all (\<lambda>(k, v). labels k = Some v) (selectors_of (scheduling_of spec))"

lemma scheduling_of_ApplyArch:
  "ResolveArchitecture tc spec \<noteq> '''' \<Longrightarrow>
   selectors_of (scheduling_of (ApplyArchitectureScheduling tc spec)) =
     gm_put k8sArchLabel (ResolveArchitecture tc spec) (selectors_of (scheduling_of spec)) \<and>
   required_terms (ApplyArchitectureScheduling tc spec) =
     (if has_arch (required_terms spec) then required_terms spec
      else required_terms spec @ [\<lparr>nst_MatchExpressions = [arch_requirement (ResolveArchitecture tc spec)], nst_MatchFields = []\<rparr>])"
  by (auto simp: ApplyArchitectureScheduling_def Let_def scheduling_of_def selectors_of_def required_terms_def
      affinity_of_def node_affinity_of_def)

text \<open>
  The value that placement gives a selector key: a non-empty required label wins, then
  instance type, hardware, zone and region (from the placement, or else the first non-blank
  preferred zone or region).
\<close>

definition placement_pick :: "scheduling_config \<Rightarrow> string \<Rightarrow> string option" where
  "placement_pick s k =
     (let required = (case sc_NodePlacement s of None \<Rightarrow> [] | Some p \<Rightarrow> np_RequiredLabels p);
          pick = (\<lambda>f prefs. placement_firstNonEmpty (nodePlacementField s f) (firstPreferred prefs))
      in if k \<noteq> '''' \<and> gm_str required k \<noteq> '''' then Some (gm_str required k)
         else if k = labelInstanceType \<and> nodePlacementField s np_InstanceType \<noteq> '''' then Some (nodePlacementField s np_InstanceType)
         else if k = labelHardware \<and> nodePlacementField s np_HardwareType \<noteq> '''' then Some (nodePlacementField s np_HardwareType)
         else if k = labelZone \<and> pick np_Zone (sc_PreferredZones s) \<noteq> '''' then Some (pick np_Zone (sc_PreferredZones s))
         else if k = labelRegion \<and> pick np_Region (sc_PreferredRegions s) \<noteq> '''' then Some (pick np_Region (sc_PreferredRegions s))
         else None)"

definition required_wf :: "scheduling_config \<Rightarrow> bool" where
  "required_wf s = (case sc_NodePlacement s of None \<Rightarrow> True | Some p \<Rightarrow> gm_wf (np_RequiredLabels p))"

lemma gm_get_base_selectors:
  "gm_get (base_selectors s) k =
   (if k = labelInstanceType \<and> nodePlacementField s np_InstanceType \<noteq> '''' then Some (nodePlacementField s np_InstanceType)
    else if k = labelHardware \<and> nodePlacementField s np_HardwareType \<noteq> '''' then Some (nodePlacementField s np_HardwareType)
    else if k = labelZone \<and> placement_firstNonEmpty (nodePlacementField s np_Zone) (firstPreferred (sc_PreferredZones s)) \<noteq> ''''
      then Some (placement_firstNonEmpty (nodePlacementField s np_Zone) (firstPreferred (sc_PreferredZones s)))
    else if k = labelRegion \<and> placement_firstNonEmpty (nodePlacementField s np_Region) (firstPreferred (sc_PreferredRegions s)) \<noteq> ''''
      then Some (placement_firstNonEmpty (nodePlacementField s np_Region) (firstPreferred (sc_PreferredRegions s)))
    else gm_get (selectors_of s) k)"
  unfolding base_selectors_def Let_def by (simp only: gm_get_put_if)

lemma gm_get_placement_selectors:
  assumes "required_wf s"
  shows "gm_get (placement_selectors s) k =
    (case placement_pick s k of Some v \<Rightarrow> Some v | None \<Rightarrow> gm_get (selectors_of s) k)"
proof -
  define r where "r = (case sc_NodePlacement s of None \<Rightarrow> [] | Some p \<Rightarrow> np_RequiredLabels p)"
  have "gm_get (placement_selectors s) k =
      (if k \<noteq> '''' \<and> gm_str r k \<noteq> '''' then Some (gm_str r k) else gm_get (base_selectors s) k)"
    using assms by (auto simp: placement_selectors_def r_def required_wf_def gm_get_put_required gm_str_def
        split: option.splits)
  then show ?thesis
    unfolding placement_pick_def gm_get_base_selectors Let_def r_def
    by (simp only: if_distrib [of "case_option (gm_get (selectors_of s) k) Some"] option.case)
qed

section \<open>Properties\<close>

text \<open>
  C16. The node selector of a placed workload, key by key: what placement picks for the key,
  by the precedence of \<open>placement_pick\<close>, and otherwise what the user wrote.
\<close>

theorem placement_selector_precedence:
  assumes "required_wf (scheduling_of spec)"
  shows "gm_get (selectors_of (scheduling_of (ApplyNodePlacement spec))) k =
    (case placement_pick (scheduling_of spec) k of
       Some v \<Rightarrow> Some v | None \<Rightarrow> gm_get (selectors_of (scheduling_of spec)) k)"
proof -
  have "selectors_of (scheduling_of (ApplyNodePlacement spec)) = placement_selectors (scheduling_of spec)"
    by (simp add: scheduling_of_def [of "ApplyNodePlacement spec"] sc_ApplyNodePlacement selectors_of_def split: option.split)
  then show ?thesis by (simp add: gm_get_placement_selectors [OF assms])
qed

definition demo_placement :: workload_spec where
  "demo_placement = zero_spec\<lparr>ws_Image := ''registry.io/web:1-arm64'', ws_Scheduling := Some (zero_scheduling\<lparr>
     sc_NodeSelectors := Some [(''disk'', ''ssd'')], sc_PreferredZones := ['' '', ''zone-b''],
     sc_NodePlacement := Some \<lparr>np_Region = ''eu'', np_Zone = '''', np_HardwareType = ''gpu'', np_InstanceType = '''',
       np_RequiredLabels = [(''kranix.io/hardware'', ''tpu'')],
       np_PreferredLabels = [\<lparr>nlp_Key = ''rack'', nlp_Value = ''r1'', nlp_Weight = 0\<rparr>]\<rparr>,
     sc_Affinity := Some (zero_affinity\<lparr>ac_NodeAffinity := Some (zero_node_affinity\<lparr>na_RequiredDuringScheduling :=
       [\<lparr>nst_MatchExpressions = [\<lparr>nsr_Key = ''team'', nsr_Operator = ''In'', nsr_Values = [''blue'']\<rparr>], nst_MatchFields = []\<rparr>]\<rparr>)\<rparr>)\<rparr>)\<rparr>"

theorem placement_selector_precedence_witness:
  "gm_get (selectors_of (scheduling_of (ApplyNodePlacement demo_placement))) labelHardware = Some ''tpu'' \<and>
   gm_get (selectors_of (scheduling_of (ApplyNodePlacement demo_placement))) labelZone = Some ''zone-b''"
proof -
  let ?s = "scheduling_of demo_placement"
  have "required_wf ?s" by (simp add: required_wf_def demo_placement_def scheduling_of_def)
  moreover have "placement_pick ?s labelHardware = Some ''tpu''"
    by (simp add: placement_pick_def demo_placement_def scheduling_of_def labelHardware_def gm_str_def)
  moreover have "placement_pick ?s labelZone = Some ''zone-b''"
    by (simp add: placement_pick_def demo_placement_def scheduling_of_def labelHardware_def labelZone_def
        labelInstanceType_def gm_str_def placement_firstNonEmpty_def nodePlacementField_def TrimSpace_def is_space_def)
  ultimately show ?thesis using placement_selector_precedence [of demo_placement] by simp
qed

text \<open>
  Placing the same spec again, as every further deployment of it does, leaves the node
  selector as it is but appends the preferred terms once more: the preferences of the user
  count double in the second pod.
\<close>

theorem placement_repeats_preferences:
  assumes "sc_NodePlacement (scheduling_of spec) = Some p" and "gm_wf (np_RequiredLabels p)"
  shows "gm_get (selectors_of (scheduling_of (ApplyNodePlacement (ApplyNodePlacement spec)))) =
      gm_get (selectors_of (scheduling_of (ApplyNodePlacement spec))) \<and>
    na_PreferredDuringScheduling (node_affinity_of (affinity_of (scheduling_of (ApplyNodePlacement (ApplyNodePlacement spec))))) =
      na_PreferredDuringScheduling (node_affinity_of (affinity_of (scheduling_of spec))) @
      concat (replicate 2 (map preferred_term (filter (\<lambda>pref. nlp_Key pref \<noteq> '''') (np_PreferredLabels p))))"
proof -
  have s1: "scheduling_of (ApplyNodePlacement x) = mergePreferredLabels (np_PreferredLabels p)
      ((scheduling_of x)\<lparr>sc_NodeSelectors := Some (placement_selectors (scheduling_of x))\<rparr>)"
    if "sc_NodePlacement (scheduling_of x) = Some p" for x
    by (simp add: scheduling_of_def [of "ApplyNodePlacement x"] sc_ApplyNodePlacement that)
  note e1 = s1 [OF assms(1)]
  have p2: "sc_NodePlacement (scheduling_of (ApplyNodePlacement spec)) = Some p" by (simp add: e1 assms(1))
  note e2 = s1 [OF p2]
  have pref: "na_PreferredDuringScheduling (node_affinity_of (affinity_of (s\<lparr>sc_NodeSelectors := m\<rparr>))) =
      na_PreferredDuringScheduling (node_affinity_of (affinity_of s))" for s :: scheduling_config and m
    by (simp add: affinity_of_def)
  have "gm_get (placement_selectors (scheduling_of (ApplyNodePlacement spec))) k =
      gm_get (placement_selectors (scheduling_of spec)) k" for k
  proof -
    have "required_wf (scheduling_of spec)" "required_wf (scheduling_of (ApplyNodePlacement spec))"
      using assms p2 by (simp_all add: required_wf_def)
    moreover have "placement_pick (scheduling_of (ApplyNodePlacement spec)) k = placement_pick (scheduling_of spec) k"
    proof -
      let ?x = "scheduling_of (ApplyNodePlacement spec)"
      have "sc_NodePlacement ?x = sc_NodePlacement (scheduling_of spec)"
        "sc_PreferredRegions ?x = sc_PreferredRegions (scheduling_of spec)"
        "sc_PreferredZones ?x = sc_PreferredZones (scheduling_of spec)" by (simp_all add: e1 assms(1))
      then show ?thesis by (simp only: placement_pick_def nodePlacementField_def)
    qed
    ultimately show ?thesis using e1 gm_get_placement_selectors [of _ k]
      by (simp add: selectors_of_def split: option.split)
  qed
  then have "gm_get (selectors_of (scheduling_of (ApplyNodePlacement (ApplyNodePlacement spec)))) =
      gm_get (selectors_of (scheduling_of (ApplyNodePlacement spec)))"
    unfolding e2 unfolding e1 by (auto simp: selectors_of_def e1)
  then show ?thesis
    by (simp add: e2 e1 preferred_mergePreferredLabels pref numeral_2_eq_2)
qed

theorem placement_repeats_preferences_witness:
  "length (na_PreferredDuringScheduling (node_affinity_of (affinity_of (scheduling_of
     (ApplyNodePlacement (ApplyNodePlacement demo_placement)))))) = 2"
proof -
  let ?p = "the (sc_NodePlacement (scheduling_of demo_placement))"
  have "sc_NodePlacement (scheduling_of demo_placement) = Some ?p" "gm_wf (np_RequiredLabels ?p)"
    by (simp_all add: demo_placement_def scheduling_of_def)
  from placement_repeats_preferences [OF this] show ?thesis
    by (simp add: demo_placement_def scheduling_of_def affinity_of_def node_affinity_of_def
        zero_affinity_def zero_node_affinity_def numeral_2_eq_2)
qed

text \<open>
  C17. Architecture routing: once an architecture is resolved, a node that the selector
  admits carries that architecture, and applying the routing again changes nothing.
\<close>

theorem arch_routing_enforced:
  assumes "ResolveArchitecture tc spec \<noteq> ''''"
  shows "(if selector_admits labels (ApplyArchitectureScheduling tc spec)
          then labels k8sArchLabel = Some (ResolveArchitecture tc spec) else True) \<and>
    gm_get (selectors_of (scheduling_of (ApplyArchitectureScheduling tc (ApplyArchitectureScheduling tc spec)))) =
      gm_get (selectors_of (scheduling_of (ApplyArchitectureScheduling tc spec))) \<and>
    required_terms (ApplyArchitectureScheduling tc (ApplyArchitectureScheduling tc spec)) =
      required_terms (ApplyArchitectureScheduling tc spec)"
proof -
  let ?s = "ApplyArchitectureScheduling tc spec" and ?a = "ResolveArchitecture tc spec"
  note e = scheduling_of_ApplyArch [OF assms]
  have same: "ResolveArchitecture tc ?s = ?a"
    using assms by (auto simp: ApplyArchitectureScheduling_def Let_def ResolveArchitecture_def scheduling_of_def
        zero_scheduling_def split: option.splits)
  have has: "has_arch (required_terms ?s)"
    using e by (auto simp: has_arch_def arch_requirement_def)
  have "gm_get (selectors_of (scheduling_of ?s)) k8sArchLabel = Some ?a" using e by simp
  then have "(k8sArchLabel, ?a) \<in> set (selectors_of (scheduling_of ?s))" by (rule map_of_SomeD)
  then have "selector_admits labels ?s \<Longrightarrow> labels k8sArchLabel = Some ?a"
    by (auto simp: selector_admits_def list_all_iff)
  then show ?thesis using scheduling_of_ApplyArch [of tc ?s] same assms has e by auto
qed

definition demo_tc :: types_constants where
  "demo_tc = \<lparr>tc_ArchARM64 = ''arm64'', tc_ArchAMD64 = ''amd64'', tc_WorkloadPriorityCritical = ''critical'',
     tc_WorkloadPriorityHigh = ''high'', tc_WorkloadPriorityLow = ''low'', tc_LabelKeyTeam = ''kranix.io/team'',
     tc_LabelKeyEnvironment = ''kranix.io/environment'', tc_LabelKeyCostCenter = ''kranix.io/cost-center''\<rparr>"

lemma demo_arch: "ResolveArchitecture demo_tc demo_placement = ''arm64''"
  by (simp add: ResolveArchitecture_def demo_placement_def zero_scheduling_def DetectFromImage_def demo_tc_def
      ToLower_def lower_char_def HasPrefix_def)

theorem arch_routing_enforced_witness:
  "required_terms (ApplyArchitectureScheduling demo_tc (ApplyArchitectureScheduling demo_tc demo_placement)) =
   required_terms (ApplyArchitectureScheduling demo_tc demo_placement)"
  using arch_routing_enforced [of demo_tc demo_placement "\<lambda>_. None"] by (simp add: demo_arch)

text \<open>
  The required terms of a node affinity are alternatives, and the routing appends the
  architecture as one more alternative. When the user had required terms that do not
  mention the architecture, every node of the right architecture satisfies the resulting
  affinity, whatever the user required.
\<close>

theorem arch_routing_voids_required_affinity:
  assumes "ResolveArchitecture tc spec \<noteq> ''''" and "\<not> has_arch (required_terms spec)"
    and "labels k8sArchLabel = Some (ResolveArchitecture tc spec)"
  shows "affinity_admits labels nodeFields (ApplyArchitectureScheduling tc spec)"
  using scheduling_of_ApplyArch [OF assms(1)] assms(2,3)
  by (simp add: affinity_admits_def term_holds_def requirement_holds_def arch_requirement_def)

theorem arch_routing_voids_required_affinity_witness:
  "affinity_admits [''team'' \<mapsto> ''red'', k8sArchLabel \<mapsto> ''arm64''] Map.empty (ApplyArchitectureScheduling demo_tc demo_placement) \<and>
   \<not> affinity_admits [''team'' \<mapsto> ''red'', k8sArchLabel \<mapsto> ''arm64''] Map.empty demo_placement"
proof
  have r: "required_terms demo_placement =
      [\<lparr>nst_MatchExpressions = [\<lparr>nsr_Key = ''team'', nsr_Operator = ''In'', nsr_Values = [''blue'']\<rparr>], nst_MatchFields = []\<rparr>]"
    by (simp add: required_terms_def demo_placement_def scheduling_of_def affinity_of_def node_affinity_of_def)
  show "affinity_admits [''team'' \<mapsto> ''red'', k8sArchLabel \<mapsto> ''arm64''] Map.empty (ApplyArchitectureScheduling demo_tc demo_placement)"
    by (rule arch_routing_voids_required_affinity) (simp_all add: demo_arch r has_arch_def k8sArchLabel_def)
  show "\<not> affinity_admits [''team'' \<mapsto> ''red'', k8sArchLabel \<mapsto> ''arm64''] Map.empty demo_placement"
    by (simp add: affinity_admits_def r term_holds_def requirement_holds_def k8sArchLabel_def)
qed

text \<open>
  Tolerations: the user's come first and unchanged; when spot rescheduling is on, the two
  node tolerations are added unless the user already has them, each once, and a second merge
  adds nothing; otherwise nothing is added, also when only \<open>spot.enabled\<close> is set.
\<close>

theorem spot_tolerations_added_once:
  "(\<exists>added. mergeSpotTolerations spec = sc_Tolerations (scheduling_of spec) @ added \<and> distinct added \<and>
      set added = (if reschedules spec then set spot_tolerations - set (sc_Tolerations (scheduling_of spec)) else {})) \<and>
   mergeTolerations (mergeSpotTolerations spec) (if reschedules spec then spot_tolerations else []) = mergeSpotTolerations spec"
proof -
  have base: "(case ws_Scheduling spec of None \<Rightarrow> [] | Some s \<Rightarrow> sc_Tolerations s) = sc_Tolerations (scheduling_of spec)"
    by (simp add: scheduling_of_def zero_scheduling_def split: option.split)
  obtain ys where ys: "mergeTolerations (sc_Tolerations (scheduling_of spec)) spot_tolerations = sc_Tolerations (scheduling_of spec) @ ys"
    "set ys = set spot_tolerations - set (sc_Tolerations (scheduling_of spec))" "distinct ys"
    using mergeTolerations_adds by blast
  obtain zs where zs: "mergeTolerations (sc_Tolerations (scheduling_of spec) @ ys) spot_tolerations = sc_Tolerations (scheduling_of spec) @ ys @ zs"
    "set zs = set spot_tolerations - set (sc_Tolerations (scheduling_of spec) @ ys)"
    using mergeTolerations_adds [of "sc_Tolerations (scheduling_of spec) @ ys" spot_tolerations] by auto
  have "set zs = {}" unfolding zs(2) set_append ys(2) by blast
  with zs ys show ?thesis by (simp add: mergeSpotTolerations_def Let_def base)
qed

end
