(* ===== verification/Checkpoint_Store.thy ===== *)
theory Checkpoint_Store
  imports Workload_Types
begin

text \<open>
  \<open>internal/checkpoint/store.go\<close>: the in-memory records of checkpoints, one Go map whose keys
  join the workload ID and the checkpoint ID with a slash. The map has no mutex: a call is a
  step of a single goroutine. A clock reading is an argument. A slice of records is a list
  in the iteration order of the map.
\<close>

section \<open>State and operations\<close>

record checkpoint_result =
  cr_WorkloadID :: string
  cr_CheckpointID :: string
  cr_State :: string
  cr_Message :: string
  cr_CreatedAt :: instant

record checkpoint_request =
  creq_WorkloadID :: string
  creq_Namespace :: string

record restore_request =
  rreq_WorkloadID :: string
  rreq_CheckpointID :: string
  rreq_Namespace :: string

record restore_result =
  rres_WorkloadID :: string
  rres_State :: string
  rres_RestoredAt :: instant
  rres_Message :: string

type_synonym store = "(string, checkpoint_result) gomap"

definition NewStore :: store where "NewStore = []"

definition ckpt_key :: "string \<Rightarrow> string \<Rightarrow> string" where
  "ckpt_key workloadID checkpointID = workloadID @ ''/'' @ checkpointID"

definition Save :: "instant \<Rightarrow> instant \<Rightarrow> string \<Rightarrow> checkpoint_result \<Rightarrow> store \<Rightarrow> checkpoint_result \<times> store" where
  "Save now1 now2 workloadID result s =
     (let result1 = (if cr_CheckpointID result = ''''
                     then result\<lparr>cr_CheckpointID := ''ckpt-'' @ Itoa (UnixNano now1)\<rparr> else result);
          result2 = result1\<lparr>cr_CreatedAt := now2\<rparr>
      in (result2, gm_put (ckpt_key workloadID (cr_CheckpointID result2)) result2 s))"

definition store_List :: "string \<Rightarrow> store \<Rightarrow> checkpoint_result list" where
  "store_List workloadID s =
     (let prefix = workloadID @ ''/''
      in map snd (filter (\<lambda>(k, v). length prefix < length k \<and> take (length prefix) k = prefix) s))"

definition store_Get :: "string \<Rightarrow> string \<Rightarrow> store \<Rightarrow> checkpoint_result option" where
  "store_Get workloadID checkpointID s = gm_get s (ckpt_key workloadID checkpointID)"

definition ValidateCheckpoint :: "checkpoint_request \<Rightarrow> go_error option" where
  "ValidateCheckpoint req =
     (if creq_WorkloadID req = '''' then Some (Errorf ''workloadId is required'') else None)"

definition ValidateRestore :: "restore_request \<Rightarrow> go_error option" where
  "ValidateRestore req =
     (if rreq_WorkloadID req = '''' then Some (Errorf ''workloadId is required'') else None)"

text \<open>The stub for the backends without extended operations; volume results are names only.\<close>

definition Noop_CheckpointWorkload :: "checkpoint_request \<Rightarrow> checkpoint_result result" where
  "Noop_CheckpointWorkload req = Inl (Errorf ''checkpoint not supported by this backend'')"

definition Noop_RestoreWorkload :: "restore_request \<Rightarrow> restore_result result" where
  "Noop_RestoreWorkload req = Inl (Errorf ''restore not supported by this backend'')"

definition Noop_ListCheckpoints :: "string \<Rightarrow> string \<Rightarrow> checkpoint_result list result" where
  "Noop_ListCheckpoints workloadID namespace = Inr []"

definition Noop_ProvisionVolumes :: "workload_spec option \<Rightarrow> volume_lifecycle_result result" where
  "Noop_ProvisionVolumes spec =
     (case spec of
        None \<Rightarrow> Inr \<lparr>vlr_WorkloadID = '''', vlr_Volumes = []\<rparr>
      | Some s \<Rightarrow> Inr \<lparr>vlr_WorkloadID = ws_Name s, vlr_Volumes = []\<rparr>)"

definition Noop_CleanupVolumes :: "workload_spec option \<Rightarrow> go_error option" where
  "Noop_CleanupVolumes spec = None"

section \<open>The abstract store\<close>

text \<open>
  What a client expects: a map from pairs of IDs. The store implements it as long as no
  workload ID contains a slash, which makes the key injective.
\<close>

definition plain_id :: "string \<Rightarrow> bool" where
  "plain_id s \<longleftrightarrow> CHR ''/'' \<notin> set s"

definition store_abs :: "store \<Rightarrow> (string \<times> string \<rightharpoonup> checkpoint_result) \<Rightarrow> bool" where
  "store_abs s m \<longleftrightarrow> gm_wf s \<and>
     (\<forall>w c. plain_id w \<longrightarrow> gm_get s (ckpt_key w c) = m (w, c)) \<and>
     (\<forall>k \<in> fst ` set s. \<exists>w c. plain_id w \<and> c \<noteq> '''' \<and> k = ckpt_key w c)"

definition saved_as :: "instant \<Rightarrow> instant \<Rightarrow> checkpoint_result \<Rightarrow> checkpoint_result" where
  "saved_as now1 now2 result = result\<lparr>cr_CheckpointID :=
     (if cr_CheckpointID result = '''' then ''ckpt-'' @ Itoa (UnixNano now1) else cr_CheckpointID result),
     cr_CreatedAt := now2\<rparr>"

section \<open>Lemmas\<close>

lemma ckpt_key_inj:
  "plain_id w \<Longrightarrow> plain_id w' \<Longrightarrow> ckpt_key w c = ckpt_key w' c' \<longleftrightarrow> w = w' \<and> c = c'"
proof
  assume p: "plain_id w" "plain_id w'" and e: "ckpt_key w c = ckpt_key w' c'"
  from e have "split_on CHR ''/'' (w @ CHR ''/'' # c) = split_on CHR ''/'' (w' @ CHR ''/'' # c')"
    by (simp add: ckpt_key_def)
  with p have "w = w'" by (simp add: plain_id_def split_on_append)
  with e show "w = w' \<and> c = c'" by (simp add: ckpt_key_def)
qed simp

lemma Save_eq:
  "Save n1 n2 w r s = (saved_as n1 n2 r, gm_put (ckpt_key w (cr_CheckpointID (saved_as n1 n2 r))) (saved_as n1 n2 r) s)"
  by (simp add: Save_def saved_as_def Let_def)

lemma saved_as_id [simp]: "cr_CheckpointID (saved_as n1 n2 r) \<noteq> ''''"
  by (simp add: saved_as_def)

lemma store_abs_new: "store_abs NewStore Map.empty"
  by (simp add: store_abs_def NewStore_def)

lemma store_abs_save:
  assumes "store_abs s m" and "plain_id w"
  shows "store_abs (snd (Save n1 n2 w r s)) (m((w, cr_CheckpointID (saved_as n1 n2 r)) \<mapsto> saved_as n1 n2 r))"
  using assms by (auto simp: store_abs_def Save_eq ckpt_key_inj)

lemma matches_prefix:
  "length (w @ ''/'') < length k \<and> take (length (w @ ''/'')) k = w @ ''/'' \<longleftrightarrow> (\<exists>c. c \<noteq> '''' \<and> k = ckpt_key w c)"
proof
  assume a: "length (w @ ''/'') < length k \<and> take (length (w @ ''/'')) k = w @ ''/''"
  then have "k = ckpt_key w (drop (length (w @ ''/'')) k)"
    by (metis append.assoc append_take_drop_id ckpt_key_def)
  moreover from a have "drop (length (w @ ''/'')) k \<noteq> ''''" by simp
  ultimately show "\<exists>c. c \<noteq> '''' \<and> k = ckpt_key w c" by blast
qed (auto simp: ckpt_key_def)

lemma set_store_List:
  "gm_wf s \<Longrightarrow> set (store_List w s) = {v. \<exists>c. c \<noteq> '''' \<and> gm_get s (ckpt_key w c) = Some v}"
  unfolding store_List_def Let_def matches_prefix
  by (force simp: image_iff split_def simp flip: gm_mem_get)

fun save_all :: "(instant \<times> instant \<times> string \<times> checkpoint_result) list \<Rightarrow> store \<Rightarrow> store" where
  "save_all [] s = s"
| "save_all ((n1, n2, w, r) # ops) s = save_all ops (snd (Save n1 n2 w r s))"

fun save_spec :: "(instant \<times> instant \<times> string \<times> checkpoint_result) list \<Rightarrow>
    (string \<times> string \<rightharpoonup> checkpoint_result) \<Rightarrow> (string \<times> string \<rightharpoonup> checkpoint_result)" where
  "save_spec [] m = m"
| "save_spec ((n1, n2, w, r) # ops) m =
     save_spec ops (m((w, cr_CheckpointID (saved_as n1 n2 r)) \<mapsto> saved_as n1 n2 r))"

lemma save_all_abs:
  "store_abs s m \<Longrightarrow> \<forall>(n1, n2, w, r) \<in> set ops. plain_id w \<Longrightarrow> store_abs (save_all ops s) (save_spec ops m)"
  by (induction ops s arbitrary: m rule: save_all.induct) (auto intro: store_abs_save)

section \<open>Properties\<close>

text \<open>
  C6. Refinement: for workload IDs without a slash, the store built by any sequence of
  \<open>Save\<close> answers \<open>Get\<close> like a map from pairs of IDs, and \<open>List\<close> of a workload returns
  exactly the records of that workload, each with a non-empty checkpoint ID.
\<close>

theorem store_refines_map:
  assumes "\<forall>(n1, n2, w, r) \<in> set ops. plain_id w" and "plain_id wid"
  shows "store_Get wid cid (save_all ops NewStore) = save_spec ops Map.empty (wid, cid) \<and>
    set (store_List wid (save_all ops NewStore)) = {v. \<exists>c. c \<noteq> '''' \<and> save_spec ops Map.empty (wid, c) = Some v}"
proof -
  from save_all_abs [OF store_abs_new assms(1)]
  have "store_abs (save_all ops NewStore) (save_spec ops Map.empty)" .
  with assms(2) show ?thesis by (simp add: store_abs_def store_Get_def set_store_List)
qed

definition demo_checkpoint :: checkpoint_result where
  "demo_checkpoint = \<lparr>cr_WorkloadID = ''web'', cr_CheckpointID = ''c1'', cr_State = ''paused'',
     cr_Message = '''', cr_CreatedAt = 0\<rparr>"

theorem store_refines_map_witness:
  "store_Get ''web'' ''c1'' (save_all [(1, 2, ''web'', demo_checkpoint), (3, 4, ''db'', demo_checkpoint)] NewStore) =
     Some (demo_checkpoint\<lparr>cr_CreatedAt := 2\<rparr>)"
  using store_refines_map [of "[(1, 2, ''web'', demo_checkpoint), (3, 4, ''db'', demo_checkpoint)]" "''web''" "''c1''"]
  by (simp add: plain_id_def saved_as_def demo_checkpoint_def)

text \<open>
  With a slash in a workload ID the answers mix: the checkpoints of \<open>team/web\<close> are also
  listed for the workload \<open>team\<close>, and \<open>Get\<close> finds them there under a longer checkpoint ID.
\<close>

theorem list_leaks_across_slash:
  assumes "gm_wf s"
  shows "fst (Save n1 n2 (w @ ''/'' @ rest) r s) \<in> set (store_List w (snd (Save n1 n2 (w @ ''/'' @ rest) r s))) \<and>
    store_Get w (rest @ ''/'' @ cr_CheckpointID (fst (Save n1 n2 (w @ ''/'' @ rest) r s)))
      (snd (Save n1 n2 (w @ ''/'' @ rest) r s)) = Some (fst (Save n1 n2 (w @ ''/'' @ rest) r s))"
proof -
  let ?v = "saved_as n1 n2 r"
  have k: "ckpt_key (w @ ''/'' @ rest) c = ckpt_key w (rest @ ''/'' @ c)" for c
    by (simp add: ckpt_key_def)
  have g: "gm_get (gm_put (ckpt_key w (rest @ ''/'' @ cr_CheckpointID ?v)) ?v s)
      (ckpt_key w (rest @ ''/'' @ cr_CheckpointID ?v)) = Some ?v" by simp
  have "?v \<in> set (store_List w (gm_put (ckpt_key w (rest @ ''/'' @ cr_CheckpointID ?v)) ?v s))"
    unfolding set_store_List [OF gm_wf_put [OF assms]]
    by (rule CollectI, rule exI [where x = "rest @ ''/'' @ cr_CheckpointID ?v"]) (use g in simp)
  with g show ?thesis by (simp add: Save_eq k [simplified] store_Get_def)
qed

theorem list_leaks_across_slash_witness:
  "fst (Save 1 2 ''team/web'' demo_checkpoint NewStore) \<in> set (store_List ''team'' (snd (Save 1 2 ''team/web'' demo_checkpoint NewStore)))"
  using list_leaks_across_slash [of NewStore 1 2 "''team''" "''web''" demo_checkpoint] by (simp add: NewStore_def)

end
