(* ===== verification/Docker_Driver.thy ===== *)
theory Docker_Driver
  imports Config Container_Options Scheduling Checkpoint_Store Runtime_Contract
begin

text \<open>
  The Docker driver, \<open>internal/docker\<close>: \<open>driver.go\<close>, \<open>deploy.go\<close>, \<open>extended.go\<close>, \<open>volumes.go\<close>
  and the wait of \<open>logs.go\<close>. The engine is the parameter \<open>api\<close>, a record of the client calls
  that the code makes, acting on the engine's state \<open>'w\<close>. The driver's own mutable state is
  the checkpoint store, which the operations that use it take and return.
\<close>

section \<open>Engine objects and calls\<close>

record docker_container =
  dct_ID :: string
  dct_Names :: "string list"
  dct_State :: string
  dct_Image :: string

record container_config =
  cc_Image :: string
  cc_Env :: "string list"
  cc_Labels :: "(string, string) gomap option"
  cc_Healthcheck :: "health_config option"
  cc_Cmd :: "string list"

record device_request =
  drq_Driver :: string
  drq_DeviceIDs :: "string list"
  drq_Capabilities :: "string list list"

record host_config =
  hcf_RestartPolicy :: string
  hcf_Binds :: "string list"
  hcf_DeviceRequests :: "device_request list"

text \<open>
  \<open>dk_ImagePull ref platform\<close> gives the error of reading the response to its end.
  \<open>dk_ContainerList\<close> takes the value of the name filter, if any; \<open>dk_VolumeCreate\<close> gives the
  name of the created volume, empty on an error, beside the error.
\<close>

record 'w docker_api =
  dk_ImagePull :: "string \<Rightarrow> string \<Rightarrow> ('w, go_error option) act"
  dk_ContainerCreate :: "container_config \<Rightarrow> host_config \<Rightarrow> string \<Rightarrow> ('w, string) act"
  dk_ContainerStart :: "string \<Rightarrow> 'w proc"
  dk_ContainerRemove :: "string \<Rightarrow> 'w proc"
  dk_ContainerRestart :: "string \<Rightarrow> 'w proc"
  dk_ContainerPause :: "string \<Rightarrow> 'w proc"
  dk_ContainerUnpause :: "string \<Rightarrow> 'w proc"
  dk_ContainerList :: "string option \<Rightarrow> ('w, docker_container list) act"
  dk_ContainerRunning :: "string \<Rightarrow> ('w, bool) act"
  dk_VolumeCreate :: "string \<Rightarrow> (string, string) gomap \<Rightarrow> 'w \<Rightarrow> (string \<times> go_error option) \<times> 'w"
  dk_VolumeRemove :: "string \<Rightarrow> 'w proc"
  dk_VolumeList :: "string \<Rightarrow> ('w, string list) act"
  dk_Ping :: "'w proc"

section \<open>Volumes\<close>

definition volumeName :: "string \<Rightarrow> string \<Rightarrow> string" where
  "volumeName workload vol = ToLower (replace_char CHR ''_'' CHR ''-'' (workload @ ''-'' @ vol))"

definition docker_mountPath :: "volume_spec \<Rightarrow> string" where
  "docker_mountPath vol = (if vol_MountPath vol = '''' then ''/data/'' @ vol_Name vol else vol_MountPath vol)"

fun docker_provision_loop ::
  "'w docker_api \<Rightarrow> string \<Rightarrow> volume_spec list \<Rightarrow> volume_state list \<Rightarrow> ('w, volume_state list) act" where
  "docker_provision_loop api workload [] acc w = (Inr acc, w)"
| "docker_provision_loop api workload (vol # vols) acc w =
     (let name = volumeName workload (vol_Name vol) in
      case dk_VolumeCreate api name [(''kranix.io/workload'', workload), (''managed-by'', ''kranix'')] w of
        ((created, err), w1) \<Rightarrow>
          (case (case err of None \<Rightarrow> None | Some e \<Rightarrow> if Contains (error_string e) ''already exists'' then None else Some e) of
             Some e \<Rightarrow> (Inl (Wrapf (''create volume '' @ name @ '': '') e ''''), w1)
           | None \<Rightarrow>
               docker_provision_loop api workload vols
                 (acc @ [\<lparr>vs_Name = vol_Name vol, vs_ClaimName = '''', vs_VolumeID = (if created \<noteq> '''' then created else name),
                          vs_MountPath = docker_mountPath vol, vs_Status = ''bound''\<rparr>]) w1))"

definition docker_Provision :: "'w docker_api \<Rightarrow> workload_spec option \<Rightarrow> ('w, volume_lifecycle_result) act" where
  "docker_Provision api spec w =
     (case spec of
        None \<Rightarrow> (Inr \<lparr>vlr_WorkloadID = '''', vlr_Volumes = []\<rparr>, w)
      | Some s \<Rightarrow>
          if length (ws_Volumes s) = 0 then (Inr \<lparr>vlr_WorkloadID = ws_Name s, vlr_Volumes = []\<rparr>, w)
          else (case docker_provision_loop api (ws_Name s) (ws_Volumes s) [] w of
                  (Inl e, w1) \<Rightarrow> (Inl e, w1)
                | (Inr vs, w1) \<Rightarrow> (Inr \<lparr>vlr_WorkloadID = ws_Name s, vlr_Volumes = vs\<rparr>, w1)))"

definition volume_gone :: "go_error \<Rightarrow> bool" where
  "volume_gone err = Contains (error_string err) ''not found''"

fun remove_volumes :: "'w docker_api \<Rightarrow> string list \<Rightarrow> 'w proc" where
  "remove_volumes api [] w = (None, w)"
| "remove_volumes api (name # names) w =
     (case dk_VolumeRemove api name w of
        (None, w1) \<Rightarrow> remove_volumes api names w1
      | (Some err, w1) \<Rightarrow> if \<not> volume_gone err then (Some err, w1) else remove_volumes api names w1)"

definition docker_Cleanup :: "'w docker_api \<Rightarrow> workload_spec option \<Rightarrow> 'w proc" where
  "docker_Cleanup api spec =
     (case spec of
        None \<Rightarrow> (\<lambda>w. (None, w))
      | Some s \<Rightarrow> remove_volumes api (map (\<lambda>v. volumeName (ws_Name s) (vol_Name v)) (filter vol_AutoCleanup (ws_Volumes s))))"

definition docker_CleanupByWorkload :: "'w docker_api \<Rightarrow> string \<Rightarrow> 'w proc" where
  "docker_CleanupByWorkload api workloadID w =
     (case dk_VolumeList api (''kranix.io/workload='' @ workloadID) w of
        (Inl e, w1) \<Rightarrow> (Some e, w1)
      | (Inr names, w1) \<Rightarrow> remove_volumes api names w1)"

definition Binds :: "workload_spec \<Rightarrow> string list" where
  "Binds spec = map (\<lambda>vol. volumeName (ws_Name spec) (vol_Name vol) @ '':'' @ docker_mountPath vol) (ws_Volumes spec)"

definition resolveContainerID :: "'w docker_api \<Rightarrow> string \<Rightarrow> ('w, string) act" where
  "resolveContainerID api workloadID w =
     (case dk_ContainerList api (Some workloadID) w of
        (Inl e, w1) \<Rightarrow> (Inl e, w1)
      | (Inr [], w1) \<Rightarrow> (Inl (Errorf (''container not found: '' @ workloadID)), w1)
      | (Inr (c # cs), w1) \<Rightarrow> (Inr (dct_ID c), w1))"

section \<open>The driver's operations\<close>

definition mapState :: "string \<Rightarrow> string" where
  "mapState state =
     (if state = ''running'' then ''Running'' else if state = ''exited'' then ''Stopped''
      else if state = ''created'' then ''Pending'' else ''Unknown'')"

definition docker_GetStatus :: "'w docker_api \<Rightarrow> string \<Rightarrow> ('w, workload_status) act" where
  "docker_GetStatus api workloadID w =
     (case dk_ContainerList api (Some workloadID) w of
        (Inl e, w1) \<Rightarrow> (Inl (Wrapf ''failed to list containers: '' e ''''), w1)
      | (Inr [], w1) \<Rightarrow> (Inl (Errorf (''container not found: '' @ workloadID)), w1)
      | (Inr (c # cs), w1) \<Rightarrow>
          (Inr (zero_status\<lparr>wst_ID := dct_ID c, wst_Name := workloadID, wst_State := mapState (dct_State c),
                            wst_Image := dct_Image c\<rparr>), w1))"

definition pullImage :: "'w docker_api \<Rightarrow> string \<Rightarrow> 'w proc" where
  "pullImage api ref w =
     (case dk_ImagePull api ref '''' w of
        (Inl e, w1) \<Rightarrow> (Some (Wrapf ''failed to pull image: '' e ''''), w1)
      | (Inr (Some e), w1) \<Rightarrow> (Some (Wrapf ''failed to read image pull response: '' e ''''), w1)
      | (Inr None, w1) \<Rightarrow> (None, w1))"

definition envMapToSlice :: "(string, string) gomap \<Rightarrow> string list" where
  "envMapToSlice env = map (\<lambda>(k, v). k @ ''='' @ v) env"

definition docker_container_config :: "workload_spec \<Rightarrow> container_config" where
  "docker_container_config spec =
     \<lparr>cc_Image = ws_Image spec, cc_Env = envMapToSlice (ws_Env spec), cc_Labels = ApplyDockerLabels spec,
      cc_Healthcheck = ApplyDockerHealthcheck (ws_Probes spec) None,
      cc_Cmd = (if ws_Command spec \<noteq> '''' then [ws_Command spec] else [])\<rparr>"

definition device_requests :: "workload_spec \<Rightarrow> device_request list result" where
  "device_requests spec =
     (case rs_GPU (ws_Resources spec) of
        None \<Rightarrow> Inr []
      | Some g \<Rightarrow>
          (case BuildDockerDeviceRequests (Some g) of
             Inl e \<Rightarrow> Inl (Wrapf ''failed to build GPU device requests: '' e '''')
           | Inr devs \<Rightarrow>
               Inr (map (\<lambda>dev. \<lparr>drq_Driver = gm_str dev ''Driver'', drq_DeviceIDs = [gm_str dev ''DeviceIDs''],
                                drq_Capabilities = [[''gpu'']]\<rparr>) devs)))"

definition docker_host_config :: "workload_spec \<Rightarrow> device_request list \<Rightarrow> host_config" where
  "docker_host_config spec devs =
     \<lparr>hcf_RestartPolicy = ''unless-stopped'', hcf_Binds = Binds spec, hcf_DeviceRequests = devs\<rparr>"

definition docker_start :: "'w docker_api \<Rightarrow> workload_spec \<Rightarrow> ('w, workload_status) act" where
  "docker_start api spec =
     bindE (docker_Provision api (Some spec)) (\<lambda>_.
     bindE (wrapE ''failed to pull image: '' (procE (pullImage api (ws_Image spec)))) (\<lambda>_.
     bindE (\<lambda>w. (device_requests spec, w)) (\<lambda>devs.
     bindE (wrapE ''failed to create container: ''
              (dk_ContainerCreate api (docker_container_config spec) (docker_host_config spec devs) (ws_Name spec))) (\<lambda>containerID.
     bindE (wrapE ''failed to start container: '' (procE (dk_ContainerStart api containerID))) (\<lambda>_.
     docker_GetStatus api (ws_Name spec))))))"

definition docker_Deploy ::
  "types_constants \<Rightarrow> 'w docker_api \<Rightarrow> workload_spec \<Rightarrow> 'w \<Rightarrow> workload_status result \<times> workload_spec \<times> 'w" where
  "docker_Deploy tc api spec w =
     (let spec1 = ApplyArchitectureScheduling tc (ApplyNodePlacement spec)
      in case docker_start api spec1 w of (r, w1) \<Rightarrow> (r, spec1, w1))"

definition docker_Destroy :: "config \<Rightarrow> 'w docker_api \<Rightarrow> string \<Rightarrow> 'w proc" where
  "docker_Destroy cfg api workloadID w =
     (case dk_ContainerRemove api workloadID w of
        (Some e, w1) \<Rightarrow> (Some (Wrapf ''failed to remove container: '' e ''''), w1)
      | (None, w1) \<Rightarrow>
          if vc_AutoCleanupOnDestroy (cfg_Volumes cfg)
          then (case docker_CleanupByWorkload api workloadID w1 of
                  (Some e, w2) \<Rightarrow> (Some (Wrapf ''cleanup volumes: '' e ''''), w2)
                | (None, w2) \<Rightarrow> (None, w2))
          else (None, w1))"

definition docker_Restart :: "'w docker_api \<Rightarrow> string \<Rightarrow> 'w proc" where
  "docker_Restart api workloadID w =
     (case dk_ContainerRestart api workloadID w of
        (Some e, w1) \<Rightarrow> (Some (Wrapf ''failed to restart container: '' e ''''), w1)
      | (None, w1) \<Rightarrow> (None, w1))"

text \<open>A container without a name makes \<open>ListWorkloads\<close> index an empty slice, a panic (\<open>None\<close>).\<close>

definition container_status :: "docker_container \<Rightarrow> workload_status option" where
  "container_status c =
     (case dct_Names c of
        [] \<Rightarrow> None
      | n # ns \<Rightarrow> Some (zero_status\<lparr>wst_ID := dct_ID c, wst_Name := n, wst_State := mapState (dct_State c),
                                  wst_Image := dct_Image c\<rparr>))"

definition docker_ListWorkloads ::
  "'w docker_api \<Rightarrow> string \<Rightarrow> 'w \<Rightarrow> workload_status list result option \<times> 'w" where
  "docker_ListWorkloads api namespace w =
     (case dk_ContainerList api None w of
        (Inl e, w1) \<Rightarrow> (Some (Inl (Wrapf ''failed to list containers: '' e '''')), w1)
      | (Inr cs, w1) \<Rightarrow> (map_option Inr (those (map container_status cs)), w1))"

definition docker_Ping :: "'w docker_api \<Rightarrow> 'w proc" where
  "docker_Ping api = dk_Ping api"

text \<open>\<open>deploy.go\<close> has a second way to deploy, with the platform of the resolved architecture.\<close>

definition deployContainer ::
  "types_constants \<Rightarrow> 'w docker_api \<Rightarrow> workload_spec \<Rightarrow> 'w \<Rightarrow> string result \<times> workload_spec \<times> 'w" where
  "deployContainer tc api spec w =
     (let spec1 = ApplyArchitectureScheduling tc spec;
          platform = DockerPlatform tc spec1;
          run = bindE (if platform \<noteq> ''''
                       then wrapE (''image pull failed for platform '' @ platform @ '': '') (dk_ImagePull api (ws_Image spec1) platform)
                       else returnE None) (\<lambda>_.
                bindE (wrapE ''container create failed: ''
                         (dk_ContainerCreate api
                           \<lparr>cc_Image = ws_Image spec1, cc_Env = envMapToSlice (ws_Env spec1), cc_Labels = None,
                            cc_Healthcheck = None, cc_Cmd = []\<rparr>
                           \<lparr>hcf_RestartPolicy = ''unless-stopped'', hcf_Binds = [], hcf_DeviceRequests = []\<rparr>
                           (ws_Name spec1))) (\<lambda>containerID.
                bindE (wrapE ''container start failed: '' (procE (dk_ContainerStart api containerID))) (\<lambda>_.
                returnE containerID)))
      in case run w of (r, w1) \<Rightarrow> (r, spec1, w1))"

section \<open>Checkpoints\<close>

definition docker_CheckpointWorkload ::
  "'w docker_api \<Rightarrow> instant \<Rightarrow> instant \<Rightarrow> checkpoint_request \<Rightarrow> store \<Rightarrow> 'w \<Rightarrow> checkpoint_result result \<times> store \<times> 'w" where
  "docker_CheckpointWorkload api now1 now2 req st w =
     (case ValidateCheckpoint req of
        Some e \<Rightarrow> (Inl e, st, w)
      | None \<Rightarrow>
          (case resolveContainerID api (creq_WorkloadID req) w of
             (Inl e, w1) \<Rightarrow> (Inl e, st, w1)
           | (Inr ident, w1) \<Rightarrow>
               (case dk_ContainerPause api ident w1 of
                  (Some e, w2) \<Rightarrow> (Inl (Wrapf ''pause container: '' e ''''), st, w2)
                | (None, w2) \<Rightarrow>
                    (case Save now1 now2 (creq_WorkloadID req)
                            \<lparr>cr_WorkloadID = creq_WorkloadID req, cr_CheckpointID = ident, cr_State = ''paused'',
                             cr_Message = ''container paused (checkpoint)'', cr_CreatedAt = 0\<rparr> st of
                       (saved, st1) \<Rightarrow> (Inr saved, st1, w2)))))"

definition docker_RestoreWorkload :: "'w docker_api \<Rightarrow> instant \<Rightarrow> restore_request \<Rightarrow> ('w, restore_result) act" where
  "docker_RestoreWorkload api now req w =
     (case ValidateRestore req of
        Some e \<Rightarrow> (Inl e, w)
      | None \<Rightarrow>
          (case (if rreq_CheckpointID req \<noteq> '''' then (Inr (rreq_CheckpointID req), w)
                 else resolveContainerID api (rreq_WorkloadID req) w) of
             (Inl e, w1) \<Rightarrow> (Inl e, w1)
           | (Inr ident, w1) \<Rightarrow>
               (let ok = \<lparr>rres_WorkloadID = rreq_WorkloadID req, rres_State = ''running'', rres_RestoredAt = now,
                          rres_Message = ''container resumed''\<rparr>
                in case dk_ContainerUnpause api ident w1 of
                     (None, w2) \<Rightarrow> (Inr ok, w2)
                   | (Some e, w2) \<Rightarrow>
                       (case dk_ContainerStart api ident w2 of
                          (Some startErr, w3) \<Rightarrow> (Inl (Wrapf ''restore container: '' e ''''), w3)
                        | (None, w3) \<Rightarrow> (Inr ok, w3)))))"

definition docker_ListCheckpoints :: "string \<Rightarrow> string \<Rightarrow> store \<Rightarrow> checkpoint_result list result" where
  "docker_ListCheckpoints workloadID namespace st = Inr (store_List workloadID st)"

text \<open>The volume operations are those of the driver's volume manager.\<close>

definition docker_ProvisionVolumes :: "'w docker_api \<Rightarrow> workload_spec option \<Rightarrow> ('w, volume_lifecycle_result) act" where
  "docker_ProvisionVolumes api spec = docker_Provision api spec"

definition docker_CleanupVolumes :: "'w docker_api \<Rightarrow> workload_spec option \<Rightarrow> 'w proc" where
  "docker_CleanupVolumes api spec = docker_Cleanup api spec"

section \<open>Construction\<close>

text \<open>
  \<open>NewClientWithOpts\<close> with the configured host is the parameter \<open>client\<close>. The volume manager
  holds a pointer back to its driver, so it has no state of its own.
\<close>

record 'w docker_object =
  dob_api :: "'w docker_api"
  dob_cfg :: config
  dob_checkpoints :: store

definition docker_New :: "(string \<Rightarrow> 'w docker_api result) \<Rightarrow> config \<Rightarrow> 'w docker_object result" where
  "docker_New client cfg =
     (case client (dc_Host (cfg_Docker cfg)) of
        Inl e \<Rightarrow> Inl (Wrapf ''failed to create Docker client: '' e '''')
      | Inr api \<Rightarrow> Inr \<lparr>dob_api = api, dob_cfg = cfg, dob_checkpoints = NewStore\<rparr>)"

section \<open>Waiting for a running container\<close>

text \<open>
  \<open>waitForLogReady\<close>: \<open>left\<close> is what remains of the timeout; an iteration takes the 500 ms of
  its sleep, the calls themselves are instantaneous.
\<close>

function waitForLogReady :: "'w docker_api \<Rightarrow> string \<Rightarrow> duration \<Rightarrow> 'w proc" where
  "waitForLogReady api containerID left w =
     (if left \<le> 0 then (Some (Errorf ''timeout waiting for container logs''), w)
      else case dk_ContainerRunning api containerID w of
             (Inl e, w1) \<Rightarrow> (Some e, w1)
           | (Inr True, w1) \<Rightarrow> (None, w1)
           | (Inr False, w1) \<Rightarrow> waitForLogReady api containerID (left - 500000000) w1)"
  by pat_completeness auto

termination
  by (relation "measure (\<lambda>(api, containerID, left, w). nat left)") auto

declare waitForLogReady.simps [simp del]

text \<open>The driver behind the interface; the listing panics are outside of it.\<close>

definition docker_runtime :: "types_constants \<Rightarrow> config \<Rightarrow> 'w docker_api \<Rightarrow> 'w runtime_driver" where
  "docker_runtime tc cfg api =
     \<lparr>drv_Deploy = docker_Deploy tc api, drv_Destroy = docker_Destroy cfg api,
      drv_Restart = docker_Restart api, drv_GetStatus = docker_GetStatus api,
      drv_ListWorkloads = (\<lambda>ns w. case docker_ListWorkloads api ns w of
         (Some r, w') \<Rightarrow> (r, w') | (None, w') \<Rightarrow> (Inl (Errorf ''index out of range''), w')),
      drv_Ping = docker_Ping api, drv_Backend = ''docker''\<rparr>"

section \<open>A concrete engine\<close>

text \<open>
  An engine with the documented behaviour of the calls: names are unique, a name filter selects
  the containers one of whose names contains the value, newest first. It instantiates the
  parameter in the examples; it is no part of the program.
\<close>

record engine =
  en_containers :: "docker_container list"
  en_volumes :: "(string \<times> string) list"

definition name_matches :: "string \<Rightarrow> docker_container \<Rightarrow> bool" where
  "name_matches v c \<longleftrightarrow> list_ex (\<lambda>n. Contains n v) (dct_Names c)"

definition engine_find :: "string \<Rightarrow> engine \<Rightarrow> docker_container list" where
  "engine_find x w = filter (\<lambda>c. dct_ID c = x \<or> ''/'' @ x \<in> set (dct_Names c)) (en_containers w)"

definition no_such :: "string \<Rightarrow> go_error" where
  "no_such x = Errorf (''No such container: '' @ x)"

definition engine_set :: "string \<Rightarrow> string \<Rightarrow> engine proc" where
  "engine_set st x w =
     (if engine_find x w = [] then (Some (no_such x), w)
      else (None, w\<lparr>en_containers := map (\<lambda>c. if c \<in> set (engine_find x w) then c\<lparr>dct_State := st\<rparr> else c) (en_containers w)\<rparr>))"

definition engine_api :: "engine docker_api" where
  "engine_api =
     \<lparr>dk_ImagePull = (\<lambda>ref platform w. (Inr None, w)),
      dk_ContainerCreate = (\<lambda>cc hc n w.
        if \<exists>c \<in> set (en_containers w). ''/'' @ n \<in> set (dct_Names c)
        then (Inl (Errorf (''Conflict. The container name '' @ n @ '' is already in use'')), w)
        else (Inr (''id-'' @ n), w\<lparr>en_containers := \<lparr>dct_ID = ''id-'' @ n, dct_Names = [''/'' @ n], dct_State = ''created'',
                                          dct_Image = cc_Image cc\<rparr> # en_containers w\<rparr>)),
      dk_ContainerStart = engine_set ''running'',
      dk_ContainerRemove = (\<lambda>x w. if engine_find x w = [] then (Some (no_such x), w)
        else (None, w\<lparr>en_containers := filter (\<lambda>c. c \<notin> set (engine_find x w)) (en_containers w)\<rparr>)),
      dk_ContainerRestart = engine_set ''running'', dk_ContainerPause = engine_set ''paused'',
      dk_ContainerUnpause = engine_set ''running'',
      dk_ContainerList = (\<lambda>f w. (Inr (case f of None \<Rightarrow> en_containers w | Some v \<Rightarrow> filter (name_matches v) (en_containers w)), w)),
      dk_ContainerRunning = (\<lambda>x w. (case engine_find x w of [] \<Rightarrow> Inl (no_such x) | c # cs \<Rightarrow> Inr (dct_State c = ''running''), w)),
      dk_VolumeCreate = (\<lambda>n labels w. ((n, None), w\<lparr>en_volumes := (n, gm_str labels ''kranix.io/workload'') # en_volumes w\<rparr>)),
      dk_VolumeRemove = (\<lambda>n w. if n \<in> fst ` set (en_volumes w)
        then (None, w\<lparr>en_volumes := filter (\<lambda>v. fst v \<noteq> n) (en_volumes w)\<rparr>)
        else (Some (Errorf (''volume '' @ n @ '' not found'')), w)),
      dk_VolumeList = (\<lambda>label w. (Inr (map fst (filter (\<lambda>v. ''kranix.io/workload='' @ snd v = label) (en_volumes w))), w)),
      dk_Ping = (\<lambda>w. (None, w))\<rparr>"

section \<open>Lemmas\<close>

lemma provision_loop_names:
  assumes "\<And>n ls w. fst (fst (dk_VolumeCreate api n ls w)) \<in> {n, ''''}"
    and "docker_provision_loop api workload vols acc w = (Inr vs, w')"
  shows "map (\<lambda>v. vs_VolumeID v @ '':'' @ vs_MountPath v) vs =
    map (\<lambda>v. vs_VolumeID v @ '':'' @ vs_MountPath v) acc @
    map (\<lambda>vol. volumeName workload (vol_Name vol) @ '':'' @ docker_mountPath vol) vols"
  using assms(2)
proof (induction vols arbitrary: acc w)
  case (Cons vol vols)
  obtain created err w1 where c: "dk_VolumeCreate api (volumeName workload (vol_Name vol))
      [(''kranix.io/workload'', workload), (''managed-by'', ''kranix'')] w = ((created, err), w1)"
    by (metis surj_pair)
  then have n: "created \<in> {volumeName workload (vol_Name vol), ''''}" using assms(1) by (metis fst_conv)
  let ?v = "\<lparr>vs_Name = vol_Name vol, vs_ClaimName = '''', vs_VolumeID = (if created \<noteq> '''' then created else volumeName workload (vol_Name vol)),
     vs_MountPath = docker_mountPath vol, vs_Status = ''bound''\<rparr>"
  from Cons.prems c have "docker_provision_loop api workload vols (acc @ [?v]) w1 = (Inr vs, w')"
    by (auto simp: Let_def split: option.splits if_splits)
  from Cons.IH [OF this] n show ?case by auto
qed simp

lemma docker_provision_keeps:
  assumes "\<And>n ls w. view (snd (dk_VolumeCreate api n ls w)) = view w"
  shows "view (snd (docker_Provision api spec w)) = view w"
proof -
  have "view (snd (docker_provision_loop api wl vols acc w)) = view w" for wl vols acc w
  proof (induction vols arbitrary: acc w)
    case (Cons vol vols)
    show ?case using assms [of "volumeName wl (vol_Name vol)" "[(''kranix.io/workload'', wl), (''managed-by'', ''kranix'')]" w]
      by (auto simp: Let_def Cons.IH split: prod.splits option.splits)
  qed simp
  then show ?thesis
    by (auto simp: docker_Provision_def split: option.splits prod.splits sum.splits) (metis snd_conv)+
qed

section \<open>Properties\<close>


definition docker_demo :: workload_spec where
  "docker_demo = zero_spec\<lparr>ws_Name := ''web'', ws_Image := ''nginx'',
     ws_Volumes := [\<lparr>vol_Name = ''data'', vol_Size = '''', vol_AccessMode = '''',
       vol_StorageClass = '''', vol_MountPath = '''', vol_AutoCleanup = True\<rparr>]\<rparr>"

definition empty_engine :: engine where "empty_engine = \<lparr>en_containers = [], en_volumes = []\<rparr>"



lemma bindE_ok:
  "is_ok (fst (bindE m f w)) \<Longrightarrow> \<exists>x w1. m w = (Inr x, w1) \<and> is_ok (fst (f x w1))"
  by (auto simp: bindE_def split: prod.splits sum.splits)

lemma wrapE_ok: "wrapE p m w = (Inr x, w1) \<Longrightarrow> m w = (Inr x, w1)"
  by (auto simp: wrapE_def split: prod.splits sum.splits)

lemma procE_ok: "procE p w = (Inr u, w1) \<Longrightarrow> p w = (None, w1)"
  by (auto simp: procE_def split: prod.splits option.splits)

text \<open>
  Docker's \<open>Deploy\<close> never replaces a container: on an engine where names are unique, a
  container that already has the workload's name (the running workload itself, or what a
  deployment whose start failed has left) makes every \<open>Deploy\<close> of that workload fail, until
  it is destroyed.
\<close>

theorem docker_deploy_never_replaces:
  assumes "\<forall>cc hc n w. n \<in> names w \<longrightarrow> \<not> is_ok (fst (dk_ContainerCreate api cc hc n w))"
    and "\<forall>n ls w. names (snd (dk_VolumeCreate api n ls w)) = names w"
    and "\<forall>ref p w. names (snd (dk_ImagePull api ref p w)) = names w"
    and "ws_Name spec \<in> names w"
  shows "\<not> is_ok (fst (docker_Deploy tc api spec w))"
proof
  let ?s = "ApplyArchitectureScheduling tc (ApplyNodePlacement spec)"
  have n: "ws_Name ?s = ws_Name spec"
    by (simp add: ApplyArchitectureScheduling_def ApplyNodePlacement_def Let_def)
  assume "is_ok (fst (docker_Deploy tc api spec w))"
  then have "is_ok (fst (docker_start api ?s w))"
    by (auto simp: docker_Deploy_def Let_def split: prod.splits)
  then obtain r w1 where p: "docker_Provision api (Some ?s) w = (Inr r, w1)" and "is_ok (fst
      (bindE (wrapE ''failed to pull image: '' (procE (pullImage api (ws_Image ?s)))) (\<lambda>_.
       bindE (\<lambda>w. (device_requests ?s, w)) (\<lambda>devs.
       bindE (wrapE ''failed to create container: ''
         (dk_ContainerCreate api (docker_container_config ?s) (docker_host_config ?s devs) (ws_Name ?s))) (\<lambda>containerID.
       bindE (wrapE ''failed to start container: '' (procE (dk_ContainerStart api containerID))) (\<lambda>_.
       docker_GetStatus api (ws_Name ?s))))) w1))"
    unfolding docker_start_def by (blast dest: bindE_ok)
  then obtain devs cid w2 w3 where q: "pullImage api (ws_Image ?s) w1 = (None, w2)"
    and c: "dk_ContainerCreate api (docker_container_config ?s) (docker_host_config ?s devs) (ws_Name ?s) w2 = (Inr cid, w3)"
    by (auto dest!: bindE_ok wrapE_ok procE_ok)
  have "names w1 = names w" using docker_provision_keeps [of names api "Some ?s" w] assms(2) p by simp
  moreover have "names w2 = names w1"
    using q assms(3) [rule_format, of "ws_Image ?s" "''''" w1]
    by (auto simp: pullImage_def split: prod.splits sum.splits option.splits)
  ultimately have "ws_Name ?s \<in> names w2" using assms(4) n by simp
  then show False using assms(1) c by (metis fst_conv is_ok_simps(1))
qed

definition failed_start :: engine where
  "failed_start = \<lparr>en_containers = [\<lparr>dct_ID = ''c1'', dct_Names = [''/web''], dct_State = ''created'', dct_Image = ''nginx''\<rparr>], en_volumes = []\<rparr>"

lemma docker_deploy_never_replaces_witness:
  "\<not> is_ok (fst (docker_Deploy demo_tc engine_api docker_demo failed_start))"
  by (rule docker_deploy_never_replaces [where names = "\<lambda>w. {n. \<exists>c \<in> set (en_containers w). ''/'' @ n \<in> set (dct_Names c)}"])
    (auto simp: engine_api_def failed_start_def docker_demo_def)

text \<open>
  \<open>GetStatus\<close> and \<open>CheckpointWorkload\<close> look a workload up with the engine's name filter,
  which selects every container whose name contains the value, and take the first hit. When
  the first container of the engine's listing is another one whose name merely contains the
  workload's (the shadow \<open>web-migrating\<close> of \<open>web\<close>), the status is that container's under the
  workload's name, and a checkpoint of the workload acts on that container.
\<close>

theorem docker_acts_on_first_match:
  assumes "\<forall>v w. dk_ContainerList api (Some v) w = (Inr (filter (name_matches v) (listing w)), w)"
    and "listing w = c # cs" and "dct_Names c = [pre @ x @ suf]" and "x \<noteq> ''''"
  shows "docker_GetStatus api x w =
      (Inr (zero_status\<lparr>wst_ID := dct_ID c, wst_Name := x, wst_State := mapState (dct_State c), wst_Image := dct_Image c\<rparr>), w) \<and>
    snd (snd (docker_CheckpointWorkload api now1 now2 \<lparr>creq_WorkloadID = x, creq_Namespace = ns\<rparr> st w)) =
      snd (dk_ContainerPause api (dct_ID c) w)"
proof -
  have "name_matches x c" using assms(3) by (auto simp: name_matches_def Contains_iff sublist_def)
  then have l: "dk_ContainerList api (Some x) w = (Inr (c # filter (name_matches x) cs), w)"
    using assms(1,2) by simp
  show ?thesis using assms(4)
    by (simp add: docker_GetStatus_def docker_CheckpointWorkload_def resolveContainerID_def l ValidateCheckpoint_def
        split: prod.splits option.splits)
qed

definition migrating_engine :: engine where
  "migrating_engine = \<lparr>en_containers =
     [\<lparr>dct_ID = ''c2'', dct_Names = [''/web-migrating''], dct_State = ''created'', dct_Image = ''nginx:2''\<rparr>,
      \<lparr>dct_ID = ''c1'', dct_Names = [''/web''], dct_State = ''running'', dct_Image = ''nginx:1''\<rparr>], en_volumes = []\<rparr>"

lemma docker_acts_on_first_match_witness:
  "fst (docker_GetStatus engine_api ''web'' migrating_engine) =
   Inr (zero_status\<lparr>wst_ID := ''c2'', wst_Name := ''web'', wst_State := ''Pending'', wst_Image := ''nginx:2''\<rparr>)"
  using docker_acts_on_first_match [of engine_api en_containers migrating_engine
      "\<lparr>dct_ID = ''c2'', dct_Names = [''/web-migrating''], dct_State = ''created'', dct_Image = ''nginx:2''\<rparr>"
      "[\<lparr>dct_ID = ''c1'', dct_Names = [''/web''], dct_State = ''running'', dct_Image = ''nginx:1''\<rparr>]" "''/''" "''web''" "''-migrating''"]
  by (simp add: engine_api_def migrating_engine_def mapState_def)


text \<open>The volumes of the engine, as pairs of name and workload label, and what the calls promise.\<close>

definition volume_laws :: "'w docker_api \<Rightarrow> ('w \<Rightarrow> (string \<times> string) set) \<Rightarrow> bool" where
  "volume_laws api vols \<longleftrightarrow>
     (\<forall>x w. vols (snd (dk_ContainerRemove api x w)) = vols w) \<and>
     (\<forall>x w names w'. dk_VolumeList api (''kranix.io/workload='' @ x) w = (Inr names, w') \<longrightarrow>
        vols w' = vols w \<and> {n. (n, x) \<in> vols w} \<subseteq> set names) \<and>
     (\<forall>n w w'. dk_VolumeRemove api n w = (None, w') \<longrightarrow> vols w' \<subseteq> {v \<in> vols w. fst v \<noteq> n}) \<and>
     (\<forall>n w w' e. dk_VolumeRemove api n w = (Some e, w') \<longrightarrow> vols w' \<subseteq> vols w \<and>
        (volume_gone e \<longrightarrow> n \<notin> fst ` vols w'))"

lemma volume_lawsD:
  assumes "volume_laws api vols"
  shows "vols (snd (dk_ContainerRemove api x w)) = vols w"
    and "dk_VolumeList api (''kranix.io/workload='' @ x) w = (Inr names, w') \<Longrightarrow> vols w' = vols w"
    and "dk_VolumeList api (''kranix.io/workload='' @ x) w = (Inr names, w') \<Longrightarrow> (n, x) \<in> vols w \<Longrightarrow> n \<in> set names"
    and "dk_VolumeRemove api n w = (None, w') \<Longrightarrow> vols w' \<subseteq> {v \<in> vols w. fst v \<noteq> n}"
    and "dk_VolumeRemove api n w = (Some e, w') \<Longrightarrow> vols w' \<subseteq> vols w"
    and "dk_VolumeRemove api n w = (Some e, w') \<Longrightarrow> volume_gone e \<Longrightarrow> n \<notin> fst ` vols w'"
proof -
  note laws = assms [unfolded volume_laws_def]
  show "vols (snd (dk_ContainerRemove api x w)) = vols w" using laws by simp
  show "dk_VolumeList api (''kranix.io/workload='' @ x) w = (Inr names, w') \<Longrightarrow> vols w' = vols w"
    using laws [THEN conjunct2, THEN conjunct1] by blast
  show "dk_VolumeList api (''kranix.io/workload='' @ x) w = (Inr names, w') \<Longrightarrow> (n, x) \<in> vols w \<Longrightarrow> n \<in> set names"
    using laws [THEN conjunct2, THEN conjunct1] by blast
  show "dk_VolumeRemove api n w = (None, w') \<Longrightarrow> vols w' \<subseteq> {v \<in> vols w. fst v \<noteq> n}"
    using laws [THEN conjunct2, THEN conjunct2, THEN conjunct1] by blast
  show "dk_VolumeRemove api n w = (Some e, w') \<Longrightarrow> vols w' \<subseteq> vols w"
    using laws [THEN conjunct2, THEN conjunct2, THEN conjunct2] by blast
  show "dk_VolumeRemove api n w = (Some e, w') \<Longrightarrow> volume_gone e \<Longrightarrow> n \<notin> fst ` vols w'"
    using laws [THEN conjunct2, THEN conjunct2, THEN conjunct2] by blast
qed

lemma remove_volumes_removes:
  assumes "volume_laws api vols"
  shows "remove_volumes api names w = (None, w') \<Longrightarrow> vols w' \<subseteq> {v \<in> vols w. fst v \<notin> set names}"
proof (induction names arbitrary: w)
  case (Cons n names)
  obtain e w1 where r: "dk_VolumeRemove api n w = (e, w1)" by (metis surj_pair)
  have w1: "vols w1 \<subseteq> {v \<in> vols w. fst v \<noteq> n}" and rest: "remove_volumes api names w1 = (None, w')"
  proof -
    show "remove_volumes api names w1 = (None, w')" using Cons.prems r by (auto split: option.splits if_splits)
    show "vols w1 \<subseteq> {v \<in> vols w. fst v \<noteq> n}"
    proof (cases e)
      case None
      with r volume_lawsD(4) [OF assms] show ?thesis by simp
    next
      case (Some err)
      with Cons.prems r have "volume_gone err" by (auto split: if_splits)
      with volume_lawsD(5,6) [OF assms, of n w err w1] r Some show ?thesis by force
    qed
  qed
  from Cons.IH [OF rest] w1 show ?case by auto
qed simp

text \<open>
  C11. With \<open>AutoCleanupOnDestroy\<close>, a successful \<open>Destroy\<close> leaves no volume labelled with the workload
  on the engine; what remains was there before.
\<close>

theorem docker_destroy_leaves_no_volumes:
  assumes "volume_laws api vols" and "vc_AutoCleanupOnDestroy (cfg_Volumes cfg)"
    and "docker_Destroy cfg api x w = (None, w')"
  shows "vols w' \<subseteq> {v \<in> vols w. snd v \<noteq> x}"
proof -
  from assms(2,3) obtain w1 w2 names where r: "dk_ContainerRemove api x w = (None, w1)"
    and l: "dk_VolumeList api (''kranix.io/workload='' @ x) w1 = (Inr names, w2)" and d: "remove_volumes api names w2 = (None, w')"
    by (auto simp: docker_Destroy_def docker_CleanupByWorkload_def split: prod.splits option.splits sum.splits)
  have w1: "vols w1 = vols w" using volume_lawsD(1) [OF assms(1), of x w] r by simp
  moreover have "vols w2 = vols w1" using volume_lawsD(2) [OF assms(1) l] .
  moreover have "n \<in> set names" if "(n, x) \<in> vols w1" for n using volume_lawsD(3) [OF assms(1) l that] .
  moreover have "vols w' \<subseteq> {v \<in> vols w2. fst v \<notin> set names}" using remove_volumes_removes [OF assms(1) d] .
  ultimately show ?thesis by fastforce
qed

definition web_with_volume :: engine where
  "web_with_volume = \<lparr>en_containers = [\<lparr>dct_ID = ''c1'', dct_Names = [''/web''], dct_State = ''running'', dct_Image = ''nginx''\<rparr>],
     en_volumes = [(''web-data'', ''web''), (''db-data'', ''db'')]\<rparr>"

definition cleaning_config :: config where
  "cleaning_config = DefaultConfig\<lparr>cfg_Volumes := (cfg_Volumes DefaultConfig)\<lparr>vc_AutoCleanupOnDestroy := True\<rparr>\<rparr>"

lemma engine_volume_laws: "volume_laws engine_api (\<lambda>w. set (en_volumes w))"
  by (auto simp: volume_laws_def engine_api_def volume_gone_def image_iff split: if_splits)

lemma docker_destroy_leaves_no_volumes_witness:
  "\<exists>w'. docker_Destroy cleaning_config engine_api ''web'' web_with_volume = (None, w') \<and>
     set (en_volumes w') \<subseteq> {v \<in> set (en_volumes web_with_volume). snd v \<noteq> ''web''}"
proof -
  have c: "vc_AutoCleanupOnDestroy (cfg_Volumes cleaning_config)" by (simp add: cleaning_config_def)
  obtain w' where d: "docker_Destroy cleaning_config engine_api ''web'' web_with_volume = (None, w')"
    by (simp add: docker_Destroy_def docker_CleanupByWorkload_def c engine_api_def web_with_volume_def engine_find_def)
  with docker_destroy_leaves_no_volumes [OF engine_volume_laws c d] show ?thesis by blast
qed

lemma log_wait_outcome:
  assumes "\<forall>w. fst (dk_ContainerRunning api x w) = Inr False"
  shows "fst (waitForLogReady api x timeout w) = Some (Errorf ''timeout waiting for container logs'')"
  using assms
proof (induction api x timeout w rule: waitForLogReady.induct)
  case (1 api x left w)
  show ?case
  proof (cases "left \<le> 0")
    case False
    obtain w1 where r: "dk_ContainerRunning api x w = (Inr False, w1)" using 1(2) by (metis prod.collapse)
    from 1(1) [OF False r [symmetric] refl] 1(2) False show ?thesis
      by (simp add: waitForLogReady.simps [of api x left w] r)
  qed (simp add: waitForLogReady.simps)
qed


section \<open>The contract of the driver interface\<close>

text \<open>
  What the engine promises of the containers it has under a name in \<open>names\<close> (a name that is not
  also an identifier of a container): creating adds the name, removing takes it away, a failed
  call leaves the containers as they are, and no other call changes them.
\<close>

definition engine_laws :: "'w docker_api \<Rightarrow> ('w \<Rightarrow> string set) \<Rightarrow> string set \<Rightarrow> bool" where
  "engine_laws api live names \<longleftrightarrow>
     (\<forall>cc hc n w r w'. n \<in> names \<longrightarrow> dk_ContainerCreate api cc hc n w = (r, w') \<longrightarrow>
        live w' = (if is_ok r then insert n (live w) else live w)) \<and>
     (\<forall>x w e w'. x \<in> names \<longrightarrow> dk_ContainerRemove api x w = (e, w') \<longrightarrow>
        live w' = (if e = None then live w - {x} else live w)) \<and>
     (\<forall>ref p w. live (snd (dk_ImagePull api ref p w)) = live w) \<and>
     (\<forall>x w. live (snd (dk_ContainerStart api x w)) = live w) \<and>
     (\<forall>f w. live (snd (dk_ContainerList api f w)) = live w) \<and>
     (\<forall>n ls w. live (snd (dk_VolumeCreate api n ls w)) = live w) \<and>
     (\<forall>n w. live (snd (dk_VolumeRemove api n w)) = live w) \<and>
     (\<forall>l w. live (snd (dk_VolumeList api l w)) = live w)"

lemma engine_lawsD:
  assumes "engine_laws api live names"
  shows engine_create: "n \<in> names \<Longrightarrow> dk_ContainerCreate api cc hc n w = (r, w') \<Longrightarrow>
      live w' = (if is_ok r then insert n (live w) else live w)"
    and engine_remove: "n \<in> names \<Longrightarrow> dk_ContainerRemove api n w = (e, w') \<Longrightarrow>
      live w' = (if e = None then live w - {n} else live w)"
    and engine_keeps: "live (snd (dk_ImagePull api ref p w)) = live w" "live (snd (dk_ContainerStart api x w)) = live w"
      "live (snd (dk_ContainerList api f w)) = live w" "live (snd (dk_VolumeCreate api v ls w)) = live w"
      "live (snd (dk_VolumeRemove api v w)) = live w" "live (snd (dk_VolumeList api l w)) = live w"
  using assms unfolding engine_laws_def by meson+

text \<open>What every action of a chain keeps, the chain keeps.\<close>

definition act_keeps :: "('w \<Rightarrow> 'v) \<Rightarrow> ('w, 'a) act \<Rightarrow> bool" where
  "act_keeps view m \<longleftrightarrow> (\<forall>w. view (snd (m w)) = view w)"

lemma act_keepsD: "act_keeps view m \<Longrightarrow> m w = (r, w') \<Longrightarrow> view w' = view w"
  unfolding act_keeps_def by (metis snd_conv)

lemma act_keepsI: "(\<And>w r w'. m w = (r, w') \<Longrightarrow> view w' = view w) \<Longrightarrow> act_keeps view m"
  unfolding act_keeps_def by (metis prod.collapse)

lemma bindE_cases:
  assumes "bindE m f w = (r, w')"
  obtains (fail) e where "m w = (Inl e, w')" "r = Inl e" | (pass) x w1 where "m w = (Inr x, w1)" "f x w1 = (r, w')"
proof (cases "m w")
  case (Pair a w1)
  with assms that show ?thesis by (cases a) (auto simp: bindE_def)
qed

lemma act_keeps_bindE: "act_keeps view m \<Longrightarrow> (\<And>x. act_keeps view (f x)) \<Longrightarrow> act_keeps view (bindE m f)"
  by (rule act_keepsI, erule bindE_cases) (metis act_keepsD)+

lemma act_keeps_wrapE:
  assumes "act_keeps view m"
  shows "act_keeps view (wrapE p m)"
proof (rule act_keepsI)
  fix w r w' assume w: "wrapE p m w = (r, w')"
  obtain q w1 where m: "m w = (q, w1)" by fastforce
  from act_keepsD [OF assms m] w m show "view w' = view w" by (cases q) (auto simp: wrapE_def)
qed

lemma act_keeps_procE:
  assumes "\<And>w. view (snd (p w)) = view w"
  shows "act_keeps view (procE p)"
proof (rule act_keepsI)
  fix w r w' assume w: "procE p w = (r, w')"
  obtain e w1 where p: "p w = (e, w1)" by fastforce
  from assms [of w] w p show "view w' = view w" by (cases e) (auto simp: procE_def)
qed

lemma docker_GetStatus_keeps:
  assumes "engine_laws api live names"
  shows "live (snd (docker_GetStatus api x w)) = live w"
proof -
  obtain r w1 where l: "dk_ContainerList api (Some x) w = (r, w1)" by fastforce
  with engine_keeps(3) [OF assms, of "Some x" w] have "live w1 = live w" by simp
  with l show ?thesis by (simp add: docker_GetStatus_def split: sum.split list.split)
qed

lemma pullImage_keeps:
  assumes "engine_laws api live names"
  shows "live (snd (pullImage api ref w)) = live w"
proof -
  obtain r w1 where p: "dk_ImagePull api ref '''' w = (r, w1)" by fastforce
  with engine_keeps(1) [OF assms, of ref "''''" w] have "live w1 = live w" by simp
  with p show ?thesis by (simp add: pullImage_def split: sum.split option.split)
qed

lemma remove_volumes_keeps:
  assumes "engine_laws api live names"
  shows "live (snd (remove_volumes api vs w)) = live w"
proof (induction vs arbitrary: w)
  case (Cons v vs)
  obtain e w1 where r: "dk_VolumeRemove api v w = (e, w1)" by (metis surj_pair)
  with engine_keeps(5) [OF assms, of v w] have "live w1 = live w" by simp
  with r Cons.IH [of w1] show ?case by (simp split: option.split)
qed simp

lemma docker_cleanup_keeps:
  assumes "engine_laws api live names"
  shows "live (snd (docker_CleanupByWorkload api x w)) = live w"
proof -
  obtain r w1 where l: "dk_VolumeList api (''kranix.io/workload='' @ x) w = (r, w1)" by fastforce
  with engine_keeps(6) [OF assms, of "''kranix.io/workload='' @ x" w] have "live w1 = live w" by simp
  with l remove_volumes_keeps [OF assms, of _ w1] show ?thesis
    by (simp add: docker_CleanupByWorkload_def split: sum.split)
qed

text \<open>An action that adds the name \<open>n\<close> when it succeeds, and adds it or nothing when it fails.\<close>

definition act_adds :: "('w \<Rightarrow> string set) \<Rightarrow> string \<Rightarrow> ('w, 'a) act \<Rightarrow> bool" where
  "act_adds live n m \<longleftrightarrow>
     (\<forall>w r w'. m w = (r, w') \<longrightarrow> live w' = insert n (live w) \<or> (\<not> is_ok r \<and> live w' = live w))"

lemma act_addsD: "act_adds live n m \<Longrightarrow> m w = (r, w') \<Longrightarrow> live w' = insert n (live w) \<or> (\<not> is_ok r \<and> live w' = live w)"
  by (simp add: act_adds_def)

lemma act_adds_after:
  assumes "act_keeps live m" and "\<And>x. act_adds live n (f x)"
  shows "act_adds live n (bindE m f)"
  unfolding act_adds_def
proof (intro allI impI)
  fix w r w' assume "bindE m f w = (r, w')"
  then show "live w' = insert n (live w) \<or> (\<not> is_ok r \<and> live w' = live w)"
  proof (cases rule: bindE_cases)
    case fail
    then show ?thesis using act_keepsD [OF assms(1)] by simp
  next
    case (pass x w1)
    then show ?thesis using act_keepsD [OF assms(1) pass(1)] act_addsD [OF assms(2) pass(2)] by simp
  qed
qed

lemma act_adds_before:
  assumes "act_adds live n m" and "\<And>x. act_keeps live (f x)"
  shows "act_adds live n (bindE m f)"
  unfolding act_adds_def
proof (intro allI impI)
  fix w r w' assume "bindE m f w = (r, w')"
  then show "live w' = insert n (live w) \<or> (\<not> is_ok r \<and> live w' = live w)"
  proof (cases rule: bindE_cases)
    case fail
    then show ?thesis using act_addsD [OF assms(1) fail(1)] by simp
  next
    case (pass x w1)
    then show ?thesis using act_addsD [OF assms(1) pass(1)] act_keepsD [OF assms(2) pass(2)] by simp
  qed
qed

lemma act_adds_wrapE:
  assumes "act_adds live n m"
  shows "act_adds live n (wrapE p m)"
  unfolding act_adds_def
proof (intro allI impI)
  fix w r w' assume w: "wrapE p m w = (r, w')"
  obtain q w1 where m: "m w = (q, w1)" by fastforce
  from act_addsD [OF assms m] w m show "live w' = insert n (live w) \<or> (\<not> is_ok r \<and> live w' = live w)"
    by (cases q) (auto simp: wrapE_def)
qed

lemma docker_start_adds:
  assumes laws: "engine_laws api live names" and "ws_Name spec \<in> names"
  shows "act_adds live (ws_Name spec) (docker_start api spec)"
  unfolding docker_start_def
proof -
  have prov: "act_keeps live (docker_Provision api (Some spec))"
    unfolding act_keeps_def by (intro allI docker_provision_keeps engine_keeps(4) [OF laws])
  have pull: "act_keeps live (wrapE ''failed to pull image: '' (procE (pullImage api (ws_Image spec))))"
    by (intro act_keeps_wrapE act_keeps_procE pullImage_keeps [OF laws])
  have devs: "act_keeps live (\<lambda>w. (device_requests spec, w))" by (simp add: act_keeps_def)
  have create: "act_adds live (ws_Name spec) (dk_ContainerCreate api cc hc (ws_Name spec))" for cc hc
    using engine_create [OF laws assms(2)] by (auto simp: act_adds_def)
  have start: "act_keeps live (procE (dk_ContainerStart api cid))" for cid
    by (intro act_keeps_procE engine_keeps(2) [OF laws])
  have status: "act_keeps live (docker_GetStatus api (ws_Name spec))"
    unfolding act_keeps_def by (intro allI docker_GetStatus_keeps [OF laws])
  show "act_adds live (ws_Name spec)
     (bindE (docker_Provision api (Some spec)) (\<lambda>_.
      bindE (wrapE ''failed to pull image: '' (procE (pullImage api (ws_Image spec)))) (\<lambda>_.
      bindE (\<lambda>w. (device_requests spec, w)) (\<lambda>devs.
      bindE (wrapE ''failed to create container: ''
        (dk_ContainerCreate api (docker_container_config spec) (docker_host_config spec devs) (ws_Name spec))) (\<lambda>containerID.
      bindE (wrapE ''failed to start container: '' (procE (dk_ContainerStart api containerID))) (\<lambda>_.
      docker_GetStatus api (ws_Name spec)))))))"
    by (intro act_adds_after [OF prov] act_adds_after [OF pull] act_adds_after [OF devs]
        act_adds_before [OF act_adds_wrapE [OF create]] act_keeps_bindE act_keeps_wrapE start status)
qed

lemma placed_name: "ws_Name (ApplyArchitectureScheduling tc (ApplyNodePlacement spec)) = ws_Name spec"
  by (simp add: ApplyArchitectureScheduling_def ApplyNodePlacement_def Let_def)

lemma docker_Deploy_live:
  assumes "engine_laws api live names" and "ws_Name s \<in> names" and "docker_Deploy tc api s w = (r, s', w')"
  shows "live w' = insert (ws_Name s) (live w) \<or> (\<not> is_ok r \<and> live w' = live w)"
  using docker_start_adds [OF assms(1), of "ApplyArchitectureScheduling tc (ApplyNodePlacement s)"] assms(2,3)
  by (auto simp: act_adds_def docker_Deploy_def placed_name Let_def split: prod.splits)

lemma docker_Destroy_live:
  assumes "engine_laws api live names" and "x \<in> names" and "docker_Destroy cfg api x w = (e, w')"
  shows "live w' = live w - {x} \<or> (e \<noteq> None \<and> live w' = live w)"
proof -
  obtain e1 w1 where r: "dk_ContainerRemove api x w = (e1, w1)" by (metis surj_pair)
  note w1 = engine_remove [OF assms(1,2) r]
  show ?thesis
  proof (cases e1)
    case None
    then have "live w' = live w1" using assms(3) r docker_cleanup_keeps [OF assms(1), of x w1]
      by (auto simp: docker_Destroy_def split: if_splits prod.splits option.splits)
    with w1 None show ?thesis by simp
  next
    case (Some err)
    with assms(3) r w1 show ?thesis by (auto simp: docker_Destroy_def)
  qed
qed

text \<open>The driver keeps the contract over every such engine, and so over the concrete one.\<close>

lemma docker_backend:
  assumes "engine_laws api live names"
  shows "backend (docker_runtime tc cfg api) live names"
proof (unfold_locales, goal_cases)
  case (7 x w g w')
  then show ?case using docker_GetStatus_keeps [OF assms, of x w] by (simp add: docker_runtime_def)
qed (auto simp: docker_runtime_def dest: docker_Deploy_live [OF assms] docker_Destroy_live [OF assms])

definition engine_live :: "engine \<Rightarrow> string set" where
  "engine_live w = {n. \<exists>c \<in> set (en_containers w). dct_Names c = [''/'' @ n] \<and> dct_ID c = ''id-'' @ n}"

definition engine_names :: "string set" where
  "engine_names = {n. \<not> HasPrefix n ''id-''}"

lemma engine_find_live:
  assumes "x \<in> engine_names"
  shows "engine_live (w\<lparr>en_containers := filter (\<lambda>c. c \<notin> set (engine_find x w)) (en_containers w)\<rparr>) = engine_live w - {x}"
  using assms by (auto simp: engine_live_def engine_names_def engine_find_def HasPrefix_def)

lemma engine_set_live: "engine_live (snd (engine_set st x w)) = engine_live w"
proof -
  have "dct_Names (if b then c\<lparr>dct_State := st\<rparr> else c) = dct_Names c"
    "dct_ID (if b then c\<lparr>dct_State := st\<rparr> else c) = dct_ID c" for b and c :: docker_container by simp_all
  then show ?thesis by (simp add: engine_live_def engine_set_def del: append_Cons append_Nil if_image_distrib)
qed

lemma engine_api_laws: "engine_laws engine_api engine_live engine_names"
  unfolding engine_laws_def
proof (intro conjI allI impI, goal_cases)
  case (1 cc hc n w r w')
  then show ?case by (auto simp: engine_api_def engine_live_def split: if_splits)
next
  case (2 x w e w')
  from 2(2) engine_find_live [OF 2(1), of w] show ?case by (auto simp: engine_api_def split: if_splits)
next
  case (4 x w)
  show ?case using engine_set_live by (simp add: engine_api_def)
qed (auto simp: engine_api_def engine_live_def)

interpretation docker: backend "docker_runtime tc cfg engine_api" engine_live engine_names for tc cfg
  by (rule docker_backend) (rule engine_api_laws)

end
