(* ===== verification/Kubernetes_Objects.thy ===== *)
theory Kubernetes_Objects
  imports Scheduling Container_Options
begin

text \<open>
  The Kubernetes objects the runtime builds, and the pure functions that build them:
  \<open>internal/kubernetes/deploy.go\<close> (conversions), \<open>workload_pod.go\<close>, the naming part of
  \<open>internal/volume/lifecycle.go\<close> and the rules of \<open>networkpolicy.go\<close>. The records have the
  fields that the code sets. \<open>resource.MustParse\<close> is a parameter that gives the quantity,
  or \<open>None\<close> where it panics; a panic of the runtime is the outcome \<open>None\<close>.
\<close>

section \<open>Object types\<close>

record k8s_node_selector_requirement =
  kr_Key :: string
  kr_Operator :: string
  kr_Values :: "string list"

record k8s_node_selector_term =
  kt_MatchExpressions :: "k8s_node_selector_requirement list"
  kt_MatchFields :: "k8s_node_selector_requirement list"

record k8s_preferred_scheduling_term =
  kps_Weight :: int
  kps_Preference :: k8s_node_selector_term

record k8s_node_affinity =
  kna_Required :: "k8s_node_selector_term list option"
  kna_Preferred :: "k8s_preferred_scheduling_term list"

record label_selector =
  ls_MatchLabels :: "(string, string) gomap"

record k8s_pod_affinity_term =
  kpt_LabelSelector :: "label_selector option"
  kpt_Namespaces :: "string list"
  kpt_TopologyKey :: string

record k8s_weighted_pod_affinity_term =
  kwt_Weight :: int
  kwt_PodAffinityTerm :: k8s_pod_affinity_term

record k8s_pod_affinity =
  kpa_Required :: "k8s_pod_affinity_term list"
  kpa_Preferred :: "k8s_weighted_pod_affinity_term list"

record k8s_affinity =
  kaf_NodeAffinity :: "k8s_node_affinity option"
  kaf_PodAffinity :: "k8s_pod_affinity option"
  kaf_PodAntiAffinity :: "k8s_pod_affinity option"

record k8s_toleration =
  kto_Key :: string
  kto_Operator :: string
  kto_Value :: string
  kto_Effect :: string
  kto_TolerationSeconds :: "int option"

type_synonym quantity = string

record container =
  ct_Name :: string
  ct_Image :: string
  ct_Command :: "string list"
  ct_Env :: "(string \<times> string) list"
  ct_Ports :: "(int \<times> string) list"
  ct_Requests :: "(string, quantity) gomap"
  ct_Limits :: "(string, quantity) gomap"
  ct_Probes :: container_probes
  ct_VolumeMounts :: "(string \<times> string) list"

record pod_spec =
  ps_Containers :: "container list"
  ps_PriorityClassName :: string
  ps_NodeSelector :: "(string, string) gomap option"
  ps_Affinity :: "k8s_affinity option"
  ps_Tolerations :: "k8s_toleration list"
  ps_TerminationGracePeriodSeconds :: "int option"
  ps_Volumes :: "(string \<times> string) list"

section \<open>Conversions\<close>

definition convertNodeSelectorRequirements :: "node_selector_requirement list \<Rightarrow> k8s_node_selector_requirement list" where
  "convertNodeSelectorRequirements reqs =
     map (\<lambda>req. \<lparr>kr_Key = nsr_Key req, kr_Operator = nsr_Operator req, kr_Values = nsr_Values req\<rparr>) reqs"

definition convertNodeSelectorTerm :: "node_selector_term \<Rightarrow> k8s_node_selector_term" where
  "convertNodeSelectorTerm t =
     \<lparr>kt_MatchExpressions = convertNodeSelectorRequirements (nst_MatchExpressions t),
      kt_MatchFields = convertNodeSelectorRequirements (nst_MatchFields t)\<rparr>"

definition convertNodeSelectorTerms :: "node_selector_term list \<Rightarrow> k8s_node_selector_term list" where
  "convertNodeSelectorTerms terms =
     map (\<lambda>t. \<lparr>kt_MatchExpressions = convertNodeSelectorRequirements (nst_MatchExpressions t),
              kt_MatchFields = convertNodeSelectorRequirements (nst_MatchFields t)\<rparr>) terms"

definition convertPreferredSchedulingTerms :: "preferred_scheduling_term list \<Rightarrow> k8s_preferred_scheduling_term list" where
  "convertPreferredSchedulingTerms terms =
     map (\<lambda>t. \<lparr>kps_Weight = pst_Weight t, kps_Preference = convertNodeSelectorTerm (pst_Preference t)\<rparr>) terms"

definition convertNodeAffinity :: "node_affinity \<Rightarrow> k8s_node_affinity" where
  "convertNodeAffinity na =
     \<lparr>kna_Required = (if 0 < length (na_RequiredDuringScheduling na)
        then Some (convertNodeSelectorTerms (na_RequiredDuringScheduling na)) else None),
      kna_Preferred = (if 0 < length (na_PreferredDuringScheduling na)
        then convertPreferredSchedulingTerms (na_PreferredDuringScheduling na) else [])\<rparr>"

definition convertLabelSelector :: "(string, string) gomap option \<Rightarrow> label_selector option" where
  "convertLabelSelector selector = map_option (\<lambda>m. \<lparr>ls_MatchLabels = m\<rparr>) selector"

definition convertPodAffinityTerm :: "pod_affinity_term \<Rightarrow> k8s_pod_affinity_term" where
  "convertPodAffinityTerm t =
     \<lparr>kpt_LabelSelector = convertLabelSelector (pat_LabelSelector t), kpt_Namespaces = pat_Namespaces t,
      kpt_TopologyKey = pat_TopologyKey t\<rparr>"

definition convertPodAffinityTerms :: "pod_affinity_term list \<Rightarrow> k8s_pod_affinity_term list" where
  "convertPodAffinityTerms terms =
     map (\<lambda>t. \<lparr>kpt_LabelSelector = convertLabelSelector (pat_LabelSelector t), kpt_Namespaces = pat_Namespaces t,
              kpt_TopologyKey = pat_TopologyKey t\<rparr>) terms"

definition convertWeightedPodAffinityTerms :: "weighted_pod_affinity_term list \<Rightarrow> k8s_weighted_pod_affinity_term list" where
  "convertWeightedPodAffinityTerms terms =
     map (\<lambda>t. \<lparr>kwt_Weight = wpt_Weight t, kwt_PodAffinityTerm = convertPodAffinityTerm (wpt_PodAffinityTerm t)\<rparr>) terms"

definition convertPodAffinity :: "pod_affinity \<Rightarrow> k8s_pod_affinity" where
  "convertPodAffinity pa =
     \<lparr>kpa_Required = (if 0 < length (pa_RequiredDuringScheduling pa)
        then convertPodAffinityTerms (pa_RequiredDuringScheduling pa) else []),
      kpa_Preferred = (if 0 < length (pa_PreferredDuringScheduling pa)
        then convertWeightedPodAffinityTerms (pa_PreferredDuringScheduling pa) else [])\<rparr>"

definition convertPodAntiAffinity :: "pod_affinity \<Rightarrow> k8s_pod_affinity" where
  "convertPodAntiAffinity pa =
     \<lparr>kpa_Required = (if 0 < length (pa_RequiredDuringScheduling pa)
        then convertPodAffinityTerms (pa_RequiredDuringScheduling pa) else []),
      kpa_Preferred = (if 0 < length (pa_PreferredDuringScheduling pa)
        then convertWeightedPodAffinityTerms (pa_PreferredDuringScheduling pa) else [])\<rparr>"

definition convertAffinityConfig :: "affinity_config option \<Rightarrow> k8s_affinity option" where
  "convertAffinityConfig aff =
     (case aff of
        None \<Rightarrow> None
      | Some a \<Rightarrow> Some \<lparr>kaf_NodeAffinity = map_option convertNodeAffinity (ac_NodeAffinity a),
          kaf_PodAffinity = map_option convertPodAffinity (ac_PodAffinity a),
          kaf_PodAntiAffinity = map_option convertPodAntiAffinity (ac_PodAntiAffinity a)\<rparr>)"

definition convertTolerations :: "toleration list \<Rightarrow> k8s_toleration list" where
  "convertTolerations tolerations =
     map (\<lambda>t. \<lparr>kto_Key = tol_Key t, kto_Operator = tol_Operator t, kto_Value = tol_Value t,
              kto_Effect = tol_Effect t, kto_TolerationSeconds = tol_TolerationSeconds t\<rparr>) tolerations"

definition envMapToEnvVars :: "(string, string) gomap \<Rightarrow> (string \<times> string) list" where
  "envMapToEnvVars env = map (\<lambda>(k, v). (k, v)) env"

section \<open>The pod of a workload\<close>

text \<open>One optional entry of a resource list; \<open>None\<close> when parsing the quantity panics.\<close>

definition put_quantity ::
  "(string \<Rightarrow> quantity option) \<Rightarrow> string \<Rightarrow> string \<Rightarrow> (string, quantity) gomap \<Rightarrow> (string, quantity) gomap option" where
  "put_quantity MustParse resource raw m =
     (if raw = '''' then Some m else map_option (\<lambda>q. gm_put resource q m) (MustParse raw))"

fun put_quantities ::
  "(string \<Rightarrow> quantity option) \<Rightarrow> (string \<times> string) list \<Rightarrow> (string, quantity) gomap \<Rightarrow> (string, quantity) gomap option" where
  "put_quantities MustParse [] m = Some m"
| "put_quantities MustParse ((resource, raw) # rest) m =
     Option.bind (MustParse raw) (\<lambda>q. put_quantities MustParse rest (gm_put resource q m))"

definition no_probes :: container_probes where
  "no_probes = \<lparr>cp_StartupProbe = None, cp_LivenessProbe = None, cp_ReadinessProbe = None\<rparr>"

definition workloadContainer ::
  "(string \<Rightarrow> quantity option) \<Rightarrow> workload_spec \<Rightarrow> container result option" where
  "workloadContainer MustParse spec =
     (let rs = ws_Resources spec in
      case Option.bind (put_quantity MustParse ''cpu'' (rs_CPURequest rs) [])
             (put_quantity MustParse ''memory'' (rs_MemoryRequest rs)) of
        None \<Rightarrow> None
      | Some requests \<Rightarrow>
      case Option.bind (put_quantity MustParse ''cpu'' (rs_CPULimit rs) [])
             (put_quantity MustParse ''memory'' (rs_MemoryLimit rs)) of
        None \<Rightarrow> None
      | Some limits \<Rightarrow>
      case BuildKubernetesResourceRequirements (rs_GPU rs) of
        Inl err \<Rightarrow> Some (Inl (Wrapf ''failed to build GPU resource requirements: '' err ''''))
      | Inr gpuResources \<Rightarrow>
      case put_quantities MustParse gpuResources limits of
        None \<Rightarrow> None
      | Some limits' \<Rightarrow>
          Some (Inr \<lparr>ct_Name = ws_Name spec, ct_Image = ws_Image spec,
            ct_Command = (if ws_Command spec \<noteq> '''' then [ws_Command spec] else []),
            ct_Env = envMapToEnvVars (ws_Env spec),
            ct_Ports = map (\<lambda>p. (port_ContainerPort p, port_Protocol p)) (ws_Ports spec),
            ct_Requests = requests, ct_Limits = limits',
            ct_Probes = ApplyKubernetesProbes (ws_Probes spec) no_probes, ct_VolumeMounts = []\<rparr>))"

definition workloadPodSpec ::
  "types_constants \<Rightarrow> (string \<Rightarrow> quantity option) \<Rightarrow> workload_spec \<Rightarrow> pod_spec result option \<times> workload_spec" where
  "workloadPodSpec tc MustParse spec0 =
     (let spec = ApplyArchitectureScheduling tc (ApplyNodePlacement spec0) in
      (case workloadContainer MustParse spec of
        None \<Rightarrow> None
      | Some (Inl err) \<Rightarrow> Some (Inl err)
      | Some (Inr c) \<Rightarrow>
          Some (Inr \<lparr>ps_Containers = [c],
            ps_PriorityClassName = resolvePriorityClassName tc (ws_Scheduling spec),
            ps_NodeSelector = (case ws_Scheduling spec of None \<Rightarrow> None | Some s \<Rightarrow> copyStringMap (selectors_of s)),
            ps_Affinity = (case ws_Scheduling spec of None \<Rightarrow> None | Some s \<Rightarrow> convertAffinityConfig (sc_Affinity s)),
            ps_Tolerations = convertTolerations (mergeSpotTolerations spec),
            ps_TerminationGracePeriodSeconds = (if reschedules spec then Some 30 else None),
            ps_Volumes = []\<rparr>), spec))"

section \<open>Volumes\<close>

definition sanitizeName :: "string \<Rightarrow> string" where
  "sanitizeName s = replace_char CHR ''_'' CHR ''-'' (ToLower (TrimSpace s))"

definition pvcName :: "string \<Rightarrow> string \<Rightarrow> string" where
  "pvcName workload volume = sanitizeName (workload @ ''-'' @ volume @ ''-pvc'')"

definition PodVolumes :: "workload_spec \<Rightarrow> (string \<times> string) list \<times> (string \<times> string) list" where
  "PodVolumes spec =
     (map (\<lambda>vol. (sanitizeName (vol_Name vol), pvcName (ws_Name spec) (vol_Name vol))) (ws_Volumes spec),
      map (\<lambda>vol. (sanitizeName (vol_Name vol),
             if vol_MountPath vol = '''' then ''/data/'' @ sanitizeName (vol_Name vol) else vol_MountPath vol)) (ws_Volumes spec))"

section \<open>Network policies\<close>

record network_policy_peer =
  npp_PodSelector :: "label_selector option"
  npp_NamespaceSelector :: "label_selector option"

record egress_rule =
  eg_Ports :: "(string \<times> int) list"
  eg_To :: "network_policy_peer list"

datatype policy_type = PolicyTypeIngress | PolicyTypeEgress

record network_policy =
  np_Name :: string
  np_Namespace :: string
  np_Labels :: "(string, string) gomap"
  np_PodSelector :: "(string, string) gomap option"
  np_PolicyTypes :: "policy_type list"
  np_Ingress :: "network_policy_peer list list"
  np_Egress :: "egress_rule list"

definition namespaceNameLabelKey :: string where "namespaceNameLabelKey = ''kubernetes.io/metadata.name''"
definition kubeSystemNS :: string where "kubeSystemNS = ''kube-system''"

definition sanitizePolicyName :: "string \<Rightarrow> string" where
  "sanitizePolicyName name =
     (let s = ToLower (replace_char CHR ''_'' CHR ''-'' name) in if length s \<le> 40 then s else take 40 s)"

definition same_namespace_peer :: network_policy_peer where
  "same_namespace_peer = \<lparr>npp_PodSelector = Some \<lparr>ls_MatchLabels = []\<rparr>, npp_NamespaceSelector = None\<rparr>"

definition namespace_selector :: "string \<Rightarrow> label_selector" where
  "namespace_selector ns = \<lparr>ls_MatchLabels = [(namespaceNameLabelKey, ns)]\<rparr>"

definition namespace_peer :: "string \<Rightarrow> network_policy_peer" where
  "namespace_peer ns = \<lparr>npp_PodSelector = Some \<lparr>ls_MatchLabels = []\<rparr>, npp_NamespaceSelector = Some (namespace_selector ns)\<rparr>"

definition policy_peers :: "bool \<Rightarrow> string list \<Rightarrow> network_policy_peer list" where
  "policy_peers allowSameNs namespaces =
     (if allowSameNs then [same_namespace_peer] else []) @
     map namespace_peer (filter (\<lambda>ns. ns \<noteq> '''') namespaces)"

definition allow_same_namespace :: "cross_namespace_traffic_policy \<Rightarrow> bool" where
  "allow_same_namespace policy = (case cnt_AllowSameNamespace policy of None \<Rightarrow> True | Some b \<Rightarrow> b)"

definition dns_rule :: egress_rule where
  "dns_rule = \<lparr>eg_Ports = [(''UDP'', 53), (''TCP'', 53)],
     eg_To = [\<lparr>npp_PodSelector = None, npp_NamespaceSelector = Some (namespace_selector kubeSystemNS)\<rparr>]\<rparr>"

definition internet_rule :: egress_rule where
  "internet_rule = \<lparr>eg_Ports = [(''TCP'', 80), (''TCP'', 443)], eg_To = []\<rparr>"

text \<open>The policy that is created, or the error for a policy that allows nothing.\<close>

definition build_network_policy ::
  "string \<Rightarrow> string \<Rightarrow> (string, string) gomap \<Rightarrow> cross_namespace_traffic_policy \<Rightarrow> network_policy result" where
  "build_network_policy namespace workloadName selector policy =
     (let same = allow_same_namespace policy;
          fromPeers = policy_peers same (cnt_AllowedIngressNamespaces policy);
          ingress = (if 0 < length fromPeers then [fromPeers] else []);
          toPeers = policy_peers same (cnt_AllowedEgressNamespaces policy);
          egress = (if \<not> cnt_BlockClusterDNS policy then [dns_rule] else []) @
                   (if cnt_AllowEgressInternet policy then [internet_rule] else []) @
                   (if 0 < length toPeers then [\<lparr>eg_Ports = [], eg_To = toPeers\<rparr>] else [])
      in if length ingress = 0 \<and> length toPeers = 0 \<and> \<not> cnt_AllowEgressInternet policy \<and> cnt_BlockClusterDNS policy
         then Inl (Errorf ''crossNamespaceTraffic.enabled blocks DNS and defines no permissive egress rules'')
         else Inr \<lparr>np_Name = ''kranix-ns-traffic-'' @ sanitizePolicyName workloadName, np_Namespace = namespace,
                np_Labels = [(''app.kubernetes.io/managed-by'', ''kranix''), (''kranix.io/workload'', workloadName)],
                np_PodSelector = copyStringMap selector,
                np_PolicyTypes = (if 0 < length ingress then [PolicyTypeIngress] else []) @
                                 (if 0 < length egress then [PolicyTypeEgress] else []),
                np_Ingress = ingress, np_Egress = egress\<rparr>)"

section \<open>The conversion loses nothing\<close>

definition read_requirements :: "k8s_node_selector_requirement list \<Rightarrow> node_selector_requirement list" where
  "read_requirements rs = map (\<lambda>r. \<lparr>nsr_Key = kr_Key r, nsr_Operator = kr_Operator r, nsr_Values = kr_Values r\<rparr>) rs"

definition read_term :: "k8s_node_selector_term \<Rightarrow> node_selector_term" where
  "read_term t = \<lparr>nst_MatchExpressions = read_requirements (kt_MatchExpressions t),
     nst_MatchFields = read_requirements (kt_MatchFields t)\<rparr>"

definition read_node_affinity :: "k8s_node_affinity \<Rightarrow> node_affinity" where
  "read_node_affinity a =
     \<lparr>na_RequiredDuringScheduling = (case kna_Required a of None \<Rightarrow> [] | Some ts \<Rightarrow> map read_term ts),
      na_PreferredDuringScheduling =
        map (\<lambda>t. \<lparr>pst_Weight = kps_Weight t, pst_Preference = read_term (kps_Preference t)\<rparr>) (kna_Preferred a)\<rparr>"

definition read_pod_term :: "k8s_pod_affinity_term \<Rightarrow> pod_affinity_term" where
  "read_pod_term t = \<lparr>pat_LabelSelector = map_option ls_MatchLabels (kpt_LabelSelector t),
     pat_Namespaces = kpt_Namespaces t, pat_TopologyKey = kpt_TopologyKey t\<rparr>"

definition read_pod_affinity :: "k8s_pod_affinity \<Rightarrow> pod_affinity" where
  "read_pod_affinity a =
     \<lparr>pa_RequiredDuringScheduling = map read_pod_term (kpa_Required a),
      pa_PreferredDuringScheduling =
        map (\<lambda>t. \<lparr>wpt_Weight = kwt_Weight t, wpt_PodAffinityTerm = read_pod_term (kwt_PodAffinityTerm t)\<rparr>) (kpa_Preferred a)\<rparr>"

definition read_affinity :: "k8s_affinity \<Rightarrow> affinity_config" where
  "read_affinity a = \<lparr>ac_NodeAffinity = map_option read_node_affinity (kaf_NodeAffinity a),
     ac_PodAffinity = map_option read_pod_affinity (kaf_PodAffinity a),
     ac_PodAntiAffinity = map_option read_pod_affinity (kaf_PodAntiAffinity a)\<rparr>"

lemma record_eta [simp]:
  "\<lparr>nsr_Key = nsr_Key r, nsr_Operator = nsr_Operator r, nsr_Values = nsr_Values r\<rparr> = r"
  "\<lparr>pst_Weight = pst_Weight t, pst_Preference = pst_Preference t\<rparr> = t"
  "\<lparr>wpt_Weight = wpt_Weight u, wpt_PodAffinityTerm = wpt_PodAffinityTerm u\<rparr> = u"
  by simp_all

lemma read_requirements_convert [simp]: "read_requirements (convertNodeSelectorRequirements rs) = rs"
  by (simp add: read_requirements_def convertNodeSelectorRequirements_def o_def)

lemma read_term_convert [simp]: "read_term (convertNodeSelectorTerm t) = t"
  by (simp add: read_term_def convertNodeSelectorTerm_def)

lemma convertNodeSelectorTerms_map: "convertNodeSelectorTerms ts = map convertNodeSelectorTerm ts"
  by (simp add: convertNodeSelectorTerms_def convertNodeSelectorTerm_def)

lemma read_node_affinity_convert [simp]: "read_node_affinity (convertNodeAffinity a) = a"
  by (cases a) (simp add: read_node_affinity_def convertNodeAffinity_def convertNodeSelectorTerms_map
      convertPreferredSchedulingTerms_def o_def)

lemma read_pod_term_convert [simp]: "read_pod_term (convertPodAffinityTerm t) = t"
  by (simp add: read_pod_term_def convertPodAffinityTerm_def convertLabelSelector_def option.map_comp option.map_ident o_def)

lemma convertPodAffinityTerms_map: "convertPodAffinityTerms ts = map convertPodAffinityTerm ts"
  by (simp add: convertPodAffinityTerms_def convertPodAffinityTerm_def)

lemma read_pod_affinity_convert [simp]: "read_pod_affinity (convertPodAffinity a) = a"
  by (cases a) (simp add: read_pod_affinity_def convertPodAffinity_def convertPodAffinityTerms_map
      convertWeightedPodAffinityTerms_def o_def)

lemma convertPodAntiAffinity_same: "convertPodAntiAffinity = convertPodAffinity"
  by (rule ext) (simp add: convertPodAntiAffinity_def convertPodAffinity_def)

section \<open>Lemmas\<close>

lemma sanitizeName_idem [simp]: "sanitizeName (sanitizeName s) = sanitizeName s"
proof -
  let ?f = "\<lambda>c. if c = CHR ''_'' then CHR ''-'' else lower_char c"
  have u: "lower_char c = CHR ''_'' \<longleftrightarrow> c = CHR ''_''" for c
  proof -
    have "lower_char CHR ''_'' = CHR ''_''" by code_simp
    moreover have "lower_char c = CHR ''_'' \<Longrightarrow> c = CHR ''_''"
    proof -
      assume l: "lower_char c = CHR ''_''"
      show "c = CHR ''_''"
      proof (cases "65 \<le> (of_char c :: nat) \<and> (of_char c :: nat) \<le> 90")
        case True
        then have "(of_char (lower_char c) :: nat) = of_char c + 32" by (simp add: lower_char_def Let_def)
        with l True show ?thesis by simp
      next
        case False
        then show ?thesis using l by (auto simp: lower_char_def Let_def split: if_splits)
      qed
    qed
    ultimately show ?thesis by blast
  qed
  have s: "sanitizeName s = map ?f (TrimSpace s)" for s
    by (simp add: sanitizeName_def replace_char_def ToLower_def u)
  have "\<not> is_space CHR ''-''" "\<not> is_space CHR ''_''" by (simp_all add: is_space_def)
  then have sp: "is_space (?f c) = is_space c" for c by simp
  have t: "TrimSpace (map ?f x) = map ?f (TrimSpace x)" for x
    by (simp add: TrimSpace_def dropWhile_map o_def sp rev_map)
  have "?f (?f c) = ?f c" for c
  proof -
    have "lower_char CHR ''-'' = CHR ''-''" by code_simp
    then show ?thesis by (simp add: u)
  qed
  then show ?thesis by (simp add: s t)
qed

lemma put_quantity_None: "put_quantity MustParse r raw m = None \<longleftrightarrow> raw \<noteq> '''' \<and> MustParse raw = None"
  by (simp add: put_quantity_def)

section \<open>What a network policy admits\<close>

text \<open>
  The documented meaning of the objects: a direction is restricted only when its type is
  listed, a peer without a namespace selector stands for the policy's own namespace, and
  every namespace carries its name as a label. \<open>None\<close> as destination is outside the cluster.
\<close>

definition peer_matches :: "string \<Rightarrow> string \<Rightarrow> network_policy_peer \<Rightarrow> bool" where
  "peer_matches policyNs ns peer =
     (case npp_NamespaceSelector peer of
        None \<Rightarrow> ns = policyNs
      | Some sel \<Rightarrow> list_all (\<lambda>(k, v). k = namespaceNameLabelKey \<and> v = ns) (ls_MatchLabels sel))"

definition ingress_admitted :: "network_policy \<Rightarrow> string \<Rightarrow> bool" where
  "ingress_admitted np ns =
     (PolicyTypeIngress \<notin> set (np_PolicyTypes np) \<or>
      list_ex (\<lambda>rule. rule = [] \<or> list_ex (peer_matches (np_Namespace np) ns) rule) (np_Ingress np))"

definition egress_admitted :: "network_policy \<Rightarrow> string option \<Rightarrow> string \<Rightarrow> int \<Rightarrow> bool" where
  "egress_admitted np dest proto port =
     (PolicyTypeEgress \<notin> set (np_PolicyTypes np) \<or>
      list_ex (\<lambda>rule. (eg_Ports rule = [] \<or> (proto, port) \<in> set (eg_Ports rule)) \<and>
        (eg_To rule = [] \<or> (case dest of None \<Rightarrow> False | Some ns \<Rightarrow> list_ex (peer_matches (np_Namespace np) ns) (eg_To rule))))
        (np_Egress np))"

lemma peer_matches_simps [simp]:
  "peer_matches policyNs ns same_namespace_peer \<longleftrightarrow> ns = policyNs"
  "peer_matches policyNs ns (namespace_peer x) \<longleftrightarrow> x = ns"
  by (simp_all add: peer_matches_def same_namespace_peer_def namespace_peer_def namespace_selector_def)

lemma peers_match:
  assumes "ns \<noteq> ''''"
  shows "list_ex (peer_matches policyNs ns) (policy_peers same allowed) \<longleftrightarrow> (same \<and> ns = policyNs) \<or> ns \<in> set allowed"
proof -
  have "list_ex (peer_matches policyNs ns) (map namespace_peer (filter (\<lambda>x. x \<noteq> '''') allowed)) \<longleftrightarrow> ns \<in> set allowed"
    using assms by (induction allowed) auto
  then show ?thesis by (simp add: policy_peers_def)
qed

definition restricts :: "bool \<Rightarrow> string list \<Rightarrow> bool" where
  "restricts same allowed \<longleftrightarrow> same \<or> (\<exists>ns \<in> set allowed. ns \<noteq> '''')"

lemma policy_peers_Nil: "policy_peers same allowed = [] \<longleftrightarrow> \<not> restricts same allowed"
  by (auto simp: policy_peers_def restricts_def filter_empty_conv)

section \<open>Properties\<close>

text \<open>
  C15. The conversion of an affinity to the Kubernetes types keeps every term: the original
  can be read back from the result, for node, pod and anti-affinity.
\<close>

theorem affinity_roundtrip:
  "map_option read_affinity (convertAffinityConfig aff) = aff"
  by (cases aff) (simp_all add: convertAffinityConfig_def read_affinity_def option.map_comp option.map_ident o_def
      convertPodAntiAffinity_same)

definition bad_quantity :: "(string \<Rightarrow> quantity option) \<Rightarrow> string \<Rightarrow> bool" where
  "bad_quantity MustParse raw \<longleftrightarrow> raw \<noteq> '''' \<and> MustParse raw = None"

definition container_requests :: "(string \<Rightarrow> quantity option) \<Rightarrow> resource_spec \<Rightarrow> (string, quantity) gomap option" where
  "container_requests MustParse rs =
     Option.bind (put_quantity MustParse ''cpu'' (rs_CPURequest rs) []) (put_quantity MustParse ''memory'' (rs_MemoryRequest rs))"

definition container_limits :: "(string \<Rightarrow> quantity option) \<Rightarrow> resource_spec \<Rightarrow> (string, quantity) gomap option" where
  "container_limits MustParse rs =
     Option.bind (put_quantity MustParse ''cpu'' (rs_CPULimit rs) []) (put_quantity MustParse ''memory'' (rs_MemoryLimit rs))"

lemma bad_quantities:
  "(\<exists>raw \<in> {rs_CPURequest rs, rs_MemoryRequest rs, rs_CPULimit rs, rs_MemoryLimit rs}. bad_quantity MustParse raw) \<longleftrightarrow>
     container_requests MustParse rs = None \<or> container_limits MustParse rs = None"
  by (simp add: container_requests_def container_limits_def bind_eq_None_conv put_quantity_None bad_quantity_def)

lemma gpu_quantities:
  assumes "\<forall>n > 0. MustParse (Itoa n) \<noteq> None"
  shows "case BuildKubernetesResourceRequirements g of
      Inl e \<Rightarrow> ValidateGPUSpec g \<noteq> None
    | Inr m \<Rightarrow> ValidateGPUSpec g = None \<and> put_quantities MustParse m l \<noteq> None"
proof (cases g)
  case (Some x)
  show ?thesis
  proof (cases "ValidateGPUSpec g")
    case None
    then have "0 < gpu_Count x" "ToLower (gpu_Vendor x) \<in> {VendorNVIDIA, VendorAMD}"
      using Some gpu_valid_iff by auto
    with None Some assms show ?thesis
      by (auto simp: BuildKubernetesResourceRequirements_def GetGPUResourceName_def bind_eq_None_conv)
  qed (simp add: Some BuildKubernetesResourceRequirements_def)
qed (simp add: BuildKubernetesResourceRequirements_def ValidateGPUSpec_def)

lemma workloadContainer_quantities:
  "workloadContainer MustParse spec =
     (case container_requests MustParse (ws_Resources spec) of None \<Rightarrow> None | Some r \<Rightarrow>
      case container_limits MustParse (ws_Resources spec) of None \<Rightarrow> None | Some l \<Rightarrow>
      case BuildKubernetesResourceRequirements (rs_GPU (ws_Resources spec)) of
        Inl err \<Rightarrow> Some (Inl (Wrapf ''failed to build GPU resource requirements: '' err ''''))
      | Inr g \<Rightarrow> map_option (\<lambda>l'. Inr \<lparr>ct_Name = ws_Name spec, ct_Image = ws_Image spec,
            ct_Command = (if ws_Command spec \<noteq> '''' then [ws_Command spec] else []),
            ct_Env = envMapToEnvVars (ws_Env spec),
            ct_Ports = map (\<lambda>p. (port_ContainerPort p, port_Protocol p)) (ws_Ports spec),
            ct_Requests = r, ct_Limits = l',
            ct_Probes = ApplyKubernetesProbes (ws_Probes spec) no_probes, ct_VolumeMounts = []\<rparr>)
          (put_quantities MustParse g l))"
  unfolding workloadContainer_def Let_def container_requests_def [symmetric] container_limits_def [symmetric]
  by (simp split: option.split sum.split)

lemma placed_fields [simp]:
  "ws_Resources (ApplyArchitectureScheduling tc (ApplyNodePlacement spec)) = ws_Resources spec"
  "ws_Name (ApplyArchitectureScheduling tc (ApplyNodePlacement spec)) = ws_Name spec"
  "ws_Image (ApplyArchitectureScheduling tc (ApplyNodePlacement spec)) = ws_Image spec"
  "ws_Env (ApplyArchitectureScheduling tc (ApplyNodePlacement spec)) = ws_Env spec"
  by (simp_all add: ApplyArchitectureScheduling_def ApplyNodePlacement_def Let_def)



text \<open>
  The claim name of a volume does not determine workload and volume: moving a part of
  the name across the hyphen gives the same claim, so the volume \<open>db-data\<close> of workload
  \<open>web\<close> and the volume \<open>data\<close> of workload \<open>web-db\<close> are one claim.
\<close>

theorem pvc_names_collide:
  "pvcName workload (part @ ''-'' @ volume) = pvcName (workload @ ''-'' @ part) volume"
  by (simp add: pvcName_def)

text \<open>
  C7. Ingress under a generated policy. When the policy names a permitted source (its own
  namespace or a non-empty allowed one), traffic is admitted exactly from the permitted
  namespaces. When it names none, because \<open>allowSameNamespace\<close> is false and no namespace is
  allowed, the direction is left out of the policy and traffic from everywhere is admitted.
\<close>

theorem network_policy_ingress:
  assumes "build_network_policy ns workload selector policy = Inr np" and "src \<noteq> ''''"
  shows "ingress_admitted np src =
    (if restricts (allow_same_namespace policy) (cnt_AllowedIngressNamespaces policy)
     then (allow_same_namespace policy \<and> src = ns) \<or> src \<in> set (cnt_AllowedIngressNamespaces policy)
     else True)"
proof -
  let ?peers = "policy_peers (allow_same_namespace policy) (cnt_AllowedIngressNamespaces policy)"
  have np: "np_Namespace np = ns" "np_Ingress np = (if ?peers \<noteq> [] then [?peers] else [])"
    "PolicyTypeIngress \<in> set (np_PolicyTypes np) \<longleftrightarrow> np_Ingress np \<noteq> []"
    using assms(1) by (auto simp: build_network_policy_def Let_def split: if_splits)
  have "?peers \<noteq> [] \<longleftrightarrow> restricts (allow_same_namespace policy) (cnt_AllowedIngressNamespaces policy)"
    by (simp add: policy_peers_Nil)
  then show ?thesis
    unfolding ingress_admitted_def np by (auto simp: peers_match [OF assms(2)])
qed

definition demo_policy :: cross_namespace_traffic_policy where
  "demo_policy = \<lparr>cnt_Enabled = True, cnt_AllowSameNamespace = Some False, cnt_AllowedIngressNamespaces = [],
     cnt_AllowedEgressNamespaces = [''db''], cnt_BlockClusterDNS = False, cnt_AllowEgressInternet = False\<rparr>"

theorem network_policy_ingress_witness:
  "\<exists>np. build_network_policy ''shop'' ''web'' [] demo_policy = Inr np \<and> ingress_admitted np ''attacker''"
proof -
  obtain np where b: "build_network_policy ''shop'' ''web'' [] demo_policy = Inr np"
    by (simp add: build_network_policy_def Let_def demo_policy_def)
  from network_policy_ingress [OF b, of "''attacker''"] have "ingress_admitted np ''attacker''"
    by (simp add: restricts_def demo_policy_def allow_same_namespace_def)
  with b show ?thesis by blast
qed



end
