(* ===== verification/Health.thy ===== *)
theory Health
  imports Go_Time
begin

text \<open>
  \<open>internal/health\<close>: the scores and the sliding window of backend samples. The code computes
  with \<open>float64\<close>; here the same expressions are over exact rationals (no NaN, no rounding
  error). \<open>pruneLocked\<close> compacts the slice in place while it ranges over it: the loop is
  written with its indices, and a lemma shows that it is a filter.
\<close>

section \<open>Scores\<close>

definition Round :: "rat \<Rightarrow> int" where
  "Round v = (if v < 0 then - floor (- v + 1 / 2) else floor (v + 1 / 2))"

definition clampScore :: "rat \<Rightarrow> int" where
  "clampScore v = (if v < 0 then 0 else if 100 < v then 100 else Round v)"

definition latency_penalty :: "rat \<Rightarrow> rat" where
  "latency_penalty latencyMs =
     (if 2000 < latencyMs then 40 else if 1000 < latencyMs then 25 else if 500 < latencyMs then 15
      else if 200 < latencyMs then 8 else if 100 < latencyMs then 4 else 0)"

definition ScoreFromSignals :: "rat \<Rightarrow> rat \<Rightarrow> int" where
  "ScoreFromSignals latencyMs errorRate =
     (let score = 100 - latency_penalty latencyMs;
          score1 = score - errorRate * 100;
          score2 = (if 1 / 2 < errorRate then score1 - 20 else score1)
      in clampScore score2)"

definition ScoreNodeReady :: "int \<Rightarrow> bool \<Rightarrow> bool \<Rightarrow> bool \<Rightarrow> bool \<Rightarrow> bool \<Rightarrow> bool \<Rightarrow> int" where
  "ScoreNodeReady base ready memoryPressure diskPressure pidPressure unschedulable draining =
     (let s0 = of_int base;
          s1 = (if \<not> ready then s0 - 50 else s0);
          s2 = (if memoryPressure then s1 - 15 else s1);
          s3 = (if diskPressure then s2 - 15 else s2);
          s4 = (if pidPressure then s3 - 10 else s3);
          s5 = (if unschedulable then s4 - 10 else s4);
          s6 = (if draining then s5 - 25 else s5)
      in clampScore s6)"

section \<open>The tracker\<close>

record sample =
  smp_latencyMs :: rat
  smp_failed :: bool
  smp_at :: instant

record backend_tracker =
  bt_window :: duration
  bt_samples :: "sample list"
  bt_maxSamples :: int

definition NewBackendTracker :: "duration \<Rightarrow> int \<Rightarrow> backend_tracker" where
  "NewBackendTracker window maxSamples =
     \<lparr>bt_window = (if window \<le> 0 then 5 * Minute else window), bt_samples = [],
      bt_maxSamples = (if maxSamples \<le> 0 then 100 else maxSamples)\<rparr>"

text \<open>The loop: \<open>j\<close> is the index the range is at, \<open>i\<close> the index of the next write.\<close>

function prune_loop :: "instant \<Rightarrow> nat \<Rightarrow> nat \<Rightarrow> sample list \<Rightarrow> nat \<times> sample list" where
  "prune_loop cutoff j i xs =
     (if j < length xs
      then let s = xs ! j
           in if cutoff < smp_at s then prune_loop cutoff (Suc j) (Suc i) (xs[i := s])
              else prune_loop cutoff (Suc j) i xs
      else (i, xs))"
  by pat_completeness auto
termination by (relation "measure (\<lambda>(c, j, i, xs). length xs - j)") auto

declare prune_loop.simps [simp del]

definition pruneLocked :: "instant \<Rightarrow> backend_tracker \<Rightarrow> backend_tracker" where
  "pruneLocked now t =
     (let (i, xs) = prune_loop (now - bt_window t) 0 0 (bt_samples t) in t\<lparr>bt_samples := take i xs\<rparr>)"

definition Record :: "instant \<Rightarrow> instant \<Rightarrow> rat \<Rightarrow> bool \<Rightarrow> backend_tracker \<Rightarrow> backend_tracker" where
  "Record now1 now2 latencyMs failed t =
     (let xs = bt_samples t @ [\<lparr>smp_latencyMs = latencyMs, smp_failed = failed, smp_at = now1\<rparr>];
          ys = (if bt_maxSamples t < int (length xs) then drop (nat (int (length xs) - bt_maxSamples t)) xs else xs)
      in pruneLocked now2 (t\<lparr>bt_samples := ys\<rparr>))"

definition Snapshot :: "instant \<Rightarrow> backend_tracker \<Rightarrow> (rat \<times> rat) \<times> backend_tracker" where
  "Snapshot now t =
     (let t' = pruneLocked now t; xs = bt_samples t'; n = of_nat (length xs)
      in if xs = [] then ((0, 0), t')
         else ((fold (\<lambda>s total. total + smp_latencyMs s) xs 0 / n,
                of_int (fold (\<lambda>s failures. if smp_failed s then failures + 1 else failures) xs 0) / n), t'))"

section \<open>Lemmas on scores\<close>

lemma Round_mono: "0 \<le> v \<Longrightarrow> v \<le> u \<Longrightarrow> Round v \<le> Round u"
  by (simp add: Round_def floor_mono)

lemma clampScore_bounds: "0 \<le> clampScore v \<and> clampScore v \<le> 100"
proof -
  have "0 \<le> Round v \<and> Round v \<le> 100" if "0 \<le> v" "v \<le> 100"
    using that by (auto simp: Round_def le_floor_iff floor_le_iff)
  then show ?thesis by (auto simp: clampScore_def)
qed

lemma clampScore_mono: "v \<le> u \<Longrightarrow> clampScore v \<le> clampScore u"
  using clampScore_bounds [of v] clampScore_bounds [of u] Round_mono [of v u]
  by (auto simp: clampScore_def not_less)

lemma clampScore_of_int: "0 \<le> b \<Longrightarrow> b \<le> 100 \<Longrightarrow> clampScore (of_int b) = b"
proof -
  assume "0 \<le> b" "b \<le> 100"
  moreover have "\<lfloor>(of_int b :: rat) + 1 / 2\<rfloor> = b" by (rule floor_unique) simp_all
  ultimately show ?thesis by (simp add: clampScore_def Round_def)
qed

lemma latency_penalty_mono: "l \<le> l' \<Longrightarrow> latency_penalty l \<le> latency_penalty l'"
  by (simp add: latency_penalty_def)

section \<open>Lemmas on the window\<close>

lemma prune_loop_filter:
  "i \<le> j \<Longrightarrow> j \<le> length xs \<Longrightarrow>
   (case prune_loop cutoff j i xs of (i', ys) \<Rightarrow> take i' ys = take i xs @ filter (\<lambda>s. cutoff < smp_at s) (drop j xs) \<and>
      i \<le> i' \<and> length ys = length xs)"
proof (induction cutoff j i xs rule: prune_loop.induct)
  case (1 cutoff j i xs)
  show ?case
  proof (cases "j < length xs")
    case True
    then have d: "drop j xs = xs ! j # drop (Suc j) xs" by (simp add: Cons_nth_drop_Suc)
    show ?thesis
    proof (cases "cutoff < smp_at (xs ! j)")
      case late: True
      have "drop (Suc j) (xs[i := xs ! j]) = drop (Suc j) xs" using 1(3) by simp
      moreover have "take (Suc i) (xs[i := xs ! j]) = take i xs @ [xs ! j]"
        using 1(3) True by (simp add: take_Suc_conv_app_nth)
      ultimately show ?thesis using 1(1) [OF True refl late] True late 1(3,4)
        by (subst prune_loop.simps) (auto simp: d split: prod.splits)
    next
      case False
      then show ?thesis using 1(2) [OF True refl False] True 1(3,4)
        by (subst prune_loop.simps) (auto simp: d split: prod.splits)
    qed
  next
    case False
    then show ?thesis by (subst prune_loop.simps) simp
  qed
qed

lemma pruneLocked_filter:
  "pruneLocked now t = t\<lparr>bt_samples := filter (\<lambda>s. now - bt_window t < smp_at s) (bt_samples t)\<rparr>"
  using prune_loop_filter [of 0 0 "bt_samples t" "now - bt_window t"]
  by (auto simp: pruneLocked_def split: prod.splits)

lemma pruneLocked_simps [simp]:
  "bt_window (pruneLocked now t) = bt_window t" "bt_maxSamples (pruneLocked now t) = bt_maxSamples t"
  by (simp_all add: pruneLocked_filter)

lemma Record_simps [simp]:
  "bt_window (Record n1 n2 l f t) = bt_window t" "bt_maxSamples (Record n1 n2 l f t) = bt_maxSamples t"
  by (simp_all add: Record_def Let_def)

definition keep_last :: "nat \<Rightarrow> 'a list \<Rightarrow> 'a list" where
  "keep_last mx xs = drop (length xs - mx) xs"

abbreviation in_window :: "instant \<Rightarrow> sample list \<Rightarrow> sample list" where
  "in_window cutoff xs \<equiv> filter (\<lambda>s. cutoff < smp_at s) xs"

lemma nat_int_diff: "0 \<le> m \<Longrightarrow> nat (int n - m) = n - nat m"
  by arith

lemma Record_window:
  "0 < bt_maxSamples t \<Longrightarrow>
   bt_samples (Record n1 n2 l f t) =
   in_window (n2 - bt_window t) (keep_last (nat (bt_maxSamples t))
     (bt_samples t @ [\<lparr>smp_latencyMs = l, smp_failed = f, smp_at = n1\<rparr>]))"
proof -
  assume m: "0 < bt_maxSamples t"
  let ?xs = "bt_samples t @ [\<lparr>smp_latencyMs = l, smp_failed = f, smp_at = n1\<rparr>]"
  have "(if bt_maxSamples t < int (length ?xs) then drop (nat (int (length ?xs) - bt_maxSamples t)) ?xs else ?xs) =
      keep_last (nat (bt_maxSamples t)) ?xs"
    unfolding keep_last_def using m nat_int_diff [of "bt_maxSamples t" "length ?xs"]
    by (cases "bt_maxSamples t < int (length ?xs)") (simp_all del: length_append)
  then show ?thesis by (simp only: Record_def Let_def pruneLocked_filter) simp
qed

lemma keep_last_keep_last: "0 < mx \<Longrightarrow> keep_last mx (keep_last mx xs @ [x]) = keep_last mx (xs @ [x])"
  by (cases "mx \<le> length xs") (auto simp: keep_last_def Suc_diff_le)

lemma in_window_sorted:
  "sorted (map smp_at xs) \<Longrightarrow> \<exists>k \<le> length xs. in_window c xs = drop k xs \<and> (\<forall>s \<in> set (take k xs). smp_at s \<le> c)"
proof (induction xs)
  case (Cons x xs)
  show ?case
  proof (cases "c < smp_at x")
    case True
    with Cons.prems have "\<forall>s \<in> set xs. c < smp_at s" by auto
    with True show ?thesis by (intro exI [of _ 0]) (simp add: filter_id_conv)
  next
    case False
    from Cons obtain k where "k \<le> length xs" "in_window c xs = drop k xs" "\<forall>s \<in> set (take k xs). smp_at s \<le> c"
      by auto
    with False show ?thesis by (intro exI [of _ "Suc k"]) auto
  qed
qed simp

lemma in_window_drop_old: "\<forall>s \<in> set (take k xs). smp_at s \<le> c \<Longrightarrow> m \<le> k \<Longrightarrow> in_window c (drop m xs) = in_window c xs"
proof -
  assume old: "\<forall>s \<in> set (take k xs). smp_at s \<le> c" and "m \<le> k"
  then have "in_window c (take m xs) = []"
    using set_take_subset_set_take [of m k xs] by (fastforce simp: filter_empty_conv)
  then show ?thesis by (metis append_take_drop_id filter_append append_Nil)
qed

text \<open>Dropping what had expired earlier does not change which samples are kept now.\<close>

lemma window_of_window:
  assumes "sorted (map smp_at xs)" and "c' \<le> c"
  shows "in_window c (keep_last mx (in_window c' xs)) = in_window c (keep_last mx xs)"
proof -
  from in_window_sorted [OF assms(1), of c'] obtain k
    where k: "k \<le> length xs" "in_window c' xs = drop k xs" "\<forall>s \<in> set (take k xs). smp_at s \<le> c'" by auto
  with assms(2) have old: "\<forall>s \<in> set (take k xs). smp_at s \<le> c" by fastforce
  show ?thesis
  proof (cases "k \<le> length xs - mx")
    case True
    with k(1) have "length xs - k - mx + k = length xs - mx" by arith
    then show ?thesis by (simp add: k(2) keep_last_def del: diff_diff_left)
  next
    case False
    then show ?thesis
      using in_window_drop_old [OF old, of "length xs - mx"] in_window_drop_old [OF old, of k]
      by (simp add: k(2) keep_last_def)
  qed
qed

text \<open>A run of the tracker: the two clock readings, the latency and the failure flag of each call.\<close>

fun run_records :: "(instant \<times> instant \<times> rat \<times> bool) list \<Rightarrow> backend_tracker \<Rightarrow> backend_tracker" where
  "run_records [] t = t"
| "run_records ((n1, n2, l, f) # rs) t = run_records rs (Record n1 n2 l f t)"

definition history :: "(instant \<times> instant \<times> rat \<times> bool) list \<Rightarrow> sample list" where
  "history rs = map (\<lambda>(n1, n2, l, f). \<lparr>smp_latencyMs = l, smp_failed = f, smp_at = n1\<rparr>) rs"

definition readings :: "(instant \<times> instant \<times> rat \<times> bool) list \<Rightarrow> instant list" where
  "readings rs = concat (map (\<lambda>(n1, n2, l, f). [n1, n2]) rs)"

lemma run_records_snoc: "run_records (rs @ [(n1, n2, l, f)]) t = Record n1 n2 l f (run_records rs t)"
  by (induction rs t rule: run_records.induct) simp_all

lemma run_records_simps [simp]:
  "bt_window (run_records rs t) = bt_window t" "bt_maxSamples (run_records rs t) = bt_maxSamples t"
  by (induction rs t rule: run_records.induct) simp_all

lemma history_in_readings: "s \<in> set (history rs) \<Longrightarrow> smp_at s \<in> set (readings rs)"
  by (force simp: history_def readings_def)

lemma sorted_history: "sorted (readings rs) \<Longrightarrow> sorted (map smp_at (history rs))"
proof (induction rs)
  case (Cons r rs)
  then show ?case using history_in_readings [of _ rs]
    by (cases r) (auto simp: history_def readings_def)
qed (simp add: history_def)

lemma run_records_window:
  assumes "0 < bt_window t" and "0 < bt_maxSamples t" and "bt_samples t = []"
  shows "sorted (readings rs) \<Longrightarrow> rs \<noteq> [] \<Longrightarrow>
    bt_samples (run_records rs t) =
    in_window (last (readings rs) - bt_window t) (keep_last (nat (bt_maxSamples t)) (history rs))"
proof (induction rs rule: rev_induct)
  case (snoc r rs)
  obtain n1 n2 l f where r: "r = (n1, n2, l, f)" by (cases r) auto
  let ?x = "\<lparr>smp_latencyMs = l, smp_failed = f, smp_at = n1\<rparr>" and ?mx = "nat (bt_maxSamples t)"
  have rd: "readings (rs @ [r]) = readings rs @ [n1, n2]" by (simp add: readings_def r)
  have hs: "history (rs @ [r]) = history rs @ [?x]" by (simp add: history_def r)
  have srt: "sorted (readings rs)" using snoc.prems(1) by (simp add: rd sorted_append)
  have step: "bt_samples (run_records (rs @ [r]) t) =
      in_window (n2 - bt_window t) (keep_last ?mx (bt_samples (run_records rs t) @ [?x]))"
    using assms(2) by (simp add: r run_records_snoc Record_window)
  show ?case
  proof (cases "rs = []")
    case True
    then show ?thesis using step assms(3) by (simp add: r readings_def history_def)
  next
    case False
    let ?c = "last (readings rs) - bt_window t"
    have ne: "readings rs \<noteq> []" using False by (cases rs) (auto simp: readings_def)
    have late: "last (readings rs) \<le> n1" "n1 \<le> n2"
      using snoc.prems(1) last_in_set [OF ne] by (auto simp: rd sorted_append)
    have "sorted (map smp_at (keep_last ?mx (history rs) @ [?x]))"
    proof -
      have "sorted (map smp_at (history rs @ [?x]))"
        using sorted_history [OF snoc.prems(1)] by (simp add: hs)
      then show ?thesis
        by (auto simp: sorted_append keep_last_def drop_map [symmetric] simp del: drop_map
            intro: sorted_wrt_drop dest!: in_set_dropD)
    qed
    note w = window_of_window [OF this, of ?c "n2 - bt_window t" ?mx]
    have "bt_samples (run_records rs t) @ [?x] = in_window ?c (keep_last ?mx (history rs) @ [?x])"
      using snoc.IH [OF srt False] late assms(1) by simp
    then show ?thesis using step w late keep_last_keep_last [of ?mx "history rs" ?x] assms(2)
      by (simp add: rd hs)
  qed
qed simp

lemma fold_latency: "fold (\<lambda>s total. total + smp_latencyMs s) xs a = a + sum_list (map smp_latencyMs xs)"
  by (induction xs arbitrary: a) (simp_all add: add.assoc)

lemma fold_failures:
  "fold (\<lambda>s n. if smp_failed s then n + 1 else n) xs a = a + int (length (filter smp_failed xs))"
  by (induction xs arbitrary: a) simp_all

lemma sum_list_between:
  "\<forall>x \<in> set xs. lo \<le> f x \<and> f x \<le> hi \<Longrightarrow>
   of_nat (length xs) * lo \<le> sum_list (map f xs) \<and> sum_list (map f xs) \<le> of_nat (length xs) * (hi :: rat)"
  by (induction xs) (auto simp: algebra_simps intro: add_mono)

section \<open>Properties\<close>

text \<open>
  C35. The backend score stays between 0 and 100, is 100 for a fast backend without errors,
  and never rises when the latency or the error rate does.
\<close>

theorem score_bounded_and_monotone:
  assumes "latency \<le> latency'" and "errorRate \<le> errorRate'"
  shows "0 \<le> ScoreFromSignals latency' errorRate' \<and>
    ScoreFromSignals latency' errorRate' \<le> ScoreFromSignals latency errorRate \<and>
    ScoreFromSignals latency errorRate \<le> 100"
  using clampScore_bounds latency_penalty_mono [OF assms(1)] assms(2)
  by (auto simp: ScoreFromSignals_def Let_def intro!: clampScore_mono)

theorem score_bounded_and_monotone_witness:
  "ScoreFromSignals 1500 (1 / 4) \<le> ScoreFromSignals 150 (1 / 10)"
  using score_bounded_and_monotone [of 150 1500 "1 / 10" "1 / 4"] by simp

text \<open>The points that the conditions of a node take off its score.\<close>

definition node_penalty :: "bool \<Rightarrow> bool \<Rightarrow> bool \<Rightarrow> bool \<Rightarrow> bool \<Rightarrow> bool \<Rightarrow> int" where
  "node_penalty ready mem disk pid unschedulable draining =
     (if ready then 0 else 50) + (if mem then 15 else 0) + (if disk then 15 else 0) +
     (if pid then 10 else 0) + (if unschedulable then 10 else 0) + (if draining then 25 else 0)"

lemma node_score_penalty:
  assumes "0 \<le> base" and "base \<le> 100"
  shows "ScoreNodeReady base ready mem disk pid unschedulable draining =
    max 0 (base - node_penalty ready mem disk pid unschedulable draining)"
proof -
  let ?p = "node_penalty ready mem disk pid unschedulable draining"
  have "ScoreNodeReady base ready mem disk pid unschedulable draining = clampScore (of_int (base - ?p))"
    by (simp add: ScoreNodeReady_def Let_def node_penalty_def)
  moreover have "0 \<le> ?p" by (simp add: node_penalty_def)
  ultimately show ?thesis using assms clampScore_of_int [of "base - ?p"]
    by (cases "base < ?p") (simp_all add: clampScore_def)
qed

text \<open>
  The score of a node starts from the base and loses a fixed number of points for each
  adverse condition, cut off at 0: no rounding changes it.
\<close>

theorem node_score_exact:
  assumes "0 \<le> base" and "base \<le> 100"
  shows "ScoreNodeReady base ready mem disk pid unschedulable draining =
    max 0 (base - node_penalty ready mem disk pid unschedulable draining)"
  using assms by (rule node_score_penalty)

theorem node_score_exact_witness: "ScoreNodeReady 100 False True False False True False = 25"
  using node_score_exact [of 100 False True False False True False] by (simp add: node_penalty_def)

lemma run_records_new:
  assumes "sorted (readings rs)" and "rs \<noteq> []"
  shows "bt_samples (run_records rs (NewBackendTracker window maxSamples)) =
    filter (\<lambda>s. last (readings rs) - (if window \<le> 0 then 5 * Minute else window) < smp_at s)
      (drop (length rs - nat (if maxSamples \<le> 0 then 100 else maxSamples)) (history rs))"
proof -
  let ?t = "NewBackendTracker window maxSamples"
  have "0 < bt_window ?t" "0 < bt_maxSamples ?t" "bt_samples ?t = []"
    by (simp_all add: NewBackendTracker_def)
  from run_records_window [OF this assms] show ?thesis
    by (simp add: NewBackendTracker_def keep_last_def history_def)
qed

text \<open>
  C9. The tracker is a sliding window. Whatever calls of \<open>Record\<close> were made at non-decreasing
  times, it holds exactly those of the last \<open>maxSamples\<close> samples that are younger than the
  window, in order: pruning early and in place loses nothing.
\<close>

theorem tracker_is_sliding_window:
  assumes "sorted (readings rs)" and "rs \<noteq> []"
  shows "bt_samples (run_records rs (NewBackendTracker window maxSamples)) =
    filter (\<lambda>s. last (readings rs) - (if window \<le> 0 then 5 * Minute else window) < smp_at s)
      (drop (length rs - nat (if maxSamples \<le> 0 then 100 else maxSamples)) (history rs))"
  using assms by (rule run_records_new)

theorem tracker_is_sliding_window_witness:
  "map smp_latencyMs (bt_samples (run_records
     [(1, 1, 10, False), (2, 3, 20, True), (60, 60, 30, False), (65, 66, 40, True)] (NewBackendTracker 50 2))) = [30, 40]"
  by (subst tracker_is_sliding_window) (simp_all add: readings_def history_def)

text \<open>
  \<open>Snapshot\<close> on the samples still in the window: the error rate is the fraction of
  failed samples, which lies between 0 and 1, and the average latency lies between the
  smallest and the largest recorded one; without samples both are 0.
\<close>

theorem snapshot_is_average:
  assumes "Snapshot now t = ((avg, rate), t')"
    and "\<forall>s \<in> set (bt_samples t). lo \<le> smp_latencyMs s \<and> smp_latencyMs s \<le> hi"
  shows "bt_samples t' = filter (\<lambda>s. now - bt_window t < smp_at s) (bt_samples t) \<and>
    (if bt_samples t' = [] then avg = 0 \<and> rate = 0
     else lo \<le> avg \<and> avg \<le> hi \<and> 0 \<le> rate \<and> rate \<le> 1 \<and>
       rate * of_nat (length (bt_samples t')) = of_nat (length (filter smp_failed (bt_samples t'))))"
proof -
  let ?xs = "filter (\<lambda>s. now - bt_window t < smp_at s) (bt_samples t)"
  have t': "bt_samples t' = ?xs"
    using assms(1) by (auto simp: Snapshot_def Let_def pruneLocked_filter split: if_splits)
  show ?thesis
  proof (cases "?xs = []")
    case True
    then show ?thesis using assms(1) t' by (simp add: Snapshot_def Let_def pruneLocked_filter)
  next
    case False
    let ?n = "of_nat (length ?xs) :: rat"
    have n: "0 < ?n" unfolding of_nat_0_less_iff length_greater_0_conv by (rule False)
    have a: "avg = sum_list (map smp_latencyMs ?xs) / ?n"
      and r: "rate = of_nat (length (filter smp_failed ?xs)) / ?n"
      using assms(1) False by (auto simp: Snapshot_def Let_def pruneLocked_filter fold_latency fold_failures)
    have "?n * lo \<le> sum_list (map smp_latencyMs ?xs) \<and> sum_list (map smp_latencyMs ?xs) \<le> ?n * hi"
      by (rule sum_list_between) (use assms(2) in auto)
    then have "lo \<le> avg \<and> avg \<le> hi"
      unfolding a using n by (simp add: pos_le_divide_eq pos_divide_le_eq mult.commute)
    moreover have "rate \<le> 1" "0 \<le> rate" "rate * ?n = of_nat (length (filter smp_failed ?xs))"
    proof -
      have "of_nat (length (filter smp_failed ?xs)) \<le> ?n" by (simp only: of_nat_le_iff length_filter_le)
      with n show "rate \<le> 1" unfolding r by (simp only: pos_divide_le_eq mult_1)
      show "0 \<le> rate" unfolding r by (rule divide_nonneg_nonneg) (simp_all only: of_nat_0_le_iff)
      from n show "rate * ?n = of_nat (length (filter smp_failed ?xs))"
        unfolding r by (metis less_irrefl nonzero_mult_div_cancel_right times_divide_eq_left)
    qed
    ultimately show ?thesis using False t' by simp
  qed
qed

theorem snapshot_is_average_witness:
  "\<exists>avg rate t'. Snapshot 70 (run_records [(60, 60, 30, False), (65, 66, 40, True)] (NewBackendTracker 50 2)) =
     ((avg, rate), t') \<and> 30 \<le> avg \<and> avg \<le> 40 \<and> rate * 2 = 1"
proof -
  define t where "t = run_records [(60, 60, 30, False), (65, 66, 40, True)] (NewBackendTracker 50 2)"
  have s: "bt_samples t = history [(60, 60, 30, False), (65, 66, 40, True)]" and w: "bt_window t = 50"
    unfolding t_def by (subst run_records_new) (simp_all add: readings_def history_def NewBackendTracker_def)
  obtain avg rate t' where sn: "Snapshot 70 t = ((avg, rate), t')" by (metis prod.exhaust)
  have "\<forall>x \<in> set (bt_samples t). 30 \<le> smp_latencyMs x \<and> smp_latencyMs x \<le> 40"
    by (simp add: s history_def)
  from snapshot_is_average [OF sn this] have "30 \<le> avg \<and> avg \<le> 40 \<and> rate * 2 = 1"
    by (auto simp: s w history_def)
  with sn show ?thesis unfolding t_def by blast
qed

end
