(* ===== verification/Kubernetes_Driver.thy ===== *)
theory Kubernetes_Driver
  imports Kubernetes_Objects Health Checkpoint_Store
begin

text \<open>
  The Kubernetes driver: \<open>internal/kubernetes\<close> (\<open>driver.go\<close>, \<open>deploy.go\<close>, \<open>pods.go\<close>, \<open>cronjob.go\<close>,
  \<open>nodes.go\<close>, \<open>extended.go\<close>, \<open>networkpolicy.go\<close>) and the claims of \<open>internal/volume\<close>. The API
  server is the parameter \<open>api\<close>, a record of the calls that the code makes, acting on the
  cluster \<open>'w\<close>. An operation that may panic gives \<open>None\<close>. The driver's own mutable state,
  the tracker and the checkpoint store, is passed next to the cluster.
\<close>

section \<open>Operations that may panic\<close>

type_synonym ('w, 'a) pact = "'w \<Rightarrow> 'a result option \<times> 'w"

definition bindP :: "('w, 'a) pact \<Rightarrow> ('a \<Rightarrow> ('w, 'b) pact) \<Rightarrow> ('w, 'b) pact" where
  "bindP m f = (\<lambda>w. case m w of
     (None, w') \<Rightarrow> (None, w') | (Some (Inl e), w') \<Rightarrow> (Some (Inl e), w') | (Some (Inr x), w') \<Rightarrow> f x w')"

definition liftP :: "('w, 'a) act \<Rightarrow> ('w, 'a) pact" where
  "liftP m = (\<lambda>w. case m w of (r, w') \<Rightarrow> (Some r, w'))"

definition doneP :: "'a result option \<Rightarrow> ('w, 'a) pact" where
  "doneP r = (\<lambda>w. (r, w))"

section \<open>API objects and calls\<close>

record deployment =
  dep_UID :: string
  dep_Name :: string
  dep_Namespace :: string
  dep_Labels :: "(string, string) gomap"
  dep_Replicas :: "int option"
  dep_Selector :: "(string, string) gomap"
  dep_TemplateLabels :: "(string, string) gomap"
  dep_TemplateAnnotations :: "(string, string) gomap option"
  dep_PodSpec :: pod_spec
  dep_Generation :: int
  dep_ObservedGeneration :: int
  dep_StatusReplicas :: int
  dep_ReadyReplicas :: int

record cron_job =
  cj_UID :: string
  cj_Name :: string
  cj_Namespace :: string
  cj_Labels :: "(string, string) gomap"
  cj_Schedule :: string
  cj_TimeZone :: "string option"
  cj_ConcurrencyPolicy :: string
  cj_SuccessfulJobsHistoryLimit :: int
  cj_FailedJobsHistoryLimit :: int
  cj_Annotations :: "(string, string) gomap option"
  cj_Parallelism :: "int option"
  cj_Completions :: "int option"
  cj_BackoffLimit :: int
  cj_PodLabels :: "(string, string) gomap"
  cj_PodSpec :: pod_spec
  cj_LastScheduleTime :: "instant option"
  cj_Active :: nat

record pvc =
  pvc_Name :: string
  pvc_Namespace :: string
  pvc_Labels :: "(string, string) gomap"
  pvc_AccessMode :: string
  pvc_Size :: quantity
  pvc_StorageClassName :: "string option"

record taint =
  tt_Key :: string
  tt_Value :: string
  tt_Effect :: string

record node =
  nd_Name :: string
  nd_Labels :: "(string, string) gomap"
  nd_Unschedulable :: bool
  nd_Taints :: "taint list"
  nd_Conditions :: "(string \<times> string) list"

record pod =
  pod_Name :: string
  pod_Namespace :: string
  pod_Labels :: "(string, string) gomap"
  pod_OwnerKinds :: "string list"

record 'w kube_api =
  ka_IsNotFound :: "go_error \<Rightarrow> bool"
  ka_CreateNamespace :: "string \<Rightarrow> 'w proc"
  ka_CreatePVC :: "string \<Rightarrow> pvc \<Rightarrow> 'w \<Rightarrow> (string \<times> go_error option) \<times> 'w"
  ka_DeletePVC :: "string \<Rightarrow> string \<Rightarrow> 'w proc"
  ka_ListPVC :: "string \<Rightarrow> string \<Rightarrow> ('w, string list) act"
  ka_CreateDeployment :: "string \<Rightarrow> deployment \<Rightarrow> ('w, deployment) act"
  ka_GetDeployment :: "string \<Rightarrow> string \<Rightarrow> ('w, deployment) act"
  ka_UpdateDeployment :: "string \<Rightarrow> deployment \<Rightarrow> 'w proc"
  ka_DeleteDeployment :: "string \<Rightarrow> string \<Rightarrow> 'w proc"
  ka_ListDeployments :: "string \<Rightarrow> ('w, deployment list) act"
  ka_CreateCronJob :: "string \<Rightarrow> cron_job \<Rightarrow> ('w, cron_job) act"
  ka_GetCronJob :: "string \<Rightarrow> string \<Rightarrow> ('w, cron_job) act"
  ka_UpdateCronJob :: "string \<Rightarrow> cron_job \<Rightarrow> 'w proc"
  ka_DeleteCronJob :: "string \<Rightarrow> string \<Rightarrow> 'w proc"
  ka_CreateNetworkPolicy :: "string \<Rightarrow> network_policy \<Rightarrow> 'w proc"
  ka_ListPods :: "string \<Rightarrow> string \<Rightarrow> ('w, pod list) act"
  ka_ListPodsOnNode :: "string \<Rightarrow> ('w, pod list) act"
  ka_DeletePod :: "string \<Rightarrow> string \<Rightarrow> int \<Rightarrow> 'w proc"
  ka_ListNodes :: "('w, node list) act"
  ka_GetNode :: "string \<Rightarrow> ('w, node) act"
  ka_UpdateNode :: "node \<Rightarrow> 'w proc"
  ka_ServerVersion :: "'w proc"

record kube_driver =
  kd_AutoCleanupOnDestroy :: bool
  kd_namespace :: string
  kd_tc :: types_constants
  kd_MustParse :: "string \<Rightarrow> quantity option"

section \<open>Volume claims\<close>

definition alreadyExists :: "go_error \<Rightarrow> bool" where
  "alreadyExists err = Contains (error_string err) ''AlreadyExists''"

definition notFound :: "go_error \<Rightarrow> bool" where
  "notFound err = Contains (error_string err) ''NotFound''"

definition volume_claim :: "string \<Rightarrow> workload_spec \<Rightarrow> volume_spec \<Rightarrow> quantity \<Rightarrow> pvc" where
  "volume_claim ns spec vol q =
     \<lparr>pvc_Name = pvcName (ws_Name spec) (vol_Name vol), pvc_Namespace = ns,
      pvc_Labels = [(''app'', sanitizeName (ws_Name spec)), (''managed-by'', ''kranix'')],
      pvc_AccessMode = (if EqualFold (vol_AccessMode vol) ''ReadWriteMany'' then ''ReadWriteMany'' else ''ReadWriteOnce''),
      pvc_Size = q,
      pvc_StorageClassName = (if vol_StorageClass vol \<noteq> '''' then Some (vol_StorageClass vol) else None)\<rparr>"

fun provision_loop ::
  "'w kube_api \<Rightarrow> kube_driver \<Rightarrow> string \<Rightarrow> workload_spec \<Rightarrow> volume_spec list \<Rightarrow> volume_state list \<Rightarrow>
   ('w, volume_state list) pact" where
  "provision_loop api d ns spec [] acc w = (Some (Inr acc), w)"
| "provision_loop api d ns spec (vol # vols) acc w =
     (case kd_MustParse d (if vol_Size vol = '''' then ''1Gi'' else vol_Size vol) of
        None \<Rightarrow> (None, w)
      | Some q \<Rightarrow>
          (case ka_CreatePVC api ns (volume_claim ns spec vol q) w of
             ((phase, err), w1) \<Rightarrow>
               (case err of
                  Some e \<Rightarrow>
                    if \<not> alreadyExists e
                    then (Some (Inl (Wrapf (''create pvc '' @ pvcName (ws_Name spec) (vol_Name vol) @ '': '') e '''')), w1)
                    else provision_loop api d ns spec vols (acc @ [\<lparr>vs_Name = vol_Name vol,
                           vs_ClaimName = pvcName (ws_Name spec) (vol_Name vol), vs_VolumeID = '''', vs_MountPath = vol_MountPath vol,
                           vs_Status = (if phase = ''Bound'' then ''bound'' else ''pending'')\<rparr>]) w1
                | None \<Rightarrow>
                    provision_loop api d ns spec vols (acc @ [\<lparr>vs_Name = vol_Name vol,
                      vs_ClaimName = pvcName (ws_Name spec) (vol_Name vol), vs_VolumeID = '''', vs_MountPath = vol_MountPath vol,
                      vs_Status = (if phase = ''Bound'' then ''bound'' else ''pending'')\<rparr>]) w1)))"

definition default_ns :: "kube_driver \<Rightarrow> string \<Rightarrow> string" where
  "default_ns d ns = (if ns = '''' then kd_namespace d else ns)"

lemma default_ns_own [simp]: "default_ns d (kd_namespace d) = kd_namespace d"
  by (simp add: default_ns_def)

definition Provision :: "'w kube_api \<Rightarrow> kube_driver \<Rightarrow> workload_spec \<Rightarrow> ('w, volume_lifecycle_result) pact" where
  "Provision api d spec =
     (if length (ws_Volumes spec) = 0
      then doneP (Some (Inr \<lparr>vlr_WorkloadID = ws_Name spec, vlr_Volumes = []\<rparr>))
      else bindP (provision_loop api d (default_ns d (ws_Namespace spec)) spec (ws_Volumes spec) [])
             (\<lambda>vs. doneP (Some (Inr \<lparr>vlr_WorkloadID = ws_Name spec, vlr_Volumes = vs\<rparr>))))"

fun delete_claims :: "'w kube_api \<Rightarrow> string \<Rightarrow> string list \<Rightarrow> 'w proc" where
  "delete_claims api ns [] w = (None, w)"
| "delete_claims api ns (name # names) w =
     (case ka_DeletePVC api ns name w of
        (Some e, w1) \<Rightarrow> if \<not> notFound e then (Some e, w1) else delete_claims api ns names w1
      | (None, w1) \<Rightarrow> delete_claims api ns names w1)"

definition Cleanup :: "'w kube_api \<Rightarrow> kube_driver \<Rightarrow> workload_spec \<Rightarrow> 'w proc" where
  "Cleanup api d spec =
     delete_claims api (default_ns d (ws_Namespace spec))
       (map (\<lambda>vol. pvcName (ws_Name spec) (vol_Name vol)) (filter vol_AutoCleanup (ws_Volumes spec)))"

definition CleanupByWorkload :: "'w kube_api \<Rightarrow> kube_driver \<Rightarrow> string \<Rightarrow> string \<Rightarrow> 'w proc" where
  "CleanupByWorkload api d workloadID namespace w =
     (case ka_ListPVC api (default_ns d namespace) (''app='' @ sanitizeName workloadID @ '',managed-by=kranix'') w of
        (Inl e, w1) \<Rightarrow> (Some e, w1)
      | (Inr names, w1) \<Rightarrow> delete_claims api (default_ns d namespace) names w1)"

text \<open>The volume operations of the driver, which also take a nil spec.\<close>

definition ProvisionVolumes ::
  "'w kube_api \<Rightarrow> kube_driver \<Rightarrow> workload_spec option \<Rightarrow> ('w, volume_lifecycle_result) pact" where
  "ProvisionVolumes api d spec =
     (case spec of
        None \<Rightarrow> doneP (Some (Inr \<lparr>vlr_WorkloadID = [], vlr_Volumes = []\<rparr>))
      | Some s \<Rightarrow> Provision api d s)"

definition CleanupVolumes :: "'w kube_api \<Rightarrow> kube_driver \<Rightarrow> workload_spec option \<Rightarrow> 'w proc" where
  "CleanupVolumes api d spec = (case spec of None \<Rightarrow> (\<lambda>w. (None, w)) | Some s \<Rightarrow> Cleanup api d s)"

section \<open>Creating workloads\<close>

text \<open>\<open>ensureNamespace\<close> ignores every error of the call.\<close>

definition ensureNamespace :: "'w kube_api \<Rightarrow> string \<Rightarrow> 'w \<Rightarrow> 'w" where
  "ensureNamespace api name w = (if name = '''' then w else snd (ka_CreateNamespace api name w))"

definition ensureCrossNamespaceNetworkPolicy ::
  "'w kube_api \<Rightarrow> string \<Rightarrow> string \<Rightarrow> (string, string) gomap \<Rightarrow> cross_namespace_traffic_policy option \<Rightarrow> 'w proc" where
  "ensureCrossNamespaceNetworkPolicy api namespace workloadName selector policy w =
     (case policy of
        None \<Rightarrow> (None, w)
      | Some p \<Rightarrow>
          if \<not> cnt_Enabled p then (None, w)
          else let workload = (if workloadName = '''' then ''workload'' else workloadName)
               in case build_network_policy namespace workload selector p of
                    Inl e \<Rightarrow> (Some e, w)
                  | Inr np \<Rightarrow>
                      (case ka_CreateNetworkPolicy api namespace np w of
                         (Some e, w1) \<Rightarrow>
                           (Some (Wrapf (''create network policy '' @ namespace @ ''/'' @ np_Name np @ '': '') e ''''), w1)
                       | (None, w1) \<Rightarrow> (None, w1)))"

definition workload_labels :: "kube_driver \<Rightarrow> workload_spec \<Rightarrow> (string, string) gomap" where
  "workload_labels d spec = mergeWorkloadLabels (kd_tc d) spec [(''app'', ws_Name spec), (''managed-by'', ''kranix'')]"

definition add_volumes :: "workload_spec \<Rightarrow> pod_spec \<Rightarrow> pod_spec" where
  "add_volumes spec pod =
     (let (vols, mounts) = PodVolumes spec;
          pod1 = pod\<lparr>ps_Volumes := ps_Volumes pod @ vols\<rparr>
      in case ps_Containers pod1 of
           [] \<Rightarrow> pod1
         | c # cs \<Rightarrow> if 0 < length mounts
                     then pod1\<lparr>ps_Containers := c\<lparr>ct_VolumeMounts := ct_VolumeMounts c @ mounts\<rparr> # cs\<rparr> else pod1)"

definition deployment_of :: "kube_driver \<Rightarrow> workload_spec \<Rightarrow> pod_spec \<Rightarrow> deployment" where
  "deployment_of d spec pod =
     \<lparr>dep_UID = '''', dep_Name = ws_Name spec, dep_Namespace = default_ns d (ws_Namespace spec),
      dep_Labels = workload_labels d spec, dep_Replicas = Some (i32 (ws_Replicas spec)),
      dep_Selector = [(''app'', ws_Name spec)], dep_TemplateLabels = workload_labels d spec,
      dep_TemplateAnnotations = ApplyPodAnnotations spec None, dep_PodSpec = add_volumes spec pod,
      dep_Generation = 0, dep_ObservedGeneration = 0, dep_StatusReplicas = 0, dep_ReadyReplicas = 0\<rparr>"

text \<open>The result, the spec as \<open>workloadPodSpec\<close> leaves it, and the cluster.\<close>

definition createDeployment ::
  "'w kube_api \<Rightarrow> kube_driver \<Rightarrow> workload_spec \<Rightarrow> 'w \<Rightarrow> deployment result option \<times> workload_spec \<times> 'w" where
  "createDeployment api d spec w =
     (let w0 = ensureNamespace api (ws_Namespace spec) w in
      case Provision api d spec w0 of
        (None, w1) \<Rightarrow> (None, spec, w1)
      | (Some (Inl e), w1) \<Rightarrow> (Some (Inl e), spec, w1)
      | (Some (Inr vlr), w1) \<Rightarrow>
          (case workloadPodSpec (kd_tc d) (kd_MustParse d) spec of
             (None, spec') \<Rightarrow> (None, spec', w1)
           | (Some (Inl e), spec') \<Rightarrow> (Some (Inl e), spec', w1)
           | (Some (Inr pod), spec') \<Rightarrow>
               (case ka_CreateDeployment api (default_ns d (ws_Namespace spec)) (deployment_of d spec' pod) w1 of
                  (Inl e, w2) \<Rightarrow> (Some (Inl e), spec', w2)
                | (Inr dep, w2) \<Rightarrow>
                    (case ensureCrossNamespaceNetworkPolicy api (default_ns d (ws_Namespace spec)) (ws_Name spec)
                            (dep_TemplateLabels dep) (ws_CrossNamespaceTraffic spec) w2 of
                       (Some e, w3) \<Rightarrow> (Some (Inl e), spec', w3)
                     | (None, w3) \<Rightarrow> (Some (Inr dep), spec', w3)))))"

definition cronScheduleActive :: "workload_spec \<Rightarrow> bool" where
  "cronScheduleActive spec =
     (case ws_CronSchedule spec of
        None \<Rightarrow> False
      | Some c \<Rightarrow> \<not> cron_Suspended c \<and> TrimSpace (cron_Schedule c) \<noteq> '''')"

definition concurrency_policy :: "string \<Rightarrow> string" where
  "concurrency_policy raw =
     (let cp = ToLower (TrimSpace raw)
      in if cp = ''forbid'' then ''Forbid'' else if cp = ''replace'' then ''Replace'' else ''Allow'')"

definition cron_job_of :: "kube_driver \<Rightarrow> workload_spec \<Rightarrow> cron_schedule \<Rightarrow> pod_spec \<Rightarrow> cron_job" where
  "cron_job_of d spec c pod =
     (let replicas = (if i32 (ws_Replicas spec) < 1 then 1 else i32 (ws_Replicas spec));
          tz = TrimSpace (cron_TimeZone c)
      in \<lparr>cj_UID = '''', cj_Name = ws_Name spec, cj_Namespace = default_ns d (ws_Namespace spec),
          cj_Labels = workload_labels d spec, cj_Schedule = TrimSpace (cron_Schedule c),
          cj_TimeZone = (if tz \<noteq> '''' then Some tz else None),
          cj_ConcurrencyPolicy = concurrency_policy (cron_ConcurrencyPolicy c),
          cj_SuccessfulJobsHistoryLimit = 3, cj_FailedJobsHistoryLimit = 3, cj_Annotations = Some [],
          cj_Parallelism = Some replicas, cj_Completions = Some replicas, cj_BackoffLimit = 6,
          cj_PodLabels = workload_labels d spec, cj_PodSpec = pod, cj_LastScheduleTime = None, cj_Active = 0\<rparr>)"

definition createCronJob ::
  "'w kube_api \<Rightarrow> kube_driver \<Rightarrow> workload_spec \<Rightarrow> cron_schedule \<Rightarrow> 'w \<Rightarrow> cron_job result option \<times> workload_spec \<times> 'w" where
  "createCronJob api d spec c w =
     (let w1 = ensureNamespace api (ws_Namespace spec) w in
      case workloadPodSpec (kd_tc d) (kd_MustParse d) spec of
        (None, spec') \<Rightarrow> (None, spec', w1)
      | (Some (Inl e), spec') \<Rightarrow> (Some (Inl e), spec', w1)
      | (Some (Inr pod), spec') \<Rightarrow>
          (case ka_CreateCronJob api (default_ns d (ws_Namespace spec)) (cron_job_of d spec' c pod) w1 of
             (Inl e, w2) \<Rightarrow> (Some (Inl e), spec', w2)
           | (Inr cj, w2) \<Rightarrow>
               (case ensureCrossNamespaceNetworkPolicy api (default_ns d (ws_Namespace spec)) (ws_Name spec)
                       (cj_PodLabels cj) (ws_CrossNamespaceTraffic spec) w2 of
                  (Some e, w3) \<Rightarrow> (Some (Inl e), spec', w3)
                | (None, w3) \<Rightarrow> (Some (Inr cj), spec', w3))))"

section \<open>Status, restart, removal\<close>

definition mapDeploymentState :: "deployment \<Rightarrow> string" where
  "mapDeploymentState dep =
     (if dep_Generation dep \<le> dep_ObservedGeneration dep \<and> 0 < dep_StatusReplicas dep
      then (if dep_StatusReplicas dep = dep_ReadyReplicas dep then ''Running'' else ''Updating'')
      else ''Pending'')"

text \<open>The status of a deployment; indexing the first container and reading the replicas may panic.\<close>

definition deployment_status :: "deployment \<Rightarrow> string \<Rightarrow> string \<Rightarrow> string list \<Rightarrow> workload_status result option" where
  "deployment_status dep name namespace pods =
     (case (ps_Containers (dep_PodSpec dep), dep_Replicas dep) of
        (c # cs, Some n) \<Rightarrow>
          Some (Inr (zero_status\<lparr>wst_ID := dep_UID dep, wst_Name := name, wst_Namespace := namespace,
            wst_State := mapDeploymentState dep, wst_Image := ct_Image c, wst_Replicas := n,
            wst_Ready := dep_ReadyReplicas dep, wst_Pods := pods\<rparr>))
      | _ \<Rightarrow> None)"

definition listPodsForDeployment :: "'w kube_api \<Rightarrow> string \<Rightarrow> string \<Rightarrow> ('w, string list) act" where
  "listPodsForDeployment api deploymentName namespace w =
     (case ka_ListPods api namespace (''app='' @ deploymentName) w of
        (Inl e, w1) \<Rightarrow> (Inl e, w1)
      | (Inr pods, w1) \<Rightarrow> (Inr (map pod_Name pods), w1))"

definition getDeploymentStatus :: "'w kube_api \<Rightarrow> kube_driver \<Rightarrow> string \<Rightarrow> ('w, workload_status) pact" where
  "getDeploymentStatus api d name w =
     (case ka_GetDeployment api (kd_namespace d) name w of
        (Inl e, w1) \<Rightarrow> (Some (Inl (Wrapf ''failed to get deployment: '' e '''')), w1)
      | (Inr dep, w1) \<Rightarrow>
          (case listPodsForDeployment api name (kd_namespace d) w1 of
             (Inl e, w2) \<Rightarrow> (Some (Inl e), w2)
           | (Inr pods, w2) \<Rightarrow> (deployment_status dep name (kd_namespace d) pods, w2)))"

definition cronJobWorkloadStatus :: "instant \<Rightarrow> cron_job \<Rightarrow> workload_status" where
  "cronJobWorkloadStatus now cj =
     zero_status\<lparr>wst_ID := cj_UID cj, wst_Name := cj_Name cj, wst_Namespace := cj_Namespace cj,
       wst_State := (if cj_LastScheduleTime cj \<noteq> None then ''Scheduled'' else ''PendingSchedule''),
       wst_Image := (case ps_Containers (cj_PodSpec cj) of [] \<Rightarrow> '''' | c # cs \<Rightarrow> ct_Image c),
       wst_Replicas := (case cj_Parallelism cj of None \<Rightarrow> 1 | Some n \<Rightarrow> n),
       wst_Phase := Some WorkloadPhaseRunning, wst_ReadyReplicas := int (cj_Active cj),
       wst_LastUpdated := now, wst_CronLastSchedule := cj_LastScheduleTime cj\<rparr>"

definition GetStatus :: "'w kube_api \<Rightarrow> kube_driver \<Rightarrow> instant \<Rightarrow> string \<Rightarrow> ('w, workload_status) pact" where
  "GetStatus api d now workloadID w =
     (case ka_GetCronJob api (kd_namespace d) workloadID w of
        (Inr cj, w1) \<Rightarrow> (Some (Inr (cronJobWorkloadStatus now cj)), w1)
      | (Inl e, w1) \<Rightarrow>
          if \<not> ka_IsNotFound api e then (Some (Inl e), w1) else getDeploymentStatus api d workloadID w1)"

definition Deploy ::
  "'w kube_api \<Rightarrow> kube_driver \<Rightarrow> instant \<Rightarrow> workload_spec \<Rightarrow> 'w \<Rightarrow> workload_status result option \<times> workload_spec \<times> 'w" where
  "Deploy api d now spec w =
     (if cronScheduleActive spec
      then case createCronJob api d spec (the (ws_CronSchedule spec)) w of
             (None, spec', w1) \<Rightarrow> (None, spec', w1)
           | (Some (Inl e), spec', w1) \<Rightarrow> (Some (Inl e), spec', w1)
           | (Some (Inr cj), spec', w1) \<Rightarrow> (case GetStatus api d now (ws_Name spec) w1 of (r, w2) \<Rightarrow> (r, spec', w2))
      else case createDeployment api d spec w of
             (None, spec', w1) \<Rightarrow> (None, spec', w1)
           | (Some (Inl e), spec', w1) \<Rightarrow> (Some (Inl e), spec', w1)
           | (Some (Inr dep), spec', w1) \<Rightarrow> (case GetStatus api d now (dep_Name dep) w1 of (r, w2) \<Rightarrow> (r, spec', w2)))"

definition deleteCronJob :: "'w kube_api \<Rightarrow> kube_driver \<Rightarrow> string \<Rightarrow> string \<Rightarrow> 'w proc" where
  [simp]: "deleteCronJob api d name namespace = ka_DeleteCronJob api (default_ns d namespace) name"

definition deleteDeployment :: "'w kube_api \<Rightarrow> kube_driver \<Rightarrow> string \<Rightarrow> 'w proc" where
  [simp]: "deleteDeployment api d name = ka_DeleteDeployment api (kd_namespace d) name"

definition Destroy :: "'w kube_api \<Rightarrow> kube_driver \<Rightarrow> string \<Rightarrow> 'w proc" where
  "Destroy api d workloadID w =
     (case deleteCronJob api d workloadID (kd_namespace d) w of
        (None, w1) \<Rightarrow>
          (None, if kd_AutoCleanupOnDestroy d then snd (CleanupByWorkload api d workloadID (kd_namespace d) w1) else w1)
      | (Some e, w1) \<Rightarrow>
          if \<not> ka_IsNotFound api e then (Some e, w1)
          else (case deleteDeployment api d workloadID w1 of
                  (Some e', w2) \<Rightarrow> (Some e', w2)
                | (None, w2) \<Rightarrow>
                    if kd_AutoCleanupOnDestroy d then CleanupByWorkload api d workloadID (kd_namespace d) w2
                    else (None, w2)))"

definition restartedAt :: string where "restartedAt = ''kranix/restartedAt''"

definition annotate :: "string \<Rightarrow> (string, string) gomap option \<Rightarrow> (string, string) gomap option" where
  "annotate v a = Some (gm_put restartedAt v (case a of None \<Rightarrow> [] | Some m \<Rightarrow> m))"

definition restartDeployment :: "'w kube_api \<Rightarrow> kube_driver \<Rightarrow> string \<Rightarrow> 'w proc" where
  "restartDeployment api d name w =
     (case ka_GetDeployment api (kd_namespace d) name w of
        (Inl e, w1) \<Rightarrow> (Some e, w1)
      | (Inr dep, w1) \<Rightarrow>
          ka_UpdateDeployment api (kd_namespace d)
            (dep\<lparr>dep_TemplateAnnotations := annotate ''now'' (dep_TemplateAnnotations dep)\<rparr>) w1)"

definition restartCronJob :: "'w kube_api \<Rightarrow> string \<Rightarrow> cron_job \<Rightarrow> 'w proc" where
  "restartCronJob api stamp cj =
     ka_UpdateCronJob api (cj_Namespace cj) (cj\<lparr>cj_Annotations := annotate stamp (cj_Annotations cj)\<rparr>)"

definition Restart :: "'w kube_api \<Rightarrow> kube_driver \<Rightarrow> string \<Rightarrow> string \<Rightarrow> 'w proc" where
  "Restart api d stamp workloadID w =
     (case ka_GetCronJob api (kd_namespace d) workloadID w of
        (Inr cj, w1) \<Rightarrow> restartCronJob api stamp cj w1
      | (Inl e, w1) \<Rightarrow> if \<not> ka_IsNotFound api e then (Some e, w1) else restartDeployment api d workloadID w1)"

fun list_statuses :: "deployment list \<Rightarrow> workload_status list option" where
  "list_statuses [] = Some []"
| "list_statuses (dep # deps) =
     (case deployment_status dep (dep_Name dep) (dep_Namespace dep) [] of
        Some (Inr st) \<Rightarrow> map_option (\<lambda>sts. st # sts) (list_statuses deps)
      | _ \<Rightarrow> None)"

definition listDeployments :: "'w kube_api \<Rightarrow> string \<Rightarrow> ('w, workload_status list) pact" where
  "listDeployments api namespace w =
     (case ka_ListDeployments api namespace w of
        (Inl e, w1) \<Rightarrow> (Some (Inl (Wrapf ''failed to list deployments: '' e '''')), w1)
      | (Inr deps, w1) \<Rightarrow> (map_option Inr (list_statuses deps), w1))"

definition ListWorkloads :: "'w kube_api \<Rightarrow> kube_driver \<Rightarrow> string \<Rightarrow> ('w, workload_status list) pact" where
  "ListWorkloads api d namespace = listDeployments api (default_ns d namespace)"

section \<open>Checkpoints\<close>

definition CheckpointWorkload ::
  "'w kube_api \<Rightarrow> kube_driver \<Rightarrow> (nat \<Rightarrow> instant) \<Rightarrow> checkpoint_request \<Rightarrow> store \<Rightarrow> 'w \<Rightarrow>
   checkpoint_result result \<times> store \<times> 'w" where
  "CheckpointWorkload api d t req s w =
     (case ValidateCheckpoint req of
        Some e \<Rightarrow> (Inl e, s, w)
      | None \<Rightarrow>
          (let ns = default_ns d (creq_Namespace req) in
           case ka_GetDeployment api ns (creq_WorkloadID req) w of
             (Inl e, w1) \<Rightarrow> (Inl e, s, w1)
           | (Inr dep, w1) \<Rightarrow>
               (case ka_UpdateDeployment api ns (dep\<lparr>dep_Replicas := Some 0\<rparr>) w1 of
                  (Some e, w2) \<Rightarrow> (Inl e, s, w2)
                | (None, w2) \<Rightarrow>
                    let (saved, s') = Save (t 1) (t 2) (creq_WorkloadID req)
                          \<lparr>cr_WorkloadID = creq_WorkloadID req, cr_CheckpointID = ''ckpt-'' @ Itoa (UnixNano (t 0)),
                           cr_State = ''checkpointed'', cr_Message = ''scaled deployment to zero replicas'', cr_CreatedAt = 0\<rparr> s
                    in (Inr saved, s', w2))))"

definition RestoreWorkload ::
  "'w kube_api \<Rightarrow> kube_driver \<Rightarrow> instant \<Rightarrow> restore_request \<Rightarrow> ('w, restore_result) act" where
  "RestoreWorkload api d now req w =
     (case ValidateRestore req of
        Some e \<Rightarrow> (Inl e, w)
      | None \<Rightarrow>
          (let ns = default_ns d (rreq_Namespace req) in
           case ka_GetDeployment api ns (rreq_WorkloadID req) w of
             (Inl e, w1) \<Rightarrow> (Inl e, w1)
           | (Inr dep, w1) \<Rightarrow>
               (case ka_UpdateDeployment api ns (dep\<lparr>dep_Replicas := Some 1\<rparr>) w1 of
                  (Some e, w2) \<Rightarrow> (Inl e, w2)
                | (None, w2) \<Rightarrow>
                    (Inr \<lparr>rres_WorkloadID = rreq_WorkloadID req, rres_State = ''running'', rres_RestoredAt = now,
                       rres_Message = ''restored deployment replicas''\<rparr>, w2))))"

definition ListCheckpoints :: "string \<Rightarrow> string \<Rightarrow> store \<Rightarrow> checkpoint_result list result" where
  "ListCheckpoints workloadID namespace s = Inr (store_List workloadID s)"

section \<open>Backend and node health\<close>

record backend_health_report =
  bhr_Backend :: string
  bhr_Score :: int
  bhr_LatencyMs :: rat
  bhr_ErrorRate :: rat
  bhr_Healthy :: bool
  bhr_CheckedAt :: instant

record node_health_report =
  nhr_Name :: string
  nhr_Backend :: string
  nhr_Score :: int
  nhr_Architecture :: string
  nhr_Ready :: bool
  nhr_Draining :: bool
  nhr_Unschedulable :: bool
  nhr_Conditions :: "string list"
  nhr_CheckedAt :: instant

text \<open>\<open>ms\<close> is the elapsed time in milliseconds, \<open>t\<close> the clock readings of the tracker.\<close>

definition Ping ::
  "'w kube_api \<Rightarrow> rat \<Rightarrow> (nat \<Rightarrow> instant) \<Rightarrow> backend_tracker option \<Rightarrow> 'w \<Rightarrow> go_error option \<times> backend_tracker option \<times> 'w" where
  "Ping api ms t tracker w =
     (case ka_ServerVersion api w of
        (e, w1) \<Rightarrow> (e, map_option (Record (t 0) (t 1) ms (e \<noteq> None)) tracker, w1))"

definition ListBackendHealth ::
  "'w kube_api \<Rightarrow> rat \<Rightarrow> rat \<Rightarrow> (nat \<Rightarrow> instant) \<Rightarrow> backend_tracker option \<Rightarrow> 'w \<Rightarrow>
   backend_health_report list \<times> backend_tracker option \<times> 'w" where
  "ListBackendHealth api ms1 ms2 t tracker w =
     (case Ping api ms1 t tracker w of
        (e, tracker1, w1) \<Rightarrow>
          let ((latency, errorRate), tracker2) =
                (case tracker1 of
                   None \<Rightarrow> ((ms2, if e \<noteq> None then 1 else 0), None)
                 | Some tr \<Rightarrow>
                     (case Snapshot (t 4) (Record (t 2) (t 3) ms2 (e \<noteq> None) tr) of (snap, tr') \<Rightarrow> (snap, Some tr')));
              score = ScoreFromSignals latency errorRate
          in ([\<lparr>bhr_Backend = ''kubernetes'', bhr_Score = score, bhr_LatencyMs = latency, bhr_ErrorRate = errorRate,
                bhr_Healthy = (50 \<le> score \<and> e = None), bhr_CheckedAt = t 5\<rparr>], tracker2, w1))"

definition drainTaintKey :: string where "drainTaintKey = ''kranix.io/drain''"

definition nodeDraining :: "node \<Rightarrow> bool" where
  "nodeDraining n =
     (list_ex (\<lambda>t. tt_Key t = drainTaintKey) (nd_Taints n) \<or> gm_str (nd_Labels n) ''kranix.io/drain'' = ''true'')"

definition has_condition :: "node \<Rightarrow> string \<Rightarrow> bool" where
  "has_condition n c = list_ex (\<lambda>(ty, status). status = ''True'' \<and> ty = c) (nd_Conditions n)"

text \<open>The labels of the pressure conditions, in the order of the node's list.\<close>

definition pressure_labels :: "node \<Rightarrow> string list" where
  "pressure_labels n =
     map fst (filter (\<lambda>(ty, status). status = ''True'' \<and> ty \<in> {''MemoryPressure'', ''DiskPressure'', ''PIDPressure''})
       (nd_Conditions n))"

definition scoreNode :: "node \<Rightarrow> instant \<Rightarrow> node_health_report" where
  "scoreNode n checkedAt =
     (let ready = has_condition n ''Ready'';
          arch0 = gm_str (nd_Labels n) ''kubernetes.io/arch''
      in \<lparr>nhr_Name = nd_Name n, nhr_Backend = ''kubernetes'',
          nhr_Score = ScoreNodeReady 100 ready (has_condition n ''MemoryPressure'') (has_condition n ''DiskPressure'')
            (has_condition n ''PIDPressure'') (nd_Unschedulable n) (nodeDraining n),
          nhr_Architecture = (if arch0 = '''' then gm_str (nd_Labels n) ''beta.kubernetes.io/arch'' else arch0),
          nhr_Ready = ready, nhr_Draining = nodeDraining n, nhr_Unschedulable = nd_Unschedulable n,
          nhr_Conditions = pressure_labels n @ (if \<not> ready then [''NotReady''] else []),
          nhr_CheckedAt = checkedAt\<rparr>)"

definition ListNodeHealth :: "'w kube_api \<Rightarrow> instant \<Rightarrow> ('w, node_health_report list) act" where
  "ListNodeHealth api now w =
     (case ka_ListNodes api w of
        (Inl e, w1) \<Rightarrow> (Inl (Wrapf ''list nodes: '' e ''''), w1)
      | (Inr nodes, w1) \<Rightarrow> (Inr (map (\<lambda>n. scoreNode n now) nodes), w1))"

section \<open>Draining\<close>

datatype drain_phase = DrainPhaseFailed | DrainPhaseEvicting | DrainPhaseDrained

record node_drain_request =
  ndr_NodeName :: string
  ndr_Reason :: string
  ndr_GracePeriodSeconds :: int
  ndr_IgnoreDaemonSets :: bool

record node_drain_result =
  ndz_NodeName :: string
  ndz_Phase :: drain_phase
  ndz_PodsEvicted :: nat
  ndz_PodsRemaining :: nat
  ndz_Message :: string

definition isDaemonSetPod :: "pod \<Rightarrow> bool" where
  "isDaemonSetPod p = list_ex (\<lambda>k. k = ''DaemonSet'') (pod_OwnerKinds p)"

definition appendTaint :: "taint list \<Rightarrow> taint \<Rightarrow> taint list" where
  "appendTaint existing t =
     (if list_ex (\<lambda>e. tt_Key e = tt_Key t \<and> tt_Effect e = tt_Effect t) existing then existing else existing @ [t])"

definition cloneLabels :: "(string, string) gomap \<Rightarrow> (string, string) gomap" where
  "cloneLabels labels = fold (\<lambda>(k, v) out. gm_put k v out) labels []"

definition sanitizeDrainLabel :: "string \<Rightarrow> string" where
  "sanitizeDrainLabel v0 =
     (let v = replace_char CHR '' '' CHR ''-'' (ToLower (TrimSpace v0)) in if 63 < length v then take 63 v else v)"

definition cordoned :: "node_drain_request \<Rightarrow> node \<Rightarrow> node" where
  "cordoned req n =
     n\<lparr>nd_Unschedulable := True,
       nd_Labels := gm_put ''kranix.io/drain'' ''true'' (cloneLabels (nd_Labels n)),
       nd_Taints := appendTaint (nd_Taints n)
         \<lparr>tt_Key = drainTaintKey,
          tt_Value = (if ndr_Reason req \<noteq> '''' then sanitizeDrainLabel (ndr_Reason req) else ''maintenance''),
          tt_Effect = ''NoSchedule''\<rparr>\<rparr>"

definition is_kube_proxy :: "pod \<Rightarrow> bool" where
  "is_kube_proxy p \<longleftrightarrow> pod_Namespace p = ''kube-system'' \<and> gm_str (pod_Labels p) ''component'' = ''kube-proxy''"

fun evict_pods ::
  "'w kube_api \<Rightarrow> node_drain_request \<Rightarrow> int \<Rightarrow> pod list \<Rightarrow> nat \<Rightarrow> nat \<Rightarrow> 'w \<Rightarrow> (nat \<times> nat) \<times> 'w" where
  "evict_pods api req grace [] evicted remaining w = ((evicted, remaining), w)"
| "evict_pods api req grace (p # ps) evicted remaining w =
     (if ndr_IgnoreDaemonSets req \<and> isDaemonSetPod p then evict_pods api req grace ps evicted (Suc remaining) w
      else if is_kube_proxy p then evict_pods api req grace ps evicted remaining w
      else case ka_DeletePod api (pod_Namespace p) (pod_Name p) grace w of
             (Some e, w1) \<Rightarrow> evict_pods api req grace ps evicted (Suc remaining) w1
           | (None, w1) \<Rightarrow> evict_pods api req grace ps (Suc evicted) remaining w1)"

definition drain_failed :: "node_drain_request \<Rightarrow> string \<Rightarrow> node_drain_result" where
  "drain_failed req msg =
     \<lparr>ndz_NodeName = ndr_NodeName req, ndz_Phase = DrainPhaseFailed, ndz_PodsEvicted = 0, ndz_PodsRemaining = 0,
      ndz_Message = msg\<rparr>"

text \<open>A failed drain returns a result and an error; a missing node name only an error.\<close>

definition DrainNode ::
  "'w kube_api \<Rightarrow> node_drain_request \<Rightarrow> 'w \<Rightarrow> (node_drain_result option \<times> go_error option) \<times> 'w" where
  "DrainNode api req w =
     (if ndr_NodeName req = '''' then ((None, Some (Errorf ''nodeName is required'')), w)
      else case ka_GetNode api (ndr_NodeName req) w of
             (Inl e, w1) \<Rightarrow> ((Some (drain_failed req (error_string e)), Some e), w1)
           | (Inr n, w1) \<Rightarrow>
               (case ka_UpdateNode api (cordoned req n) w1 of
                  (Some e, w2) \<Rightarrow> ((Some (drain_failed req (''cordon failed: '' @ error_string e)), Some e), w2)
                | (None, w2) \<Rightarrow>
                    (case ka_ListPodsOnNode api (ndr_NodeName req) w2 of
                       (Inl e, w3) \<Rightarrow> ((Some (drain_failed req (''list pods: '' @ error_string e)), Some e), w3)
                     | (Inr pods, w3) \<Rightarrow>
                         (case evict_pods api req (if 0 < ndr_GracePeriodSeconds req then ndr_GracePeriodSeconds req else 30)
                                 pods 0 0 w3 of
                            ((evicted, remaining), w4) \<Rightarrow>
                              ((Some \<lparr>ndz_NodeName = ndr_NodeName req,
                                 ndz_Phase = (if 0 < remaining then DrainPhaseEvicting else DrainPhaseDrained),
                                 ndz_PodsEvicted = evicted, ndz_PodsRemaining = remaining,
                                 ndz_Message = (if 0 < remaining
                                   then ''cordoned node; evicted '' @ Itoa (int evicted) @ '' pod(s), '' @ Itoa (int remaining) @ '' remaining''
                                   else ''cordoned node and evicted '' @ Itoa (int evicted) @ '' pod(s)'')\<rparr>, None), w4)))))"

section \<open>Lemmas\<close>

lemma gm_put_idem [simp]: "gm_put k v (gm_put k v m) = gm_put k v m"
  by (simp add: gm_put_def)

lemma gm_put_present: "gm_get m k = Some v \<Longrightarrow> gm_put k v m = m"
  unfolding gm_put_def by (induction m) (auto split: if_splits)

lemma evict_pods_count:
  "evict_pods api req grace ps e r w = ((e', r'), w') \<Longrightarrow>
   e' + r' + length (filter (\<lambda>p. is_kube_proxy p \<and> \<not> (ndr_IgnoreDaemonSets req \<and> isDaemonSetPod p)) ps) = e + r + length ps"
proof (induction ps arbitrary: e r w)
  case (Cons p ps)
  show ?case
  proof (cases "(ndr_IgnoreDaemonSets req \<and> isDaemonSetPod p) \<or> is_kube_proxy p")
    case True
    with Cons show ?thesis by (auto split: if_splits)
  next
    case False
    obtain x w1 where x: "ka_DeletePod api (pod_Namespace p) (pod_Name p) grace w = (x, w1)" by fastforce
    with False Cons show ?thesis by (cases x) auto
  qed
qed simp

lemma nodeDraining_cordoned [simp]: "nodeDraining (cordoned req n)"
proof -
  have "list_ex (\<lambda>e. tt_Key e = k) (appendTaint ts \<lparr>tt_Key = k, tt_Value = v, tt_Effect = ef\<rparr>)" for k ts v ef
    by (auto simp: appendTaint_def list_ex_iff)
  then show ?thesis by (simp add: nodeDraining_def cordoned_def)
qed

lemma appendTaint_idem: "appendTaint (appendTaint ts t) t' = appendTaint ts t"
  if "tt_Key t' = tt_Key t" "tt_Effect t' = tt_Effect t"
  using that by (auto simp: appendTaint_def list_ex_iff)

lemma provision_loop_result:
  "provision_loop api d ns spec vols acc w = (Some (Inr vs), w') \<Longrightarrow>
   map vs_Name vs = map vs_Name acc @ map vol_Name vols \<and>
   map vs_ClaimName vs = map vs_ClaimName acc @ map (\<lambda>v. pvcName (ws_Name spec) (vol_Name v)) vols"
  by (induction vols arbitrary: acc w) (fastforce split: option.splits prod.splits if_splits)+

lemma gm_get_workload_labels:
  assumes "gm_wf (ws_Labels spec)" and "ws_Tags spec = None" and "k = ''app'' \<or> k = ''managed-by''"
  shows "gm_get (workload_labels d spec) k =
    (case gm_get (ws_Labels spec) k of Some v \<Rightarrow> Some (TrimSpace v)
     | None \<Rightarrow> gm_get [(''app'', ws_Name spec), (''managed-by'', ''kranix'')] k)"
proof -
  have base: "fold (\<lambda>(k, v) m. gm_put k v m) [(''app'', ws_Name spec), (''managed-by'', ''kranix'')] [] =
      [(''app'', ws_Name spec), (''managed-by'', ''kranix'')]" by (simp add: gm_put_def)
  have "TrimSpace k \<noteq> ''''" using assms(3) by (auto simp: TrimSpace_def is_space_def)
  then show ?thesis
    unfolding workload_labels_def mergeWorkloadLabels_def Let_def base
    using gm_get_fold_put [OF assms(1), of "\<lambda>k v. TrimSpace k \<noteq> ''''" TrimSpace] by (simp add: assms(2) split: option.split)
qed

section \<open>Properties\<close>

text \<open>
  A deployment is created in the namespace of the spec, but its status is read in the
  default namespace of the driver. When the workload is not there, \<open>Deploy\<close> reports an
  error although it has created the deployment.
\<close>

theorem deploy_reads_default_namespace:
  assumes "\<not> cronScheduleActive spec"
    and "createDeployment api d spec w = (Some (Inr dep), spec', w1)"
    and "ka_GetCronJob api (kd_namespace d) (dep_Name dep) w1 = (Inl e, w2)" and "ka_IsNotFound api e"
    and "ka_GetDeployment api (kd_namespace d) (dep_Name dep) w2 = (Inl e', w3)"
  shows "Deploy api d now spec w = (Some (Inl (Wrapf ''failed to get deployment: '' e' '''')), spec', w3)"
  using assms by (simp add: Deploy_def GetStatus_def getDeploymentStatus_def)

text \<open>
  The smallest cluster with the documented answers: deployments and claims by namespace and
  name. It instantiates the API parameter in the examples; it is no part of the program.
\<close>

record cluster =
  cl_deployments :: "(string \<times> string, deployment) gomap"
  cl_claims :: "(string \<times> string, pvc) gomap"

definition missing :: "string \<Rightarrow> go_error" where "missing name = Errorf (quoted name @ '' not found'')"

definition cluster_api :: "cluster kube_api" where
  "cluster_api =
     \<lparr>ka_IsNotFound = (\<lambda>e. HasSuffix (error_string e) ''not found''),
      ka_CreateNamespace = (\<lambda>n w. (None, w)),
      ka_CreatePVC = (\<lambda>ns p w. if gm_get (cl_claims w) (ns, pvc_Name p) \<noteq> None
        then (('''', Some (Errorf (quoted (pvc_Name p) @ '' already exists''))), w)
        else ((''Pending'', None), w\<lparr>cl_claims := gm_put (ns, pvc_Name p) p (cl_claims w)\<rparr>)),
      ka_DeletePVC = (\<lambda>ns n w. (None, w\<lparr>cl_claims := gm_del (ns, n) (cl_claims w)\<rparr>)),
      ka_ListPVC = (\<lambda>ns sel w. (Inr (map (snd \<circ> fst) (filter (\<lambda>e. fst (fst e) = ns) (cl_claims w))), w)),
      ka_CreateDeployment = (\<lambda>ns dep w. if gm_get (cl_deployments w) (ns, dep_Name dep) \<noteq> None
        then (Inl (Errorf (quoted (dep_Name dep) @ '' already exists'')), w)
        else (Inr dep, w\<lparr>cl_deployments := gm_put (ns, dep_Name dep) dep (cl_deployments w)\<rparr>)),
      ka_GetDeployment = (\<lambda>ns n w. (case gm_get (cl_deployments w) (ns, n) of
         None \<Rightarrow> Inl (missing n) | Some dep \<Rightarrow> if dep_Name dep = n then Inr dep else Inl (missing n), w)),
      ka_UpdateDeployment = (\<lambda>ns dep w. if gm_get (cl_deployments w) (ns, dep_Name dep) = None then (Some (missing (dep_Name dep)), w)
        else (None, w\<lparr>cl_deployments := gm_put (ns, dep_Name dep) dep (cl_deployments w)\<rparr>)),
      ka_DeleteDeployment = (\<lambda>ns n w. if gm_get (cl_deployments w) (ns, n) = None then (Some (missing n), w)
        else (None, w\<lparr>cl_deployments := gm_del (ns, n) (cl_deployments w)\<rparr>)),
      ka_ListDeployments = (\<lambda>ns w. (Inr (map snd (filter (\<lambda>e. fst (fst e) = ns) (cl_deployments w))), w)),
      ka_CreateCronJob = (\<lambda>ns c w. (Inr c, w)), ka_GetCronJob = (\<lambda>ns n w. (Inl (missing n), w)),
      ka_UpdateCronJob = (\<lambda>ns c w. (None, w)), ka_DeleteCronJob = (\<lambda>ns n w. (Some (missing n), w)),
      ka_CreateNetworkPolicy = (\<lambda>ns p w. (None, w)), ka_ListPods = (\<lambda>ns sel w. (Inr [], w)),
      ka_ListPodsOnNode = (\<lambda>n w. (Inr [\<lparr>pod_Name = ''p1'', pod_Namespace = ''shop'', pod_Labels = [], pod_OwnerKinds = [''ReplicaSet'']\<rparr>], w)),
      ka_DeletePod = (\<lambda>ns n g w. (None, w)), ka_ListNodes = (\<lambda>w. (Inr [], w)),
      ka_GetNode = (\<lambda>n w. (Inr \<lparr>nd_Name = n, nd_Labels = [], nd_Unschedulable = False, nd_Taints = [], nd_Conditions = [(''Ready'', ''True'')]\<rparr>, w)),
      ka_UpdateNode = (\<lambda>n w. (None, w)), ka_ServerVersion = (\<lambda>w. (None, w))\<rparr>"

definition demo_driver :: kube_driver where
  "demo_driver = \<lparr>kd_AutoCleanupOnDestroy = False, kd_namespace = ''default'', kd_tc = demo_tc, kd_MustParse = Some\<rparr>"

definition demo_web :: workload_spec where
  "demo_web = zero_spec\<lparr>ws_Name := ''web'', ws_Namespace := ''shop'', ws_Image := ''nginx'', ws_Replicas := 3\<rparr>"

definition empty_cluster :: cluster where "empty_cluster = \<lparr>cl_deployments = [], cl_claims = []\<rparr>"

lemma demo_pod:
  "\<exists>pod spec'. workloadPodSpec demo_tc Some demo_web = (Some (Inr pod), spec') \<and> ws_Name spec' = ''web''"
proof -
  obtain r spec' where w: "workloadPodSpec demo_tc Some demo_web = (r, spec')" by fastforce
  have "r \<noteq> None" "\<forall>e. r \<noteq> Some (Inl e)" "ws_Name spec' = ''web''"
    using w by (auto simp: workloadPodSpec_def workloadContainer_def put_quantity_def
        ApplyArchitectureScheduling_def ApplyNodePlacement_def Let_def demo_web_def zero_spec_def zero_resources_def
        BuildKubernetesResourceRequirements_def split: if_splits)
  with w show ?thesis by (cases r) (auto, metis sumE)
qed

lemma demo_created:
  "\<exists>dep spec'. createDeployment cluster_api demo_driver demo_web empty_cluster =
     (Some (Inr dep), spec', empty_cluster\<lparr>cl_deployments := [((''shop'', ''web''), dep)]\<rparr>) \<and> dep_Name dep = ''web'' \<and> dep_Replicas dep = Some 3"
proof -
  obtain pod spec' where p: "workloadPodSpec demo_tc Some demo_web = (Some (Inr pod), spec')" "ws_Name spec' = ''web''"
    using demo_pod by blast
  from p(1) have "ws_Replicas spec' = 3"
    by (auto simp: workloadPodSpec_def Let_def ApplyArchitectureScheduling_def ApplyNodePlacement_def demo_web_def
        split: option.splits sum.splits if_splits)
  with p show ?thesis
    by (simp add: createDeployment_def ensureNamespace_def Provision_def doneP_def cluster_api_def demo_driver_def
        empty_cluster_def deployment_of_def ensureCrossNamespaceNetworkPolicy_def demo_web_def zero_spec_def
        default_ns_def gm_put_def i32_id Let_def)
qed

theorem deploy_reads_default_namespace_witness:
  "\<exists>e spec' w. Deploy cluster_api demo_driver 0 demo_web empty_cluster = (Some (Inl e), spec', w) \<and>
     map fst (cl_deployments w) = [(''shop'', ''web'')]"
proof -
  let ?w = "\<lambda>dep. empty_cluster\<lparr>cl_deployments := [((''shop'', ''web''), dep)]\<rparr>"
  obtain dep spec' where c: "createDeployment cluster_api demo_driver demo_web empty_cluster = (Some (Inr dep), spec', ?w dep)"
    and n: "dep_Name dep = ''web''" using demo_created by blast
  have cr: "\<not> cronScheduleActive demo_web" by (simp add: cronScheduleActive_def demo_web_def zero_spec_def)
  have "ka_GetCronJob cluster_api (kd_namespace demo_driver) (dep_Name dep) (?w dep) = (Inl (missing ''web''), ?w dep)"
    "ka_IsNotFound cluster_api (missing ''web'')"
    "ka_GetDeployment cluster_api (kd_namespace demo_driver) (dep_Name dep) (?w dep) = (Inl (missing ''web''), ?w dep)"
    by (simp_all add: cluster_api_def demo_driver_def n missing_def quoted_def HasSuffix_def HasPrefix_def)
  from deploy_reads_default_namespace [OF cr c this] show ?thesis by simp
qed

text \<open>
  A restart marks the pod template with the constant \<open>now\<close>. Once a deployment carries
  that mark, a further restart submits the object exactly as it was read: the cluster sees
  no change, so no pod is restarted, and the call still succeeds.
\<close>

theorem second_restart_changes_nothing:
  assumes "ka_GetCronJob api (kd_namespace d) name w = (Inl e, w1)" and "ka_IsNotFound api e"
    and "ka_GetDeployment api (kd_namespace d) name w1 = (Inr dep, w2)"
    and "dep_TemplateAnnotations dep = annotate ''now'' a"
  shows "Restart api d stamp name w = ka_UpdateDeployment api (kd_namespace d) dep w2"
proof -
  have "annotate ''now'' (dep_TemplateAnnotations dep) = dep_TemplateAnnotations dep"
    using assms(4) by (simp add: annotate_def)
  then have "dep\<lparr>dep_TemplateAnnotations := annotate ''now'' (dep_TemplateAnnotations dep)\<rparr> = dep" by simp
  with assms(1-3) show ?thesis by (simp only: Restart_def restartDeployment_def prod.case sum.case not_True_eq_False if_False)
qed

theorem second_restart_changes_nothing_witness:
  "\<exists>dep. gm_get (cl_deployments (snd (Restart cluster_api demo_driver ''t'' ''web''
        (empty_cluster\<lparr>cl_deployments := [((''default'', ''web''), dep)]\<rparr>)))) (''default'', ''web'') = Some dep \<and>
     dep_Name dep = ''web''"
proof -
  obtain dep0 :: deployment where n0: "dep_Name dep0 = ''web''" using demo_created by blast
  define dep where "dep = dep0\<lparr>dep_TemplateAnnotations := annotate ''now'' None\<rparr>"
  let ?w = "empty_cluster\<lparr>cl_deployments := [((''default'', ''web''), dep)]\<rparr>"
  have "ka_GetCronJob cluster_api (kd_namespace demo_driver) ''web'' ?w = (Inl (missing ''web''), ?w)"
    "ka_IsNotFound cluster_api (missing ''web'')"
    "ka_GetDeployment cluster_api (kd_namespace demo_driver) ''web'' ?w = (Inr dep, ?w)"
    "dep_TemplateAnnotations dep = annotate ''now'' None"
    by (simp_all add: cluster_api_def demo_driver_def missing_def quoted_def HasSuffix_def HasPrefix_def dep_def n0)
  from second_restart_changes_nothing [OF this, of "''t''"] have
    "gm_get (cl_deployments (snd (Restart cluster_api demo_driver ''t'' ''web'' ?w))) (''default'', ''web'') = Some dep"
    by (simp add: cluster_api_def demo_driver_def dep_def n0)
  moreover have "dep_Name dep = ''web''" by (simp add: dep_def n0)
  ultimately show ?thesis by blast
qed


definition demo_drain :: node_drain_request where
  "demo_drain = \<lparr>ndr_NodeName = ''n1'', ndr_Reason = '''', ndr_GracePeriodSeconds = 0, ndr_IgnoreDaemonSets = True\<rparr>"


text \<open>
  A cordoned node is seen as draining and unschedulable, its health score is at most
  65 however healthy it was, and cordoning it once more leaves its taints unchanged.
\<close>

theorem cordoned_node_scores_low:
  "nhr_Draining (scoreNode (cordoned req n) t) \<and> nhr_Unschedulable (scoreNode (cordoned req n) t) \<and>
   nhr_Score (scoreNode (cordoned req n) t) \<le> 65 \<and>
   nd_Taints (cordoned req' (cordoned req n)) = nd_Taints (cordoned req n)"
proof -
  have u: "nd_Unschedulable (cordoned req n)" by (simp add: cordoned_def)
  have "nd_Taints (cordoned req' (cordoned req n)) = nd_Taints (cordoned req n)"
    by (simp add: cordoned_def appendTaint_idem)
  then show ?thesis using u by (simp add: scoreNode_def Let_def node_score_penalty node_penalty_def)
qed

text \<open>
  A suspended cron schedule does not keep the workload from running: the spec is
  deployed exactly as if it had no schedule, as a deployment that starts at once.
\<close>

theorem suspended_schedule_runs_now:
  assumes "ws_CronSchedule spec = Some c" and "cron_Suspended c"
  shows "fst (Deploy api d now spec w) = fst (Deploy api d now (spec\<lparr>ws_CronSchedule := None\<rparr>) w) \<and>
    snd (snd (Deploy api d now spec w)) = snd (snd (Deploy api d now (spec\<lparr>ws_CronSchedule := None\<rparr>) w))"
proof -
  let ?s = "spec\<lparr>ws_CronSchedule := None\<rparr>"
  have pl: "\<exists>s'. workloadPodSpec (kd_tc d) (kd_MustParse d) ?s = (fst (workloadPodSpec (kd_tc d) (kd_MustParse d) spec), s') \<and>
      s' = (snd (workloadPodSpec (kd_tc d) (kd_MustParse d) spec))\<lparr>ws_CronSchedule := None\<rparr>"
  proof -
    let ?f = "\<lambda>x :: workload_spec. x\<lparr>ws_CronSchedule := None\<rparr>"
    have a: "ApplyNodePlacement ?s = ?f (ApplyNodePlacement spec)"
      by (simp add: ApplyNodePlacement_def Let_def scheduling_of_def)
    have rs: "ResolveArchitecture tc (?f x) = ResolveArchitecture tc x" "scheduling_of (?f x) = scheduling_of x" for tc x
      by (simp_all add: ResolveArchitecture_def scheduling_of_def split: option.split)
    have b: "ApplyArchitectureScheduling tc (?f x) = ?f (ApplyArchitectureScheduling tc x)" for tc x
      by (simp add: ApplyArchitectureScheduling_def Let_def rs)
    have c: "workloadContainer mp (?f x) = workloadContainer mp x" for mp x
      by (simp add: workloadContainer_def Let_def cong: option.case_cong sum.case_cong)
    have t: "mergeSpotTolerations (?f x) = mergeSpotTolerations x" "reschedules (?f x) = reschedules x" for x
      by (simp_all add: mergeSpotTolerations_def reschedules_def)
    have sc: "ws_Scheduling (?f x) = ws_Scheduling x" for x by simp
    show ?thesis unfolding workloadPodSpec_def Let_def a b c t sc by simp
  qed
  have prov: "provision_loop api d ns ?s vols acc w = provision_loop api d ns spec vols acc w" for ns vols acc w
    by (induction vols arbitrary: acc w)
      (simp_all add: volume_claim_def cong: option.case_cong prod.case_cong if_cong)
  then have prov': "Provision api d ?s = Provision api d spec" by (rule_tac ext) (simp add: Provision_def bindP_def)
  have dep: "deployment_of d (x\<lparr>ws_CronSchedule := None\<rparr>) pod = deployment_of d x pod" for x pod
    by (simp add: deployment_of_def workload_labels_def mergeWorkloadLabels_def ApplyPodAnnotations_def
        managed_bandwidth_def add_volumes_def PodVolumes_def)
  have cd: "fst (createDeployment api d ?s w) = fst (createDeployment api d spec w) \<and>
      snd (snd (createDeployment api d ?s w)) = snd (snd (createDeployment api d spec w))"
    using pl unfolding createDeployment_def Let_def prov'
    by (cases "workloadPodSpec (kd_tc d) (kd_MustParse d) spec")
      (auto simp: dep split: option.splits sum.splits prod.splits)
  have "\<not> cronScheduleActive spec" "\<not> cronScheduleActive ?s"
    using assms by (auto simp: cronScheduleActive_def)
  with cd show ?thesis
    unfolding Deploy_def by (auto split: option.splits sum.splits prod.splits)
qed

theorem suspended_schedule_runs_now_witness:
  "fst (Deploy cluster_api demo_driver 0 (demo_web\<lparr>ws_CronSchedule := Some \<lparr>cron_Schedule = ''0 3 * * *'',
      cron_Suspended = True, cron_ConcurrencyPolicy = '''', cron_TimeZone = ''''\<rparr>\<rparr>) empty_cluster) =
   fst (Deploy cluster_api demo_driver 0 (demo_web\<lparr>ws_CronSchedule := None\<rparr>) empty_cluster)"
proof -
  let ?c = "\<lparr>cron_Schedule = ''0 3 * * *'', cron_Suspended = True, cron_ConcurrencyPolicy = '''', cron_TimeZone = ''''\<rparr>"
  from suspended_schedule_runs_now [of "demo_web\<lparr>ws_CronSchedule := Some ?c\<rparr>" ?c cluster_api demo_driver 0 empty_cluster]
  show ?thesis by simp
qed

text \<open>
  The selector of a deployment matches its own pod template exactly when the user did
  not set the label \<open>app\<close> to another value: such a label overwrites the one that the
  selector asks for.
\<close>

theorem selector_matches_unless_app_overridden:
  assumes "gm_wf (ws_Labels spec)" and "ws_Tags spec = None"
  shows "list_all (\<lambda>(k, v). gm_get (dep_TemplateLabels (deployment_of d spec pod)) k = Some v)
      (dep_Selector (deployment_of d spec pod)) =
    (case gm_get (ws_Labels spec) ''app'' of None \<Rightarrow> True | Some v \<Rightarrow> TrimSpace v = ws_Name spec)"
  using gm_get_workload_labels [OF assms, of "''app''" d] by (simp add: deployment_of_def split: option.split)

theorem selector_matches_unless_app_overridden_witness:
  "gm_get (dep_TemplateLabels (deployment_of demo_driver (demo_web\<lparr>ws_Labels := [(''app'', ''shop'')]\<rparr>) pod)) ''app'' \<noteq> Some ''web''"
  using selector_matches_unless_app_overridden [of "demo_web\<lparr>ws_Labels := [(''app'', ''shop'')]\<rparr>" demo_driver pod]
  by (simp add: deployment_of_def demo_web_def zero_spec_def TrimSpace_def is_space_def)

text \<open>
  A claim that exists already is not recognised: the server's message says \<open>already
  exists\<close>, the code looks for \<open>AlreadyExists\<close>. So deploying a workload with a volume again
  fails at its first existing claim, before any deployment is created.
\<close>

theorem redeploy_fails_on_existing_claim:
  assumes "ws_Volumes spec = vol # vols" and "kd_MustParse d (if vol_Size vol = '''' then ''1Gi'' else vol_Size vol) = Some q"
    and "ka_CreatePVC api (default_ns d (ws_Namespace spec)) (volume_claim (default_ns d (ws_Namespace spec)) spec vol q)
        (ensureNamespace api (ws_Namespace spec) w) = ((phase, Some e), w1)"
    and "\<not> Contains (error_string e) ''AlreadyExists''"
  shows "createDeployment api d spec w =
    (Some (Inl (Wrapf (''create pvc '' @ pvcName (ws_Name spec) (vol_Name vol) @ '': '') e '''')), spec, w1)"
  using assms by (simp add: createDeployment_def Provision_def bindP_def alreadyExists_def)

definition demo_volume :: volume_spec where
  "demo_volume = \<lparr>vol_Name = ''data'', vol_Size = '''', vol_AccessMode = '''', vol_StorageClass = '''', vol_MountPath = '''',
     vol_AutoCleanup = False\<rparr>"

theorem redeploy_fails_on_existing_claim_witness:
  "\<exists>e. fst (createDeployment cluster_api demo_driver (demo_web\<lparr>ws_Volumes := [demo_volume]\<rparr>)
     (empty_cluster\<lparr>cl_claims := [((''shop'', pvcName ''web'' ''data''), p)]\<rparr>)) = Some (Inl e)"
proof -
  let ?s = "demo_web\<lparr>ws_Volumes := [demo_volume]\<rparr>"
  let ?w = "empty_cluster\<lparr>cl_claims := [((''shop'', pvcName ''web'' ''data''), p)]\<rparr>"
  have name: "pvcName ''web'' ''data'' = ''web-data-pvc''"
    by (simp add: pvcName_def sanitizeName_def replace_char_def ToLower_def TrimSpace_def is_space_def) code_simp
  let ?e = "Errorf (quoted (pvcName ''web'' ''data'') @ '' already exists'')"
  have c: "ka_CreatePVC cluster_api (default_ns demo_driver (ws_Namespace ?s))
      (volume_claim (default_ns demo_driver (ws_Namespace ?s)) ?s demo_volume ''1Gi'')
      (ensureNamespace cluster_api (ws_Namespace ?s) ?w) = (('''', Some ?e), ?w)"
    by (simp add: cluster_api_def ensureNamespace_def demo_web_def zero_spec_def default_ns_def volume_claim_def demo_volume_def)
  have "\<not> Contains (error_string ?e) ''AlreadyExists''"
    unfolding name by (simp add: quoted_def HasPrefix_def)
  from redeploy_fails_on_existing_claim [OF _ _ c this, of "[]"] show ?thesis
    by (simp add: demo_driver_def demo_volume_def)
qed

definition keeps_replicas :: "'w kube_api \<Rightarrow> bool" where
  "keeps_replicas api \<longleftrightarrow> (\<forall>ns name w dep w1 r w2 dep' w3.
     ka_GetDeployment api ns name w = (Inr dep, w1) \<longrightarrow>
     ka_UpdateDeployment api ns (dep\<lparr>dep_Replicas := r\<rparr>) w1 = (None, w2) \<longrightarrow>
     ka_GetDeployment api ns name w2 = (Inr dep', w3) \<longrightarrow> dep_Replicas dep' = r)"

text \<open>
  Scaling to zero and back: whatever the deployment's size was, a checkpoint that
  succeeds sets the replicas to 0 and a restore that succeeds sets them to 1; the size
  before the checkpoint is recorded nowhere.
\<close>

theorem restore_forgets_replicas:
  assumes "keeps_replicas api"
    and "CheckpointWorkload api d t creq s w = (Inr saved, s', w1)" and "creq_WorkloadID creq = rreq_WorkloadID rreq"
    and "creq_Namespace creq = rreq_Namespace rreq"
    and "RestoreWorkload api d now rreq w1 = (Inr res, w2)"
    and "ka_GetDeployment api (default_ns d (rreq_Namespace rreq)) (rreq_WorkloadID rreq) w2 = (Inr dep, w3)"
  shows "dep_Replicas dep = Some 1 \<and>
    (\<exists>stopped w4. ka_GetDeployment api (default_ns d (rreq_Namespace rreq)) (rreq_WorkloadID rreq) w1 = (Inr stopped, w4) \<and>
       dep_Replicas stopped = Some 0)"
proof -
  let ?ns = "default_ns d (rreq_Namespace rreq)" and ?id = "rreq_WorkloadID rreq"
  from assms(2-4) obtain dep0 w0 where c: "ka_GetDeployment api ?ns ?id w = (Inr dep0, w0)"
    "ka_UpdateDeployment api ?ns (dep0\<lparr>dep_Replicas := Some 0\<rparr>) w0 = (None, w1)"
    by (auto simp: CheckpointWorkload_def Let_def split: option.splits sum.splits prod.splits)
  from assms(5) obtain dep1 w4 where r: "ka_GetDeployment api ?ns ?id w1 = (Inr dep1, w4)"
    "ka_UpdateDeployment api ?ns (dep1\<lparr>dep_Replicas := Some 1\<rparr>) w4 = (None, w2)"
    by (auto simp: RestoreWorkload_def Let_def split: option.splits sum.splits prod.splits)
  have k: "ka_GetDeployment api ns name u = (Inr x, u1) \<Longrightarrow> ka_UpdateDeployment api ns (x\<lparr>dep_Replicas := n\<rparr>) u1 = (None, u2) \<Longrightarrow>
      ka_GetDeployment api ns name u2 = (Inr y, u3) \<Longrightarrow> dep_Replicas y = n" for ns name u x u1 n u2 y u3
    using assms(1) unfolding keeps_replicas_def by blast
  from k [OF c r(1)] have "dep_Replicas dep1 = Some 0" .
  moreover from k [OF r assms(6)] have "dep_Replicas dep = Some 1" .
  ultimately show ?thesis using r(1) by blast
qed

theorem restore_forgets_replicas_witness:
  "\<exists>dep0 saved s' w1 res w2 dep w3. dep_Replicas dep0 = Some 3 \<and>
     CheckpointWorkload cluster_api demo_driver (\<lambda>_. 0) \<lparr>creq_WorkloadID = ''web'', creq_Namespace = ''shop''\<rparr> []
       (empty_cluster\<lparr>cl_deployments := [((''shop'', ''web''), dep0)]\<rparr>) = (Inr saved, s', w1) \<and>
     RestoreWorkload cluster_api demo_driver 0 \<lparr>rreq_WorkloadID = ''web'', rreq_CheckpointID = '''', rreq_Namespace = ''shop''\<rparr> w1 =
       (Inr res, w2) \<and>
     ka_GetDeployment cluster_api ''shop'' ''web'' w2 = (Inr dep, w3) \<and> dep_Replicas dep = Some 1"
proof -
  obtain dep0 :: deployment where d0: "dep_Name dep0 = ''web''" "dep_Replicas dep0 = Some 3" using demo_created by blast
  let ?w = "\<lambda>n. empty_cluster\<lparr>cl_deployments := [((''shop'', ''web''), dep0\<lparr>dep_Replicas := Some n\<rparr>)]\<rparr>"
  let ?c = "\<lparr>creq_WorkloadID = ''web'', creq_Namespace = ''shop''\<rparr>"
  let ?r = "\<lparr>rreq_WorkloadID = ''web'', rreq_CheckpointID = '''', rreq_Namespace = ''shop''\<rparr>"
  have w: "empty_cluster\<lparr>cl_deployments := [((''shop'', ''web''), dep0)]\<rparr> = ?w 3" using d0(2) by (cases dep0) simp
  have keep: "keeps_replicas cluster_api"
    by (auto simp: keeps_replicas_def cluster_api_def split: option.splits if_splits)
  obtain saved s' where c: "CheckpointWorkload cluster_api demo_driver (\<lambda>_. 0) ?c [] (?w 3) = (Inr saved, s', ?w 0)"
    by (simp add: CheckpointWorkload_def ValidateCheckpoint_def cluster_api_def default_ns_def Let_def d0 gm_put_def
        Save_eq)
  obtain res where r: "RestoreWorkload cluster_api demo_driver 0 ?r (?w 0) = (Inr res, ?w 1)"
    by (simp add: RestoreWorkload_def ValidateRestore_def cluster_api_def default_ns_def Let_def d0 gm_put_def)
  have g: "ka_GetDeployment cluster_api (default_ns demo_driver (rreq_Namespace ?r)) (rreq_WorkloadID ?r) (?w 1) =
      (Inr (dep0\<lparr>dep_Replicas := Some 1\<rparr>), ?w 1)"
    by (simp add: cluster_api_def default_ns_def d0)
  have "dep_Replicas (dep0\<lparr>dep_Replicas := Some 1\<rparr>) = Some 1"
    using restore_forgets_replicas [OF keep c _ _ r g] by simp
  moreover from g have "ka_GetDeployment cluster_api ''shop'' ''web'' (?w 1) = (Inr (dep0\<lparr>dep_Replicas := Some 1\<rparr>), ?w 1)"
    by (simp add: default_ns_def)
  moreover have "dep_Replicas (dep0\<lparr>dep_Replicas := Some 3\<rparr>) = Some 3" by simp
  ultimately show ?thesis using c r by blast
qed

text \<open>
  The health report of the backend: the score is between 0 and 100, the backend is only
  called healthy when the version call has just succeeded and the score is at least 50, and
  the tracker holds two samples for the one call, because \<open>Ping\<close> records it as well.
\<close>

theorem backend_health_counts_ping_twice:
  assumes "ListBackendHealth api ms1 ms2 t (Some tracker) w = ([report], Some tracker', w')"
  shows "0 \<le> bhr_Score report \<and> bhr_Score report \<le> 100 \<and>
    (if bhr_Healthy report then fst (ka_ServerVersion api w) = None \<and> 50 \<le> bhr_Score report else True) \<and>
    bt_samples tracker' = filter (\<lambda>s. t 4 - bt_window tracker < smp_at s)
      (bt_samples (Record (t 2) (t 3) ms2 (fst (ka_ServerVersion api w) \<noteq> None)
        (Record (t 0) (t 1) ms1 (fst (ka_ServerVersion api w) \<noteq> None) tracker)))"
proof -
  let ?f = "fst (ka_ServerVersion api w) \<noteq> None"
  let ?tr = "Record (t 2) (t 3) ms2 ?f (Record (t 0) (t 1) ms1 ?f tracker)"
  obtain l r tr' where s: "Snapshot (t 4) ?tr = ((l, r), tr')" by (metis prod.exhaust)
  then have tr': "tr' = pruneLocked (t 4) ?tr" by (auto simp: Snapshot_def Let_def split: if_splits)
  from assms s have rep: "bhr_Score report = ScoreFromSignals l r" "tracker' = tr'"
    "bhr_Healthy report = (50 \<le> ScoreFromSignals l r \<and> \<not> ?f)"
    by (auto simp: ListBackendHealth_def Ping_def Let_def split: prod.splits)
  have "0 \<le> ScoreFromSignals l r \<and> ScoreFromSignals l r \<le> 100"
    using clampScore_bounds by (simp add: ScoreFromSignals_def Let_def)
  with rep tr' show ?thesis by (simp add: pruneLocked_filter [of "t 4"])
qed

theorem backend_health_counts_ping_twice_witness:
  "\<exists>report tracker'. ListBackendHealth cluster_api 10 20 (\<lambda>i. 100) (Some (NewBackendTracker 50 100)) empty_cluster =
     ([report], Some tracker', empty_cluster) \<and> length (bt_samples tracker') = 2"
proof -
  let ?tr = "run_records [(100, 100, 10, False), (100, 100, 20, False)] (NewBackendTracker 50 100)"
  have smp: "bt_samples ?tr = history [(100, 100, 10, False), (100, 100, 20, False)]"
    by (subst run_records_new) (simp_all add: readings_def history_def)
  obtain l r tr where sn: "Snapshot 100 ?tr = ((l, r), tr)" by (metis prod.exhaust)
  then obtain rep where l: "ListBackendHealth cluster_api 10 20 (\<lambda>i. 100) (Some (NewBackendTracker 50 100)) empty_cluster =
      ([rep], Some tr, empty_cluster)"
    by (simp add: ListBackendHealth_def Ping_def cluster_api_def Let_def)
  from backend_health_counts_ping_twice [OF l]
  have "bt_samples tr = filter (\<lambda>s. 100 - bt_window (NewBackendTracker 50 100) < smp_at s) (bt_samples ?tr)"
    by (simp add: cluster_api_def)
  also have "\<dots> = history [(100, 100, 10, False), (100, 100, 20, False)]"
    unfolding smp by (simp add: history_def NewBackendTracker_def)
  finally show ?thesis using l by (auto simp: history_def)
qed

end
