(* ===== verification/Kubernetes_Backend.thy ===== *)
theory Kubernetes_Backend
  imports Kubernetes_Driver Config
begin

text \<open>
  The Kubernetes driver as a backend: its construction (\<open>kubernetes.New\<close>) from the configuration,
  the driver behind the \<open>RuntimeDriver\<close> interface, and what holds of a deployment outside the
  driver's own namespace. The client-go calls of \<open>New\<close> are the parameter \<open>go\<close>.
\<close>

section \<open>Construction\<close>

record ('c, 'w) client_go =
  cgo_BuildConfigFromFlags :: "string \<Rightarrow> 'c result"
  cgo_InClusterConfig :: "'c result"
  cgo_ContextConfig :: "string \<Rightarrow> 'c result"
  cgo_NewForConfig :: "'c \<Rightarrow> 'w kube_api result"

record 'w kube_backend =
  kb_api :: "'w kube_api"
  kb_driver :: kube_driver
  kb_tracker :: backend_tracker
  kb_checkpoints :: store

definition base_config :: "('c, 'w) client_go \<Rightarrow> config \<Rightarrow> 'c result" where
  "base_config go cfg =
     (if kc_Kubeconfig (cfg_Kubernetes cfg) \<noteq> '''' then cgo_BuildConfigFromFlags go (kc_Kubeconfig (cfg_Kubernetes cfg))
      else cgo_InClusterConfig go)"

definition kubernetes_New ::
  "('c, 'w) client_go \<Rightarrow> types_constants \<Rightarrow> (string \<Rightarrow> quantity option) \<Rightarrow> config \<Rightarrow> 'w kube_backend result" where
  "kubernetes_New go tc MustParse cfg =
     (case base_config go cfg of
        Inl e \<Rightarrow> Inl (Wrapf ''failed to get Kubernetes config: '' e '''')
      | Inr c0 \<Rightarrow>
          (let ctx = kc_Context (cfg_Kubernetes cfg) in
           case (if ctx \<noteq> '''' then cgo_ContextConfig go ctx else Inr c0) of
             Inl e \<Rightarrow> Inl (Wrapf (''failed to use context '' @ ctx @ '': '') e '''')
           | Inr c \<Rightarrow>
               (case cgo_NewForConfig go c of
                  Inl e \<Rightarrow> Inl (Wrapf ''failed to create Kubernetes client: '' e '''')
                | Inr api \<Rightarrow>
                    Inr \<lparr>kb_api = api,
                      kb_driver = \<lparr>kd_AutoCleanupOnDestroy = vc_AutoCleanupOnDestroy (cfg_Volumes cfg),
                        kd_namespace = (if kc_DefaultNamespace (cfg_Kubernetes cfg) = '''' then ''default''
                                        else kc_DefaultNamespace (cfg_Kubernetes cfg)),
                        kd_tc = tc, kd_MustParse = MustParse\<rparr>,
                      kb_tracker = NewBackendTracker (5 * Minute) 100, kb_checkpoints = NewStore\<rparr>)))"

section \<open>The driver behind the interface\<close>

text \<open>
  The outside state is the cluster with the tracker. \<open>now\<close> is the clock of the calls, \<open>ms\<close> the
  measured latency of a ping. A panic ends the process; behind the interface it is an error.
\<close>

definition caught :: "'a result option \<Rightarrow> 'a result" where
  "caught r = (case r of None \<Rightarrow> Inl (Errorf ''panic'') | Some x \<Rightarrow> x)"

definition kubernetes_runtime ::
  "'w kube_api \<Rightarrow> kube_driver \<Rightarrow> ('w \<Rightarrow> instant) \<Rightarrow> (instant \<Rightarrow> string) \<Rightarrow> rat \<Rightarrow> ('w \<times> backend_tracker option) runtime_driver" where
  "kubernetes_runtime api d now stamp ms =
     \<lparr>drv_Deploy = (\<lambda>spec (w, tr). case Deploy api d (now w) spec w of (r, spec', w') \<Rightarrow> (caught r, spec', w', tr)),
      drv_Destroy = (\<lambda>x (w, tr). case Destroy api d x w of (e, w') \<Rightarrow> (e, w', tr)),
      drv_Restart = (\<lambda>x (w, tr). case Restart api d (stamp (now w)) x w of (e, w') \<Rightarrow> (e, w', tr)),
      drv_GetStatus = (\<lambda>x (w, tr). case GetStatus api d (now w) x w of (r, w') \<Rightarrow> (caught r, w', tr)),
      drv_ListWorkloads = (\<lambda>ns (w, tr). case ListWorkloads api d ns w of (r, w') \<Rightarrow> (caught r, w', tr)),
      drv_Ping = (\<lambda>(w, tr). case Ping api ms (\<lambda>i. now w) tr w of (e, tr', w') \<Rightarrow> (e, w', tr')),
      drv_Backend = ''kubernetes''\<rparr>"

text \<open>
  What the API server promises about a name that is absent from the driver's namespace: the
  reads say so, and creating objects elsewhere does not make it appear (\<open>P\<close> is preserved).
\<close>

definition absent_in_default :: "'w kube_api \<Rightarrow> kube_driver \<Rightarrow> string \<Rightarrow> ('w \<Rightarrow> bool) \<Rightarrow> bool" where
  "absent_in_default api d name P \<longleftrightarrow>
     (\<forall>w. P w \<longrightarrow> (\<exists>e w1. ka_GetCronJob api (kd_namespace d) name w = (Inl e, w1) \<and> ka_IsNotFound api e \<and> P w1)) \<and>
     (\<forall>w. P w \<longrightarrow> \<not> is_ok (fst (ka_GetDeployment api (kd_namespace d) name w))) \<and>
     (\<forall>n w. P w \<longrightarrow> P (snd (ka_CreateNamespace api n w))) \<and>
     (\<forall>ns p w. P w \<longrightarrow> P (snd (ka_CreatePVC api ns p w))) \<and>
     (\<forall>ns p w. P w \<longrightarrow> P (snd (ka_CreateNetworkPolicy api ns p w))) \<and>
     (\<forall>ns dep w. P w \<and> ns \<noteq> kd_namespace d \<longrightarrow> P (snd (ka_CreateDeployment api ns dep w))) \<and>
     (\<forall>ns c w. P w \<and> ns \<noteq> kd_namespace d \<longrightarrow> P (snd (ka_CreateCronJob api ns c w))) \<and>
     (\<forall>ns dep w dep' w'. ka_CreateDeployment api ns dep w = (Inr dep', w') \<longrightarrow> dep_Name dep' = dep_Name dep)"

section \<open>Lemmas\<close>

lemma name_workloadPodSpec: "workloadPodSpec tc mp spec = (r, spec') \<Longrightarrow> ws_Name spec' = ws_Name spec"
  by (auto simp: workloadPodSpec_def Let_def ApplyArchitectureScheduling_def ApplyNodePlacement_def split: if_splits)

lemma absent_laws:
  assumes "absent_in_default api d name P"
  shows absent_Cron: "P w \<Longrightarrow> \<exists>e w1. ka_GetCronJob api (kd_namespace d) name w = (Inl e, w1) \<and> ka_IsNotFound api e \<and> P w1"
    and absent_Get: "P w \<Longrightarrow> \<not> is_ok (fst (ka_GetDeployment api (kd_namespace d) name w))"
    and absent_Namespace: "P w \<Longrightarrow> P (snd (ka_CreateNamespace api n w))"
    and absent_PVC: "P w \<Longrightarrow> P (snd (ka_CreatePVC api ns p w))"
    and absent_Policy: "P w \<Longrightarrow> P (snd (ka_CreateNetworkPolicy api ns np w))"
    and absent_Deployment: "P w \<Longrightarrow> ns \<noteq> kd_namespace d \<Longrightarrow> P (snd (ka_CreateDeployment api ns dep w))"
    and absent_CronJob: "P w \<Longrightarrow> ns \<noteq> kd_namespace d \<Longrightarrow> P (snd (ka_CreateCronJob api ns c w))"
    and absent_name: "ka_CreateDeployment api ns dep w = (Inr dep', w') \<Longrightarrow> dep_Name dep' = dep_Name dep"
  using assms unfolding absent_in_default_def by (simp_all, blast)

lemma absent_provision_loop:
  assumes "absent_in_default api d name P"
  shows "P w \<Longrightarrow> P (snd (provision_loop api d ns spec vols acc w))"
proof (induction vols arbitrary: acc w)
  case (Cons vol vols)
  show ?case
  proof (cases "kd_MustParse d (if vol_Size vol = '''' then ''1Gi'' else vol_Size vol)")
    case (Some q)
    obtain r w1 where c: "ka_CreatePVC api ns (volume_claim ns spec vol q) w = (r, w1)" by (metis surj_pair)
    have "P w1" using absent_PVC [OF assms Cons.prems, of ns "volume_claim ns spec vol q"] c by simp
    with Some c Cons.prems Cons.IH show ?thesis by (auto split: prod.split option.split)
  qed (use Cons.prems in simp)
qed simp

lemma absent_Provision:
  assumes "absent_in_default api d name P" and "P w"
  shows "P (snd (Provision api d spec w))"
proof (cases "length (ws_Volumes spec) = 0")
  case False
  then show ?thesis
    using absent_provision_loop [OF assms, of "default_ns d (ws_Namespace spec)" spec "ws_Volumes spec" "[]"]
    by (auto simp: Provision_def bindP_def doneP_def split: prod.splits option.splits sum.splits)
qed (use assms in \<open>simp add: Provision_def doneP_def\<close>)

lemma absent_policy_step:
  assumes "absent_in_default api d name P" and "P w"
  shows "P (snd (ensureCrossNamespaceNetworkPolicy api ns n sel policy w))"
  using assms absent_Policy [OF assms]
  by (auto simp: ensureCrossNamespaceNetworkPolicy_def Let_def split: option.splits sum.splits prod.splits)
    (metis snd_conv)+

lemma absent_GetStatus:
  assumes "absent_in_default api d name P" and "P w"
  shows "\<not> is_ok (caught (fst (GetStatus api d now name w)))"
proof -
  obtain e w1 where c: "ka_GetCronJob api (kd_namespace d) name w = (Inl e, w1)" "ka_IsNotFound api e" "P w1"
    using absent_Cron [OF assms] by blast
  obtain e' w2 where g: "ka_GetDeployment api (kd_namespace d) name w1 = (Inl e', w2)"
    using absent_Get [OF assms(1) c(3)] by (metis is_ok_simps(1) prod.collapse sum.exhaust)
  show ?thesis by (simp add: GetStatus_def c getDeploymentStatus_def g caught_def)
qed

lemma absent_createDeployment:
  assumes "absent_in_default api d name P" and "P w" and "default_ns d (ws_Namespace spec) \<noteq> kd_namespace d"
    and "createDeployment api d spec w = (Some (Inr dep), spec', w')"
  shows "P w' \<and> dep_Name dep = ws_Name spec"
proof -
  let ?ns = "default_ns d (ws_Namespace spec)"
  let ?w0 = "ensureNamespace api (ws_Namespace spec) w"
  have w0: "P ?w0" using absent_Namespace [OF assms(1,2)] assms(2) by (simp add: ensureNamespace_def)
  obtain vlr w1 where p: "Provision api d spec ?w0 = (Some (Inr vlr), w1)"
    using assms(4) by (auto simp: createDeployment_def Let_def split: prod.splits option.splits sum.splits)
  have w1: "P w1" using absent_Provision [OF assms(1) w0, of spec] p by simp
  obtain pod where q: "workloadPodSpec (kd_tc d) (kd_MustParse d) spec = (Some (Inr pod), spec')"
    using assms(4) p by (auto simp: createDeployment_def Let_def split: prod.splits option.splits sum.splits)
  obtain w2 where c: "ka_CreateDeployment api ?ns (deployment_of d spec' pod) w1 = (Inr dep, w2)"
    and n: "ensureCrossNamespaceNetworkPolicy api ?ns (ws_Name spec) (dep_TemplateLabels dep) (ws_CrossNamespaceTraffic spec) w2 = (None, w')"
    using assms(4) p q by (auto simp: createDeployment_def Let_def split: prod.splits option.splits sum.splits)
  have "P w2" using absent_Deployment [OF assms(1) w1 assms(3), of "deployment_of d spec' pod"] c by simp
  from absent_policy_step [OF assms(1) this] n have "P w'" by (metis snd_conv)
  moreover have "dep_Name dep = ws_Name spec"
    using absent_name [OF assms(1) c] name_workloadPodSpec [OF q] by (simp add: deployment_of_def)
  ultimately show ?thesis by simp
qed

lemma absent_createCronJob:
  assumes "absent_in_default api d name P" and "P w" and "default_ns d (ws_Namespace spec) \<noteq> kd_namespace d"
    and "createCronJob api d spec c w = (Some (Inr cj), spec', w')"
  shows "P w'"
proof -
  let ?ns = "default_ns d (ws_Namespace spec)"
  let ?w1 = "ensureNamespace api (ws_Namespace spec) w"
  have w1: "P ?w1" using absent_Namespace [OF assms(1,2)] assms(2) by (simp add: ensureNamespace_def)
  obtain pod where q: "workloadPodSpec (kd_tc d) (kd_MustParse d) spec = (Some (Inr pod), spec')"
    using assms(4) by (auto simp: createCronJob_def Let_def split: prod.splits option.splits sum.splits)
  obtain w2 where c: "ka_CreateCronJob api ?ns (cron_job_of d spec' c pod) ?w1 = (Inr cj, w2)"
    and n: "ensureCrossNamespaceNetworkPolicy api ?ns (ws_Name spec) (cj_PodLabels cj) (ws_CrossNamespaceTraffic spec) w2 = (None, w')"
    using assms(4) q by (auto simp: createCronJob_def Let_def split: prod.splits option.splits sum.splits)
  have "P w2" using absent_CronJob [OF assms(1) w1 assms(3), of "cron_job_of d spec' c pod"] c by simp
  from absent_policy_step [OF assms(1) this] n show "P w'" by (metis snd_conv)
qed

text \<open>A deployment into another namespace than the driver's own never reports success.\<close>

lemma deploy_elsewhere_fails:
  assumes "absent_in_default api d (ws_Name spec) P" and "P w" and "default_ns d (ws_Namespace spec) \<noteq> kd_namespace d"
  shows "\<not> is_ok (caught (fst (Deploy api d now spec w)))"
proof (cases "cronScheduleActive spec")
  case True
  obtain r spec' w1 where c: "createCronJob api d spec (the (ws_CronSchedule spec)) w = (r, spec', w1)" by (metis surj_pair)
  show ?thesis
  proof (cases "\<exists>cj. r = Some (Inr cj)")
    case active: True
    then obtain cj where r: "r = Some (Inr cj)" by blast
    from absent_createCronJob [OF assms] c r have "P w1" by blast
    with absent_GetStatus [OF assms(1), of w1 now] True c r show ?thesis
      by (auto simp: Deploy_def split: prod.split)
  next
    case err: False
    with True c show ?thesis by (auto simp: Deploy_def caught_def split: option.splits sum.splits)
  qed
next
  case False
  obtain r spec' w1 where c: "createDeployment api d spec w = (r, spec', w1)" by (metis surj_pair)
  show ?thesis
  proof (cases "\<exists>dep. r = Some (Inr dep)")
    case True
    then obtain dep where r: "r = Some (Inr dep)" by blast
    from absent_createDeployment [OF assms] c r have "P w1" "dep_Name dep = ws_Name spec" by auto
    with absent_GetStatus [OF assms(1), of w1 now] False c r show ?thesis
      by (auto simp: Deploy_def split: prod.split)
  next
    case err: False
    with False c show ?thesis by (auto simp: Deploy_def caught_def split: option.splits sum.splits)
  qed
qed

section \<open>Properties\<close>

text \<open>
  The namespace of a driver built from any configuration is never empty, and when a context
  is configured it alone selects the cluster: two configurations that differ only in the path
  of a readable kubeconfig give the same result.
\<close>

theorem context_overrides_kubeconfig:
  assumes "kc_Context (cfg_Kubernetes cfg) \<noteq> ''''" and "is_ok (base_config go cfg)"
    and "is_ok (base_config go (cfg\<lparr>cfg_Kubernetes := (cfg_Kubernetes cfg)\<lparr>kc_Kubeconfig := path\<rparr>\<rparr>))"
  shows "kubernetes_New go tc mp (cfg\<lparr>cfg_Kubernetes := (cfg_Kubernetes cfg)\<lparr>kc_Kubeconfig := path\<rparr>\<rparr>) = kubernetes_New go tc mp cfg \<and>
    (case kubernetes_New go tc mp cfg of Inl e \<Rightarrow> True | Inr b \<Rightarrow> kd_namespace (kb_driver b) \<noteq> '''')"
proof -
  obtain c c' where c: "base_config go cfg = Inr c"
    "base_config go (cfg\<lparr>cfg_Kubernetes := (cfg_Kubernetes cfg)\<lparr>kc_Kubeconfig := path\<rparr>\<rparr>) = Inr c'"
    using assms(2,3) by (auto simp: is_ok_def split: sum.splits)
  show ?thesis using assms(1) unfolding kubernetes_New_def c by (simp add: Let_def split: sum.split)
qed

end
