(* ===== verification/Cli_Drivers.thy ===== *)
theory Cli_Drivers
  imports Migration Kubernetes_Objects Runtime_Contract
begin

text \<open>
  The drivers that work through a command line: \<open>internal/podman/driver.go\<close>,
  \<open>internal/compose/driver.go\<close> and \<open>internal/remote/driver.go\<close>. Running a program is the
  parameter \<open>run\<close>: the argument vector gives the combined output and an error, if any, and
  may change the outside state \<open>'w\<close>. Over ssh the command is one string that the remote
  shell splits. Podman and Compose have no state of their own after construction; the
  remote driver keeps its connection.
\<close>

section \<open>The surroundings\<close>

type_synonym 'w runner = "string list \<Rightarrow> 'w \<Rightarrow> (string \<times> go_error option) \<times> 'w"

record os_env =
  os_LookPath :: "string \<Rightarrow> string result"
  os_Getuid :: int
  os_Getenv :: "string \<Rightarrow> string"
  os_HomeDir :: string

text \<open>\<open>filepath.Join\<close>: join the non-empty elements and clean the result lexically.\<close>

fun clean_parts :: "bool \<Rightarrow> string list \<Rightarrow> string list \<Rightarrow> string list" where
  "clean_parts rooted acc [] = rev acc"
| "clean_parts rooted acc (p # ps) =
     (if p = '''' \<or> p = ''.'' then clean_parts rooted acc ps
      else if p = ''..'' then
        (case acc of
           [] \<Rightarrow> clean_parts rooted (if rooted then [] else [''..'']) ps
         | a # as \<Rightarrow> clean_parts rooted (if a = ''..'' then ''..'' # acc else as) ps)
      else clean_parts rooted (p # acc) ps)"

definition Clean :: "string \<Rightarrow> string" where
  "Clean path =
     (let rooted = (path \<noteq> '''' \<and> hd path = CHR ''/'');
          s = join_with CHR ''/'' (clean_parts rooted [] (split_on CHR ''/'' path))
      in if rooted then CHR ''/'' # s else if s = '''' then ''.'' else s)"

definition filepath_Join :: "string list \<Rightarrow> string" where
  "filepath_Join elems =
     (let es = filter (\<lambda>e. e \<noteq> '''') elems in if es = [] then '''' else Clean (join_with CHR ''/'' es))"

definition cli_status :: "string \<Rightarrow> string \<Rightarrow> string \<Rightarrow> string \<Rightarrow> workload_status" where
  "cli_status ident name state img = zero_status\<lparr>wst_ID := ident, wst_Name := name, wst_State := state, wst_Image := img\<rparr>"

section \<open>Podman\<close>

record podman_driver =
  pod_rootless :: bool
  pod_daemonless :: bool
  pod_socketPath :: string
  pod_binary :: string

definition detectRootless :: "os_env \<Rightarrow> bool" where
  "detectRootless env = (os_Getuid env \<noteq> 0 \<or> os_Getenv env ''PODMAN_ROOTLESS'' = ''1'')"

definition podman_socket :: "os_env \<Rightarrow> config \<Rightarrow> bool \<Rightarrow> string" where
  "podman_socket env cfg rootless =
     (if pc_Socket (cfg_Podman cfg) \<noteq> '''' then pc_Socket (cfg_Podman cfg)
      else if rootless then
        (if os_Getenv env ''XDG_RUNTIME_DIR'' \<noteq> ''''
         then filepath_Join [os_Getenv env ''XDG_RUNTIME_DIR'', ''podman'', ''podman.sock'']
         else filepath_Join [os_HomeDir env, ''.local'', ''share'', ''podman'', ''podman.sock''])
      else ''/run/podman/podman.sock'')"

definition detectDaemonless :: bool where "detectDaemonless = True"

definition verifyPodman :: "'w runner \<Rightarrow> string \<Rightarrow> 'w proc" where
  "verifyPodman run binary w =
     (case run [binary, ''version''] w of
        ((out, Some e), w1) \<Rightarrow> (Some (Wrapf ''podman version check failed: '' e ''''), w1)
      | ((out, None), w1) \<Rightarrow> (None, w1))"

definition podman_New :: "'w runner \<Rightarrow> os_env \<Rightarrow> config \<Rightarrow> ('w, podman_driver) act" where
  "podman_New run env cfg w =
     (case os_LookPath env ''podman'' of
        Inl e \<Rightarrow> (Inl (Wrapf ''podman not found: '' e ''''), w)
      | Inr binary \<Rightarrow>
          (case verifyPodman run binary w of
             (Some e, w1) \<Rightarrow> (Inl (Wrapf ''podman verification failed: '' e ''''), w1)
           | (None, w1) \<Rightarrow>
               (Inr \<lparr>pod_rootless = detectRootless env, pod_daemonless = detectDaemonless,
                  pod_socketPath = podman_socket env cfg (detectRootless env), pod_binary = binary\<rparr>, w1)))"

definition mapPodmanState :: "string \<Rightarrow> string" where
  "mapPodmanState state =
     (let s = ToLower state
      in if s = ''running'' then ''Running'' else if s = ''exited'' \<or> s = ''stopped'' then ''Stopped''
         else if s = ''created'' then ''Pending'' else ''Unknown'')"

definition podman_run_args :: "podman_driver \<Rightarrow> workload_spec \<Rightarrow> string list" where
  "podman_run_args d spec =
     [''run'', ''-d'', ''--name'', ws_Name spec] @
     (if pod_rootless d then [''--userns'', ''keep-id''] else []) @
     (if rs_CPULimit (ws_Resources spec) \<noteq> '''' then [''--cpus'', rs_CPULimit (ws_Resources spec)] else []) @
     (if rs_MemoryLimit (ws_Resources spec) \<noteq> '''' then [''--memory'', rs_MemoryLimit (ws_Resources spec)] else []) @
     (case rs_GPU (ws_Resources spec) of
        Some g \<Rightarrow> if gpu_Vendor g = ''nvidia'' then [''--device'', ''nvidia.com/gpu='' @ Itoa (gpu_Count g)] else []
      | None \<Rightarrow> []) @
     concat (map (\<lambda>(k, v). [''-e'', k @ ''='' @ v]) (ws_Env spec)) @
     concat (map (\<lambda>p. [''-p'', Itoa (port_ContainerPort p) @ '':'' @ Itoa (port_ContainerPort p)]) (ws_Ports spec)) @
     [ws_Image spec]"

definition podman_GetStatus :: "'w runner \<Rightarrow> podman_driver \<Rightarrow> string \<Rightarrow> ('w, workload_status) act" where
  "podman_GetStatus run d workloadID w =
     (case run [pod_binary d, ''inspect'', workloadID, ''--format'', ''{{.State.Status}}''] w of
        ((out, Some e), w1) \<Rightarrow> (Inl (Wrapf ''podman inspect failed: '' e ''''), w1)
      | ((out, None), w1) \<Rightarrow>
          (case run [pod_binary d, ''inspect'', workloadID, ''--format'', ''{{.Config.Image}}''] w1 of
             ((out2, e2), w2) \<Rightarrow>
               (Inr (cli_status workloadID workloadID (mapPodmanState (TrimSpace out))
                  (if e2 = None then TrimSpace out2 else '''')), w2)))"

definition podman_Deploy :: "'w runner \<Rightarrow> podman_driver \<Rightarrow> workload_spec \<Rightarrow> ('w, workload_status) act" where
  "podman_Deploy run d spec w =
     (case run (pod_binary d # podman_run_args d spec) w of
        ((out, Some e), w1) \<Rightarrow> (Inl (Wrapf ''podman run failed: '' e ('', output: '' @ out)), w1)
      | ((out, None), w1) \<Rightarrow> podman_GetStatus run d (ws_Name spec) w1)"

definition podman_Destroy :: "'w runner \<Rightarrow> podman_driver \<Rightarrow> string \<Rightarrow> 'w proc" where
  "podman_Destroy run d workloadID w = (case run [pod_binary d, ''rm'', ''-f'', workloadID] w of ((out, e), w1) \<Rightarrow> (e, w1))"

definition podman_Restart :: "'w runner \<Rightarrow> podman_driver \<Rightarrow> string \<Rightarrow> 'w proc" where
  "podman_Restart run d workloadID w = (case run [pod_binary d, ''restart'', workloadID] w of ((out, e), w1) \<Rightarrow> (e, w1))"

definition tab :: char where "tab = CHR 0x09"
definition newline :: char where "newline = CHR 0x0A"

definition podman_parse_line :: "string \<Rightarrow> workload_status list" where
  "podman_parse_line line =
     (let parts = split_on tab line
      in if 4 \<le> length parts then [cli_status (parts ! 0) (parts ! 1) (mapPodmanState (parts ! 2)) (parts ! 3)] else [])"

definition podman_parse_list :: "string \<Rightarrow> workload_status list" where
  "podman_parse_list output = concat (map podman_parse_line (split_on newline (TrimSpace output)))"

definition podman_ListWorkloads :: "'w runner \<Rightarrow> podman_driver \<Rightarrow> string \<Rightarrow> ('w, workload_status list) act" where
  "podman_ListWorkloads run d namespace w =
     (case run [pod_binary d, ''ps'', ''--format'',
                 ''{{.ID}}'' @ [tab] @ ''{{.Names}}'' @ [tab] @ ''{{.State}}'' @ [tab] @ ''{{.Image}}''] w of
        ((out, Some e), w1) \<Rightarrow> (Inl (Wrapf ''podman ps failed: '' e ''''), w1)
      | ((out, None), w1) \<Rightarrow> (Inr (podman_parse_list out), w1))"

definition podman_Ping :: "'w runner \<Rightarrow> podman_driver \<Rightarrow> 'w proc" where
  "podman_Ping run d w = (case run [pod_binary d, ''version''] w of ((out, e), w1) \<Rightarrow> (e, w1))"

definition podman_logs_args :: "podman_driver \<Rightarrow> string \<Rightarrow> int \<Rightarrow> string list" where
  "podman_logs_args d podID tailLines =
     [pod_binary d, ''logs'', ''-f''] @ (if 0 < tailLines then [''--tail'', Itoa tailLines] else []) @ [podID]"

text \<open>\<open>GetInfo\<close> returns a map from names to values of two types.\<close>

datatype info_value = InfoBool bool | InfoString string

definition podman_GetInfo :: "podman_driver \<Rightarrow> (string, info_value) gomap" where
  "podman_GetInfo d =
     [(''rootless'', InfoBool (pod_rootless d)), (''daemonless'', InfoBool (pod_daemonless d)),
      (''socket'', InfoString (pod_socketPath d)), (''binary'', InfoString (pod_binary d))]"

text \<open>The driver behind the interface.\<close>

definition podman_runtime :: "'w runner \<Rightarrow> podman_driver \<Rightarrow> 'w runtime_driver" where
  "podman_runtime run d =
     \<lparr>drv_Deploy = (\<lambda>s w. case podman_Deploy run d s w of (r, w') \<Rightarrow> (r, s, w')),
      drv_Destroy = podman_Destroy run d, drv_Restart = podman_Restart run d,
      drv_GetStatus = podman_GetStatus run d, drv_ListWorkloads = podman_ListWorkloads run d,
      drv_Ping = podman_Ping run d, drv_Backend = ''podman''\<rparr>"

section \<open>Compose\<close>

record compose_driver =
  com_composeBinary :: string
  com_composeV2 :: bool

definition compose_New :: "'w runner \<Rightarrow> os_env \<Rightarrow> ('w, compose_driver) act" where
  "compose_New run env w =
     (let (v2, w1) =
            (if is_ok (os_LookPath env ''docker'')
             then (case run [''docker'', ''compose'', ''version''] w of ((out, e), w1) \<Rightarrow> (e = None, w1)) else (False, w))
      in if v2 then (Inr \<lparr>com_composeBinary = ''docker'', com_composeV2 = True\<rparr>, w1)
         else if is_ok (os_LookPath env ''docker-compose'')
         then (Inr \<lparr>com_composeBinary = ''docker-compose'', com_composeV2 = False\<rparr>, w1)
         else (Inl (Errorf ''neither docker compose (v2) nor docker-compose (v1) found''), w1))"

definition compose_args :: "compose_driver \<Rightarrow> string list \<Rightarrow> string list" where
  "compose_args d args = com_composeBinary d # (if com_composeV2 d then [''compose''] else []) @ args"

definition mapComposeState :: "string \<Rightarrow> string" where
  "mapComposeState state =
     (let s = ToLower state
      in if s = ''running'' then ''Running'' else if s = ''exited'' \<or> s = ''stopped'' then ''Stopped''
         else if s = ''created'' then ''Pending'' else if s = ''restarting'' then ''Degraded'' else ''Unknown'')"

definition compose_state :: "string \<Rightarrow> string" where
  "compose_state output =
     (if Contains output ''Exited'' \<or> Contains output ''exited'' then ''Stopped''
      else if Contains output ''Created'' then ''Pending'' else ''Running'')"

definition compose_GetStatus :: "'w runner \<Rightarrow> compose_driver \<Rightarrow> string \<Rightarrow> ('w, workload_status) act" where
  "compose_GetStatus run d workloadID w =
     (case run (compose_args d [''-p'', workloadID, ''ps'']) w of
        ((out, Some e), w1) \<Rightarrow> (Inl (Wrapf ''compose ps failed: '' e ('', output: '' @ out)), w1)
      | ((out, None), w1) \<Rightarrow> (Inr (cli_status workloadID workloadID (compose_state out) ''''), w1))"

definition compose_Deploy :: "'w runner \<Rightarrow> compose_driver \<Rightarrow> workload_spec \<Rightarrow> ('w, workload_status) act" where
  "compose_Deploy run d spec w =
     (if ws_ComposeFile spec = '''' then (Inl (Errorf ''compose file path required''), w)
      else case run (compose_args d [''-f'', ws_ComposeFile spec, ''-p'', ws_Name spec, ''up'', ''-d'']) w of
             ((out, Some e), w1) \<Rightarrow> (Inl (Wrapf ''compose up failed: '' e ('', output: '' @ out)), w1)
           | ((out, None), w1) \<Rightarrow> compose_GetStatus run d (ws_Name spec) w1)"

definition compose_Destroy :: "'w runner \<Rightarrow> compose_driver \<Rightarrow> string \<Rightarrow> 'w proc" where
  "compose_Destroy run d workloadID w =
     (case run (compose_args d [''-p'', workloadID, ''down'', ''--volumes'', ''--remove-orphans'']) w of
        ((out, Some e), w1) \<Rightarrow> (Some (Wrapf ''compose down failed: '' e ('', output: '' @ out)), w1)
      | ((out, None), w1) \<Rightarrow> (None, w1))"

definition compose_Restart :: "'w runner \<Rightarrow> compose_driver \<Rightarrow> string \<Rightarrow> 'w proc" where
  "compose_Restart run d workloadID w =
     (case run (compose_args d [''-p'', workloadID, ''restart'']) w of
        ((out, Some e), w1) \<Rightarrow> (Some (Wrapf ''compose restart failed: '' e ('', output: '' @ out)), w1)
      | ((out, None), w1) \<Rightarrow> (None, w1))"

definition compose_parse_line :: "string \<Rightarrow> workload_status list" where
  "compose_parse_line line =
     (if line = '''' then []
      else let parts = Fields line
           in if 0 < length parts
              then [cli_status (parts ! 0) (parts ! 0)
                     (if 1 < length parts \<and> parts ! 1 \<noteq> ''running'' then mapComposeState (parts ! 1) else ''Running'') '''']
              else [])"

definition compose_parse_list :: "string \<Rightarrow> workload_status list" where
  "compose_parse_list output = concat (map compose_parse_line (tl (split_on newline output)))"

definition compose_ListWorkloads :: "'w runner \<Rightarrow> compose_driver \<Rightarrow> string \<Rightarrow> ('w, workload_status list) act" where
  "compose_ListWorkloads run d namespace w =
     (case run (compose_args d [''ls'', ''--all'']) w of
        ((out, Some e), w1) \<Rightarrow> (Inl (Wrapf ''compose ls failed: '' e ('', output: '' @ out)), w1)
      | ((out, None), w1) \<Rightarrow> (Inr (compose_parse_list out), w1))"

definition compose_Ping :: "'w runner \<Rightarrow> compose_driver \<Rightarrow> 'w proc" where
  "compose_Ping run d w = (case run (compose_args d [''version'']) w of ((out, e), w1) \<Rightarrow> (e, w1))"

definition compose_logs_args :: "compose_driver \<Rightarrow> string \<Rightarrow> int \<Rightarrow> string list" where
  "compose_logs_args d podID tailLines = compose_args d [''logs'', ''-f'', ''--tail'', Itoa tailLines, podID]"

definition compose_GetInfo :: "compose_driver \<Rightarrow> (string, info_value) gomap" where
  "compose_GetInfo d =
     [(''composeBinary'', InfoString (com_composeBinary d)), (''composeV2'', InfoBool (com_composeV2 d))]"

definition compose_runtime :: "'w runner \<Rightarrow> compose_driver \<Rightarrow> 'w runtime_driver" where
  "compose_runtime run d =
     \<lparr>drv_Deploy = (\<lambda>s w. case compose_Deploy run d s w of (r, w') \<Rightarrow> (r, s, w')),
      drv_Destroy = compose_Destroy run d, drv_Restart = compose_Restart run d,
      drv_GetStatus = compose_GetStatus run d, drv_ListWorkloads = compose_ListWorkloads run d,
      drv_Ping = compose_Ping run d, drv_Backend = ''compose''\<rparr>"

section \<open>Remote\<close>

text \<open>
  The connection is \<open>Some address\<close> after a successful dial. \<open>ParsePrivateKey\<close>, the known-hosts
  file and the dial are calls of \<open>golang.org/x/crypto/ssh\<close>; \<open>rem_Exec\<close> runs one command
  string in a session on the dialled host (a failing \<open>NewSession\<close> is an error of it).
\<close>

record 'w ssh_env =
  rem_ReadFile :: "string \<Rightarrow> string result"
  rem_ParsePrivateKey :: "string \<Rightarrow> go_error option"
  rem_KnownHosts :: "string \<Rightarrow> go_error option"
  rem_Dial :: "string \<Rightarrow> 'w proc"
  rem_Exec :: "string \<Rightarrow> string \<Rightarrow> 'w \<Rightarrow> (string \<times> go_error option) \<times> 'w"

record remote_driver =
  rd_client :: "string option"
  rd_host :: string
  rd_user :: string
  rd_port :: int
  rd_connected :: bool

definition remote_New :: remote_driver where
  "remote_New = \<lparr>rd_client = None, rd_host = '''', rd_user = ''root'', rd_port = 22, rd_connected = False\<rparr>"

definition expandPath :: "os_env \<Rightarrow> string \<Rightarrow> string" where
  "expandPath env path =
     (if 0 < length path \<and> path ! 0 = CHR ''~'' then filepath_Join [os_HomeDir env, tl path] else path)"

definition connect ::
  "'w ssh_env \<Rightarrow> os_env \<Rightarrow> config \<Rightarrow> string \<Rightarrow> remote_driver \<Rightarrow> 'w \<Rightarrow> go_error option \<times> remote_driver \<times> 'w" where
  "connect ssh env cfg host d w =
     (case rem_ReadFile ssh (expandPath env (rmc_SSHKeyPath (cfg_Remote cfg))) of
        Inl e \<Rightarrow> (Some (Wrapf ''failed to read SSH key: '' e ''''), d, w)
      | Inr key \<Rightarrow>
          (case rem_ParsePrivateKey ssh key of
             Some e \<Rightarrow> (Some (Wrapf ''failed to parse SSH key: '' e ''''), d, w)
           | None \<Rightarrow>
               (case rem_KnownHosts ssh (expandPath env (rmc_KnownHostsPath (cfg_Remote cfg))) of
                  Some e \<Rightarrow> (Some (Wrapf ''failed to create known hosts callback: '' e ''''), d, w)
                | None \<Rightarrow>
                    (let address = host @ '':'' @ Itoa (rd_port d) in
                     case rem_Dial ssh address w of
                       (Some e, w1) \<Rightarrow> (Some (Wrapf ''failed to dial SSH: '' e ''''), d, w1)
                     | (None, w1) \<Rightarrow> (None, d\<lparr>rd_client := Some address, rd_host := host, rd_connected := True\<rparr>, w1)))))"

definition executeRemoteCommand ::
  "'w ssh_env \<Rightarrow> remote_driver \<Rightarrow> string \<Rightarrow> 'w \<Rightarrow> (string \<times> go_error option) \<times> 'w" where
  "executeRemoteCommand ssh d cmd w =
     (if \<not> rd_connected d then (('''', Some (Errorf ''not connected to remote host'')), w)
      else rem_Exec ssh (case rd_client d of None \<Rightarrow> '''' | Some a \<Rightarrow> a) cmd w)"

text \<open>Docker first, then Podman with the same words: the pattern of most remote operations.\<close>

definition either_runtime ::
  "'w ssh_env \<Rightarrow> remote_driver \<Rightarrow> string \<Rightarrow> 'w \<Rightarrow> (string \<times> go_error option) \<times> 'w" where
  "either_runtime ssh d words w =
     (case executeRemoteCommand ssh d (''docker '' @ words) w of
        ((out, None), w1) \<Rightarrow> ((out, None), w1)
      | ((out, Some e), w1) \<Rightarrow> executeRemoteCommand ssh d (''podman '' @ words) w1)"

definition detectRemoteRuntime :: "'w ssh_env \<Rightarrow> remote_driver \<Rightarrow> ('w, string) act" where
  "detectRemoteRuntime ssh d w =
     (case executeRemoteCommand ssh d ''which docker'' w of
        ((out, e), w1) \<Rightarrow>
          if e = None \<and> TrimSpace out \<noteq> '''' then (Inr ''docker'', w1)
          else (case executeRemoteCommand ssh d ''which podman'' w1 of
                  ((out2, e2), w2) \<Rightarrow>
                    if e2 = None \<and> TrimSpace out2 \<noteq> '''' then (Inr ''podman'', w2)
                    else (Inl (Errorf ''no container runtime found on remote host''), w2)))"

definition buildDeployCommand :: "workload_spec \<Rightarrow> string \<Rightarrow> string" where
  "buildDeployCommand spec runtime =
     (if runtime = ''docker'' then ''docker run -d --name '' @ ws_Name spec else ''podman run -d --name '' @ ws_Name spec) @
     concat (map (\<lambda>(k, v). '' -e '' @ k @ ''='' @ v) (ws_Env spec)) @
     (if rs_CPULimit (ws_Resources spec) \<noteq> '''' then '' --cpus='' @ rs_CPULimit (ws_Resources spec) else '''') @
     (if rs_MemoryLimit (ws_Resources spec) \<noteq> '''' then '' --memory='' @ rs_MemoryLimit (ws_Resources spec) else '''') @
     (case rs_GPU (ws_Resources spec) of
        Some g \<Rightarrow> if gpu_Vendor g = ''nvidia'' then '' --device=nvidia.com/gpu='' @ Itoa (gpu_Count g) else ''''
      | None \<Rightarrow> '''') @
     concat (map (\<lambda>p. '' -p '' @ Itoa (port_ContainerPort p) @ '':'' @ Itoa (port_ContainerPort p)) (ws_Ports spec)) @
     '' '' @ ws_Image spec"

definition getRemoteHost :: "os_env \<Rightarrow> workload_spec \<Rightarrow> string" where
  "getRemoteHost env spec = (if ws_RemoteHost spec \<noteq> '''' then ws_RemoteHost spec else os_Getenv env ''KRANIX_REMOTE_HOST'')"

definition mapDockerState :: "string \<Rightarrow> string" where
  "mapDockerState state =
     (let s = ToLower state
      in if s = ''running'' then ''Running'' else if s = ''exited'' then ''Stopped''
         else if s = ''created'' then ''Pending'' else ''Unknown'')"

definition remote_GetStatus :: "'w ssh_env \<Rightarrow> remote_driver \<Rightarrow> string \<Rightarrow> ('w, workload_status) act" where
  "remote_GetStatus ssh d workloadID w =
     (if \<not> rd_connected d then (Inl (Errorf ''not connected to remote host''), w)
      else case either_runtime ssh d (''inspect '' @ workloadID @ '' --format '' @ [CHR 0x27] @ ''{{.State.Status}}'' @ [CHR 0x27]) w of
             ((out, Some e), w1) \<Rightarrow> (Inl (Wrapf ''failed to get status from remote host: '' e ''''), w1)
           | ((out, None), w1) \<Rightarrow>
               (Inr ((cli_status workloadID workloadID (mapDockerState (TrimSpace out)) '''')\<lparr>wst_Host := rd_host d\<rparr>), w1))"

definition remote_Deploy ::
  "'w ssh_env \<Rightarrow> os_env \<Rightarrow> config \<Rightarrow> workload_spec \<Rightarrow> remote_driver \<Rightarrow> 'w \<Rightarrow>
   workload_status result \<times> remote_driver \<times> 'w" where
  "remote_Deploy ssh env cfg spec d0 w0 =
     (case (if rd_connected d0 then (None, d0, w0) else connect ssh env cfg (getRemoteHost env spec) d0 w0) of
        (Some e, d, w) \<Rightarrow> (Inl (Wrapf ''failed to connect to remote host: '' e ''''), d, w)
      | (None, d, w) \<Rightarrow>
          (case detectRemoteRuntime ssh d w of
             (Inl e, w1) \<Rightarrow> (Inl (Wrapf ''failed to detect remote runtime: '' e ''''), d, w1)
           | (Inr runtime, w1) \<Rightarrow>
               (case executeRemoteCommand ssh d (buildDeployCommand spec runtime) w1 of
                  ((out, Some e), w2) \<Rightarrow> (Inl (Wrapf ''remote deploy failed: '' e ('', output: '' @ out)), d, w2)
                | ((out, None), w2) \<Rightarrow> (case remote_GetStatus ssh d (ws_Name spec) w2 of (r, w3) \<Rightarrow> (r, d, w3)))))"

definition remote_Destroy :: "'w ssh_env \<Rightarrow> remote_driver \<Rightarrow> string \<Rightarrow> 'w proc" where
  "remote_Destroy ssh d workloadID w =
     (if \<not> rd_connected d then (Some (Errorf ''not connected to remote host''), w)
      else case either_runtime ssh d (''rm -f '' @ workloadID) w of
             ((out, Some e), w1) \<Rightarrow> (Some (Wrapf ''failed to destroy workload on remote host: '' e ''''), w1)
           | ((out, None), w1) \<Rightarrow> (None, w1))"

definition remote_Restart :: "'w ssh_env \<Rightarrow> remote_driver \<Rightarrow> string \<Rightarrow> 'w proc" where
  "remote_Restart ssh d workloadID w =
     (if \<not> rd_connected d then (Some (Errorf ''not connected to remote host''), w)
      else case either_runtime ssh d (''restart '' @ workloadID) w of
             ((out, Some e), w1) \<Rightarrow> (Some (Wrapf ''failed to restart workload on remote host: '' e ''''), w1)
           | ((out, None), w1) \<Rightarrow> (None, w1))"

definition remote_parse_line :: "string \<Rightarrow> string \<Rightarrow> workload_status list" where
  "remote_parse_line host line =
     (let parts = split_on tab line
      in if 3 \<le> length parts
         then [(cli_status '''' (parts ! 0) (mapDockerState (parts ! 1)) (parts ! 2))\<lparr>wst_Host := host\<rparr>] else [])"

definition remote_ListWorkloads :: "'w ssh_env \<Rightarrow> remote_driver \<Rightarrow> string \<Rightarrow> ('w, workload_status list) act" where
  "remote_ListWorkloads ssh d namespace w =
     (if \<not> rd_connected d then (Inl (Errorf ''not connected to remote host''), w)
      else case either_runtime ssh d (''ps --format '' @ [CHR 0x27] @ ''{{.Names}}'' @ [tab] @ ''{{.State}}'' @ [tab] @ ''{{.Image}}'' @ [CHR 0x27]) w of
             ((out, Some e), w1) \<Rightarrow> (Inl (Wrapf ''failed to list workloads on remote host: '' e ''''), w1)
           | ((out, None), w1) \<Rightarrow>
               (Inr (concat (map (remote_parse_line (rd_host d)) (split_on newline (TrimSpace out)))), w1))"

definition remote_Ping ::
  "'w ssh_env \<Rightarrow> os_env \<Rightarrow> config \<Rightarrow> remote_driver \<Rightarrow> 'w \<Rightarrow> go_error option \<times> remote_driver \<times> 'w" where
  "remote_Ping ssh env cfg d0 w0 =
     (let host = (if os_Getenv env ''KRANIX_REMOTE_HOST'' = '''' then ''localhost'' else os_Getenv env ''KRANIX_REMOTE_HOST'') in
      case (if rd_connected d0 then (None, d0, w0) else connect ssh env cfg host d0 w0) of
        (Some e, d, w) \<Rightarrow> (Some (Wrapf ''failed to ping remote host: '' e ''''), d, w)
      | (None, d, w) \<Rightarrow>
          (case either_runtime ssh d ''version'' w of
             ((out, Some e), w1) \<Rightarrow> (Some (Errorf ''no container runtime available on remote host''), d, w1)
           | ((out, None), w1) \<Rightarrow> (None, d, w1)))"

definition Disconnect :: "remote_driver \<Rightarrow> remote_driver" where
  "Disconnect d = (if rd_client d \<noteq> None then d\<lparr>rd_connected := False\<rparr> else d)"

definition remote_runtime :: "'w ssh_env \<Rightarrow> os_env \<Rightarrow> config \<Rightarrow> (remote_driver \<times> 'w) runtime_driver" where
  "remote_runtime ssh env cfg =
     \<lparr>drv_Deploy = (\<lambda>s (d, w). case remote_Deploy ssh env cfg s d w of (r, d', w') \<Rightarrow> (r, s, d', w')),
      drv_Destroy = (\<lambda>x (d, w). case remote_Destroy ssh d x w of (e, w') \<Rightarrow> (e, d, w')),
      drv_Restart = (\<lambda>x (d, w). case remote_Restart ssh d x w of (e, w') \<Rightarrow> (e, d, w')),
      drv_GetStatus = (\<lambda>x (d, w). case remote_GetStatus ssh d x w of (r, w') \<Rightarrow> (r, d, w')),
      drv_ListWorkloads = (\<lambda>x (d, w). case remote_ListWorkloads ssh d x w of (r, w') \<Rightarrow> (r, d, w')),
      drv_Ping = (\<lambda>(d, w). remote_Ping ssh env cfg d w),
      drv_Backend = ''remote''\<rparr>"

section \<open>Notions used by the statements\<close>

definition cli_word :: "string \<Rightarrow> bool" where
  "cli_word w \<longleftrightarrow> w \<noteq> '''' \<and> (\<forall>c \<in> set w. \<not> is_space c)"

definition podman_ps_line :: "string \<times> string \<times> string \<times> string \<Rightarrow> string" where
  "podman_ps_line r = (case r of (i, n, s, m) \<Rightarrow> join_with tab [i, n, s, m])"

definition podman_ps_output :: "(string \<times> string \<times> string \<times> string) list \<Rightarrow> string" where
  "podman_ps_output rows = concat (map (\<lambda>r. podman_ps_line r @ [newline]) rows)"

section \<open>Lemmas on words and lines\<close>

lemma space_chars [simp]: "is_space tab" "is_space newline" "is_space (CHR '' '')" "tab \<noteq> newline" "newline \<noteq> tab"
  by code_simp+

lemma cli_word_simps:
  assumes "cli_word w"
  shows "w \<noteq> []" "\<not> is_space (hd w)" "\<not> is_space (last w)" "tab \<notin> set w" "newline \<notin> set w" "Fields w = [w]"
  using assms by (auto simp: cli_word_def intro: Fields_word)

lemma Fields_snoc_word: "cli_word w \<Longrightarrow> Fields (s @ CHR '' '' # w) = Fields s @ [w]"
  by (simp add: Fields_append cli_word_simps)

lemma Fields_join_words: "\<forall>w \<in> set ws. cli_word w \<Longrightarrow> Fields (join_with (CHR '' '') ws) = ws"
  by (induction "CHR '' ''" ws rule: join_with.induct) (auto simp: cli_word_simps Fields_append)

lemma join_with_append:
  "xs \<noteq> [] \<Longrightarrow> ys \<noteq> [] \<Longrightarrow> join_with c (xs @ ys) = join_with c xs @ c # join_with c ys"
proof (induction c xs rule: join_with.induct)
  case (2 c p)
  then show ?case by (cases ys) auto
qed auto

lemma join_with_concat: "join_with c (x # xs) = x @ concat (map (\<lambda>w. c # w) xs)"
  by (induction xs arbitrary: x) auto

lemma concat_lines: "rows \<noteq> [] \<Longrightarrow> concat (map (\<lambda>r. f r @ [c]) rows) = join_with c (map f rows) @ [c]"
proof (induction rows)
  case (Cons r rows)
  then show ?case by (cases rows) auto
qed simp

lemma hd_join: "ps \<noteq> [] \<Longrightarrow> hd ps \<noteq> [] \<Longrightarrow> hd (join_with c ps) = hd (hd ps)"
  by (induction c ps rule: join_with.induct) auto

lemma join_not_Nil: "ps \<noteq> [] \<Longrightarrow> hd ps \<noteq> [] \<Longrightarrow> join_with c ps \<noteq> []"
  by (induction c ps rule: join_with.induct) auto

lemma last_join: "ps \<noteq> [] \<Longrightarrow> \<forall>p \<in> set ps. p \<noteq> [] \<Longrightarrow> last (join_with c ps) = last (last ps)"
  by (induction c ps rule: join_with.induct) (auto simp: join_not_Nil)

lemma set_join: "set (join_with c ps) \<subseteq> insert c (\<Union> (set ` set ps))"
  by (induction c ps rule: join_with.induct) auto

text \<open>The lines of a formatted listing come back as they were printed.\<close>

lemma listing_lines:
  assumes "rows \<noteq> []" and "\<forall>r \<in> set rows. f r \<noteq> [] \<and> newline \<notin> set (f r) \<and> \<not> is_space (hd (f r)) \<and> \<not> is_space (last (f r))"
  shows "split_on newline (TrimSpace (concat (map (\<lambda>r. f r @ [newline]) rows))) = map f rows"
proof -
  let ?s = "join_with newline (map f rows)"
  have ne: "map f rows \<noteq> []" "hd (map f rows) \<noteq> []" using assms by (auto simp: hd_map)
  have "?s \<noteq> []" using join_not_Nil [OF ne] .
  moreover have "hd ?s = hd (f (hd rows))" using hd_join [OF ne, of newline] assms(1) by (simp add: hd_map)
  then have "\<not> is_space (hd ?s)" using assms by simp
  moreover have "last ?s = last (f (last rows))"
    using last_join [of "map f rows" newline] assms by (auto simp: last_map)
  then have "\<not> is_space (last ?s)" using assms by simp
  ultimately have "TrimSpace (?s @ [newline]) = ?s" by (intro TrimSpace_snoc_space) simp_all
  moreover have "split_on newline ?s = map f rows" using assms by (intro split_join) auto
  ultimately show ?thesis using concat_lines [OF assms(1), of f newline] by simp
qed

lemma row_word_ends:
  assumes "ws \<noteq> []" and "\<forall>w \<in> set ws. cli_word w"
  shows "join_with tab ws \<noteq> []" "newline \<notin> set (join_with tab ws)" "\<not> is_space (hd (join_with tab ws))"
    "\<not> is_space (last (join_with tab ws))" "split_on tab (join_with tab ws) = ws"
proof -
  have h: "hd ws \<noteq> []" "cli_word (hd ws)" "cli_word (last ws)" using assms by (auto simp: cli_word_simps)
  show "join_with tab ws \<noteq> []" using assms(1) h(1) by (rule join_not_Nil)
  show "newline \<notin> set (join_with tab ws)" using set_join [of tab ws] assms(2) cli_word_simps(5) by fastforce
  show "\<not> is_space (hd (join_with tab ws))" using hd_join [OF assms(1) h(1)] h(2) by (simp add: cli_word_simps)
  show "\<not> is_space (last (join_with tab ws))"
    using last_join [OF assms(1), of tab] assms(2) h(3) by (auto simp: cli_word_simps)
  show "split_on tab (join_with tab ws) = ws" using assms by (intro split_join) (auto dest: cli_word_simps(4))
qed

section \<open>Properties of the Podman driver\<close>

text \<open>
  C27. Parsing the listing of \<open>podman ps\<close> in the driver's format recovers every container:
  when the fields are words, \<open>podman_ListWorkloads\<close> returns one status per row, in order,
  with its identifier, name, mapped state and image, and an empty listing gives no status.
\<close>

theorem podman_list_roundtrip:
  assumes "\<forall>(i, n, s, m) \<in> set rows. cli_word i \<and> cli_word n \<and> cli_word s \<and> cli_word m"
  shows "podman_parse_list (podman_ps_output rows) = map (\<lambda>(i, n, s, m). cli_status i n (mapPodmanState s) m) rows"
proof (cases "rows = []")
  case True
  then show ?thesis by (simp add: podman_parse_list_def podman_ps_output_def podman_parse_line_def TrimSpace_def)
next
  case False
  have row: "podman_ps_line r \<noteq> [] \<and> newline \<notin> set (podman_ps_line r) \<and> \<not> is_space (hd (podman_ps_line r)) \<and>
      \<not> is_space (last (podman_ps_line r)) \<and>
      podman_parse_line (podman_ps_line r) = [case r of (i, n, s, m) \<Rightarrow> cli_status i n (mapPodmanState s) m]"
    if "r \<in> set rows" for r
  proof -
    obtain i n s m where r: "r = (i, n, s, m)" by (cases r) auto
    have w: "\<forall>w \<in> set [i, n, s, m]. cli_word w" using assms that r by auto
    show ?thesis using row_word_ends [OF _ w] by (simp add: r podman_ps_line_def podman_parse_line_def Let_def del: join_with.simps)
  qed
  have "split_on newline (TrimSpace (podman_ps_output rows)) = map podman_ps_line rows"
    unfolding podman_ps_output_def using row by (intro listing_lines [OF False]) blast
  then have "podman_parse_list (podman_ps_output rows) = concat (map (\<lambda>r. podman_parse_line (podman_ps_line r)) rows)"
    by (simp add: podman_parse_list_def comp_def)
  also have "\<dots> = concat (map (\<lambda>r. [case r of (i, n, s, m) \<Rightarrow> cli_status i n (mapPodmanState s) m]) rows)"
    using row by (intro arg_cong [where f = concat] map_cong) auto
  finally show ?thesis by (simp add: split_def)
qed

lemma podman_list_roundtrip_witness:
  "podman_parse_list (podman_ps_output [(''a1'', ''web'', ''running'', ''nginx'')]) = [cli_status ''a1'' ''web'' (mapPodmanState ''running'') ''nginx'']"
  using podman_list_roundtrip [of "[(''a1'', ''web'', ''running'', ''nginx'')]"] by (simp add: cli_word_def is_space_def)


section \<open>Properties of the remote driver\<close>

definition remote_argv :: "workload_spec \<Rightarrow> string \<Rightarrow> string list" where
  "remote_argv spec runtime =
     [if runtime = ''docker'' then ''docker'' else ''podman'', ''run'', ''-d'', ''--name'', ws_Name spec] @
     concat (map (\<lambda>(k, v). [''-e'', k @ ''='' @ v]) (ws_Env spec)) @
     (if rs_CPULimit (ws_Resources spec) \<noteq> '''' then [''--cpus='' @ rs_CPULimit (ws_Resources spec)] else []) @
     (if rs_MemoryLimit (ws_Resources spec) \<noteq> '''' then [''--memory='' @ rs_MemoryLimit (ws_Resources spec)] else []) @
     (case rs_GPU (ws_Resources spec) of
        Some g \<Rightarrow> if gpu_Vendor g = ''nvidia'' then [''--device=nvidia.com/gpu='' @ Itoa (gpu_Count g)] else []
      | None \<Rightarrow> []) @
     concat (map (\<lambda>p. [''-p'', Itoa (port_ContainerPort p) @ '':'' @ Itoa (port_ContainerPort p)]) (ws_Ports spec)) @
     [ws_Image spec]"

abbreviation spaced :: "string list \<Rightarrow> string" where
  "spaced ws \<equiv> concat (map (\<lambda>w. CHR '' '' # w) ws)"

lemma spaced_env: "concat (map (\<lambda>(k, v). '' -e '' @ k @ ''='' @ v) env) = spaced (concat (map (\<lambda>(k, v). [''-e'', k @ ''='' @ v]) env))"
  by (induction env) auto

lemma spaced_ports:
  "concat (map (\<lambda>p. '' -p '' @ Itoa (port_ContainerPort p) @ '':'' @ Itoa (port_ContainerPort p)) ps) =
   spaced (concat (map (\<lambda>p. [''-p'', Itoa (port_ContainerPort p) @ '':'' @ Itoa (port_ContainerPort p)]) ps))"
  by (induction ps) auto

lemma spaced_simps:
  "spaced (if b then [x] else []) = (if b then CHR '' '' # x else '''')"
  "spaced (case g of Some y \<Rightarrow> if P y then [f y] else [] | None \<Rightarrow> []) =
     (case g of Some y \<Rightarrow> if P y then CHR '' '' # f y else '''' | None \<Rightarrow> '''')"
  by (auto split: option.splits)

lemma buildDeployCommand_argv: "buildDeployCommand spec runtime = join_with (CHR '' '') (remote_argv spec runtime)"
proof -
  have "join_with (CHR '' '') (remote_argv spec runtime) =
    hd (remote_argv spec runtime) @ spaced (tl (remote_argv spec runtime))"
    unfolding remote_argv_def append_Cons join_with_concat by simp
  then show ?thesis
    unfolding buildDeployCommand_def spaced_env spaced_ports
    by (simp only: remote_argv_def append_Cons append_Nil list.sel map_append concat_append spaced_simps list.simps concat.simps append_assoc)
      simp
qed

lemma Fields_join: "Fields (join_with (CHR '' '') ws) = concat (map Fields ws)"
  by (induction "CHR '' ''" ws rule: join_with.induct) (auto simp: Fields_append)


definition sample_remote_spec :: workload_spec where
  "sample_remote_spec = zero_spec\<lparr>ws_Name := ''web'', ws_Image := ''nginx'', ws_Env := [(''A'', ''1'')]\<rparr>"


text \<open>
  Nothing is quoted: a word that follows a space inside a value of \<open>spec.Env\<close> becomes an
  argument of its own of the remote \<open>run\<close> command, so that an environment value can add
  options such as \<open>--privileged\<close>.
\<close>

theorem remote_env_adds_arguments:
  assumes "(k, u @ '' '' @ w) \<in> set (ws_Env spec)" and "cli_word w"
  shows "w \<in> set (Fields (buildDeployCommand spec runtime))"
proof -
  have e: "k @ ''='' @ u @ '' '' @ w \<in> set (remote_argv spec runtime)"
    using assms(1) by (force simp: remote_argv_def)
  have "w \<in> set (Fields ((k @ ''='' @ u) @ CHR '' '' # w))"
    unfolding Fields_snoc_word [OF assms(2)] by simp
  then have "w \<in> set (Fields (k @ ''='' @ u @ '' '' @ w))" by simp
  with e show ?thesis by (auto simp: buildDeployCommand_argv Fields_join)
qed

lemma remote_env_adds_arguments_witness:
  "''--privileged'' \<in> set (Fields (buildDeployCommand (zero_spec\<lparr>ws_Env := [(''A'', ''1 --privileged'')]\<rparr>) ''docker''))"
  by (rule remote_env_adds_arguments [of "''A''" "''1''" "''--privileged''"])
    (simp_all add: zero_spec_def cli_word_def is_space_def)

text \<open>
  The remote driver stays on the first host it reached: once connected, \<open>Deploy\<close> does the same
  whatever \<open>spec.RemoteHost\<close> names, keeps the connection, and reports the connected host in the
  status.
\<close>

theorem remote_sticks_to_first_host:
  assumes "rd_connected d"
  shows "\<exists>r w'. remote_Deploy ssh env cfg (spec\<lparr>ws_RemoteHost := h\<rparr>) d w = (r, d, w') \<and>
    remote_Deploy ssh env cfg spec d w = (r, d, w') \<and> (\<forall>st. r = Inr st \<longrightarrow> wst_Host st = rd_host d)"
proof -
  have c: "buildDeployCommand (spec\<lparr>ws_RemoteHost := h\<rparr>) rt = buildDeployCommand spec rt" for rt
    by (simp add: buildDeployCommand_def)
  have st: "remote_GetStatus ssh d x w1 = (Inr st, w2) \<Longrightarrow> wst_Host st = rd_host d" for x w1 st w2
    by (auto simp: remote_GetStatus_def split: if_splits prod.splits option.splits)
  show ?thesis using assms
    by (auto simp: remote_Deploy_def c dest: st split: prod.splits sum.splits option.splits)
qed

definition sample_ssh :: "unit ssh_env" where
  "sample_ssh = \<lparr>rem_ReadFile = (\<lambda>p. Inr ''key''), rem_ParsePrivateKey = (\<lambda>k. None), rem_KnownHosts = (\<lambda>p. None),
     rem_Dial = (\<lambda>a w. (None, w)), rem_Exec = (\<lambda>a c w. ((''running'', None), w))\<rparr>"

definition sample_os :: os_env where
  "sample_os = \<lparr>os_LookPath = (\<lambda>n. Inr (''/usr/bin/'' @ n)), os_Getuid = 1000, os_Getenv = (\<lambda>v. ''''), os_HomeDir = ''/home/u''\<rparr>"

definition connected_remote :: remote_driver where
  "connected_remote = \<lparr>rd_client = Some ''alpha:22'', rd_host = ''alpha'', rd_user = ''root'', rd_port = 22, rd_connected = True\<rparr>"

lemma remote_sticks_to_first_host_witness:
  "\<exists>r w'. remote_Deploy sample_ssh sample_os DefaultConfig (zero_spec\<lparr>ws_RemoteHost := ''beta''\<rparr>) connected_remote () = (r, connected_remote, w') \<and>
    remote_Deploy sample_ssh sample_os DefaultConfig zero_spec connected_remote () = (r, connected_remote, w') \<and>
    (\<forall>st. r = Inr st \<longrightarrow> wst_Host st = ''alpha'')"
  using remote_sticks_to_first_host [of connected_remote sample_ssh sample_os DefaultConfig "''beta''" zero_spec "()"]
  by (simp add: connected_remote_def)


section \<open>Properties of the Compose driver\<close>

lemma Fields_two: "cli_word a \<Longrightarrow> cli_word b \<Longrightarrow> Fields (a @ CHR '' '' # b @ CHR '' '' # rest) = a # b # Fields rest"
  by (simp add: Fields_append cli_word_simps)

text \<open>
  \<open>docker compose ls\<close> prints the state of a project with the number of its containers,
  \<open>running(2)\<close>; \<open>ListWorkloads\<close> looks for the bare word and reports such a running project
  as \<open>Unknown\<close>.
\<close>

theorem compose_running_listed_unknown:
  assumes "cli_word project"
  shows "compose_parse_line (project @ CHR '' '' # (''running('' @ nat_str n @ '')'') @ CHR '' '' # rest) =
    [cli_status project project ''Unknown'' '''']"
proof -
  let ?st = "''running('' @ nat_str n @ '')''"
  have dig: "is_digit c \<Longrightarrow> \<not> is_space c" for c by (auto simp: is_digit_def is_space_def Let_def)
  have w: "cli_word ?st" using nat_str_digits [of n] by (auto simp: cli_word_def list_all_iff dest!: dig) (auto simp: is_space_def)
  have "map lower_char ''running('' = ''running(''" by code_simp
  then have l: "ToLower ?st = ''running('' @ ToLower (nat_str n @ '')'')" by (simp add: ToLower_def)
  have "mapComposeState ?st = ''Unknown''" unfolding mapComposeState_def Let_def l by simp
  then show ?thesis using Fields_two [OF assms w, of rest] by (simp add: compose_parse_line_def Let_def)
qed

lemma compose_running_listed_unknown_witness:
  "compose_parse_line (''shop'' @ CHR '' '' # (''running('' @ nat_str 2 @ '')'') @ CHR '' '' # ''/srv/shop.yml'') = [cli_status ''shop'' ''shop'' ''Unknown'' '''']"
  by (rule compose_running_listed_unknown) (simp add: cli_word_def is_space_def)

section \<open>The contract of the driver interface\<close>

text \<open>
  What the \<open>podman\<close> program promises of the containers it has: \<open>run -d --name n\<close> adds the
  container \<open>n\<close> when it succeeds (a failing one may have created it), \<open>rm -f\<close> takes it away or
  fails and leaves it, \<open>inspect\<close> succeeds for an existing container only and changes nothing.
\<close>

definition podman_laws :: "'w runner \<Rightarrow> string \<Rightarrow> ('w \<Rightarrow> string set) \<Rightarrow> string set \<Rightarrow> bool" where
  "podman_laws run binary live names \<longleftrightarrow>
     (\<forall>n opts w out e w'. n \<in> names \<longrightarrow> run ([binary, ''run'', ''-d'', ''--name'', n] @ opts) w = ((out, e), w') \<longrightarrow>
        live w' = insert n (live w) \<or> (e \<noteq> None \<and> live w' = live w)) \<and>
     (\<forall>n w out e w'. n \<in> names \<longrightarrow> run [binary, ''rm'', ''-f'', n] w = ((out, e), w') \<longrightarrow>
        live w' = live w - {n} \<or> (e \<noteq> None \<and> live w' = live w)) \<and>
     (\<forall>n opts w out e w'. run ([binary, ''inspect'', n] @ opts) w = ((out, e), w') \<longrightarrow>
        live w' = live w \<and> (n \<in> names \<longrightarrow> e = None \<longrightarrow> n \<in> live w))"

lemma podman_lawsD:
  assumes "podman_laws run binary live names"
  shows podman_run_law: "n \<in> names \<Longrightarrow> run (binary # ''run'' # ''-d'' # ''--name'' # n # opts) w = ((out, e), w') \<Longrightarrow>
      live w' = insert n (live w) \<or> (e \<noteq> None \<and> live w' = live w)"
    and podman_rm_law: "n \<in> names \<Longrightarrow> run [binary, ''rm'', ''-f'', n] w = ((out, e), w') \<Longrightarrow>
      live w' = live w - {n} \<or> (e \<noteq> None \<and> live w' = live w)"
    and podman_inspect_law: "run (binary # ''inspect'' # n # opts) w = ((out, e), w') \<Longrightarrow> live w' = live w"
    and podman_inspect_live: "n \<in> names \<Longrightarrow> run (binary # ''inspect'' # n # opts) w = ((out, None), w') \<Longrightarrow> n \<in> live w"
proof -
  note laws = assms [unfolded podman_laws_def append_Cons append_Nil]
  show "n \<in> names \<Longrightarrow> run (binary # ''run'' # ''-d'' # ''--name'' # n # opts) w = ((out, e), w') \<Longrightarrow>
      live w' = insert n (live w) \<or> (e \<noteq> None \<and> live w' = live w)"
    by (rule laws [THEN conjunct1, rule_format])
  show "n \<in> names \<Longrightarrow> run [binary, ''rm'', ''-f'', n] w = ((out, e), w') \<Longrightarrow>
      live w' = live w - {n} \<or> (e \<noteq> None \<and> live w' = live w)"
    by (rule laws [THEN conjunct2, THEN conjunct1, rule_format])
  note inspect = laws [THEN conjunct2, THEN conjunct2, rule_format]
  show "run (binary # ''inspect'' # n # opts) w = ((out, e), w') \<Longrightarrow> live w' = live w"
    by (rule inspect [THEN conjunct1])
  show "n \<in> names \<Longrightarrow> run (binary # ''inspect'' # n # opts) w = ((out, None), w') \<Longrightarrow> n \<in> live w"
    by (rule inspect [THEN conjunct2, rule_format]) auto
qed

lemma podman_GetStatus_live:
  assumes "podman_laws run (pod_binary d) live names" and "podman_GetStatus run d x w = (r, w')"
  shows "live w' = live w" and "x \<in> names \<Longrightarrow> is_ok r \<Longrightarrow> x \<in> live w"
proof -
  obtain out e w1 where i: "run [pod_binary d, ''inspect'', x, ''--format'', ''{{.State.Status}}''] w = ((out, e), w1)"
    by (metis surj_pair)
  obtain out2 e2 w2 where j: "run [pod_binary d, ''inspect'', x, ''--format'', ''{{.Config.Image}}''] w1 = ((out2, e2), w2)"
    by (metis surj_pair)
  note l = podman_inspect_law [OF assms(1) i] podman_inspect_law [OF assms(1) j]
  show "live w' = live w" using assms(2) i j l by (cases e) (auto simp: podman_GetStatus_def)
  show "x \<in> live w" if "x \<in> names" "is_ok r"
  proof -
    have "e = None" using assms(2) i that(2) by (cases e) (auto simp: podman_GetStatus_def)
    with podman_inspect_live [OF assms(1) that(1)] i show ?thesis by blast
  qed
qed

lemma podman_Deploy_live:
  assumes "podman_laws run (pod_binary d) live names" and "ws_Name s \<in> names" and "podman_Deploy run d s w = (r, w')"
  shows "live w' = insert (ws_Name s) (live w) \<or> (\<not> is_ok r \<and> live w' = live w)"
proof -
  obtain opts where args: "podman_run_args d s = ''run'' # ''-d'' # ''--name'' # ws_Name s # opts"
    by (simp add: podman_run_args_def)
  obtain out e w1 where r: "run (pod_binary d # podman_run_args d s) w = ((out, e), w1)" by (metis surj_pair)
  note l = podman_run_law [OF assms(1,2) r [unfolded args]]
  show ?thesis
  proof (cases e)
    case None
    with assms(3) r have "podman_GetStatus run d (ws_Name s) w1 = (r, w')" by (simp add: podman_Deploy_def)
    with podman_GetStatus_live(1) [OF assms(1)] l None show ?thesis by auto
  next
    case (Some err)
    with assms(3) r l show ?thesis by (auto simp: podman_Deploy_def)
  qed
qed

lemma podman_backend:
  assumes "podman_laws run (pod_binary d) live names"
  shows "exact_backend (podman_runtime run d) live names"
proof -
  have dep: "live w' = insert (ws_Name s) (live w) \<or> (\<not> is_ok r \<and> live w' = live w)"
    if "ws_Name s \<in> names" "drv_Deploy (podman_runtime run d) s w = (r, s', w')" for s w r s' w'
    using podman_Deploy_live [OF assms that(1)] that(2) by (auto simp: podman_runtime_def split: prod.splits)
  have des: "live w' = live w - {x} \<or> (e \<noteq> None \<and> live w' = live w)"
    if "x \<in> names" "drv_Destroy (podman_runtime run d) x w = (e, w')" for x w e w'
    using podman_rm_law [OF assms that(1), of w] that(2)
    by (auto simp: podman_runtime_def podman_Destroy_def split: prod.splits)
  have get: "drv_GetStatus (podman_runtime run d) = podman_GetStatus run d" by (simp add: podman_runtime_def)
  show ?thesis
  proof (unfold_locales, goal_cases)
    case (7 x w g w')
    then show ?case using podman_GetStatus_live(1) [OF assms] get by simp
  next
    case (8 x w st w')
    then show ?case using podman_GetStatus_live(2) [OF assms] get by fastforce
  qed (auto dest: dep des)
qed

text \<open>A \<open>podman\<close> program on the list of its containers, for the examples.\<close>

definition podman_cli :: "string list runner" where
  "podman_cli argv w =
     (let cmd = argv ! 1 in
      if cmd = ''run'' then
        (if argv ! 4 \<in> set w then (('''', Some (Errorf ''the container name is already in use'')), w)
         else (('''', None), argv ! 4 # w))
      else if cmd = ''rm'' then (('''', None), removeAll (argv ! 3) w)
      else if cmd = ''inspect'' then
        (if argv ! 2 \<in> set w then ((''running'', None), w) else (('''', Some (Errorf ''no such object'')), w))
      else (('''', None), w))"

lemma podman_cli_laws: "podman_laws podman_cli binary set names"
  by (auto simp: podman_laws_def podman_cli_def Let_def split: if_splits)

interpretation podman: exact_backend "podman_runtime podman_cli d" set UNIV for d
  by (rule podman_backend) (rule podman_cli_laws)

text \<open>
  What the compose program promises of its projects: \<open>up -d\<close> adds the project when it succeeds (a
  failing one may have created it), \<open>down\<close> takes it away or fails and leaves it, \<open>ps\<close> changes nothing.
  \<open>ps\<close> succeeds for every name, so Compose is a \<open>backend\<close> and not an \<open>exact_backend\<close>.
\<close>

definition compose_laws :: "'w runner \<Rightarrow> compose_driver \<Rightarrow> ('w \<Rightarrow> string set) \<Rightarrow> string set \<Rightarrow> bool" where
  "compose_laws run d live names \<longleftrightarrow>
     (\<forall>n f w out e w'. n \<in> names \<longrightarrow> run (compose_args d [''-f'', f, ''-p'', n, ''up'', ''-d'']) w = ((out, e), w') \<longrightarrow>
        live w' = insert n (live w) \<or> (e \<noteq> None \<and> live w' = live w)) \<and>
     (\<forall>n w out e w'. n \<in> names \<longrightarrow>
        run (compose_args d [''-p'', n, ''down'', ''--volumes'', ''--remove-orphans'']) w = ((out, e), w') \<longrightarrow>
        live w' = live w - {n} \<or> (e \<noteq> None \<and> live w' = live w)) \<and>
     (\<forall>n w out e w'. run (compose_args d [''-p'', n, ''ps'']) w = ((out, e), w') \<longrightarrow> live w' = live w)"

lemma compose_GetStatus_live:
  assumes "compose_laws run d live names" and "compose_GetStatus run d x w = (r, w')"
  shows "live w' = live w"
proof -
  obtain out e w1 where i: "run (compose_args d [''-p'', x, ''ps'']) w = ((out, e), w1)" by (metis surj_pair)
  have "live w1 = live w"
    using assms(1) [unfolded compose_laws_def, THEN conjunct2, THEN conjunct2, rule_format, OF i] .
  with assms(2) i show ?thesis by (cases e) (auto simp: compose_GetStatus_def)
qed

lemma compose_Deploy_live:
  assumes "compose_laws run d live names" and "ws_Name s \<in> names" and "compose_Deploy run d s w = (r, w')"
  shows "live w' = insert (ws_Name s) (live w) \<or> (\<not> is_ok r \<and> live w' = live w)"
proof (cases "ws_ComposeFile s = ''''")
  case True
  with assms(3) show ?thesis by (auto simp: compose_Deploy_def)
next
  case False
  obtain out e w1 where u: "run (compose_args d [''-f'', ws_ComposeFile s, ''-p'', ws_Name s, ''up'', ''-d'']) w = ((out, e), w1)"
    by (metis surj_pair)
  have l: "live w1 = insert (ws_Name s) (live w) \<or> (e \<noteq> None \<and> live w1 = live w)"
    using assms(1) [unfolded compose_laws_def, THEN conjunct1, rule_format, OF assms(2) u] .
  show ?thesis
  proof (cases e)
    case None
    with assms(3) False u have "compose_GetStatus run d (ws_Name s) w1 = (r, w')" by (simp add: compose_Deploy_def)
    with compose_GetStatus_live [OF assms(1)] l None show ?thesis by auto
  next
    case (Some err)
    with assms(3) False u l show ?thesis by (auto simp: compose_Deploy_def)
  qed
qed

lemma compose_Destroy_live:
  assumes "compose_laws run d live names" and "x \<in> names" and "compose_Destroy run d x w = (e, w')"
  shows "live w' = live w - {x} \<or> (e \<noteq> None \<and> live w' = live w)"
proof -
  obtain out e1 w1 where u: "run (compose_args d [''-p'', x, ''down'', ''--volumes'', ''--remove-orphans'']) w = ((out, e1), w1)"
    by (metis surj_pair)
  have "live w1 = live w - {x} \<or> (e1 \<noteq> None \<and> live w1 = live w)"
    using assms(1) [unfolded compose_laws_def, THEN conjunct2, THEN conjunct1, rule_format, OF assms(2) u] .
  with assms(3) u show ?thesis by (cases e1) (auto simp: compose_Destroy_def)
qed

lemma compose_runtime_simps:
  "drv_Deploy (compose_runtime run d) s w = (r, s', w') \<longleftrightarrow> compose_Deploy run d s w = (r, w') \<and> s' = s"
  "drv_Destroy (compose_runtime run d) = compose_Destroy run d"
  "drv_GetStatus (compose_runtime run d) = compose_GetStatus run d"
  by (auto simp: compose_runtime_def split: prod.splits)

lemma compose_backend:
  assumes "compose_laws run d live names"
  shows "backend (compose_runtime run d) live names"
  by (unfold_locales; unfold compose_runtime_simps)
    (auto dest: compose_Deploy_live [OF assms] compose_Destroy_live [OF assms] compose_GetStatus_live [OF assms])

text \<open>A compose program on the list of its projects, for the examples.\<close>

definition compose_cli :: "string list runner" where
  "compose_cli argv w =
     (let args = (if argv ! 0 = ''docker'' then drop 2 argv else drop 1 argv) in
      if args ! 0 = ''-f'' then (('''', None), if args ! 3 \<in> set w then w else args ! 3 # w)
      else if args ! 2 = ''down'' then (('''', None), removeAll (args ! 1) w)
      else (('''', None), w))"

definition compose_plugin :: compose_driver where
  "compose_plugin = \<lparr>com_composeBinary = ''docker'', com_composeV2 = True\<rparr>"

lemma compose_cli_laws: "compose_laws compose_cli compose_plugin set names"
  by (auto simp: compose_laws_def compose_cli_def compose_args_def compose_plugin_def Let_def split: if_splits)

interpretation compose: backend "compose_runtime compose_cli compose_plugin" set UNIV
  by (rule compose_backend) (rule compose_cli_laws)

text \<open>
  Compose vouches for projects that do not exist: when \<open>ps\<close> succeeds and prints only the header line
  (which it does for every name without containers), the status is \<open>Running\<close>, so that a
  migration that waits for its target takes a project that is gone for ready.
\<close>

theorem compose_missing_project_is_ready:
  assumes "run (compose_args d [''-p'', x, ''ps'']) w = ((header, None), w')"
    and "\<not> Contains header ''Exited''" and "\<not> Contains header ''exited''" and "\<not> Contains header ''Created''"
  shows "\<exists>st. drv_GetStatus (compose_runtime run d) x w = (Inr st, w') \<and> wst_State st = ''Running'' \<and> status_ready n st"
proof -
  have "EqualFold ''Running'' ''Running''" by (simp add: EqualFold_def)
  with assms show ?thesis
    by (simp add: compose_runtime_simps compose_GetStatus_def compose_state_def cli_status_def status_ready_def zero_status_def)
qed

lemma compose_missing_project_is_ready_witness:
  "\<exists>st. drv_GetStatus (compose_runtime compose_cli compose_plugin) ''gone'' [] = (Inr st, []) \<and> wst_State st = ''Running'' \<and> status_ready 3 st"
  by (rule compose_missing_project_is_ready [where header = "''''"])
    (simp_all add: compose_cli_def compose_args_def compose_plugin_def)

end
