(* ===== verification/Runtime_Process.thy ===== *)
theory Runtime_Process
  imports Registry Docker_Driver Kubernetes_Backend Cli_Drivers
begin

text \<open>
  The whole process: the registry of \<open>internal/registry/registry.go\<close> with the five real constructors
  that its \<open>init\<close> registers. A driver is a Go object; its mutable fields live in a heap of objects
  next to the outside state, and what the registry hands out is a handle on one object. The
  theory shows what the parts do together: which backend supports which interface, that two
  handles never share state, and what follows from every \<open>Get\<close> building a new driver.
\<close>

section \<open>The heap of driver objects\<close>

text \<open>
  The mutable fields of a driver: the checkpoints of the Docker and the Kubernetes driver, the
  tracker of the Kubernetes driver, the connection of the remote driver. Every other field is set
  by the constructor and only read afterwards.
\<close>

record driver_state =
  dst_checkpoints :: store
  dst_tracker :: "backend_tracker option"
  dst_remote :: remote_driver

definition fresh_state :: driver_state where
  "fresh_state = \<lparr>dst_checkpoints = NewStore, dst_tracker = None, dst_remote = remote_New\<rparr>"

record 'w process =
  prc_outside :: 'w
  prc_objects :: "driver_state list"

definition alloc :: "driver_state \<Rightarrow> 'w process \<Rightarrow> 'w process" where
  "alloc st p = p\<lparr>prc_objects := prc_objects p @ [st]\<rparr>"

definition get_object :: "nat \<Rightarrow> 'w process \<Rightarrow> driver_state" where
  "get_object a p = prc_objects p ! a"

definition set_outside :: "'w \<Rightarrow> 'w process \<Rightarrow> 'w process" where
  "set_outside w p = p\<lparr>prc_outside := w\<rparr>"

definition update_object :: "nat \<Rightarrow> (driver_state \<Rightarrow> driver_state) \<Rightarrow> 'w process \<Rightarrow> 'w process" where
  "update_object a f p = p\<lparr>prc_objects := (prc_objects p)[a := f (get_object a p)]\<rparr>"

definition on_outside :: "('w, 'a) act \<Rightarrow> ('w process, 'a) act" where
  "on_outside m p = (case m (prc_outside p) of (r, w') \<Rightarrow> (r, set_outside w' p))"

section \<open>The optional interfaces\<close>

record 'w extended_operations =
  xo_CheckpointWorkload :: "checkpoint_request \<Rightarrow> ('w, checkpoint_result) act"
  xo_RestoreWorkload :: "restore_request \<Rightarrow> ('w, restore_result) act"
  xo_ListCheckpoints :: "string \<Rightarrow> string \<Rightarrow> ('w, checkpoint_result list) act"
  xo_ProvisionVolumes :: "workload_spec option \<Rightarrow> ('w, volume_lifecycle_result) act"
  xo_CleanupVolumes :: "workload_spec option \<Rightarrow> 'w proc"

record 'w node_operations =
  no_ListBackendHealth :: "'w \<Rightarrow> backend_health_report list \<times> 'w"
  no_ListNodeHealth :: "('w, node_health_report list) act"
  no_DrainNode :: "node_drain_request \<Rightarrow> 'w \<Rightarrow> (node_drain_result option \<times> go_error option) \<times> 'w"

text \<open>
  The parameters of the five drivers. \<open>sur_clock w i\<close> is the \<open>i\<close>-th reading of the clock in a
  call that starts at \<open>w\<close>, \<open>sur_stamp\<close> the printed time, \<open>sur_ms\<close> a measured latency.
\<close>

record ('c, 'w) surroundings =
  sur_docker :: "string \<Rightarrow> 'w docker_api result"
  sur_client_go :: "('c, 'w) client_go"
  sur_tc :: types_constants
  sur_MustParse :: "string \<Rightarrow> quantity option"
  sur_run :: "'w runner"
  sur_os :: os_env
  sur_ssh :: "'w ssh_env"
  sur_clock :: "'w \<Rightarrow> nat \<Rightarrow> instant"
  sur_stamp :: "instant \<Rightarrow> string"
  sur_ms :: rat

type_synonym 'w handle =
  "('w process, 'w process node_operations, 'w process extended_operations) driver_object"

type_synonym 'w handle_factory =
  "('w process, 'w process node_operations, 'w process extended_operations) driver_factory"

section \<open>The five drivers as objects\<close>

abbreviation outside_driver :: "'w runtime_driver \<Rightarrow> 'w process runtime_driver" where
  "outside_driver \<equiv> lift_driver prc_outside set_outside"

definition docker_extended ::
  "('c, 'w) surroundings \<Rightarrow> 'w docker_object \<Rightarrow> nat \<Rightarrow> 'w process extended_operations" where
  "docker_extended env ob a =
     (let api = dob_api ob; t = (\<lambda>p. sur_clock env (prc_outside p)) in
      \<lparr>xo_CheckpointWorkload = (\<lambda>req p.
         case docker_CheckpointWorkload api (t p 0) (t p 1) req (dst_checkpoints (get_object a p)) (prc_outside p) of
           (r, st, w') \<Rightarrow> (r, update_object a (\<lambda>s. s\<lparr>dst_checkpoints := st\<rparr>) (set_outside w' p))),
       xo_RestoreWorkload = (\<lambda>req p. on_outside (docker_RestoreWorkload api (t p 0) req) p),
       xo_ListCheckpoints = (\<lambda>x ns p. (docker_ListCheckpoints x ns (dst_checkpoints (get_object a p)), p)),
       xo_ProvisionVolumes = (\<lambda>spec. on_outside (docker_ProvisionVolumes api spec)),
       xo_CleanupVolumes = (\<lambda>spec p. case docker_CleanupVolumes api spec (prc_outside p) of
          (e, w') \<Rightarrow> (e, set_outside w' p))\<rparr>)"

definition docker_factory :: "('c, 'w) surroundings \<Rightarrow> 'w handle_factory" where
  "docker_factory env cfg p =
     (case docker_New (sur_docker env) cfg of
        Inl e \<Rightarrow> (Inl e, p)
      | Inr ob \<Rightarrow>
          (Inr \<lparr>obj_driver = outside_driver (docker_runtime (sur_tc env) (dob_cfg ob) (dob_api ob)),
             obj_NodeOperations = None,
             obj_ExtendedOperations = Some (docker_extended env ob (length (prc_objects p)))\<rparr>,
           alloc (fresh_state\<lparr>dst_checkpoints := dob_checkpoints ob\<rparr>) p))"

definition kube_view :: "nat \<Rightarrow> 'w process \<Rightarrow> 'w \<times> backend_tracker option" where
  "kube_view a p = (prc_outside p, dst_tracker (get_object a p))"

definition kube_put :: "nat \<Rightarrow> 'w \<times> backend_tracker option \<Rightarrow> 'w process \<Rightarrow> 'w process" where
  "kube_put a v p = update_object a (\<lambda>s. s\<lparr>dst_tracker := snd v\<rparr>) (set_outside (fst v) p)"

definition kubernetes_extended ::
  "('c, 'w) surroundings \<Rightarrow> 'w kube_backend \<Rightarrow> nat \<Rightarrow> 'w process extended_operations" where
  "kubernetes_extended env b a =
     (let api = kb_api b; d = kb_driver b; t = (\<lambda>p. sur_clock env (prc_outside p)) in
      \<lparr>xo_CheckpointWorkload = (\<lambda>req p.
         case CheckpointWorkload api d (t p) req (dst_checkpoints (get_object a p)) (prc_outside p) of
           (r, st, w') \<Rightarrow> (r, update_object a (\<lambda>s. s\<lparr>dst_checkpoints := st\<rparr>) (set_outside w' p))),
       xo_RestoreWorkload = (\<lambda>req p. on_outside (RestoreWorkload api d (t p 0) req) p),
       xo_ListCheckpoints = (\<lambda>x ns p. (ListCheckpoints x ns (dst_checkpoints (get_object a p)), p)),
       xo_ProvisionVolumes = (\<lambda>spec. on_outside (\<lambda>w. case ProvisionVolumes api d spec w of (r, w') \<Rightarrow> (caught r, w'))),
       xo_CleanupVolumes = (\<lambda>spec p. case CleanupVolumes api d spec (prc_outside p) of
          (e, w') \<Rightarrow> (e, set_outside w' p))\<rparr>)"

definition kubernetes_nodes ::
  "('c, 'w) surroundings \<Rightarrow> 'w kube_backend \<Rightarrow> nat \<Rightarrow> 'w process node_operations" where
  "kubernetes_nodes env b a =
     (let api = kb_api b; t = (\<lambda>p. sur_clock env (prc_outside p)) in
      \<lparr>no_ListBackendHealth = (\<lambda>p.
         case ListBackendHealth api (sur_ms env) (sur_ms env) (t p) (dst_tracker (get_object a p)) (prc_outside p) of
           (r, tr, w') \<Rightarrow> (r, kube_put a (w', tr) p)),
       no_ListNodeHealth = (\<lambda>p. on_outside (ListNodeHealth api (t p 0)) p),
       no_DrainNode = (\<lambda>req p. case DrainNode api req (prc_outside p) of (r, w') \<Rightarrow> (r, set_outside w' p))\<rparr>)"

definition kubernetes_factory :: "('c, 'w) surroundings \<Rightarrow> 'w handle_factory" where
  "kubernetes_factory env cfg p =
     (case kubernetes_New (sur_client_go env) (sur_tc env) (sur_MustParse env) cfg of
        Inl e \<Rightarrow> (Inl e, p)
      | Inr b \<Rightarrow>
          (let a = length (prc_objects p) in
           (Inr \<lparr>obj_driver = lift_driver (kube_view a) (kube_put a)
                (kubernetes_runtime (kb_api b) (kb_driver b) (\<lambda>w. sur_clock env w 0) (sur_stamp env) (sur_ms env)),
              obj_NodeOperations = Some (kubernetes_nodes env b a),
              obj_ExtendedOperations = Some (kubernetes_extended env b a)\<rparr>,
            alloc (fresh_state\<lparr>dst_checkpoints := kb_checkpoints b, dst_tracker := Some (kb_tracker b)\<rparr>) p)))"

definition podman_factory :: "('c, 'w) surroundings \<Rightarrow> 'w handle_factory" where
  "podman_factory env cfg p =
     (case on_outside (podman_New (sur_run env) (sur_os env) cfg) p of
        (Inl e, p') \<Rightarrow> (Inl e, p')
      | (Inr d, p') \<Rightarrow>
          (Inr \<lparr>obj_driver = outside_driver (podman_runtime (sur_run env) d), obj_NodeOperations = None,
             obj_ExtendedOperations = None\<rparr>, alloc fresh_state p'))"

definition compose_factory :: "('c, 'w) surroundings \<Rightarrow> 'w handle_factory" where
  "compose_factory env cfg p =
     (case on_outside (compose_New (sur_run env) (sur_os env)) p of
        (Inl e, p') \<Rightarrow> (Inl e, p')
      | (Inr d, p') \<Rightarrow>
          (Inr \<lparr>obj_driver = outside_driver (compose_runtime (sur_run env) d), obj_NodeOperations = None,
             obj_ExtendedOperations = None\<rparr>, alloc fresh_state p'))"

definition remote_view :: "nat \<Rightarrow> 'w process \<Rightarrow> remote_driver \<times> 'w" where
  "remote_view a p = (dst_remote (get_object a p), prc_outside p)"

definition remote_put :: "nat \<Rightarrow> remote_driver \<times> 'w \<Rightarrow> 'w process \<Rightarrow> 'w process" where
  "remote_put a v p = update_object a (\<lambda>s. s\<lparr>dst_remote := fst v\<rparr>) (set_outside (snd v) p)"

definition remote_factory :: "('c, 'w) surroundings \<Rightarrow> 'w handle_factory" where
  "remote_factory env cfg p =
     (let a = length (prc_objects p) in
      (Inr \<lparr>obj_driver = lift_driver (remote_view a) (remote_put a) (remote_runtime (sur_ssh env) (sur_os env) cfg),
         obj_NodeOperations = None, obj_ExtendedOperations = None\<rparr>, alloc fresh_state p))"

text \<open>What \<open>init\<close> leaves in the registry.\<close>

definition process_drivers ::
  "('c, 'w) surroundings \<Rightarrow> ('w process, 'w process node_operations, 'w process extended_operations) drivers" where
  "process_drivers env =
     the (registry_init (docker_factory env) (kubernetes_factory env) (podman_factory env) (compose_factory env)
       (remote_factory env) [])"

section \<open>Lemmas\<close>

lemma process_get:
  "registry_Get (process_drivers env) name =
     (if name = ''docker'' then docker_factory env else if name = ''kubernetes'' then kubernetes_factory env
      else if name = ''podman'' then podman_factory env else if name = ''compose'' then compose_factory env
      else if name = ''remote'' then remote_factory env
      else (\<lambda>cfg. failE (Errorf (''driver '' @ quoted name @ '' not found''))))"
  by (rule ext)
    (simp add: process_drivers_def registry_init_def Register_def registry_Get_def gm_put_new)

lemma process_init:
  "registry_init (docker_factory env) (kubernetes_factory env) (podman_factory env) (compose_factory env)
     (remote_factory env) [] = Some (process_drivers env)"
  by (simp add: process_drivers_def registry_init_def Register_def)

lemma heap_simps [simp]:
  "prc_objects (alloc st p) = prc_objects p @ [st]" "prc_outside (alloc st p) = prc_outside p"
  "prc_objects (set_outside w p) = prc_objects p" "prc_outside (set_outside w p) = w"
  "prc_outside (update_object a f p) = prc_outside p" "get_object a (set_outside w p) = get_object a p"
  "length (prc_objects (update_object a f p)) = length (prc_objects p)"
  "a < length (prc_objects p) \<Longrightarrow> get_object a (update_object a f p) = f (get_object a p)"
  "b \<noteq> a \<Longrightarrow> get_object b (update_object a f p) = get_object b p"
  "get_object (length (prc_objects p)) (alloc st p) = st"
  "b < length (prc_objects p) \<Longrightarrow> get_object b (alloc st p) = get_object b p"
  "length (prc_objects p) = n \<Longrightarrow> get_object n (alloc st p) = st"
  by (auto simp: alloc_def set_outside_def update_object_def get_object_def nth_append)

text \<open>What a process holds apart from the object \<open>a\<close> and the outside state.\<close>

definition others :: "nat \<Rightarrow> 'w process \<Rightarrow> nat \<times> (nat \<Rightarrow> driver_state option)" where
  "others a p = (length (prc_objects p), \<lambda>b. if b = a then None else Some (get_object b p))"

lemma others_simps [simp]:
  "others a (set_outside w p) = others a p" "others a (update_object a f p) = others a p"
  by (auto simp: others_def fun_eq_iff)

lemma others_iff:
  "others a p' = others a p \<longleftrightarrow>
     length (prc_objects p') = length (prc_objects p) \<and> (\<forall>b. b \<noteq> a \<longrightarrow> get_object b p' = get_object b p)"
  by (auto simp: others_def fun_eq_iff)

lemma others_on_outside [simp]: "others a (snd (on_outside m p)) = others a p"
  by (simp add: on_outside_def split: prod.split)

definition extended_keeps :: "('w \<Rightarrow> 'v) \<Rightarrow> 'w extended_operations \<Rightarrow> bool" where
  "extended_keeps view x \<longleftrightarrow>
     (\<forall>req w. view (snd (xo_CheckpointWorkload x req w)) = view w) \<and>
     (\<forall>req w. view (snd (xo_RestoreWorkload x req w)) = view w) \<and>
     (\<forall>n ns w. view (snd (xo_ListCheckpoints x n ns w)) = view w) \<and>
     (\<forall>spec w. view (snd (xo_ProvisionVolumes x spec w)) = view w) \<and>
     (\<forall>spec w. view (snd (xo_CleanupVolumes x spec w)) = view w)"

definition nodes_keep :: "('w \<Rightarrow> 'v) \<Rightarrow> 'w node_operations \<Rightarrow> bool" where
  "nodes_keep view n \<longleftrightarrow>
     (\<forall>w. view (snd (no_ListBackendHealth n w)) = view w) \<and>
     (\<forall>w. view (snd (no_ListNodeHealth n w)) = view w) \<and>
     (\<forall>req w. view (snd (no_DrainNode n req w)) = view w)"

definition handle_keeps :: "('w process \<Rightarrow> 'v) \<Rightarrow> 'w handle \<Rightarrow> bool" where
  "handle_keeps view h \<longleftrightarrow>
     keeps view (obj_driver h) \<and>
     (\<forall>x. obj_ExtendedOperations h = Some x \<longrightarrow> extended_keeps view x) \<and>
     (\<forall>n. obj_NodeOperations h = Some n \<longrightarrow> nodes_keep view n)"

lemma docker_extended_keeps: "extended_keeps (others a) (docker_extended env ob a)"
  by (simp add: extended_keeps_def docker_extended_def Let_def split: prod.split)

lemma kubernetes_extended_keeps: "extended_keeps (others a) (kubernetes_extended env b a)"
  by (simp add: extended_keeps_def kubernetes_extended_def Let_def split: prod.split)

lemma kubernetes_nodes_keep: "nodes_keep (others a) (kubernetes_nodes env b a)"
  by (simp add: nodes_keep_def kubernetes_nodes_def kube_put_def Let_def split: prod.split)

lemma outside_driver_keeps: "keeps (others a) (outside_driver d)"
  by (rule keeps_lift_driver) simp

text \<open>Every constructor allocates exactly one object and gives a handle on it alone.\<close>

lemma factory_handle:
  assumes "registry_Get (process_drivers env) name cfg p = (Inr h, p')"
  shows "handle_keeps (others (length (prc_objects p))) h \<and>
    (\<exists>st. prc_objects p' = prc_objects p @ [st] \<and> dst_checkpoints st = NewStore)"
  using assms
  by (auto simp: process_get docker_factory_def kubernetes_factory_def podman_factory_def compose_factory_def
      remote_factory_def on_outside_def failE_def handle_keeps_def fresh_state_def docker_New_def kubernetes_New_def
      kube_put_def remote_put_def Let_def docker_extended_keeps kubernetes_extended_keeps kubernetes_nodes_keep
      intro!: keeps_lift_driver
      split: if_splits sum.splits prod.splits)

lemma view_of_others:
  assumes "others a p' = others a p" and "b \<noteq> a"
  shows "get_object b p' = get_object b p"
  using assms by (simp add: others_iff)

lemma keeps_other: "keeps (others a) d \<Longrightarrow> b \<noteq> a \<Longrightarrow> keeps (get_object b) d"
  unfolding keeps_def using view_of_others by blast

lemma extended_keeps_other: "extended_keeps (others a) x \<Longrightarrow> b \<noteq> a \<Longrightarrow> extended_keeps (get_object b) x"
  unfolding extended_keeps_def using view_of_others by blast

lemma nodes_keep_other: "nodes_keep (others a) n \<Longrightarrow> b \<noteq> a \<Longrightarrow> nodes_keep (get_object b) n"
  unfolding nodes_keep_def using view_of_others by blast

lemma handle_keeps_other: "handle_keeps (others a) h \<Longrightarrow> b \<noteq> a \<Longrightarrow> handle_keeps (get_object b) h"
  unfolding handle_keeps_def by (blast intro: keeps_other extended_keeps_other nodes_keep_other)

lemma fst_on_outside: "fst (on_outside m p) = fst (m (prc_outside p))"
  by (simp add: on_outside_def split: prod.split)

section \<open>Which backend supports what\<close>

lemma factory_interfaces:
  "(\<exists>h. fst (docker_factory env cfg p) = Inr h \<and> obj_NodeOperations h \<noteq> None) \<longleftrightarrow> False"
  "(\<exists>h. fst (podman_factory env cfg p) = Inr h \<and> obj_NodeOperations h \<noteq> None) \<longleftrightarrow> False"
  "(\<exists>h. fst (compose_factory env cfg p) = Inr h \<and> obj_NodeOperations h \<noteq> None) \<longleftrightarrow> False"
  "(\<exists>h. fst (remote_factory env cfg p) = Inr h \<and> obj_NodeOperations h \<noteq> None) \<longleftrightarrow> False"
  "(\<exists>h. fst (kubernetes_factory env cfg p) = Inr h \<and> obj_NodeOperations h \<noteq> None) \<longleftrightarrow>
     is_ok (kubernetes_New (sur_client_go env) (sur_tc env) (sur_MustParse env) cfg)"
  "(\<exists>h. fst (podman_factory env cfg p) = Inr h \<and> obj_ExtendedOperations h \<noteq> None) \<longleftrightarrow> False"
  "(\<exists>h. fst (compose_factory env cfg p) = Inr h \<and> obj_ExtendedOperations h \<noteq> None) \<longleftrightarrow> False"
  "(\<exists>h. fst (remote_factory env cfg p) = Inr h \<and> obj_ExtendedOperations h \<noteq> None) \<longleftrightarrow> False"
  "(\<exists>h. fst (docker_factory env cfg p) = Inr h \<and> obj_ExtendedOperations h \<noteq> None) \<longleftrightarrow> is_ok (docker_New (sur_docker env) cfg)"
  "(\<exists>h. fst (kubernetes_factory env cfg p) = Inr h \<and> obj_ExtendedOperations h \<noteq> None) \<longleftrightarrow>
     is_ok (kubernetes_New (sur_client_go env) (sur_tc env) (sur_MustParse env) cfg)"
  by (auto simp: docker_factory_def kubernetes_factory_def podman_factory_def compose_factory_def remote_factory_def
      Let_def split: sum.splits prod.splits)

lemma GetNodeOperations_ok:
  "is_ok (fst (GetNodeOperations ds name cfg p)) \<longleftrightarrow>
     (\<exists>h. fst (registry_Get ds name cfg p) = Inr h \<and> obj_NodeOperations h \<noteq> None)"
  by (auto simp: GetNodeOperations_def bindE_def returnE_def failE_def split: sum.splits prod.splits option.splits)

lemma GetExtendedOperations_ok:
  "is_ok (fst (GetExtendedOperations ds name cfg p)) \<longleftrightarrow>
     (\<exists>h. fst (registry_Get ds name cfg p) = Inr h \<and> obj_ExtendedOperations h \<noteq> None)"
  by (auto simp: GetExtendedOperations_def bindE_def returnE_def failE_def split: sum.splits prod.splits option.splits)

text \<open>
  The optional interfaces: \<open>GetNodeOperations\<close> succeeds exactly for Kubernetes, and
  \<open>GetExtendedOperations\<close> exactly for Docker and Kubernetes, each when the driver could be
  constructed; every other name is an error, which for the command line backends comes after a
  driver has been constructed.
\<close>

theorem optional_interfaces:
  "is_ok (fst (GetNodeOperations (process_drivers env) name cfg p)) \<longleftrightarrow>
     name = ''kubernetes'' \<and> is_ok (kubernetes_New (sur_client_go env) (sur_tc env) (sur_MustParse env) cfg)"
  "is_ok (fst (GetExtendedOperations (process_drivers env) name cfg p)) \<longleftrightarrow>
     name = ''docker'' \<and> is_ok (docker_New (sur_docker env) cfg) \<or>
     name = ''kubernetes'' \<and> is_ok (kubernetes_New (sur_client_go env) (sur_tc env) (sur_MustParse env) cfg)"
  unfolding GetNodeOperations_ok GetExtendedOperations_ok process_get
  using factory_interfaces [of env cfg p] by (simp_all add: failE_def)

lemma map_le_value: "m \<subseteq>\<^sub>m m' \<Longrightarrow> m x = Some y \<Longrightarrow> m' x = Some y"
  by (metis domI map_le_def)

lemma process_known:
  assumes "name \<in> {''docker'', ''kubernetes'', ''podman'', ''compose'', ''remote''}"
  shows "\<exists>f. gm_get (process_drivers env) name = Some f"
proof -
  have "fst ` set (process_drivers env) = {''docker'', ''kubernetes'', ''podman'', ''compose'', ''remote''}"
    by (simp add: process_drivers_def registry_init_def Register_def gm_put_new insert_commute)
  then have "name \<in> fst ` set (process_drivers env)" using assms by (simp only:)
  then show ?thesis by (metis map_of_eq_None_iff not_None_eq)
qed

lemma factory_backend:
  "fst (docker_factory env cfg p) = Inr h \<Longrightarrow> drv_Backend (obj_driver h) = ''docker''"
  "fst (kubernetes_factory env cfg p) = Inr h \<Longrightarrow> drv_Backend (obj_driver h) = ''kubernetes''"
  "fst (podman_factory env cfg p) = Inr h \<Longrightarrow> drv_Backend (obj_driver h) = ''podman''"
  "fst (compose_factory env cfg p) = Inr h \<Longrightarrow> drv_Backend (obj_driver h) = ''compose''"
  "fst (remote_factory env cfg p) = Inr h \<Longrightarrow> drv_Backend (obj_driver h) = ''remote''"
  by (auto simp: docker_factory_def kubernetes_factory_def podman_factory_def compose_factory_def remote_factory_def
      lift_driver_def docker_runtime_def kubernetes_runtime_def podman_runtime_def compose_runtime_def
      remote_runtime_def Let_def split: sum.splits prod.splits)

text \<open>
  C20. The server serves with the backend it was configured for: when the configured default backend
  is one of the five, the driver of a started process names it, whatever plugins the configuration
  enables.
\<close>

theorem served_backend_is_configured:
  assumes "runtime_main (Inr cfg) listen pm (process_drivers env) p = (Serving d, p')"
    and "rc_DefaultBackend (cfg_Runtime cfg) \<in> {''docker'', ''kubernetes'', ''podman'', ''compose'', ''remote''}"
  shows "drv_Backend d = rc_DefaultBackend (cfg_Runtime cfg)"
proof -
  let ?name = "rc_DefaultBackend (cfg_Runtime cfg)"
  obtain e m' ds where l: "LoadFromConfig (Some cfg) (RegisterBuiltins pm) (process_drivers env) = (e, m', ds)"
    by (metis prod_cases3)
  have le: "gm_get (process_drivers env) \<subseteq>\<^sub>m gm_get ds"
  proof (cases "psc_Enabled (cfg_Plugins cfg)")
    case True
    with l have "load_loop (psc_Allow (cfg_Plugins cfg)) (RegisterBuiltins pm) (process_drivers env) = (e, m', ds)"
      by (simp add: LoadFromConfig_def)
    from load_loop_le [OF this] show ?thesis ..
  next
    case False
    with l show ?thesis by (simp add: LoadFromConfig_def)
  qed
  from process_known [OF assms(2), of env] obtain f where f: "gm_get (process_drivers env) ?name = Some f" ..
  then have "gm_get ds ?name = Some f" using map_le_value [OF le] by blast
  with f have same: "registry_Get ds ?name cfg = registry_Get (process_drivers env) ?name cfg"
    by (simp add: registry_Get_def)
  have "\<exists>h p1. registry_Get ds ?name cfg p = (Inr h, p1) \<and> d = obj_driver h"
    using assms(1) unfolding runtime_main_def sum.case l prod.case
    by (cases e; cases "registry_Get ds ?name cfg p"; cases "fst (registry_Get ds ?name cfg p)")
      (auto split: prod.splits sum.splits option.splits)
  then obtain h p1 where "registry_Get (process_drivers env) ?name cfg p = (Inr h, p1)" and d: "d = obj_driver h"
    unfolding same by blast
  then have "fst (registry_Get (process_drivers env) ?name cfg p) = Inr h" by simp
  with assms(2) d show ?thesis using factory_backend [of env cfg p h] by (auto simp: process_get)
qed

section \<open>Handles\<close>

text \<open>
  C33. Handles do not interfere: a handle taken from the registry before another one and the
  later one are on different objects, and no operation of either, of the driver interface or of the
  optional interfaces, changes the other's object.
\<close>

theorem handles_are_isolated:
  assumes "registry_Get (process_drivers env) n1 c1 p0 = (Inr h1, p1)"
    and "registry_Get (process_drivers env) n2 c2 p2 = (Inr h2, p3)"
    and "length (prc_objects p1) \<le> length (prc_objects p2)"
  shows "handle_keeps (get_object (length (prc_objects p2))) h1 \<and> handle_keeps (get_object (length (prc_objects p0))) h2"
proof -
  have "length (prc_objects p0) < length (prc_objects p2)" using factory_handle [OF assms(1)] assms(3) by auto
  then show ?thesis using factory_handle [OF assms(1)] factory_handle [OF assms(2)] by (auto intro: handle_keeps_other)
qed

text \<open>The stored result of a checkpoint is listed.\<close>

lemma Save_listed:
  "gm_wf s \<Longrightarrow> fst (Save n1 n2 w r s) \<in> set (store_List w (snd (Save n1 n2 w r s)))"
proof -
  assume wf: "gm_wf s"
  let ?r = "fst (Save n1 n2 w r s)"
  have "snd (Save n1 n2 w r s) = gm_put (ckpt_key w (cr_CheckpointID ?r)) ?r s" by (simp add: Save_def Let_def)
  moreover have "cr_CheckpointID ?r \<noteq> ''''" by (simp add: Save_def Let_def)
  ultimately show ?thesis using wf by (auto simp: set_store_List)
qed

lemma extended_of_get:
  assumes "GetExtendedOperations (process_drivers env) name cfg p = (Inr x, p')"
  obtains h where "registry_Get (process_drivers env) name cfg p = (Inr h, p')" "obj_ExtendedOperations h = Some x"
  using assms
  by (auto simp: GetExtendedOperations_def bindE_def returnE_def failE_def split: prod.splits sum.splits option.splits)

text \<open>The two shapes of an extended interface, and what its operations do to the store.\<close>

lemma extended_shape:
  assumes "GetExtendedOperations (process_drivers env) name cfg p = (Inr x, p')"
  shows "(\<exists>ob. x = docker_extended env ob (length (prc_objects p))) \<or> (\<exists>b. x = kubernetes_extended env b (length (prc_objects p)))"
    and "prc_objects p' = prc_objects p @ [get_object (length (prc_objects p)) p']"
    and "dst_checkpoints (get_object (length (prc_objects p)) p') = NewStore"
proof -
  from assms obtain h where h: "registry_Get (process_drivers env) name cfg p = (Inr h, p')" "obj_ExtendedOperations h = Some x"
    by (rule extended_of_get)
  then show "(\<exists>ob. x = docker_extended env ob (length (prc_objects p))) \<or> (\<exists>b. x = kubernetes_extended env b (length (prc_objects p)))"
    by (auto simp: process_get docker_factory_def kubernetes_factory_def podman_factory_def compose_factory_def
        remote_factory_def failE_def Let_def split: if_splits sum.splits prod.splits)
  obtain st where st: "prc_objects p' = prc_objects p @ [st]" "dst_checkpoints st = NewStore"
    using factory_handle [OF h(1)] by blast
  then show "prc_objects p' = prc_objects p @ [get_object (length (prc_objects p)) p']"
    "dst_checkpoints (get_object (length (prc_objects p)) p') = NewStore"
    by (simp_all add: get_object_def)
qed

lemma extended_list:
  assumes "x = docker_extended env ob a \<or> x = kubernetes_extended env b a"
  shows "xo_ListCheckpoints x w ns p = (Inr (store_List w (dst_checkpoints (get_object a p))), p)"
  using assms by (auto simp: docker_extended_def kubernetes_extended_def docker_ListCheckpoints_def ListCheckpoints_def Let_def)

lemma extended_checkpoint:
  assumes "x = docker_extended env ob a \<or> x = kubernetes_extended env b a" and "a < length (prc_objects p)"
    and "gm_wf (dst_checkpoints (get_object a p))" and "xo_CheckpointWorkload x req p = (Inr r, p')"
  shows "r \<in> set (store_List (creq_WorkloadID req) (dst_checkpoints (get_object a p')))"
    and "length (prc_objects p') = length (prc_objects p)"
proof -
  let ?s = "dst_checkpoints (get_object a p)"
  have "\<exists>n1 n2 r0. r = fst (Save n1 n2 (creq_WorkloadID req) r0 ?s) \<and>
      dst_checkpoints (get_object a p') = snd (Save n1 n2 (creq_WorkloadID req) r0 ?s) \<and>
      length (prc_objects p') = length (prc_objects p)"
    using assms(1)
  proof
    assume x: "x = docker_extended env ob a"
    show ?thesis using assms(2,4)
      by (auto simp: x docker_extended_def docker_CheckpointWorkload_def Let_def split: prod.splits option.splits sum.splits)
        (metis fst_conv snd_conv)
  next
    assume x: "x = kubernetes_extended env b a"
    show ?thesis using assms(2,4)
      by (auto simp: x kubernetes_extended_def CheckpointWorkload_def Let_def split: prod.splits option.splits sum.splits)
        (metis fst_conv snd_conv)
  qed
  then show "r \<in> set (store_List (creq_WorkloadID req) (dst_checkpoints (get_object a p')))"
    "length (prc_objects p') = length (prc_objects p)"
    using Save_listed [OF assms(3)] by auto
qed

text \<open>
  C36. Checkpoints die with the handle: after a successful checkpoint through one
  \<open>GetExtendedOperations\<close>, that handle lists it, but the handle of the next \<open>GetExtendedOperations\<close> of
  any backend lists no checkpoint of any workload, because the registry constructs a new driver,
  with an empty store, at every call.
\<close>

theorem checkpoints_die_with_handle:
  assumes "GetExtendedOperations (process_drivers env) name cfg p = (Inr x1, p1)"
    and "xo_CheckpointWorkload x1 req p1 = (Inr r, p2)"
    and "GetExtendedOperations (process_drivers env) name' cfg' p2 = (Inr x2, p3)"
  shows "(\<exists>rs. xo_ListCheckpoints x1 (creq_WorkloadID req) ns p3 = (Inr rs, p3) \<and> r \<in> set rs) \<and>
    xo_ListCheckpoints x2 w ns p3 = (Inr [], p3)"
proof -
  let ?a = "length (prc_objects p)" and ?b = "length (prc_objects p2)"
  obtain ob b where x1: "x1 = docker_extended env ob ?a \<or> x1 = kubernetes_extended env b ?a"
    using extended_shape(1) [OF assms(1)] by blast
  obtain ob' b' where x2: "x2 = docker_extended env ob' ?b \<or> x2 = kubernetes_extended env b' ?b"
    using extended_shape(1) [OF assms(3)] by blast
  have a: "?a < length (prc_objects p1)" using extended_shape(2) [OF assms(1)] by (metis length_append_singleton lessI)
  have "gm_wf (dst_checkpoints (get_object ?a p1))" using extended_shape(3) [OF assms(1)] by (simp add: NewStore_def)
  note saved = extended_checkpoint [OF x1 a this assms(2)]
  have "get_object ?a p3 = get_object ?a p2"
    using extended_shape(2) [OF assms(3)] a saved(2) by (metis get_object_def nth_append)
  with saved(1) have "r \<in> set (store_List (creq_WorkloadID req) (dst_checkpoints (get_object ?a p3)))" by simp
  moreover have "store_List w (dst_checkpoints (get_object ?b p3)) = []"
    unfolding extended_shape(3) [OF assms(3)] by (simp add: NewStore_def store_List_def)
  ultimately show ?thesis unfolding extended_list [OF x1] extended_list [OF x2] by simp
qed

section \<open>Migrations from a remote host\<close>

lemma unconnected_remote:
  assumes "\<not> rd_connected (dst_remote (get_object a p))"
  shows "\<exists>e p'. drv_Destroy (lift_driver (remote_view a) (remote_put a) (remote_runtime ssh os cfg)) x p = (Some e, p')"
  using assms
  by (simp add: lift_driver_def remote_view_def remote_runtime_def remote_Destroy_def)

lemma update_object_same: "update_object a (\<lambda>s. s\<lparr>dst_remote := dst_remote (get_object a p)\<rparr>) (set_outside w p) = set_outside w p"
  by (cases "a < length (prc_objects p)") (simp_all add: update_object_def set_outside_def get_object_def)

lemma remote_status_keeps:
  "status_keeps (get_object a) (lift_driver (remote_view a) (remote_put a) (remote_runtime ssh os cfg))"
  by (simp add: status_keeps_def lift_driver_def remote_view_def remote_put_def remote_runtime_def update_object_same
      split: prod.split)

text \<open>
  C38. A migration away from a remote host never completes: the orchestrator takes a new, unconnected
  driver for the source, and neither the status nor the destruction of the source workload connects
  it; so every such request ends in an error, also after the workload was deployed and
  became ready on the target.
\<close>

theorem migration_from_remote_fails:
  assumes "GetMigrationOperations (process_drivers env) clk cfg req p = Some (r, p')"
    and "source_backend cfg req = ''remote''" and "clock_keeps prc_objects clk"
  shows "\<exists>e. r = Inl e"
proof (cases "validateRequest req = None \<and> mreq_TargetBackend req \<noteq> ''remote''")
  case True
  let ?a = "length (prc_objects p)"
  let ?src = "lift_driver (remote_view ?a) (remote_put ?a) (remote_runtime (sur_ssh env) (sur_os env) cfg)"
  let ?p1 = "alloc fresh_state p"
  have src: "registry_Get (process_drivers env) ''remote'' cfg p =
      (Inr \<lparr>obj_driver = ?src, obj_NodeOperations = None, obj_ExtendedOperations = None\<rparr>, ?p1)"
    by (simp add: process_get remote_factory_def Let_def)
  obtain q p2 where tgt: "registry_Get (process_drivers env) (mreq_TargetBackend req) cfg ?p1 = (q, p2)" by fastforce
  show ?thesis
  proof (cases q)
    case (Inl e)
    with assms(1,2) True src tgt show ?thesis
      by (auto simp: GetMigrationOperations_def MigrateWorkload_def bindE_def returnE_def)
  next
    case (Inr h)
    note tgt = tgt [unfolded Inr]
    have m: "migrate_between clk cfg ?src (obj_driver h) req p2 = Some (r, p')"
      using assms(1,2) True src tgt by (simp add: GetMigrationOperations_def MigrateWorkload_def bindE_def returnE_def)
    have "keeps (others (length (prc_objects ?p1))) (obj_driver h)"
      using factory_handle [OF tgt] by (simp add: handle_keeps_def)
    then have k: "keeps (get_object ?a) (obj_driver h)" by (rule keeps_other) simp
    have c: "clock_keeps (get_object ?a) clk" using assms(3) by (simp add: clock_keeps_def get_object_def)
    have o2: "\<not> rd_connected (dst_remote (get_object ?a p2))"
      using factory_handle [OF tgt] by (auto simp: get_object_def nth_append fresh_state_def remote_New_def)
    from m k c remote_status_keeps show ?thesis
    proof (cases rule: migrate_between_phases)
      case (cut k v status p5)
      with o2 have "\<not> rd_connected (dst_remote (get_object ?a p5))" by simp
      from unconnected_remote [OF this] obtain e p6 where "drv_Destroy ?src (mreq_WorkloadID req) p5 = (Some e, p6)" by blast
      with cut(5) show ?thesis by (auto simp: cutover_def)
    qed blast
  qed
qed (use assms(1,2) in \<open>auto simp: GetMigrationOperations_def MigrateWorkload_def split: option.splits if_splits\<close>)

section \<open>Examples\<close>

text \<open>The five drivers over one engine; the cluster and the remote host cannot be reached.\<close>

definition demo_surroundings :: "(unit, engine) surroundings" where
  "demo_surroundings =
     \<lparr>sur_docker = (\<lambda>h. Inr engine_api),
      sur_client_go = \<lparr>cgo_BuildConfigFromFlags = (\<lambda>k. Inl (Errorf ''no kubeconfig'')),
        cgo_InClusterConfig = Inl (Errorf ''not in a cluster''), cgo_ContextConfig = (\<lambda>c. Inl (Errorf ''no context'')),
        cgo_NewForConfig = (\<lambda>u. Inl (Errorf ''no cluster''))\<rparr>,
      sur_tc = demo_tc, sur_MustParse = Some, sur_run = (\<lambda>argv w. (('''', None), w)), sur_os = sample_os,
      sur_ssh = \<lparr>rem_ReadFile = (\<lambda>p. Inr ''key''), rem_ParsePrivateKey = (\<lambda>k. None), rem_KnownHosts = (\<lambda>p. None),
        rem_Dial = (\<lambda>a w. (Some (Errorf ''no route to host''), w)), rem_Exec = (\<lambda>a c w. (('''', None), w))\<rparr>,
      sur_clock = (\<lambda>w i. int i), sur_stamp = (\<lambda>t. ''''), sur_ms = 0\<rparr>"

definition docker_process_config :: config where
  "docker_process_config = DefaultConfig\<lparr>cfg_Runtime := \<lparr>rc_DefaultBackend = ''docker''\<rparr>\<rparr>"

definition demo_process :: "engine process" where
  "demo_process = \<lparr>prc_outside = web_with_volume, prc_objects = []\<rparr>"

lemma served_backend_is_configured_witness:
  "\<exists>d p'. runtime_main (Inr docker_process_config) (returnE ()) NewManager_plugin (process_drivers demo_surroundings) demo_process = (Serving d, p') \<and>
     drv_Backend d = ''docker''"
proof -
  have plug: "\<not> psc_Enabled (cfg_Plugins docker_process_config)" "rc_DefaultBackend (cfg_Runtime docker_process_config) = ''docker''"
    by (simp_all add: docker_process_config_def DefaultConfig_def)
  have "\<exists>d p'. runtime_main (Inr docker_process_config) (returnE ()) NewManager_plugin (process_drivers demo_surroundings) demo_process = (Serving d, p')"
    by (simp add: runtime_main_def LoadFromConfig_def plug process_get docker_factory_def docker_New_def demo_surroundings_def
        lift_driver_def docker_runtime_def docker_Ping_def engine_api_def returnE_def)
  then obtain d p' where r: "runtime_main (Inr docker_process_config) (returnE ()) NewManager_plugin (process_drivers demo_surroundings) demo_process = (Serving d, p')"
    by blast
  from served_backend_is_configured [OF r] plug(2) have "drv_Backend d = ''docker''" by simp
  with r show ?thesis by blast
qed

lemma demo_get_docker:
  "\<exists>h. registry_Get (process_drivers demo_surroundings) ''docker'' cfg p = (Inr h, alloc fresh_state p) \<and>
     obj_ExtendedOperations h = Some (docker_extended demo_surroundings \<lparr>dob_api = engine_api, dob_cfg = cfg, dob_checkpoints = NewStore\<rparr> (length (prc_objects p)))"
  by (simp add: process_get docker_factory_def docker_New_def demo_surroundings_def fresh_state_def)

lemma handles_are_isolated_witness:
  "\<exists>h1 p1 h2 p2. registry_Get (process_drivers demo_surroundings) ''docker'' docker_process_config demo_process = (Inr h1, p1) \<and>
     registry_Get (process_drivers demo_surroundings) ''docker'' docker_process_config p1 = (Inr h2, p2) \<and>
     handle_keeps (get_object 1) h1 \<and> handle_keeps (get_object 0) h2"
proof -
  obtain h1 where h1: "registry_Get (process_drivers demo_surroundings) ''docker'' docker_process_config demo_process = (Inr h1, alloc fresh_state demo_process)"
    using demo_get_docker by blast
  obtain h2 where h2: "registry_Get (process_drivers demo_surroundings) ''docker'' docker_process_config (alloc fresh_state demo_process) =
      (Inr h2, alloc fresh_state (alloc fresh_state demo_process))"
    using demo_get_docker by blast
  have "length (prc_objects demo_process) = 0" by (simp add: demo_process_def)
  with handles_are_isolated [OF h1 h2] have "handle_keeps (get_object 1) h1 \<and> handle_keeps (get_object 0) h2" by simp
  with h1 h2 show ?thesis by blast
qed

lemma checkpoints_die_with_handle_witness:
  "\<exists>x1 p1 r p2 x2 p3. GetExtendedOperations (process_drivers demo_surroundings) ''docker'' docker_process_config demo_process = (Inr x1, p1) \<and>
     xo_CheckpointWorkload x1 \<lparr>creq_WorkloadID = ''web'', creq_Namespace = ''''\<rparr> p1 = (Inr r, p2) \<and>
     GetExtendedOperations (process_drivers demo_surroundings) ''docker'' docker_process_config p2 = (Inr x2, p3) \<and>
     (\<exists>rs. xo_ListCheckpoints x1 ''web'' '''' p3 = (Inr rs, p3) \<and> r \<in> set rs) \<and>
     xo_ListCheckpoints x2 ''web'' '''' p3 = (Inr [], p3)"
proof -
  let ?x = "docker_extended demo_surroundings \<lparr>dob_api = engine_api, dob_cfg = docker_process_config, dob_checkpoints = NewStore\<rparr>"
  have g: "GetExtendedOperations (process_drivers demo_surroundings) ''docker'' docker_process_config p = (Inr (?x (length (prc_objects p))), alloc fresh_state p)" for p
    using demo_get_docker [of docker_process_config p] by (auto simp: GetExtendedOperations_def bindE_def returnE_def)
  obtain r p2 where c: "xo_CheckpointWorkload (?x (length (prc_objects demo_process))) \<lparr>creq_WorkloadID = ''web'', creq_Namespace = ''''\<rparr>
      (alloc fresh_state demo_process) = (Inr r, p2)"
    by (simp add: docker_extended_def docker_CheckpointWorkload_def ValidateCheckpoint_def resolveContainerID_def
        demo_process_def web_with_volume_def engine_api_def engine_set_def engine_find_def name_matches_def Save_def
        HasPrefix_def Let_def alloc_def get_object_def fresh_state_def NewStore_def)
  from checkpoints_die_with_handle [OF g c g, of "''''" "''web''"] g c show ?thesis by fastforce
qed

definition back_request :: workload_migration_request where
  "back_request = \<lparr>mreq_WorkloadID = ''web'', mreq_SourceBackend = ''remote'', mreq_TargetBackend = ''docker'',
     mreq_Namespace = '''', mreq_ReadyTimeout = ''30s'', mreq_ZeroDowntime = False, mreq_Spec = None\<rparr>"

definition still_clock :: "'w clock" where
  "still_clock = \<lparr>clk_Now = (\<lambda>w. 0), clk_Wait = (\<lambda>t w. (None, w))\<rparr>"

lemma migration_from_remote_fails_witness:
  "\<exists>e p'. GetMigrationOperations (process_drivers demo_surroundings) still_clock docker_process_config back_request demo_process = Some (Inl e, p')"
proof -
  have "\<exists>r p'. GetMigrationOperations (process_drivers demo_surroundings) still_clock docker_process_config back_request demo_process = Some (r, p')"
    by (simp add: GetMigrationOperations_def MigrateWorkload_def validateRequest_def back_request_def source_backend_def
        bindE_def returnE_def process_get remote_factory_def docker_factory_def docker_New_def demo_surroundings_def
        migrate_between_def load_spec_def lift_driver_def remote_runtime_def remote_view_def remote_GetStatus_def
        fresh_state_def remote_New_def TrimSpace_def is_space_def Let_def)
  then obtain r p' where m: "GetMigrationOperations (process_drivers demo_surroundings) still_clock docker_process_config back_request demo_process = Some (r, p')"
    by blast
  have "\<exists>e. r = Inl e"
    by (rule migration_from_remote_fails [OF m]) (simp_all add: source_backend_def back_request_def clock_keeps_def still_clock_def)
  with m show ?thesis by blast
qed

end
