(* ===== verification/Process_Migration.thy ===== *)
theory Process_Migration
  imports Runtime_Process
begin

text \<open>
  A migration in the whole process: \<open>GetMigrationOperations\<close> of the registry constructs both
  drivers itself, so that nothing is left of the program as a parameter. What remains is the world
  outside: the Docker engine and the \<open>podman\<close> and \<open>docker compose\<close> programs, which have to do
  what their documentation says (\<open>outside_laws\<close>).
\<close>

section \<open>What a driver leaves alone\<close>

text \<open>An engine, or a program, none of whose calls touches the view \<open>other\<close> of the outside state.\<close>

definition engine_apart :: "'w docker_api \<Rightarrow> ('w \<Rightarrow> string set) \<Rightarrow> bool" where
  "engine_apart api other \<longleftrightarrow> engine_laws api other {} \<and>
     (\<forall>cc hc n. act_keeps other (dk_ContainerCreate api cc hc n)) \<and>
     (\<forall>x w. other (snd (dk_ContainerRemove api x w)) = other w) \<and>
     (\<forall>x w. other (snd (dk_ContainerRestart api x w)) = other w) \<and>
     (\<forall>w. other (snd (dk_Ping api w)) = other w)"

definition command_apart :: "'w runner \<Rightarrow> string \<Rightarrow> ('w \<Rightarrow> string set) \<Rightarrow> bool" where
  "command_apart run binary other \<longleftrightarrow> (\<forall>args w. other (snd (run (binary # args) w)) = other w)"

lemma engine_apartD:
  assumes "engine_apart api other"
  shows "engine_laws api other {}" "act_keeps other (dk_ContainerCreate api cc hc n)"
    "other (snd (dk_ContainerRemove api x w)) = other w" "other (snd (dk_ContainerRestart api x w)) = other w"
    "other (snd (dk_Ping api w)) = other w"
  using assms by (simp_all add: engine_apart_def)

lemma docker_start_keeps:
  assumes "engine_laws api other {}" and "\<And>cc hc n. act_keeps other (dk_ContainerCreate api cc hc n)"
  shows "act_keeps other (docker_start api spec)"
  unfolding docker_start_def
  by (intro act_keeps_bindE act_keeps_wrapE act_keeps_procE assms(2) engine_keeps(2) [OF assms(1)] pullImage_keeps [OF assms(1)])
    (simp_all add: act_keeps_def docker_GetStatus_keeps [OF assms(1)] docker_provision_keeps [OF engine_keeps(4) [OF assms(1)]])

lemma docker_Deploy_keeps:
  assumes "engine_apart api other" and "docker_Deploy tc api s w = (r, s', w')"
  shows "other w' = other w"
proof -
  have "act_keeps other (docker_start api spec)" for spec
    by (rule docker_start_keeps) (rule engine_apartD [OF assms(1)])+
  from act_keepsD [OF this] assms(2) show ?thesis by (auto simp: docker_Deploy_def Let_def split: prod.splits)
qed

lemma docker_Destroy_keeps:
  assumes "engine_apart api other" and "docker_Destroy cfg api x w = (e, w')"
  shows "other w' = other w"
proof -
  obtain e1 w1 where r: "dk_ContainerRemove api x w = (e1, w1)" by (metis surj_pair)
  obtain e2 w2 where c: "docker_CleanupByWorkload api x w1 = (e2, w2)" by (metis surj_pair)
  have "other (snd (dk_ContainerRemove api x w)) = other w" "other (snd (docker_CleanupByWorkload api x w1)) = other w1"
    by (rule engine_apartD(3) [OF assms(1)], rule docker_cleanup_keeps [OF engine_apartD(1) [OF assms(1)]])
  then have "other w1 = other w" "other w2 = other w1" unfolding r c by simp_all
  with assms(2) r c show ?thesis by (cases e1; cases e2) (auto simp: docker_Destroy_def split: if_splits)
qed

lemma docker_Restart_keeps:
  assumes "engine_apart api other" and "docker_Restart api x w = (e, w')"
  shows "other w' = other w"
proof -
  obtain e1 w1 where r: "dk_ContainerRestart api x w = (e1, w1)" by (metis surj_pair)
  have "other (snd (dk_ContainerRestart api x w)) = other w" by (rule engine_apartD(4) [OF assms(1)])
  with assms(2) r show ?thesis by (cases e1) (auto simp: docker_Restart_def)
qed

lemma docker_ListWorkloads_keeps:
  assumes "engine_apart api other" and "docker_ListWorkloads api ns w = (r, w')"
  shows "other w' = other w"
proof -
  obtain q w1 where l: "dk_ContainerList api None w = (q, w1)" by (metis surj_pair)
  have "other (snd (dk_ContainerList api None w)) = other w"
    by (rule engine_keeps(3) [OF engine_apartD(1) [OF assms(1)]])
  with assms(2) l show ?thesis by (cases q) (auto simp: docker_ListWorkloads_def)
qed

lemma keepsI:
  assumes "\<And>s w r s' w'. drv_Deploy d s w = (r, s', w') \<Longrightarrow> view w' = view w"
    and "\<And>x w e w'. drv_Destroy d x w = (e, w') \<Longrightarrow> view w' = view w"
    and "\<And>x w e w'. drv_Restart d x w = (e, w') \<Longrightarrow> view w' = view w"
    and "\<And>x w r w'. drv_GetStatus d x w = (r, w') \<Longrightarrow> view w' = view w"
    and "\<And>x w r w'. drv_ListWorkloads d x w = (r, w') \<Longrightarrow> view w' = view w"
    and "\<And>w e w'. drv_Ping d w = (e, w') \<Longrightarrow> view w' = view w"
  shows "keeps view d"
  unfolding keeps_def
proof (intro conjI allI)
  show "view (snd (snd (drv_Deploy d s w))) = view w" for s w
    by (cases "drv_Deploy d s w") (simp add: assms(1))
qed (simp_all add: assms(2-6) [OF prod.collapse [symmetric]])

lemma docker_runtime_keeps:
  assumes "engine_apart api other"
  shows "keeps other (docker_runtime tc cfg api)"
proof (rule keepsI, goal_cases)
  case (1 s w r s' w')
  with docker_Deploy_keeps [OF assms, of tc s w] show ?case by (simp add: docker_runtime_def)
next
  case (2 x w e w')
  with docker_Destroy_keeps [OF assms, of cfg x w] show ?case by (simp add: docker_runtime_def)
next
  case (3 x w e w')
  with docker_Restart_keeps [OF assms, of x w] show ?case by (simp add: docker_runtime_def)
next
  case (4 x w r w')
  have "other (snd (docker_GetStatus api x w)) = other w"
    by (rule docker_GetStatus_keeps [OF engine_apartD(1) [OF assms]])
  with 4 show ?case by (simp add: docker_runtime_def)
next
  case (5 x w r w')
  with docker_ListWorkloads_keeps [OF assms, of x w] show ?case
    by (auto simp: docker_runtime_def split: prod.splits option.splits)
next
  case (6 w e w')
  have "other (snd (dk_Ping api w)) = other w" by (rule engine_apartD(5) [OF assms])
  with 6 show ?case by (simp add: docker_runtime_def docker_Ping_def)
qed

lemma podman_runtime_keeps:
  assumes "command_apart run (pod_binary d) other"
  shows "keeps other (podman_runtime run d)"
proof -
  have r: "run (pod_binary d # args) w = (q, w') \<Longrightarrow> other w' = other w" for args w q w'
    using assms unfolding command_apart_def by (metis snd_conv)
  note ops = podman_runtime_def podman_Deploy_def podman_Destroy_def podman_Restart_def podman_GetStatus_def
    podman_ListWorkloads_def podman_Ping_def
  show ?thesis by (rule keepsI) (auto simp: ops split: prod.splits option.splits dest!: r)
qed

lemma compose_runtime_keeps:
  assumes "command_apart run (com_composeBinary d) other"
  shows "keeps other (compose_runtime run d)"
proof -
  have r: "run (compose_args d args) w = (q, w') \<Longrightarrow> other w' = other w" for args w q w'
    using assms unfolding command_apart_def compose_args_def by (metis snd_conv)
  note ops = compose_runtime_def compose_Deploy_def compose_Destroy_def compose_Restart_def compose_GetStatus_def
    compose_ListWorkloads_def compose_Ping_def
  show ?thesis by (rule keepsI) (auto simp: ops split: prod.splits option.splits if_splits dest!: r)
qed

section \<open>The laws of the world outside\<close>

definition compose_standalone :: compose_driver where
  "compose_standalone = \<lparr>com_composeBinary = ''docker-compose'', com_composeV2 = False\<rparr>"

text \<open>
  What a backend relies on: its engine or program keeps the laws of a set \<open>live\<close> of workloads, and
  leaves the view \<open>other\<close> (the workloads of the other backend) alone. The programs are those that
  the constructors find on the path; constructing a driver only asks for a version.
\<close>

definition outside_laws ::
  "('c, 'w) surroundings \<Rightarrow> string \<Rightarrow> ('w \<Rightarrow> string set) \<Rightarrow> string set \<Rightarrow> ('w \<Rightarrow> string set) \<Rightarrow> bool" where
  "outside_laws env name live names other \<longleftrightarrow>
     (if name = ''docker'' then
        \<forall>h api. sur_docker env h = Inr api \<longrightarrow> engine_laws api live names \<and> engine_apart api other
      else if name = ''podman'' then
        \<forall>b. os_LookPath (sur_os env) ''podman'' = Inr b \<longrightarrow>
          podman_laws (sur_run env) b live names \<and> command_apart (sur_run env) b other \<and>
          (\<forall>w. live (snd (sur_run env [b, ''version''] w)) = live w)
      else if name = ''compose'' then
        compose_laws (sur_run env) compose_plugin live names \<and> command_apart (sur_run env) ''docker'' other \<and>
        compose_laws (sur_run env) compose_standalone live names \<and> command_apart (sur_run env) ''docker-compose'' other \<and>
        (\<forall>w. live (snd (sur_run env [''docker'', ''compose'', ''version''] w)) = live w)
      else False)"

text \<open>What the registry then hands out for a backend, and that constructing it changes no workload.\<close>

definition serves ::
  "('c, 'w) surroundings \<Rightarrow> config \<Rightarrow> string \<Rightarrow> ('w \<Rightarrow> string set) \<Rightarrow> string set \<Rightarrow> ('w \<Rightarrow> string set) \<Rightarrow> bool" where
  "serves env cfg name live names other \<longleftrightarrow>
     (\<forall>p h p'. registry_Get (process_drivers env) name cfg p = (Inr h, p') \<longrightarrow>
        backend (obj_driver h) (\<lambda>p. live (prc_outside p)) names \<and> keeps (\<lambda>p. other (prc_outside p)) (obj_driver h) \<and>
        live (prc_outside p') = live (prc_outside p) \<and> other (prc_outside p') = other (prc_outside p))"

lemma keeps_outside:
  assumes "keeps other d"
  shows "keeps (\<lambda>p. other (prc_outside p)) (outside_driver d)"
  using assms by (auto simp: keeps_def lift_driver_def split: prod.split) (metis snd_conv)+

lemma backend_outside: "backend d live names \<Longrightarrow> backend (outside_driver d) (\<lambda>p. live (prc_outside p)) names"
  by (rule backend_lift) simp_all

lemma docker_serves:
  assumes "outside_laws env ''docker'' live names other"
  shows "serves env cfg ''docker'' live names other"
  unfolding serves_def
proof (intro allI impI)
  fix p h p' assume g: "registry_Get (process_drivers env) ''docker'' cfg p = (Inr h, p')"
  then obtain api where api: "sur_docker env (dc_Host (cfg_Docker cfg)) = Inr api"
    and h: "obj_driver h = outside_driver (docker_runtime (sur_tc env) cfg api)" and p': "prc_outside p' = prc_outside p"
    by (auto simp: process_get docker_factory_def docker_New_def split: sum.splits)
  from assms api have laws: "engine_laws api live names" "engine_apart api other" by (auto simp: outside_laws_def)
  show "backend (obj_driver h) (\<lambda>p. live (prc_outside p)) names \<and> keeps (\<lambda>p. other (prc_outside p)) (obj_driver h) \<and>
      live (prc_outside p') = live (prc_outside p) \<and> other (prc_outside p') = other (prc_outside p)"
    unfolding h p' by (intro conjI backend_outside docker_backend keeps_outside docker_runtime_keeps laws refl)
qed

lemma podman_serves:
  assumes "outside_laws env ''podman'' live names other"
  shows "serves env cfg ''podman'' live names other"
  unfolding serves_def
proof (intro allI impI)
  fix p h p' assume g: "registry_Get (process_drivers env) ''podman'' cfg p = (Inr h, p')"
  then obtain d where new: "podman_New (sur_run env) (sur_os env) cfg (prc_outside p) = (Inr d, prc_outside p')"
    and h: "obj_driver h = outside_driver (podman_runtime (sur_run env) d)"
    by (auto simp: process_get podman_factory_def on_outside_def split: sum.splits prod.splits)
  from new obtain q where path: "os_LookPath (sur_os env) ''podman'' = Inr (pod_binary d)"
    and v: "sur_run env [pod_binary d, ''version''] (prc_outside p) = (q, prc_outside p')"
    by (auto simp: podman_New_def verifyPodman_def split: sum.splits prod.splits option.splits)
  from assms path have laws: "podman_laws (sur_run env) (pod_binary d) live names" "command_apart (sur_run env) (pod_binary d) other"
    and "live (snd (sur_run env [pod_binary d, ''version''] (prc_outside p))) = live (prc_outside p)"
    by (simp_all add: outside_laws_def)
  moreover from laws(2) have "other (snd (sur_run env [pod_binary d, ''version''] (prc_outside p))) = other (prc_outside p)"
    by (simp add: command_apart_def)
  ultimately have "live (prc_outside p') = live (prc_outside p)" "other (prc_outside p') = other (prc_outside p)"
    unfolding v by simp_all
  then show "backend (obj_driver h) (\<lambda>p. live (prc_outside p)) names \<and> keeps (\<lambda>p. other (prc_outside p)) (obj_driver h) \<and>
      live (prc_outside p') = live (prc_outside p) \<and> other (prc_outside p') = other (prc_outside p)"
    unfolding h by (intro conjI backend_outside exact_backend.axioms(1) [OF podman_backend] keeps_outside podman_runtime_keeps laws)
qed

lemma compose_serves:
  assumes "outside_laws env ''compose'' live names other"
  shows "serves env cfg ''compose'' live names other"
  unfolding serves_def
proof (intro allI impI)
  fix p h p' assume g: "registry_Get (process_drivers env) ''compose'' cfg p = (Inr h, p')"
  then obtain d where new: "compose_New (sur_run env) (sur_os env) (prc_outside p) = (Inr d, prc_outside p')"
    and h: "obj_driver h = outside_driver (compose_runtime (sur_run env) d)"
    by (auto simp: process_get compose_factory_def on_outside_def split: sum.splits prod.splits)
  have d: "d = compose_plugin \<or> d = compose_standalone"
    using new by (auto simp: compose_New_def compose_plugin_def compose_standalone_def Let_def split: prod.splits if_splits)
  have apart: "command_apart (sur_run env) ''docker'' other" "command_apart (sur_run env) ''docker-compose'' other"
    and l: "compose_laws (sur_run env) compose_plugin live names" "compose_laws (sur_run env) compose_standalone live names"
    and version: "live (snd (sur_run env [''docker'', ''compose'', ''version''] (prc_outside p))) = live (prc_outside p)"
    using assms by (simp_all add: outside_laws_def)
  have laws: "compose_laws (sur_run env) d live names" "command_apart (sur_run env) (com_composeBinary d) other"
    using d l apart by (elim disjE; simp add: compose_plugin_def compose_standalone_def)+
  obtain q w1 where v: "sur_run env [''docker'', ''compose'', ''version''] (prc_outside p) = (q, w1)" by fastforce
  have "other (snd (sur_run env [''docker'', ''compose'', ''version''] (prc_outside p))) = other (prc_outside p)"
    using apart(1) by (simp add: command_apart_def)
  with version have "other w1 = other (prc_outside p)" "live w1 = live (prc_outside p)" unfolding v by simp_all
  moreover have "prc_outside p' = prc_outside p \<or> prc_outside p' = w1"
    using new v by (auto simp: compose_New_def Let_def split: prod.splits if_splits)
  ultimately have "live (prc_outside p') = live (prc_outside p)" "other (prc_outside p') = other (prc_outside p)" by auto
  then show "backend (obj_driver h) (\<lambda>p. live (prc_outside p)) names \<and> keeps (\<lambda>p. other (prc_outside p)) (obj_driver h) \<and>
      live (prc_outside p') = live (prc_outside p) \<and> other (prc_outside p') = other (prc_outside p)"
    unfolding h by (intro conjI backend_outside compose_backend keeps_outside compose_runtime_keeps laws)
qed

lemma outside_laws_backends:
  "outside_laws env name live names other \<Longrightarrow> name = ''docker'' \<or> name = ''podman'' \<or> name = ''compose''"
  by (simp add: outside_laws_def split: if_splits)

lemma outside_serves:
  assumes "outside_laws env name live names other"
  shows "serves env cfg name live names other"
  using outside_laws_backends [OF assms] assms docker_serves podman_serves compose_serves by (elim disjE) simp_all

lemma servesD:
  assumes "outside_laws env name live names other" and "registry_Get (process_drivers env) name cfg p = (Inr h, p')"
  shows "backend (obj_driver h) (\<lambda>p. live (prc_outside p)) names" "keeps (\<lambda>p. other (prc_outside p)) (obj_driver h)"
    "live (prc_outside p') = live (prc_outside p)" "other (prc_outside p') = other (prc_outside p)"
  using outside_serves [OF assms(1), of cfg] assms(2) unfolding serves_def by blast+

section \<open>The migration\<close>

text \<open>
  Between any two drivers that keep the contract of a backend, each with its own part of the outside
  state, wherever the resolver takes them from.
\<close>

theorem migration_moves_workload:
  assumes "MigrateWorkload clk cfg resolve req w = Some (Inr res, w')"
    and "migration_pair src lsrc tgt ltgt names clk"
    and "resolve (source_backend cfg req) w = (Inr src, w1)" and "resolve (mreq_TargetBackend req) w1 = (Inr tgt, w2)"
    and "lsrc w2 = lsrc w" and "ltgt w2 = ltgt w"
    and "mreq_WorkloadID req \<in> names" and "mreq_WorkloadID req @ ''-migrating'' \<in> names"
  shows "lsrc w' = lsrc w - {mreq_WorkloadID req} \<and>
    insert (mreq_WorkloadID req) (ltgt w - {mreq_WorkloadID req @ ''-migrating''}) \<subseteq> ltgt w' \<and>
    ltgt w' \<subseteq> insert (mreq_WorkloadID req) (insert (mreq_WorkloadID req @ ''-migrating'') (ltgt w))"
proof -
  have "migrate_between clk cfg src tgt req w2 = Some (Inr res, w')"
    using assms(1,3,4) by (auto simp: MigrateWorkload_def split: option.splits if_splits)
  from migration_pair.moves [OF assms(2) this assms(7) assms(8) [folded shadowSuffix_def]] show ?thesis
    unfolding assms(5,6) shadowSuffix_def by (intro conjI)
qed


section \<open>From Docker to Podman\<close>

text \<open>An outside state with a Docker engine, the containers of Podman and a clock.\<close>

definition on_fst :: "('v \<Rightarrow> 'a \<times> 'v) \<Rightarrow> 'v \<times> 'c \<Rightarrow> 'a \<times> 'v \<times> 'c" where
  "on_fst m w = (case m (fst w) of (r, v) \<Rightarrow> (r, v, snd w))"

definition engine_beside :: "'v docker_api \<Rightarrow> ('v \<times> 'c) docker_api" where
  "engine_beside api =
     \<lparr>dk_ImagePull = (\<lambda>ref pl. on_fst (dk_ImagePull api ref pl)),
      dk_ContainerCreate = (\<lambda>cc hc n. on_fst (dk_ContainerCreate api cc hc n)),
      dk_ContainerStart = (\<lambda>x. on_fst (dk_ContainerStart api x)), dk_ContainerRemove = (\<lambda>x. on_fst (dk_ContainerRemove api x)),
      dk_ContainerRestart = (\<lambda>x. on_fst (dk_ContainerRestart api x)), dk_ContainerPause = (\<lambda>x. on_fst (dk_ContainerPause api x)),
      dk_ContainerUnpause = (\<lambda>x. on_fst (dk_ContainerUnpause api x)), dk_ContainerList = (\<lambda>f. on_fst (dk_ContainerList api f)),
      dk_ContainerRunning = (\<lambda>x. on_fst (dk_ContainerRunning api x)),
      dk_VolumeCreate = (\<lambda>n ls. on_fst (dk_VolumeCreate api n ls)), dk_VolumeRemove = (\<lambda>n. on_fst (dk_VolumeRemove api n)),
      dk_VolumeList = (\<lambda>l. on_fst (dk_VolumeList api l)), dk_Ping = on_fst (dk_Ping api)\<rparr>"

lemma on_fst_simps [simp]: "snd (snd (on_fst m w)) = snd w" "fst (snd (on_fst m w)) = snd (m (fst w))"
  by (simp_all add: on_fst_def split: prod.split)

lemma on_fst_step: "on_fst m w = (r, w') \<longleftrightarrow> m (fst w) = (r, fst w') \<and> snd w' = snd w"
  by (cases w') (auto simp: on_fst_def split: prod.splits)

lemma engine_beside_laws:
  assumes "engine_laws api live names"
  shows "engine_laws (engine_beside api) (\<lambda>w. live (fst w)) names"
  unfolding engine_laws_def
proof (intro conjI allI impI, goal_cases)
  case (1 cc hc n w r w')
  with engine_create [OF assms, of n cc hc "fst w" r "fst w'"] show ?case by (simp add: engine_beside_def on_fst_step)
next
  case (2 x w e w')
  with engine_remove [OF assms, of x "fst w" e "fst w'"] show ?case by (simp add: engine_beside_def on_fst_step)
qed (simp_all add: engine_beside_def engine_keeps [OF assms])

lemma engine_beside_apart: "engine_apart (engine_beside api) (\<lambda>w. f (snd w))"
  by (simp add: engine_apart_def engine_laws_def engine_beside_def act_keeps_def)

type_synonym two_engines = "engine \<times> string list \<times> int"

definition cli_beside :: "two_engines runner" where
  "cli_beside argv w = (case podman_cli argv (fst (snd w)) of (r, v) \<Rightarrow> (r, fst w, v, snd (snd w)))"

lemma cli_beside_laws: "podman_laws cli_beside binary (\<lambda>w. set (fst (snd w))) names"
  by (auto simp: podman_laws_def cli_beside_def podman_cli_def Let_def split: if_splits)

lemma cli_beside_apart: "command_apart cli_beside binary (\<lambda>w. f (fst w))"
  by (simp add: command_apart_def cli_beside_def split: prod.split)

definition two_engine_surroundings :: "(unit, two_engines) surroundings" where
  "two_engine_surroundings =
     \<lparr>sur_docker = (\<lambda>h. Inr (engine_beside engine_api)),
      sur_client_go = \<lparr>cgo_BuildConfigFromFlags = (\<lambda>k. Inl (Errorf ''no kubeconfig'')),
        cgo_InClusterConfig = Inl (Errorf ''not in a cluster''), cgo_ContextConfig = (\<lambda>c. Inl (Errorf ''no context'')),
        cgo_NewForConfig = (\<lambda>u. Inl (Errorf ''no cluster''))\<rparr>,
      sur_tc = demo_tc, sur_MustParse = Some, sur_run = cli_beside, sur_os = sample_os,
      sur_ssh = \<lparr>rem_ReadFile = (\<lambda>p. Inr ''key''), rem_ParsePrivateKey = (\<lambda>k. None), rem_KnownHosts = (\<lambda>p. None),
        rem_Dial = (\<lambda>a w. (Some (Errorf ''no route to host''), w)), rem_Exec = (\<lambda>a c w. (('''', None), w))\<rparr>,
      sur_clock = (\<lambda>w i. int i), sur_stamp = (\<lambda>t. ''''), sur_ms = 0\<rparr>"

definition process_clock :: "two_engines process clock" where
  "process_clock = \<lparr>clk_Now = (\<lambda>p. snd (snd (prc_outside p))),
     clk_Wait = (\<lambda>t p. (None, set_outside (case prc_outside p of (a, b, now) \<Rightarrow> (a, b, now + t)) p))\<rparr>"

lemma docker_laws_here:
  "outside_laws two_engine_surroundings ''docker'' (\<lambda>w. engine_live (fst w)) engine_names (\<lambda>w. set (fst (snd w)))"
  using engine_beside_laws [OF engine_api_laws] engine_beside_apart [of engine_api "\<lambda>v. set (fst v)"]
  by (simp add: outside_laws_def two_engine_surroundings_def)

lemma podman_laws_here:
  "outside_laws two_engine_surroundings ''podman'' (\<lambda>w. set (fst (snd w))) names (\<lambda>w. engine_live (fst w))"
  by (simp add: outside_laws_def two_engine_surroundings_def cli_beside_laws cli_beside_apart)
    (simp add: cli_beside_def podman_cli_def)

lemma process_clock_keeps:
  "clock_keeps (\<lambda>p. f (fst (prc_outside p))) process_clock" "clock_keeps (\<lambda>p. f' (fst (snd (prc_outside p)))) process_clock"
  by (simp_all add: clock_keeps_def process_clock_def split: prod.split)

interpretation docker_to_podman: migration_pair
  "outside_driver (docker_runtime tc cfg (engine_beside engine_api))" "\<lambda>p. engine_live (fst (prc_outside p))"
  "outside_driver (podman_runtime cli_beside d)" "\<lambda>p. set (fst (snd (prc_outside p)))" engine_names process_clock for tc cfg d
proof (intro migration_pair.intro migration_pair_axioms.intro)
  show "backend (outside_driver (docker_runtime tc cfg (engine_beside engine_api))) (\<lambda>p. engine_live (fst (prc_outside p))) engine_names"
    by (intro backend_outside docker_backend engine_beside_laws engine_api_laws)
  show "backend (outside_driver (podman_runtime cli_beside d)) (\<lambda>p. set (fst (snd (prc_outside p)))) engine_names"
    by (intro backend_outside exact_backend.axioms(1) [OF podman_backend] cli_beside_laws)
  show "keeps (\<lambda>p. engine_live (fst (prc_outside p))) (outside_driver (podman_runtime cli_beside d))"
    by (rule keeps_outside, rule podman_runtime_keeps) (rule cli_beside_apart)
  show "keeps (\<lambda>p :: two_engines process. set (fst (snd (prc_outside p)))) (outside_driver (docker_runtime tc cfg (engine_beside engine_api)))"
    by (rule keeps_outside, rule docker_runtime_keeps) (rule engine_beside_apart)
qed (rule process_clock_keeps)+

definition docker_beside_podman :: "two_engines process" where
  "docker_beside_podman = \<lparr>prc_outside = (\<lparr>en_containers =
     [\<lparr>dct_ID = ''id-web'', dct_Names = [''/web''], dct_State = ''running'', dct_Image = ''nginx''\<rparr>,
      \<lparr>dct_ID = ''id-db'', dct_Names = [''/db''], dct_State = ''running'', dct_Image = ''pg''\<rparr>], en_volumes = []\<rparr>,
     [''cron''], 0), prc_objects = []\<rparr>"

definition move_request :: workload_migration_request where
  "move_request = demo_request\<lparr>mreq_Spec := Some (zero_spec\<lparr>ws_Name := ''web'', ws_Image := ''nginx''\<rparr>)\<rparr>"

definition docker_without_web :: engine where
  "docker_without_web = \<lparr>en_containers =
     [\<lparr>dct_ID = ''id-db'', dct_Names = [''/db''], dct_State = ''running'', dct_Image = ''pg''\<rparr>], en_volumes = []\<rparr>"

lemma demo_engine_drops_web:
  "docker_Destroy DefaultConfig (engine_beside engine_api) ''web'' (fst (prc_outside docker_beside_podman), u :: string list \<times> int) = (None, docker_without_web, u)"
  by (simp add: docker_Destroy_def docker_CleanupByWorkload_def engine_beside_def on_fst_def engine_api_def
      docker_beside_podman_def docker_without_web_def engine_find_def)

lemma podman_says_running: "mapPodmanState ''running'' = ''Running''" "EqualFold ''Running'' ''Running''"
  by code_simp+

lemma two_engines_migrate:
  "\<exists>res p'. GetMigrationOperations (process_drivers two_engine_surroundings) process_clock DefaultConfig move_request docker_beside_podman =
     Some (Inr res, p')"
  using demo_engine_drops_web
  by (simp add: GetMigrationOperations_def MigrateWorkload_def migrate_between_def load_spec_def deploy_shadow_def deploy_final_def
      cutover_def drop_shadow_def waitUntilReady_def wait_loop.simps wait_replicas_def status_ready_def bindE_def returnE_def
      process_get docker_factory_def docker_New_def podman_factory_def podman_New_def verifyPodman_def on_outside_def
      process_clock_def two_engine_surroundings_def move_request_def demo_request_def docker_beside_podman_def alloc_def set_outside_def
      validateRequest_def source_backend_def TrimSpace_def is_space_def shadowSuffix_def cloneSpec_def
      write_back_def lift_driver_def docker_runtime_def podman_runtime_def podman_Deploy_def podman_Destroy_def
      podman_GetStatus_def podman_run_args_def cli_beside_def podman_cli_def sample_os_def cli_status_def podman_says_running
      detectRootless_def
      zero_spec_def zero_status_def zero_resources_def parseTimeout_def parse_duration_simps Let_def)


end
