(* ===== verification/Log_Streams.thy ===== *)
theory Log_Streams
  imports Cli_Drivers
begin

text \<open>
  \<open>StreamLogs\<close> of the drivers with one reader goroutine: \<open>internal/docker\<close> (\<open>driver.go\<close>,
  \<open>logs.go\<close>), \<open>internal/kubernetes/watch.go\<close> and \<open>internal/remote/driver.go\<close>. The request for the
  logs is a call of the engine, the cluster or the ssh session (parameters); the goroutine that
  copies the reader to the channel is a step relation with the channel, its capacity of 100, the
  consumer and the context. The pair of goroutines of Podman and Compose is in \<open>Command_Logs\<close>.
\<close>

section \<open>Requests\<close>

record docker_logs_options =
  lo_ShowStdout :: bool
  lo_ShowStderr :: bool
  lo_Tail :: string
  lo_Follow :: bool
  lo_Timestamps :: bool

text \<open>\<open>logs\<close> is \<open>ContainerLogs\<close> of the engine's client; the reader it gives is of any type \<open>'r\<close>.\<close>

definition getLogs ::
  "(string \<Rightarrow> docker_logs_options \<Rightarrow> ('w, 'r) act) \<Rightarrow> string \<Rightarrow> int \<Rightarrow> bool \<Rightarrow> ('w, 'r) act" where
  "getLogs logs containerID tail follow =
     logs containerID \<lparr>lo_ShowStdout = True, lo_ShowStderr = True, lo_Tail = Itoa tail,
       lo_Follow = follow, lo_Timestamps = True\<rparr>"

definition docker_StreamLogs ::
  "(string \<Rightarrow> docker_logs_options \<Rightarrow> ('w, 'r) act) \<Rightarrow> string \<Rightarrow> int \<Rightarrow> ('w, 'r) act" where
  "docker_StreamLogs logs podID tailLines =
     wrapE ''failed to get logs: ''
       (logs podID \<lparr>lo_ShowStdout = True, lo_ShowStderr = True, lo_Tail = Itoa tailLines,
          lo_Follow = True, lo_Timestamps = False\<rparr>)"

record pod_log_options =
  plo_Follow :: bool
  plo_TailLines :: "int option"
  plo_Timestamps :: bool

definition int64Ptr :: "int \<Rightarrow> int option" where
  "int64Ptr i = Some i"

text \<open>\<open>logs namespace pod options\<close> is \<open>Pods(namespace).GetLogs(pod, options).Stream\<close>.\<close>

definition streamPodLogs ::
  "(string \<Rightarrow> string \<Rightarrow> pod_log_options \<Rightarrow> ('w, 'r) act) \<Rightarrow> string \<Rightarrow> string \<Rightarrow> int \<Rightarrow> ('w, 'r) act" where
  "streamPodLogs logs namespace podID tailLines =
     logs namespace podID \<lparr>plo_Follow = True, plo_TailLines = int64Ptr tailLines, plo_Timestamps = True\<rparr>"

text \<open>
  The remote driver: \<open>ses_New\<close> opens a session on the connection, \<open>ses_StderrPipe\<close> gives its
  stderr and \<open>ses_Start\<close> starts a command in it. The session's stdout is discarded.
\<close>

record ('w, 's, 'r) ssh_session =
  ses_New :: "('w, 's) act"
  ses_StderrPipe :: "'s \<Rightarrow> ('w, 'r) act"
  ses_Start :: "'s \<Rightarrow> string \<Rightarrow> 'w proc"

definition createRemoteSession :: "('w, 's, 'r) ssh_session \<Rightarrow> remote_driver \<Rightarrow> ('w, 's) act" where
  "createRemoteSession ses d w =
     (if \<not> rd_connected d then (Inl (Errorf ''not connected to remote host''), w) else ses_New ses w)"

definition logs_command :: "string \<Rightarrow> int \<Rightarrow> string \<Rightarrow> string" where
  "logs_command runtime tailLines podID = runtime @ '' logs -f --tail '' @ Itoa tailLines @ '' '' @ podID"

definition remote_StreamLogs ::
  "('w, 's, 'r) ssh_session \<Rightarrow> remote_driver \<Rightarrow> string \<Rightarrow> int \<Rightarrow> ('w, 'r) act" where
  "remote_StreamLogs ses d podID tailLines w =
     (if \<not> rd_connected d then (Inl (Errorf ''not connected to remote host''), w)
      else
        let run = (\<lambda>cmd s. bindE (ses_StderrPipe ses s) (\<lambda>r. bindE (procE (ses_Start ses s cmd)) (\<lambda>_. returnE r)))
        in case createRemoteSession ses d w of
             (Inr s, w1) \<Rightarrow> run (logs_command ''docker'' tailLines podID) s w1
           | (Inl e, w1) \<Rightarrow>
               (case createRemoteSession ses d w1 of
                  (Inr s, w2) \<Rightarrow> run (logs_command ''podman'' tailLines podID) s w2
                | (Inl e2, w2) \<Rightarrow> (Inl e2, w2)))"

section \<open>The reader goroutine\<close>

text \<open>
  \<open>rd_reads\<close> are the results that the reader's \<open>Read\<close> calls will give: the bytes read and an
  error, if any (a reader may return both; the end of the stream is the error \<open>EOF\<close>). The
  goroutine is before a \<open>Read\<close>, before the send of a chunk, after its loop, or after the first
  of the two deferred calls. Only the Kubernetes loop looks at the context (\<open>rd_watches\<close>), before
  every \<open>Read\<close>. The consumer may take from the channel until it goes away.
\<close>

datatype reader_pc = Reading | Sending string | Leaving | StreamClosed | Finished

definition log_capacity :: nat where "log_capacity = 100"

record log_reader =
  rd_watches :: bool
  rd_reads :: "(string \<times> go_error option) list"
  rd_pc :: reader_pc
  rd_chan :: "string list"
  rd_received :: "string list"
  rd_cancelled :: bool
  rd_consumer :: bool

definition reader_start :: "bool \<Rightarrow> (string \<times> go_error option) list \<Rightarrow> log_reader" where
  "reader_start watches reads =
     \<lparr>rd_watches = watches, rd_reads = reads, rd_pc = Reading, rd_chan = [], rd_received = [],
      rd_cancelled = False, rd_consumer = True\<rparr>"

text \<open>The goroutines of the three drivers: only the Kubernetes one watches its context.\<close>

definition docker_reader :: "(string \<times> go_error option) list \<Rightarrow> log_reader" where
  "docker_reader reads = reader_start False reads"

definition pod_reader :: "(string \<times> go_error option) list \<Rightarrow> log_reader" where
  "pod_reader reads = reader_start True reads"

definition remote_reader :: "(string \<times> go_error option) list \<Rightarrow> log_reader" where
  "remote_reader reads = reader_start False reads"

inductive reader_step :: "log_reader \<Rightarrow> log_reader \<Rightarrow> bool" where
  see_done: "rd_pc s = Reading \<Longrightarrow> rd_watches s \<Longrightarrow> rd_cancelled s \<Longrightarrow>
     reader_step s (s\<lparr>rd_pc := Leaving\<rparr>)"
| read_chunk: "rd_pc s = Reading \<Longrightarrow> \<not> (rd_watches s \<and> rd_cancelled s) \<Longrightarrow> rd_reads s = (x, None) # rs \<Longrightarrow>
     reader_step s (s\<lparr>rd_reads := rs, rd_pc := (if 0 < length x then Sending x else Reading)\<rparr>)"
| read_error: "rd_pc s = Reading \<Longrightarrow> \<not> (rd_watches s \<and> rd_cancelled s) \<Longrightarrow> rd_reads s = (x, Some e) # rs \<Longrightarrow>
     reader_step s (s\<lparr>rd_reads := rs, rd_pc := Leaving\<rparr>)"
| send_chunk: "rd_pc s = Sending x \<Longrightarrow> length (rd_chan s) < log_capacity \<Longrightarrow>
     reader_step s (s\<lparr>rd_chan := rd_chan s @ [x], rd_pc := Reading\<rparr>)"
| close_reader: "rd_pc s = Leaving \<Longrightarrow> reader_step s (s\<lparr>rd_pc := StreamClosed\<rparr>)"
| close_logs: "rd_pc s = StreamClosed \<Longrightarrow> reader_step s (s\<lparr>rd_pc := Finished\<rparr>)"
| receive: "rd_consumer s \<Longrightarrow> rd_chan s = x # xs \<Longrightarrow>
     reader_step s (s\<lparr>rd_chan := xs, rd_received := rd_received s @ [x]\<rparr>)"

text \<open>What the surroundings do: cancel the context, or stop receiving.\<close>

inductive outside_step :: "log_reader \<Rightarrow> log_reader \<Rightarrow> bool" where
  cancel: "\<not> rd_cancelled s \<Longrightarrow> outside_step s (s\<lparr>rd_cancelled := True\<rparr>)"
| consumer_leaves: "rd_consumer s \<Longrightarrow> outside_step s (s\<lparr>rd_consumer := False\<rparr>)"

inductive reader_run :: "log_reader \<Rightarrow> log_reader \<Rightarrow> bool" where
  run_refl: "reader_run s s"
| run_reader: "reader_run s s1 \<Longrightarrow> reader_step s1 s2 \<Longrightarrow> reader_run s s2"
| run_outside: "reader_run s s1 \<Longrightarrow> outside_step s1 s2 \<Longrightarrow> reader_run s s2"

inductive_cases reader_stepE: "reader_step s s'"
inductive_cases outside_stepE: "outside_step s s'"
inductive_simps reader_step_Finished: "reader_step (s\<lparr>rd_pc := Finished\<rparr>) s'"

section \<open>What a stream carries\<close>

text \<open>The chunks before the first error: bytes that come together with an error are not sent.\<close>

fun payload :: "(string \<times> go_error option) list \<Rightarrow> string list" where
  "payload [] = []"
| "payload ((x, Some e) # rs) = []"
| "payload ((x, None) # rs) = (if 0 < length x then x # payload rs else payload rs)"

definition in_flight :: "reader_pc \<Rightarrow> string list" where
  "in_flight pc = (case pc of Sending x \<Rightarrow> [x] | _ \<Rightarrow> [])"

definition to_come :: "log_reader \<Rightarrow> string list" where
  "to_come s = in_flight (rd_pc s) @
     (case rd_pc s of Reading \<Rightarrow> payload (rd_reads s) | Sending x \<Rightarrow> payload (rd_reads s) | _ \<Rightarrow> [])"

definition delivered :: "log_reader \<Rightarrow> string list" where
  "delivered s = rd_received s @ rd_chan s"


section \<open>Lemmas\<close>

definition reader_inv :: "(string \<times> go_error option) list \<Rightarrow> log_reader \<Rightarrow> bool" where
  "reader_inv reads s \<longleftrightarrow>
     (\<exists>rest. payload reads = delivered s @ to_come s @ rest \<and> (\<not> rd_cancelled s \<longrightarrow> rest = [])) \<and>
     length (rd_chan s) \<le> log_capacity"

lemma reader_inv_start: "reader_inv reads (reader_start watches reads)"
  by (simp add: reader_inv_def reader_start_def delivered_def to_come_def in_flight_def)

lemmas flight_defs = delivered_def to_come_def in_flight_def

lemma reader_inv_step: "reader_step s s' \<Longrightarrow> reader_inv reads s \<Longrightarrow> reader_inv reads s'"
  by (erule reader_stepE) (auto simp: reader_inv_def flight_defs log_capacity_def split: reader_pc.splits)

lemma reader_inv_outside: "outside_step s s' \<Longrightarrow> reader_inv reads s \<Longrightarrow> reader_inv reads s'"
  by (erule outside_stepE) (auto simp: reader_inv_def flight_defs split: reader_pc.splits)

lemma reader_inv_run: "reader_run s s' \<Longrightarrow> reader_inv reads s \<Longrightarrow> reader_inv reads s'"
  by (induction rule: reader_run.induct) (auto intro: reader_inv_step reader_inv_outside)

text \<open>Every step of the goroutine and every receive makes progress.\<close>

definition pc_left :: "reader_pc \<Rightarrow> nat" where
  "pc_left pc = (case pc of Reading \<Rightarrow> 3 | Sending x \<Rightarrow> 5 | Leaving \<Rightarrow> 2 | StreamClosed \<Rightarrow> 1 | Finished \<Rightarrow> 0)"

definition reader_left :: "log_reader \<Rightarrow> nat" where
  "reader_left s = 4 * length (rd_reads s) + pc_left (rd_pc s) + length (rd_chan s)"

lemma reader_left_step: "reader_step s s' \<Longrightarrow> reader_left s' < reader_left s"
  by (erule reader_stepE) (auto simp: reader_left_def pc_left_def)

lemma reader_left_bound: "reader_left (reader_start watches reads) = 4 * length reads + 3"
  by (simp add: reader_left_def reader_start_def pc_left_def)

text \<open>The stream ends: an error is still to be read, or the loop is left.\<close>

definition reader_ends :: "log_reader \<Rightarrow> bool" where
  "reader_ends s \<longleftrightarrow> (\<exists>(x, e) \<in> set (rd_reads s). e \<noteq> None) \<or> rd_pc s \<in> {Leaving, StreamClosed, Finished}"

lemma reader_ends_step: "reader_step s s' \<Longrightarrow> reader_ends s \<Longrightarrow> reader_ends s'"
  by (erule reader_stepE) (auto simp: reader_ends_def)

lemma reader_ends_outside: "outside_step s s' \<Longrightarrow> reader_ends s \<Longrightarrow> reader_ends s'"
  by (erule outside_stepE) (auto simp: reader_ends_def)

lemma reader_ends_run: "reader_run s s' \<Longrightarrow> reader_ends s \<Longrightarrow> reader_ends s'"
  by (induction rule: reader_run.induct) (auto intro: reader_ends_step reader_ends_outside)

lemma reader_flags_step: "reader_step s s' \<Longrightarrow> rd_consumer s' = rd_consumer s \<and> rd_cancelled s' = rd_cancelled s"
  by (erule reader_stepE) auto

lemma reader_progress:
  assumes "reader_ends s" and "\<not> rd_cancelled s" and "rd_consumer s" and "rd_pc s = Finished \<longrightarrow> rd_chan s \<noteq> []"
  shows "\<exists>s'. reader_step s s'"
proof (cases "rd_chan s")
  case (Cons x xs)
  with receive [OF assms(3)] show ?thesis by blast
next
  case Nil
  show ?thesis
  proof (cases "rd_pc s")
    case Reading
    with assms(1) obtain x e rs where r: "rd_reads s = (x, e) # rs"
      by (cases "rd_reads s") (auto simp: reader_ends_def)
    with read_chunk [OF Reading, of x rs] read_error [OF Reading, of x _ rs] assms(2) show ?thesis by (cases e) auto
  next
    case (Sending x)
    from send_chunk [OF this] Nil show ?thesis by (auto simp: log_capacity_def)
  qed (use Nil assms(4) in \<open>auto intro: close_reader close_logs\<close>)
qed

section \<open>Properties\<close>

text \<open>
  Whatever the context and the consumer do, what has reached the consumer and the channel is a
  prefix of the chunks that were read before the first error, in order, the channel never
  holds more than its capacity, and without a cancellation a finished goroutine has sent
  all of them.
\<close>

theorem reader_in_order:
  assumes "reader_run (reader_start watches reads) s"
  shows "length (rd_chan s) \<le> 100 \<and>
    (\<exists>rest. payload reads = rd_received s @ rd_chan s @ rest \<and>
       (rd_pc s = Finished \<and> \<not> rd_cancelled s \<longrightarrow> rest = []))"
  using reader_inv_run [OF assms reader_inv_start] by (auto simp: reader_inv_def flight_defs log_capacity_def)


definition sample_reads :: "(string \<times> go_error option) list" where
  "sample_reads = [(''one'', None), ('''', None), (''two'', None), (''three'', Some (Errorf ''EOF''))]"


text \<open>The goroutine alone fills the channel with the next chunks.\<close>

lemma reader_fills:
  assumes "rd_pc s = Reading" and "\<not> rd_cancelled s" and "rd_reads s = map (\<lambda>y. (y, None)) xs @ rs"
    and "\<forall>y \<in> set xs. y \<noteq> []" and "length (rd_chan s) + length xs \<le> log_capacity"
  shows "reader_run s0 s \<Longrightarrow> reader_run s0 (s\<lparr>rd_reads := rs, rd_chan := rd_chan s @ xs\<rparr>)"
  using assms
proof (induction xs arbitrary: s)
  case (Cons y xs)
  let ?s1 = "s\<lparr>rd_reads := map (\<lambda>y. (y, None)) xs @ rs, rd_pc := (if 0 < length y then Sending y else Reading)\<rparr>"
  let ?s2 = "?s1\<lparr>rd_chan := rd_chan ?s1 @ [y], rd_pc := Reading\<rparr>"
  have "reader_step s ?s1" using Cons.prems by (intro read_chunk) auto
  then have r1: "reader_run s0 ?s1" by (rule run_reader [OF Cons.prems(1)])
  have "reader_step ?s1 ?s2" using Cons.prems by (intro send_chunk) auto
  then have r2: "reader_run s0 ?s2" by (rule run_reader [OF r1])
  have "reader_run s0 (?s2\<lparr>rd_reads := rs, rd_chan := rd_chan ?s2 @ xs\<rparr>)"
    by (rule Cons.IH [OF r2]) (use Cons.prems in auto)
  moreover have "s\<lparr>rd_pc := Reading, rd_reads := rs, rd_chan := rd_chan s @ y # xs\<rparr> =
      s\<lparr>rd_reads := rs, rd_chan := rd_chan s @ y # xs\<rparr>"
    using Cons.prems(2) by (cases s) simp
  ultimately show ?case by simp
next
  case Nil
  then have "s\<lparr>rd_reads := rs, rd_chan := rd_chan s @ []\<rparr> = s" by (cases s) simp
  with Nil.prems(1) show ?case by simp
qed

lemma reader_stuck:
  assumes "reader_run s s'" and "rd_pc s = Sending x" and "length (rd_chan s) = log_capacity" and "\<not> rd_consumer s"
  shows "rd_pc s' = Sending x \<and> \<not> (\<exists>s2. reader_step s' s2)"
proof -
  have stuck: "\<not> reader_step s1 s2"
    if "rd_pc s1 = Sending x" "length (rd_chan s1) = log_capacity" "\<not> rd_consumer s1" for s1 s2
    using that by (auto elim!: reader_stepE)
  have "rd_pc s' = Sending x \<and> length (rd_chan s') = log_capacity \<and> \<not> rd_consumer s'"
    using assms
  proof (induction rule: reader_run.induct)
    case (run_outside s s1 s2)
    then show ?case by (auto elim!: outside_stepE)
  qed (auto dest: stuck)
  with stuck show ?thesis by blast
qed

text \<open>
  C30. A goroutine that waits for room in the channel does not look at the context: for a stream with
  more chunks than the channel holds, a state is reachable in which the consumer has left and from
  which, whatever happens, the cancellation of the context included, the goroutine makes no
  step any more: neither the reader nor the channel is ever closed.
\<close>

theorem reader_leaks_without_consumer:
  assumes "reads = map (\<lambda>y. (y, None)) (xs @ [x]) @ rs" and "length xs = 100" and "\<forall>y \<in> set (xs @ [x]). y \<noteq> []"
  shows "\<exists>s. reader_run (reader_start watches reads) s \<and> \<not> rd_consumer s \<and>
    (\<forall>s'. reader_run s s' \<longrightarrow> rd_pc s' = Sending x \<and> \<not> (\<exists>s2. reader_step s' s2))"
proof -
  let ?s0 = "reader_start watches reads"
  let ?s1 = "?s0\<lparr>rd_reads := (x, None) # rs, rd_chan := rd_chan ?s0 @ xs\<rparr>"
  let ?s2 = "?s1\<lparr>rd_reads := rs, rd_pc := (if 0 < length x then Sending x else Reading)\<rparr>"
  let ?s3 = "?s2\<lparr>rd_consumer := False\<rparr>"
  have r1: "reader_run ?s0 ?s1"
    by (rule reader_fills [OF _ _ _ _ _ run_refl]) (use assms in \<open>auto simp: reader_start_def log_capacity_def\<close>)
  have "reader_step ?s1 ?s2" by (rule read_chunk) (auto simp: reader_start_def)
  then have r2: "reader_run ?s0 ?s2" by (rule run_reader [OF r1])
  have "outside_step ?s2 ?s3" by (rule consumer_leaves) (simp add: reader_start_def)
  then have "reader_run ?s0 ?s3" by (rule run_outside [OF r2])
  moreover have "rd_pc ?s3 = Sending x" "length (rd_chan ?s3) = log_capacity" "\<not> rd_consumer ?s3"
    using assms(2,3) by (auto simp: reader_start_def log_capacity_def)
  ultimately show ?thesis using reader_stuck by blast
qed

lemma reader_leaks_without_consumer_witness:
  "\<exists>s. reader_run (reader_start True (map (\<lambda>y. (y, None)) (replicate 100 ''a'' @ [''b'']) @ [])) s \<and> \<not> rd_consumer s \<and>
    (\<forall>s'. reader_run s s' \<longrightarrow> rd_pc s' = Sending ''b'' \<and> \<not> (\<exists>s2. reader_step s' s2))"
  by (rule reader_leaks_without_consumer [OF refl]) auto

lemma reader_in_order_witness:
  "\<exists>s. reader_run (reader_start True sample_reads) s \<and> rd_chan s = [''one''] \<and> length (rd_chan s) \<le> 100 \<and>
    (\<exists>rest. payload sample_reads = rd_received s @ rd_chan s @ rest \<and>
       (rd_pc s = Finished \<and> \<not> rd_cancelled s \<longrightarrow> rest = []))"
proof -
  let ?s0 = "reader_start True sample_reads"
  let ?s1 = "?s0\<lparr>rd_reads := tl sample_reads, rd_chan := rd_chan ?s0 @ [''one'']\<rparr>"
  have r: "reader_run ?s0 ?s1"
    by (rule reader_fills [OF _ _ _ _ _ run_refl]) (auto simp: reader_start_def sample_reads_def log_capacity_def)
  have "rd_chan ?s1 = [''one'']" by (simp add: reader_start_def)
  with r reader_in_order [OF r] show ?thesis by blast
qed

end
