(* ===== verification/Command_Logs.thy ===== *)
theory Command_Logs
  imports Log_Streams
begin

text \<open>
  \<open>StreamLogs\<close> of \<open>internal/podman/driver.go\<close> and \<open>internal/compose/driver.go\<close>, which follow the
  logs of a command: two goroutines copy its stdout and its stderr to one channel. Creating the
  pipes and starting the command are calls of \<open>os/exec\<close> (parameters); what the command will write
  is given by the chunks that the reads of each pipe return.
\<close>

section \<open>Starting the command\<close>

record ('w, 'r) command_api =
  cmd_StdoutPipe :: "string list \<Rightarrow> ('w, 'r) act"
  cmd_StderrPipe :: "string list \<Rightarrow> ('w, 'r) act"
  cmd_Start :: "string list \<Rightarrow> 'w proc"

definition follow_command :: "('w, 'r) command_api \<Rightarrow> string list \<Rightarrow> ('w, 'r \<times> 'r) act" where
  "follow_command api argv =
     bindE (cmd_StdoutPipe api argv) (\<lambda>stdout.
     bindE (cmd_StderrPipe api argv) (\<lambda>stderr.
     bindE (procE (cmd_Start api argv)) (\<lambda>_. returnE (stdout, stderr))))"

section \<open>The two goroutines\<close>

text \<open>
  One goroutine copies stdout to the channel. The other copies stderr, waits for the command
  (which closes the pipes) and then closes the channel. Both read into the same buffer
  \<open>lg_buf\<close>. A goroutine is before a \<open>Read\<close> (\<open>Idle\<close>), has read \<open>n\<close> bytes into the buffer
  (\<open>Filled\<close>), or has copied them out of the buffer and sends them (\<open>Holding\<close>); an empty chunk is
  skipped. A send on the closed channel panics, also when it was waiting for room, and a panic ends
  the program. The command can exit, and \<open>Wait\<close> return, while a pipe still holds up to its
  capacity of unread bytes.
\<close>

datatype copier = Idle | Filled nat | Holding string

record log_stream =
  lg_stdout :: "string list"
  lg_stderr :: "string list"
  lg_buf :: string
  lg_out :: copier
  lg_err :: copier
  lg_chan :: "string list"
  lg_received :: "string list"
  lg_waited :: bool
  lg_closed :: bool
  lg_panicked :: bool
  lg_killed :: bool
  lg_consumer :: bool

definition read_into :: "string \<Rightarrow> string \<Rightarrow> string" where
  "read_into x buf = x @ drop (length x) buf"

definition after_read :: "string \<Rightarrow> copier" where
  "after_read x = (if 0 < length x then Filled (length x) else Idle)"

definition pipe_capacity :: nat where "pipe_capacity = 65536"

inductive log_step :: "log_stream \<Rightarrow> log_stream \<Rightarrow> bool" where
  out_read: "\<not> lg_panicked s \<Longrightarrow> \<not> lg_waited s \<Longrightarrow> lg_out s = Idle \<Longrightarrow> lg_stdout s = x # xs \<Longrightarrow>
     log_step s (s\<lparr>lg_stdout := xs, lg_buf := read_into x (lg_buf s), lg_out := after_read x\<rparr>)"
| out_copy: "\<not> lg_panicked s \<Longrightarrow> lg_out s = Filled n \<Longrightarrow>
     log_step s (s\<lparr>lg_out := Holding (take n (lg_buf s))\<rparr>)"
| out_send: "\<not> lg_panicked s \<Longrightarrow> \<not> lg_closed s \<Longrightarrow> lg_out s = Holding x \<Longrightarrow> length (lg_chan s) < log_capacity \<Longrightarrow>
     log_step s (s\<lparr>lg_chan := lg_chan s @ [x], lg_out := Idle\<rparr>)"
| out_panic: "\<not> lg_panicked s \<Longrightarrow> lg_closed s \<Longrightarrow> lg_out s = Holding x \<Longrightarrow>
     log_step s (s\<lparr>lg_panicked := True\<rparr>)"
| err_read: "\<not> lg_panicked s \<Longrightarrow> \<not> lg_waited s \<Longrightarrow> lg_err s = Idle \<Longrightarrow> lg_stderr s = x # xs \<Longrightarrow>
     log_step s (s\<lparr>lg_stderr := xs, lg_buf := read_into x (lg_buf s), lg_err := after_read x\<rparr>)"
| err_copy: "\<not> lg_panicked s \<Longrightarrow> lg_err s = Filled n \<Longrightarrow>
     log_step s (s\<lparr>lg_err := Holding (take n (lg_buf s))\<rparr>)"
| err_send: "\<not> lg_panicked s \<Longrightarrow> \<not> lg_closed s \<Longrightarrow> lg_err s = Holding x \<Longrightarrow> length (lg_chan s) < log_capacity \<Longrightarrow>
     log_step s (s\<lparr>lg_chan := lg_chan s @ [x], lg_err := Idle\<rparr>)"
| cmd_wait: "\<not> lg_panicked s \<Longrightarrow> \<not> lg_waited s \<Longrightarrow> lg_err s = Idle \<Longrightarrow> lg_stderr s = [] \<Longrightarrow>
     length (concat (lg_stdout s)) \<le> pipe_capacity \<Longrightarrow> log_step s (s\<lparr>lg_waited := True\<rparr>)"
| close_logs_chan: "\<not> lg_panicked s \<Longrightarrow> lg_waited s \<Longrightarrow> \<not> lg_closed s \<Longrightarrow>
     log_step s (s\<lparr>lg_closed := True\<rparr>)"
| take_log: "\<not> lg_panicked s \<Longrightarrow> lg_consumer s \<Longrightarrow> lg_chan s = x # xs \<Longrightarrow>
     log_step s (s\<lparr>lg_chan := xs, lg_received := lg_received s @ [x]\<rparr>)"

text \<open>The surroundings: the context ends, which kills the command, or the consumer leaves.\<close>

inductive log_outside :: "log_stream \<Rightarrow> log_stream \<Rightarrow> bool" where
  kill_command: "log_outside s (s\<lparr>lg_stdout := take i (lg_stdout s), lg_stderr := take j (lg_stderr s), lg_killed := True\<rparr>)"
| leave_logs: "log_outside s (s\<lparr>lg_consumer := False\<rparr>)"

inductive log_run :: "log_stream \<Rightarrow> log_stream \<Rightarrow> bool" where
  log_done: "log_run s s"
| log_more: "log_run s s1 \<Longrightarrow> log_step s1 s2 \<Longrightarrow> log_run s s2"
| log_env: "log_run s s1 \<Longrightarrow> log_outside s1 s2 \<Longrightarrow> log_run s s2"

definition log_start :: "string list \<Rightarrow> string list \<Rightarrow> log_stream" where
  "log_start out err =
     \<lparr>lg_stdout = out, lg_stderr = err, lg_buf = replicate 1024 (CHR 0x00), lg_out = Idle, lg_err = Idle,
      lg_chan = [], lg_received = [], lg_waited = False, lg_closed = False, lg_panicked = False,
      lg_killed = False, lg_consumer = True\<rparr>"

section \<open>The operations\<close>

text \<open>The pipes are given by the chunks that will be read from them.\<close>

definition podman_StreamLogs ::
  "('w, string list) command_api \<Rightarrow> podman_driver \<Rightarrow> string \<Rightarrow> int \<Rightarrow> ('w, log_stream) act" where
  "podman_StreamLogs api d podID tailLines =
     bindE (follow_command api (podman_logs_args d podID tailLines)) (\<lambda>(stdout, stderr). returnE (log_start stdout stderr))"

definition compose_StreamLogs ::
  "('w, string list) command_api \<Rightarrow> compose_driver \<Rightarrow> string \<Rightarrow> int \<Rightarrow> ('w, log_stream) act" where
  "compose_StreamLogs api d podID tailLines =
     bindE (follow_command api (compose_logs_args d podID tailLines)) (\<lambda>(stdout, stderr). returnE (log_start stdout stderr))"

section \<open>Lemmas\<close>

inductive_cases log_stepE: "log_step s s'"
inductive_cases log_outsideE: "log_outside s s'"

lemma take_read_into [simp]: "take (length x) (read_into x buf) = x"
  by (simp add: read_into_def)

lemma after_read_simps [simp]:
  "after_read [] = Idle" "x \<noteq> [] \<Longrightarrow> after_read x = Filled (length x)" "after_read x \<noteq> Holding y"
  "after_read x = Idle \<longleftrightarrow> x = []" "after_read x = Filled n \<longleftrightarrow> x \<noteq> [] \<and> n = length x"
  by (auto simp: after_read_def)

lemma log_start_simps [simp]:
  "lg_stdout (log_start out err) = out" "lg_stderr (log_start out err) = err" "lg_out (log_start out err) = Idle"
  "lg_err (log_start out err) = Idle" "lg_chan (log_start out err) = []" "lg_received (log_start out err) = []"
  "lg_waited (log_start out err) = False" "lg_closed (log_start out err) = False"
  "lg_panicked (log_start out err) = False" "lg_killed (log_start out err) = False" "lg_consumer (log_start out err) = True"
  by (simp_all add: log_start_def)

lemma log_run_trans: "log_run s1 s2 \<Longrightarrow> log_run s0 s1 \<Longrightarrow> log_run s0 s2"
  by (induction rule: log_run.induct) (auto intro: log_more log_env)

lemma log_run1: "log_step s s' \<Longrightarrow> log_run s s'"
  by (blast intro: log_run.intros)

text \<open>An invariant of every step of the goroutines and of the surroundings holds in every run.\<close>

lemma log_run_inv:
  assumes "log_run s s'" and "I s"
    and "\<And>s s'. log_step s s' \<Longrightarrow> I s \<Longrightarrow> I s'" and "\<And>s s'. log_outside s s' \<Longrightarrow> I s \<Longrightarrow> I s'"
  shows "I s'"
  using assms(1,2) by induction (blast intro: assms(3,4))+

section \<open>One stream\<close>

text \<open>The chunk that a goroutine is about to send.\<close>

definition held :: "string \<Rightarrow> copier \<Rightarrow> string list" where
  "held buf c = (case c of Idle \<Rightarrow> [] | Filled n \<Rightarrow> [take n buf] | Holding x \<Rightarrow> [x])"

definition single_inv :: "string list \<Rightarrow> log_stream \<Rightarrow> bool" where
  "single_inv err s \<longleftrightarrow> lg_stdout s = [] \<and> lg_out s = Idle \<and> \<not> lg_panicked s \<and> length (lg_chan s) \<le> log_capacity \<and>
     (\<exists>rest. filter (\<lambda>x. x \<noteq> []) err =
        lg_received s @ lg_chan s @ held (lg_buf s) (lg_err s) @ filter (\<lambda>x. x \<noteq> []) (lg_stderr s) @ rest \<and>
        (\<not> lg_killed s \<longrightarrow> rest = [])) \<and>
     (lg_waited s \<longrightarrow> lg_stderr s = [] \<and> lg_err s = Idle) \<and> (lg_closed s \<longrightarrow> lg_waited s)"

lemma single_inv_step: "log_step s s' \<Longrightarrow> single_inv err s \<Longrightarrow> single_inv err s'"
  by (erule log_stepE) (auto simp: single_inv_def held_def after_read_def log_capacity_def split: if_splits)

lemma filter_take: "\<exists>rest. filter P xs = filter P (take n xs) @ rest"
  by (metis append_take_drop_id filter_append)

lemma single_inv_outside: "log_outside s s' \<Longrightarrow> single_inv err s \<Longrightarrow> single_inv err s'"
proof (erule log_outsideE)
  fix i j assume s': "s' = s\<lparr>lg_stdout := take i (lg_stdout s), lg_stderr := take j (lg_stderr s), lg_killed := True\<rparr>"
    and inv: "single_inv err s"
  obtain rest where "filter (\<lambda>x. x \<noteq> []) (lg_stderr s) = filter (\<lambda>x. x \<noteq> []) (take j (lg_stderr s)) @ rest"
    using filter_take by blast
  with inv show "single_inv err s'" by (auto simp: s' single_inv_def)
qed (auto simp: single_inv_def)

text \<open>
  A command that writes to stderr only is followed faithfully: whatever the consumer and the
  context do, no send panics, the channel keeps its bound, what the consumer received and
  what waits in the channel is a prefix of the chunks written, in order, and, unless the command was
  killed, it is all of them once the channel is closed.
\<close>

theorem single_stream_in_order:
  assumes "log_run (log_start [] err) s"
  shows "\<not> lg_panicked s \<and> length (lg_chan s) \<le> 100 \<and>
    (\<exists>rest. filter (\<lambda>x. x \<noteq> []) err = lg_received s @ lg_chan s @ rest \<and>
       (lg_closed s \<and> \<not> lg_killed s \<longrightarrow> rest = []))"
proof -
  have "single_inv err (log_start [] err)" by (simp add: single_inv_def held_def)
  then have "single_inv err s" by (rule log_run_inv [OF assms]) (blast intro: single_inv_step single_inv_outside)+
  then show ?thesis by (auto simp: single_inv_def log_capacity_def held_def)
qed

section \<open>Two streams\<close>

text \<open>A step that is followed by a run.\<close>

lemma log_run_step: "log_step s s1 \<Longrightarrow> log_run s1 s2 \<Longrightarrow> log_run s s2"
  by (blast intro: log_run_trans log_run1)

text \<open>
  With an empty channel and a consumer, each goroutine can go through the chunks of its
  pipe while the other rests.
\<close>

definition at_rest :: "log_stream \<Rightarrow> bool" where
  "at_rest s \<longleftrightarrow> \<not> lg_panicked s \<and> \<not> lg_waited s \<and> \<not> lg_closed s \<and> lg_consumer s \<and> lg_chan s = []"

lemma drain_stderr:
  "at_rest s \<Longrightarrow> lg_err s = Idle \<Longrightarrow> lg_stderr s = err \<Longrightarrow>
   \<exists>s'. log_run s s' \<and> at_rest s' \<and> lg_err s' = Idle \<and> lg_stderr s' = [] \<and> lg_out s' = lg_out s \<and>
     lg_stdout s' = lg_stdout s \<and> lg_received s' = lg_received s @ filter (\<lambda>x. x \<noteq> []) err"
proof (induction err arbitrary: s)
  case Nil
  then show ?case by (auto intro: log_done)
next
  case (Cons x xs)
  let ?s1 = "s\<lparr>lg_stderr := xs, lg_buf := read_into x (lg_buf s), lg_err := after_read x\<rparr>"
  have r1: "log_step s ?s1" by (rule err_read) (use Cons.prems in \<open>auto simp: at_rest_def\<close>)
  show ?case
  proof (cases "x = []")
    case True
    with Cons.IH [of ?s1] Cons.prems r1 show ?thesis by (auto simp: at_rest_def intro: log_run_step)
  next
    case False
    let ?s2 = "?s1\<lparr>lg_err := Holding x\<rparr>"
    let ?s3 = "?s2\<lparr>lg_chan := lg_chan s @ [x], lg_err := Idle\<rparr>"
    let ?s4 = "?s3\<lparr>lg_chan := [], lg_received := lg_received s @ [x]\<rparr>"
    have "log_step ?s1 ?s2" using err_copy [of ?s1 "length x"] Cons.prems False by (simp add: at_rest_def)
    moreover have "log_step ?s2 ?s3" using err_send [of ?s2 x] Cons.prems by (simp add: at_rest_def log_capacity_def)
    moreover have "log_step ?s3 ?s4" using take_log [of ?s3 x "[]"] Cons.prems by (simp add: at_rest_def)
    ultimately have r: "log_run s ?s4" using r1 by (blast intro: log_run_step log_done)
    have "at_rest ?s4" "lg_err ?s4 = Idle" "lg_stderr ?s4 = xs" using Cons.prems by (simp_all add: at_rest_def)
    from Cons.IH [OF this] obtain s' where s': "log_run ?s4 s'" "at_rest s'" "lg_err s' = Idle" "lg_stderr s' = []"
      "lg_out s' = lg_out s" "lg_stdout s' = lg_stdout s" "lg_received s' = (lg_received s @ [x]) @ filter (\<lambda>x. x \<noteq> []) xs"
      by auto
    with log_run_trans [OF s'(1) r] False show ?thesis by (intro exI [of _ s']) simp
  qed
qed

lemma drain_stdout:
  "at_rest s \<Longrightarrow> lg_out s = Idle \<Longrightarrow> lg_stdout s = out @ rest \<Longrightarrow>
   \<exists>s'. log_run s s' \<and> at_rest s' \<and> lg_out s' = Idle \<and> lg_stdout s' = rest \<and> lg_err s' = lg_err s \<and>
     lg_stderr s' = lg_stderr s \<and> lg_received s' = lg_received s @ filter (\<lambda>x. x \<noteq> []) out"
proof (induction out arbitrary: s)
  case Nil
  then show ?case by (auto intro: log_done)
next
  case (Cons x xs)
  let ?s1 = "s\<lparr>lg_stdout := xs @ rest, lg_buf := read_into x (lg_buf s), lg_out := after_read x\<rparr>"
  have r1: "log_step s ?s1" by (rule out_read) (use Cons.prems in \<open>auto simp: at_rest_def\<close>)
  show ?case
  proof (cases "x = []")
    case True
    with Cons.IH [of ?s1] Cons.prems r1 show ?thesis by (auto simp: at_rest_def intro: log_run_step)
  next
    case False
    let ?s2 = "?s1\<lparr>lg_out := Holding x\<rparr>"
    let ?s3 = "?s2\<lparr>lg_chan := lg_chan s @ [x], lg_out := Idle\<rparr>"
    let ?s4 = "?s3\<lparr>lg_chan := [], lg_received := lg_received s @ [x]\<rparr>"
    have "log_step ?s1 ?s2" using out_copy [of ?s1 "length x"] Cons.prems False by (simp add: at_rest_def)
    moreover have "log_step ?s2 ?s3" using out_send [of ?s2 x] Cons.prems by (simp add: at_rest_def log_capacity_def)
    moreover have "log_step ?s3 ?s4" using take_log [of ?s3 x "[]"] Cons.prems by (simp add: at_rest_def)
    ultimately have r: "log_run s ?s4" using r1 by (blast intro: log_run_step log_done)
    have "at_rest ?s4" "lg_out ?s4 = Idle" "lg_stdout ?s4 = xs @ rest" using Cons.prems by (simp_all add: at_rest_def)
    from Cons.IH [OF this] obtain s' where s': "log_run ?s4 s'" "at_rest s'" "lg_out s' = Idle" "lg_stdout s' = rest"
      "lg_err s' = lg_err s" "lg_stderr s' = lg_stderr s" "lg_received s' = (lg_received s @ [x]) @ filter (\<lambda>x. x \<noteq> []) xs"
      by auto
    with log_run_trans [OF s'(1) r] False show ?thesis by (intro exI [of _ s']) simp
  qed
qed

lemma no_output_no_panic:
  assumes "log_run (log_start out err) s" and "\<forall>x \<in> set out. x = []"
  shows "\<not> lg_panicked s"
proof -
  let ?I = "\<lambda>s. (\<forall>x \<in> set (lg_stdout s). x = []) \<and> lg_out s = Idle \<and> \<not> lg_panicked s"
  have "?I s"
  proof (rule log_run_inv [OF assms(1)])
    show "?I (log_start out err)" using assms(2) by simp
  next
    fix s s' assume "log_step s s'" "?I s"
    then show "?I s'" by (auto elim!: log_stepE)
  next
    fix s s' assume "log_outside s s'" "?I s"
    then show "?I s'" by (auto elim!: log_outsideE dest!: in_set_takeD)
  qed
  then show ?thesis by blast
qed

lemma output_can_panic:
  assumes "x \<in> set out" and "x \<noteq> []"
  shows "\<exists>s. log_run (log_start out err) s \<and> lg_panicked s"
proof -
  from assms split_list_last_prop [of out "\<lambda>x. x \<noteq> []"] obtain pre y post
    where out: "out = pre @ y # post" and y: "y \<noteq> []" and post: "\<forall>x \<in> set post. x = []" by blast
  obtain s1 where s1: "log_run (log_start out err) s1" "at_rest s1" "lg_out s1 = Idle" "lg_stdout s1 = y # post"
    "lg_err s1 = Idle" "lg_stderr s1 = err"
    using drain_stdout [of "log_start out err" pre "y # post"] by (auto simp: at_rest_def out)
  let ?s2 = "s1\<lparr>lg_stdout := post, lg_buf := read_into y (lg_buf s1), lg_out := after_read y\<rparr>"
  let ?s3 = "?s2\<lparr>lg_out := Holding y\<rparr>"
  have "log_step s1 ?s2" by (rule out_read) (use s1 in \<open>auto simp: at_rest_def\<close>)
  moreover have "log_step ?s2 ?s3" using out_copy [of ?s2 "length y"] s1(2) y by (simp add: at_rest_def)
  ultimately have r3: "log_run (log_start out err) ?s3" using s1(1) by (blast intro: log_more)
  have "at_rest ?s3" "lg_err ?s3 = Idle" "lg_stderr ?s3 = err" using s1 by (simp_all add: at_rest_def)
  from drain_stderr [OF this] obtain s4 where s4: "log_run ?s3 s4" "at_rest s4" "lg_err s4 = Idle" "lg_stderr s4 = []"
    "lg_out s4 = Holding y" "lg_stdout s4 = post" by auto
  let ?s5 = "s4\<lparr>lg_waited := True\<rparr>"
  let ?s6 = "?s5\<lparr>lg_closed := True\<rparr>"
  let ?s7 = "?s6\<lparr>lg_panicked := True\<rparr>"
  have "concat post = []" using post by simp
  then have "length (concat post) \<le> pipe_capacity" by (simp only: list.size)
  then have "log_step s4 ?s5" using s4 by (intro cmd_wait) (simp_all add: at_rest_def)
  moreover have "log_step ?s5 ?s6" using s4 by (intro close_logs_chan) (auto simp: at_rest_def)
  moreover have "log_step ?s6 ?s7" using s4 by (intro out_panic) (auto simp: at_rest_def)
  ultimately have "log_run ?s3 ?s7" using s4(1) by (blast intro: log_more)
  then have "log_run (log_start out err) ?s7" by (rule log_run_trans [OF _ r3])
  then show ?thesis by (intro exI [of _ ?s7]) simp
qed

text \<open>
  C40. Following a command can crash the runtime exactly when the command writes anything to
  stdout: then, whatever it writes to stderr, a run is reachable in which a chunk of stdout is sent
  on the channel that the stderr goroutine has closed, which panics; without output on stdout no run
  panics.
\<close>

theorem command_logs_panic_iff:
  "(\<exists>s. log_run (log_start out err) s \<and> lg_panicked s) \<longleftrightarrow> (\<exists>x \<in> set out. x \<noteq> [])"
  using no_output_no_panic output_can_panic by blast

text \<open>
  Output that is still in the pipe is lost: for any output on stdout that fits the pipe, and
  none on stderr, a run is reachable that closes the channel without a panic and in which the
  consumer gets nothing, although the command was not killed.
\<close>

theorem stdout_can_be_lost:
  assumes "length (concat out) \<le> pipe_capacity"
  shows "\<exists>s. log_run (log_start out []) s \<and> lg_closed s \<and> \<not> lg_panicked s \<and> \<not> lg_killed s \<and>
    lg_received s @ lg_chan s = [] \<and> \<not> (\<exists>s'. log_step s s')"
proof -
  let ?s0 = "log_start out []"
  let ?s1 = "?s0\<lparr>lg_waited := True\<rparr>"
  let ?s2 = "?s1\<lparr>lg_closed := True\<rparr>"
  have "log_step ?s0 ?s1" using assms by (intro cmd_wait) auto
  moreover have "log_step ?s1 ?s2" by (intro close_logs_chan) auto
  ultimately have "log_run ?s0 ?s2" by (blast intro: log_run.intros)
  moreover have "\<not> (\<exists>s'. log_step ?s2 s')" by (auto elim!: log_stepE)
  ultimately show ?thesis by (intro exI [of _ ?s2]) simp
qed

text \<open>
  The shared buffer loses output: for a chunk of each stream, the stderr one being at least as
  long, a run is reachable in which both sends happened, nothing panicked, and the channel
  received bytes of stderr twice and nothing of stdout.
\<close>

theorem shared_buffer_loses_output:
  assumes "length a \<le> length b" and "a \<noteq> []"
  shows "\<exists>s. log_run (log_start [a] [b]) s \<and> \<not> lg_panicked s \<and> lg_stdout s = [] \<and> lg_out s = Idle \<and>
    lg_chan s = [take (length a) b, b]"
proof -
  let ?s0 = "log_start [a] [b]"
  let ?s1 = "?s0\<lparr>lg_stdout := [], lg_buf := read_into a (lg_buf ?s0), lg_out := after_read a\<rparr>"
  let ?s2 = "?s1\<lparr>lg_stderr := [], lg_buf := read_into b (lg_buf ?s1), lg_err := after_read b\<rparr>"
  let ?s3 = "?s2\<lparr>lg_out := Holding (take (length a) (lg_buf ?s2))\<rparr>"
  let ?s4 = "?s3\<lparr>lg_err := Holding (take (length b) (lg_buf ?s3))\<rparr>"
  let ?s5 = "?s4\<lparr>lg_chan := lg_chan ?s4 @ [take (length a) (lg_buf ?s2)], lg_out := Idle\<rparr>"
  let ?s6 = "?s5\<lparr>lg_chan := lg_chan ?s5 @ [take (length b) (lg_buf ?s3)], lg_err := Idle\<rparr>"
  have b: "b \<noteq> []" using assms by auto
  have "log_step ?s0 ?s1" by (rule out_read) auto
  then have r: "log_run ?s0 ?s1" by (rule log_run1)
  have "log_step ?s1 ?s2" by (rule err_read) auto
  note r = log_more [OF r this]
  have "log_step ?s2 ?s3" by (rule out_copy) (use assms(2) in auto)
  note r = log_more [OF r this]
  have "log_step ?s3 ?s4" by (rule err_copy) (use b in auto)
  note r = log_more [OF r this]
  have "log_step ?s4 ?s5" by (rule out_send) (auto simp: log_capacity_def)
  note r = log_more [OF r this]
  have "log_step ?s5 ?s6" by (rule err_send) (auto simp: log_capacity_def)
  note r = log_more [OF r this]
  moreover have "lg_chan ?s6 = [take (length a) b, b]" using assms by (simp add: read_into_def)
  ultimately show ?thesis by (intro exI [of _ ?s6]) simp
qed

section \<open>The stream ends\<close>

definition copier_left :: "copier \<Rightarrow> nat" where
  "copier_left c = (case c of Idle \<Rightarrow> 0 | Filled n \<Rightarrow> 3 | Holding x \<Rightarrow> 2)"

definition log_left :: "log_stream \<Rightarrow> nat" where
  "log_left s = 4 * length (lg_stdout s) + 4 * length (lg_stderr s) + copier_left (lg_out s) + copier_left (lg_err s) +
     length (lg_chan s) + of_bool (\<not> lg_waited s) + of_bool (\<not> lg_closed s) + of_bool (\<not> lg_panicked s)"

lemma log_left_step: "log_step s s' \<Longrightarrow> log_left s' < log_left s"
  by (erule log_stepE) (auto simp: log_left_def copier_left_def after_read_def)

definition err_done :: "log_stream \<Rightarrow> bool" where
  "err_done s \<longleftrightarrow> (lg_waited s \<longrightarrow> lg_stderr s = [] \<and> lg_err s = Idle) \<and> (lg_closed s \<longrightarrow> lg_waited s)"

lemma err_done_step: "log_step s s' \<Longrightarrow> err_done s \<Longrightarrow> err_done s'"
  by (erule log_stepE) (auto simp: err_done_def)

lemma err_done_outside: "log_outside s s' \<Longrightarrow> err_done s \<Longrightarrow> err_done s'"
  by (erule log_outsideE) (auto simp: err_done_def)

lemma log_progress:
  assumes "\<not> lg_panicked s" and "lg_consumer s" and "\<not> (lg_closed s \<and> lg_chan s = [])"
  shows "\<exists>s'. log_step s s'"
proof (cases "lg_chan s")
  case (Cons x xs)
  from take_log [OF assms(1,2) Cons] show ?thesis by blast
next
  case Nil
  with assms(3) have c: "\<not> lg_closed s" and room: "length (lg_chan s) < log_capacity" by (auto simp: log_capacity_def)
  show ?thesis
  proof (cases "lg_waited s")
    case True
    from close_logs_chan [OF assms(1) this c] show ?thesis by blast
  next
    case w: False
    show ?thesis
    proof (cases "lg_err s")
      case (Filled n)
      from err_copy [OF assms(1) this] show ?thesis by blast
    next
      case (Holding x)
      from err_send [OF assms(1) c this room] show ?thesis by blast
    next
      case e: Idle
      show ?thesis
      proof (cases "lg_stderr s")
        case (Cons x xs)
        from err_read [OF assms(1) w e this] show ?thesis by blast
      next
        case e2: Nil
        show ?thesis
        proof (cases "lg_stdout s")
          case Nil
          with cmd_wait [OF assms(1) w e e2] show ?thesis by auto
        next
          case (Cons x xs)
          then show ?thesis
            using out_read [OF assms(1) w _ Cons] out_copy [OF assms(1)] out_send [OF assms(1) c _ room]
            by (cases "lg_out s") auto
        qed
      qed
    qed
  qed
qed

text \<open>
  C32. The stream of a command ends: from every reachable state in which the consumer stays,
  the goroutines and the consumer inevitably come, without a deadlock, to a panic or to the closed
  and emptied channel, and in the latter case nothing of stderr is left unread.
\<close>

theorem command_logs_end:
  assumes "log_run (log_start out err) s" and "lg_consumer s"
  shows "inevitable log_step
    (\<lambda>s'. lg_panicked s' \<or> (lg_closed s' \<and> lg_chan s' = [] \<and> lg_stderr s' = [] \<and> lg_err s' = Idle)) s"
proof (rule inevitable_measure [where I = "\<lambda>s. err_done s \<and> lg_consumer s" and m = log_left])
  have "err_done (log_start out err)" by (simp add: err_done_def)
  then have "err_done s" by (rule log_run_inv [OF assms(1)]) (blast intro: err_done_step err_done_outside)+
  with assms(2) show "err_done s \<and> lg_consumer s" by blast
next
  fix s s' assume "err_done s \<and> lg_consumer s" "log_step s s'"
  moreover then have "lg_consumer s'" by (auto elim: log_stepE)
  ultimately show "err_done s' \<and> lg_consumer s'" by (blast intro: err_done_step)
next
  fix s s' assume "log_step s s'"
  then show "log_left s' < log_left s" by (rule log_left_step)
next
  fix s assume "err_done s \<and> lg_consumer s"
    "\<not> (lg_panicked s \<or> (lg_closed s \<and> lg_chan s = [] \<and> lg_stderr s = [] \<and> lg_err s = Idle))"
  then show "\<exists>s'. log_step s s'" by (intro log_progress) (auto simp: err_done_def)
qed

section \<open>What the operations start\<close>

lemma podman_StreamLogs_fresh:
  "podman_StreamLogs api d x n w = (Inr s, w') \<longleftrightarrow>
   (\<exists>out err. follow_command api (podman_logs_args d x n) w = (Inr (out, err), w') \<and> s = log_start out err)"
  by (auto simp: podman_StreamLogs_def bindE_def returnE_def split: prod.splits sum.splits)

lemma compose_StreamLogs_fresh:
  "compose_StreamLogs api d x n w = (Inr s, w') \<longleftrightarrow>
   (\<exists>out err. follow_command api (compose_logs_args d x n) w = (Inr (out, err), w') \<and> s = log_start out err)"
  by (auto simp: compose_StreamLogs_def bindE_def returnE_def split: prod.splits sum.splits)

section \<open>Examples\<close>

lemma single_stream_in_order_witness:
  "\<exists>s. log_run (log_start [] [''a'', ''b'']) s \<and> lg_received s = [''a'', ''b''] \<and>
    \<not> lg_panicked s \<and> length (lg_chan s) \<le> 100 \<and>
    (\<exists>rest. filter (\<lambda>x. x \<noteq> []) [''a'', ''b''] = lg_received s @ lg_chan s @ rest \<and> (lg_closed s \<and> \<not> lg_killed s \<longrightarrow> rest = []))"
proof -
  obtain s where s: "log_run (log_start [] [''a'', ''b'']) s" "lg_received s = [''a'', ''b'']"
    using drain_stderr [of "log_start [] [''a'', ''b'']" "[''a'', ''b'']"] by (auto simp: at_rest_def)
  with single_stream_in_order [OF s(1)] show ?thesis by blast
qed

lemma shared_buffer_loses_output_witness:
  "\<exists>s. log_run (log_start [''out''] [''error'']) s \<and> \<not> lg_panicked s \<and> lg_stdout s = [] \<and> lg_out s = Idle \<and>
    lg_chan s = [''err'', ''error'']"
  using shared_buffer_loses_output [of "''out''" "''error''"] by simp

lemma stdout_can_be_lost_witness:
  "\<exists>s. log_run (log_start [''Listening on :80'', ''GET /''] []) s \<and> lg_closed s \<and> \<not> lg_panicked s \<and> \<not> lg_killed s \<and>
    lg_received s @ lg_chan s = [] \<and> \<not> (\<exists>s'. log_step s s')"
  by (rule stdout_can_be_lost) (simp add: pipe_capacity_def)

lemma command_logs_end_witness:
  "inevitable log_step
    (\<lambda>s'. lg_panicked s' \<or> (lg_closed s' \<and> lg_chan s' = [] \<and> lg_stderr s' = [] \<and> lg_err s' = Idle))
    (log_start [''one''] [''two''])"
  by (rule command_logs_end [OF log_done]) simp

lemma command_logs_panic_iff_witness:
  "\<exists>s. log_run (log_start [''GET /''] [''warning'']) s \<and> lg_panicked s"
  using command_logs_panic_iff [of "[''GET /'']" "[''warning'']"] by simp

end
