(* ===== verification/Tracker_Races.thy ===== *)
theory Tracker_Races
  imports Health
begin

text \<open>
  \<open>Snapshot\<close> of \<open>internal/health/tracker.go\<close> at the level of its memory accesses. It prunes the
  samples in place while it holds the read lock only, so two snapshots of one tracker run their
  \<open>pruneLocked\<close> at the same time. The theory refines the atomic \<open>pruneLocked\<close> of \<open>Health\<close> to single
  reads and writes, proves that a snapshot that runs alone computes it, and shows what two
  interleaved ones can do.
\<close>

section \<open>The loop, one access at a time\<close>

text \<open>
  \<open>t.samples\<close> is a slice: \<open>tm_array\<close> is its backing array and \<open>tm_len\<close> its length. The range
  statement reads the slice once (\<open>pn_len\<close>); the write \<open>t.samples[i] = s\<close> and the final
  \<open>t.samples[:i]\<close> read it again, so the write panics when the slice has become too short, while
  reslicing only needs the capacity.
\<close>

record tracker_mem =
  tm_array :: "sample list"
  tm_len :: nat
  tm_panicked :: bool

datatype prune_pc = PruneStart | PruneNext | PruneHave sample | PruneDone

record pruner =
  pn_cutoff :: instant
  pn_len :: nat
  pn_j :: nat
  pn_i :: nat
  pn_pc :: prune_pc

inductive prune_step :: "tracker_mem \<times> pruner \<Rightarrow> tracker_mem \<times> pruner \<Rightarrow> bool" where
  range: "pn_pc p = PruneStart \<Longrightarrow>
     prune_step (m, p) (m, p\<lparr>pn_len := tm_len m, pn_j := 0, pn_i := 0, pn_pc := PruneNext\<rparr>)"
| keep: "pn_pc p = PruneNext \<Longrightarrow> pn_j p < pn_len p \<Longrightarrow> pn_cutoff p < smp_at (tm_array m ! pn_j p) \<Longrightarrow>
     prune_step (m, p) (m, p\<lparr>pn_pc := PruneHave (tm_array m ! pn_j p)\<rparr>)"
| skip: "pn_pc p = PruneNext \<Longrightarrow> pn_j p < pn_len p \<Longrightarrow> \<not> pn_cutoff p < smp_at (tm_array m ! pn_j p) \<Longrightarrow>
     prune_step (m, p) (m, p\<lparr>pn_j := Suc (pn_j p)\<rparr>)"
| store: "pn_pc p = PruneHave s \<Longrightarrow> pn_i p < tm_len m \<Longrightarrow>
     prune_step (m, p) (m\<lparr>tm_array := (tm_array m)[pn_i p := s]\<rparr>,
       p\<lparr>pn_i := Suc (pn_i p), pn_j := Suc (pn_j p), pn_pc := PruneNext\<rparr>)"
| out_of_range: "pn_pc p = PruneHave s \<Longrightarrow> \<not> pn_i p < tm_len m \<Longrightarrow>
     prune_step (m, p) (m\<lparr>tm_panicked := True\<rparr>, p)"
| reslice: "pn_pc p = PruneNext \<Longrightarrow> \<not> pn_j p < pn_len p \<Longrightarrow>
     prune_step (m, p) (m\<lparr>tm_len := pn_i p\<rparr>, p\<lparr>pn_pc := PruneDone\<rparr>)"

text \<open>Two snapshots, both inside the read lock; a panic ends the process.\<close>

inductive race_step :: "tracker_mem \<times> pruner \<times> pruner \<Rightarrow> tracker_mem \<times> pruner \<times> pruner \<Rightarrow> bool" where
  first: "\<not> tm_panicked m \<Longrightarrow> prune_step (m, p) (m', p') \<Longrightarrow> race_step (m, p, q) (m', p', q)"
| second: "\<not> tm_panicked m \<Longrightarrow> prune_step (m, q) (m', q') \<Longrightarrow> race_step (m, p, q) (m', p, q')"

definition mem_of :: "backend_tracker \<Rightarrow> tracker_mem" where
  "mem_of t = \<lparr>tm_array = bt_samples t, tm_len = length (bt_samples t), tm_panicked = False\<rparr>"

definition samples_of :: "tracker_mem \<Rightarrow> sample list" where
  "samples_of m = take (tm_len m) (tm_array m)"

definition snapshot_at :: "instant \<Rightarrow> backend_tracker \<Rightarrow> pruner" where
  "snapshot_at now t = \<lparr>pn_cutoff = now - bt_window t, pn_len = 0, pn_j = 0, pn_i = 0, pn_pc = PruneStart\<rparr>"

section \<open>One snapshot alone\<close>

inductive_cases prune_stepE: "prune_step s s'"

lemma prune_step_det: "prune_step s s1 \<Longrightarrow> prune_step s s2 \<Longrightarrow> s1 = s2"
  by (cases s; erule prune_step.cases; erule prune_step.cases) simp_all

text \<open>The accesses of one goroutine go through the iterations of \<open>prune_loop\<close>.\<close>

lemma loop_runs:
  "prune_loop c j i xs = (i', ys) \<Longrightarrow> i \<le> j \<Longrightarrow> j \<le> length xs \<Longrightarrow>
   prune_step\<^sup>*\<^sup>*
     (\<lparr>tm_array = xs, tm_len = length xs, tm_panicked = False\<rparr>, \<lparr>pn_cutoff = c, pn_len = length xs, pn_j = j, pn_i = i, pn_pc = PruneNext\<rparr>)
     (\<lparr>tm_array = ys, tm_len = length xs, tm_panicked = False\<rparr>, \<lparr>pn_cutoff = c, pn_len = length xs, pn_j = length xs, pn_i = i', pn_pc = PruneNext\<rparr>)"
proof (induction c j i xs rule: prune_loop.induct)
  case (1 c j i xs)
  let ?m = "\<lparr>tm_array = xs, tm_len = length xs, tm_panicked = False\<rparr>"
  let ?p = "\<lparr>pn_cutoff = c, pn_len = length xs, pn_j = j, pn_i = i, pn_pc = PruneNext\<rparr>"
  show ?case
  proof (cases "j < length xs")
    case False
    with 1(3-5) show ?thesis by (simp add: prune_loop.simps [of c j i xs])
  next
    case True
    show ?thesis
    proof (cases "c < smp_at (xs ! j)")
      case late: True
      have loop: "prune_loop c (Suc j) (Suc i) (xs[i := xs ! j]) = (i', ys)"
        using 1(3) True late by (simp add: prune_loop.simps [of c j i xs] Let_def)
      have "prune_step (?m, ?p) (?m, ?p\<lparr>pn_pc := PruneHave (xs ! j)\<rparr>)"
        using keep [of ?p ?m] True late by simp
      moreover have "prune_step (?m, ?p\<lparr>pn_pc := PruneHave (xs ! j)\<rparr>)
          (\<lparr>tm_array = xs[i := xs ! j], tm_len = length xs, tm_panicked = False\<rparr>,
           \<lparr>pn_cutoff = c, pn_len = length xs, pn_j = Suc j, pn_i = Suc i, pn_pc = PruneNext\<rparr>)"
        using store [of "?p\<lparr>pn_pc := PruneHave (xs ! j)\<rparr>" "xs ! j" ?m] True 1(4) by simp
      moreover note 1(1) [OF True refl late loop]
      ultimately show ?thesis using 1(4) True
        by (auto intro: converse_rtranclp_into_rtranclp)
    next
      case False
      have loop: "prune_loop c (Suc j) i xs = (i', ys)"
        using 1(3) True False by (simp add: prune_loop.simps [of c j i xs] Let_def)
      have "prune_step (?m, ?p) (?m, ?p\<lparr>pn_j := Suc j\<rparr>)" using skip [of ?p ?m] True False by simp
      with 1(2) [OF True refl False loop] 1(4) True show ?thesis
        by (auto intro: converse_rtranclp_into_rtranclp)
    qed
  qed
qed

text \<open>
  A snapshot that runs alone does what the atomic model says: its accesses, of which there is
  never a choice (\<open>prune_step_det\<close>), end without a panic and with the slice holding exactly the
  samples of \<open>pruneLocked\<close>.
\<close>

theorem snapshot_alone_refines_prune:
  "\<exists>m p. prune_step\<^sup>*\<^sup>* (mem_of t, snapshot_at now t) (m, p) \<and> pn_pc p = PruneDone \<and> \<not> tm_panicked m \<and>
     samples_of m = bt_samples (pruneLocked now t)"
proof -
  let ?c = "now - bt_window t" and ?xs = "bt_samples t"
  obtain i ys where l: "prune_loop ?c 0 0 ?xs = (i, ys)" by fastforce
  let ?m = "\<lparr>tm_array = ys, tm_len = length ?xs, tm_panicked = False\<rparr>"
  let ?p = "\<lparr>pn_cutoff = ?c, pn_len = length ?xs, pn_j = length ?xs, pn_i = i, pn_pc = PruneNext\<rparr>"
  have "prune_step (mem_of t, snapshot_at now t)
      (mem_of t, \<lparr>pn_cutoff = ?c, pn_len = length ?xs, pn_j = 0, pn_i = 0, pn_pc = PruneNext\<rparr>)"
    using range [of "snapshot_at now t" "mem_of t"] by (simp add: snapshot_at_def mem_of_def)
  also have "prune_step\<^sup>*\<^sup>* \<dots> (?m, ?p)" using loop_runs [OF l] by (simp add: mem_of_def)
  also have "prune_step (?m, ?p) (?m\<lparr>tm_len := i\<rparr>, ?p\<lparr>pn_pc := PruneDone\<rparr>)" using reslice [of ?p ?m] by simp
  finally have "prune_step\<^sup>*\<^sup>* (mem_of t, snapshot_at now t) (?m\<lparr>tm_len := i\<rparr>, ?p\<lparr>pn_pc := PruneDone\<rparr>)" by simp
  then show ?thesis
    by (intro exI [of _ "?m\<lparr>tm_len := i\<rparr>"] exI [of _ "?p\<lparr>pn_pc := PruneDone\<rparr>"])
      (simp add: samples_of_def pruneLocked_def l)
qed

section \<open>Two snapshots at the same time\<close>

lemma panic_stays: "prune_step (m, p) (m', p') \<Longrightarrow> tm_panicked m \<Longrightarrow> tm_panicked m'"
  by (auto elim: prune_stepE)

lemma race_runs:
  "prune_step\<^sup>*\<^sup>* s s' \<Longrightarrow> \<not> tm_panicked (fst s') \<Longrightarrow>
   race_step\<^sup>*\<^sup>* (fst s, snd s, q) (fst s', snd s', q) \<and> race_step\<^sup>*\<^sup>* (fst s, q, snd s) (fst s', q, snd s')"
proof (induction rule: rtranclp_induct)
  case (step s1 s2)
  then have p: "prune_step (fst s1, snd s1) (fst s2, snd s2)" by simp
  with step.prems panic_stays have "\<not> tm_panicked (fst s1)" by blast
  with step.IH first [OF _ p] second [OF _ p] show ?case by (meson rtranclp.rtrancl_into_rtrancl)
qed simp

lemma first_runs: "prune_step\<^sup>*\<^sup>* (m, p) (m', p') \<Longrightarrow> \<not> tm_panicked m' \<Longrightarrow> race_step\<^sup>*\<^sup>* (m, p, q) (m', p', q)"
  and second_runs: "prune_step\<^sup>*\<^sup>* (m, p) (m', p') \<Longrightarrow> \<not> tm_panicked m' \<Longrightarrow> race_step\<^sup>*\<^sup>* (m, q, p) (m', q, p')"
  using race_runs [of "(m, p)" "(m', p')" q] by simp_all

lemma first1: "prune_step (m, p) (m', p') \<Longrightarrow> \<not> tm_panicked m \<Longrightarrow> race_step\<^sup>*\<^sup>* (m, p, q) (m', p', q)"
  and second1: "prune_step (m, p) (m', p') \<Longrightarrow> \<not> tm_panicked m \<Longrightarrow> race_step\<^sup>*\<^sup>* (m, q, p) (m', q, p')"
  by (auto intro: first second)

text \<open>Over samples that are all in the window the loop writes each one to its own place.\<close>

lemma alive_runs:
  assumes "\<forall>s \<in> set xs. c < smp_at s"
  shows "k \<le> length xs \<Longrightarrow> k \<le> n \<Longrightarrow> prune_step\<^sup>*\<^sup>*
     (\<lparr>tm_array = xs, tm_len = n, tm_panicked = False\<rparr>, \<lparr>pn_cutoff = c, pn_len = length xs, pn_j = 0, pn_i = 0, pn_pc = PruneNext\<rparr>)
     (\<lparr>tm_array = xs, tm_len = n, tm_panicked = False\<rparr>, \<lparr>pn_cutoff = c, pn_len = length xs, pn_j = k, pn_i = k, pn_pc = PruneNext\<rparr>)"
proof (induction k)
  case (Suc k)
  let ?m = "\<lparr>tm_array = xs, tm_len = n, tm_panicked = False\<rparr>"
  let ?p = "\<lparr>pn_cutoff = c, pn_len = length xs, pn_j = k, pn_i = k, pn_pc = PruneNext\<rparr>"
  have "prune_step (?m, ?p) (?m, ?p\<lparr>pn_pc := PruneHave (xs ! k)\<rparr>)" using keep [of ?p ?m] Suc.prems assms by simp
  moreover have "prune_step (?m, ?p\<lparr>pn_pc := PruneHave (xs ! k)\<rparr>) (?m, ?p\<lparr>pn_j := Suc k, pn_i := Suc k\<rparr>)"
    using store [of "?p\<lparr>pn_pc := PruneHave (xs ! k)\<rparr>" "xs ! k" ?m] Suc.prems by simp
  ultimately show ?case using Suc by (auto intro: rtranclp.rtrancl_into_rtrancl)
qed simp

text \<open>Behind the place of the next write the array is as it was.\<close>

lemma prune_loop_tail: "prune_loop c j i xs = (i', ys) \<Longrightarrow> i \<le> i' \<and> drop i' ys = drop i' xs"
proof (induction c j i xs rule: prune_loop.induct)
  case (1 c j i xs)
  show ?case
  proof (cases "j < length xs \<and> c < smp_at (xs ! j)")
    case True
    then have "prune_loop c (Suc j) (Suc i) (xs[i := xs ! j]) = (i', ys)"
      using 1(3) by (simp add: prune_loop.simps [of c j i xs] Let_def)
    with 1(1) True show ?thesis by fastforce
  next
    case False
    with 1(2,3) show ?thesis by (cases "j < length xs") (auto simp: prune_loop.simps [of c j i xs] Let_def)
  qed
qed

lemma prune_shift:
  assumes "smp_at old \<le> c" and "\<forall>s \<in> set ys. c < smp_at s" and "ys \<noteq> []"
  shows "prune_loop c 0 0 (old # ys) = (length ys, ys @ [last ys])"
proof -
  obtain i zs where l: "prune_loop c 0 0 (old # ys) = (i, zs)" by fastforce
  with prune_loop_filter [of 0 0 "old # ys" c] assms(1,2) have t: "take i zs = ys" "length zs = Suc (length ys)"
    by (auto simp: not_less)
  then have i: "i = length ys" by (metis length_take min_def n_not_Suc_n)
  have "drop i zs = drop (length ys) (old # ys)" using prune_loop_tail [OF l] i by simp
  also have "\<dots> = [last ys]" using assms(3) by (cases ys rule: rev_cases) auto
  finally show ?thesis using l i t(1) by (metis append_take_drop_id)
qed

text \<open>
  C37. Snapshots at the same time corrupt the tracker: whenever a snapshot has an old sample to drop, and
  some to keep, two of them can be interleaved such that one writes behind the end that the other
  has set, which panics, and also such that both end but the newest sample is then held, and
  counted, twice.
\<close>

theorem concurrent_snapshots_race:
  assumes "bt_samples t = old # ys" and "ys \<noteq> []" and "smp_at old \<le> now - bt_window t"
    and "\<forall>s \<in> set ys. now - bt_window t < smp_at s"
  shows "(\<exists>m p q. race_step\<^sup>*\<^sup>* (mem_of t, snapshot_at now t, snapshot_at now t) (m, p, q) \<and> tm_panicked m) \<and>
    (\<exists>m p q. race_step\<^sup>*\<^sup>* (mem_of t, snapshot_at now t, snapshot_at now t) (m, p, q) \<and> \<not> tm_panicked m \<and>
       pn_pc p = PruneDone \<and> pn_pc q = PruneDone \<and> samples_of m = ys @ [last ys])"
proof -
  let ?c = "now - bt_window t" and ?n = "length ys" and ?zs = "ys @ [last ys]"
  let ?N = "length ?zs"
  let ?at = "\<lambda>k. \<lparr>pn_cutoff = ?c, pn_len = ?N, pn_j = k, pn_i = k, pn_pc = PruneNext\<rparr>"
  let ?p = "\<lparr>pn_cutoff = ?c, pn_len = ?N, pn_j = ?N, pn_i = ?n, pn_pc = PruneNext\<rparr>"
  let ?m = "\<lambda>l. \<lparr>tm_array = ?zs, tm_len = l, tm_panicked = False\<rparr>"
  let ?s0 = "(mem_of t, snapshot_at now t, snapshot_at now t)"
  have alive: "\<forall>s \<in> set ?zs. ?c < smp_at s" using assms(2,4) by auto
  have mem: "mem_of t = \<lparr>tm_array = old # ys, tm_len = ?N, tm_panicked = False\<rparr>" by (simp add: mem_of_def assms(1))
  have start: "prune_step (mem_of t, snapshot_at now t) (mem_of t, ?at 0)"
    using range [of "snapshot_at now t" "mem_of t"] by (simp add: snapshot_at_def mem)
  let ?done = "?p\<lparr>pn_pc := PruneDone\<rparr>" and ?have = "(?at ?n)\<lparr>pn_pc := PruneHave (last ys)\<rparr>"
  have a1: "race_step\<^sup>*\<^sup>* ?s0 (mem_of t, ?at 0, snapshot_at now t)"
    by (rule first1 [OF start]) (simp add: mem)
  have a2: "race_step\<^sup>*\<^sup>* (mem_of t, ?at 0, snapshot_at now t) (mem_of t, ?at 0, ?at 0)"
    by (rule second1 [OF start]) (simp add: mem)
  have a3: "race_step\<^sup>*\<^sup>* (mem_of t, ?at 0, ?at 0) (?m ?N, ?p, ?at 0)"
    using loop_runs [OF prune_shift [OF assms(3,4,2)]] by (intro first_runs) (simp_all add: mem)
  note both = rtranclp_trans [OF rtranclp_trans [OF a1 a2] a3]
  have cut: "race_step\<^sup>*\<^sup>* (?m ?N, ?p, q) (?m ?n, ?done, q)" for q
    using first1 [OF reslice [of ?p "?m ?N"]] by simp
  have b1: "race_step\<^sup>*\<^sup>* (?m ?N, ?p, ?at 0) (?m ?N, ?p, ?at ?n)"
    using alive_runs [OF alive, of ?n ?N] by (intro second_runs) simp_all
  have b2: "race_step\<^sup>*\<^sup>* (?m ?n, ?done, ?at ?n) (?m ?n, ?done, ?have)"
    using second1 [OF keep [of "?at ?n" "?m ?n"]] alive by simp
  have b3: "race_step\<^sup>*\<^sup>* (?m ?n, ?done, ?have) ((?m ?n)\<lparr>tm_panicked := True\<rparr>, ?done, ?have)"
    using second1 [OF out_of_range [of ?have "last ys" "?m ?n"]] by simp
  note panic = rtranclp_trans [OF rtranclp_trans [OF rtranclp_trans [OF b1 cut] b2] b3]
  have c1: "race_step\<^sup>*\<^sup>* (?m ?N, ?p, ?at 0) (?m ?N, ?p, ?at ?N)"
    using alive_runs [OF alive, of ?N ?N] by (intro second_runs) simp_all
  have c2: "race_step\<^sup>*\<^sup>* (?m ?n, ?done, ?at ?N) (?m ?N, ?done, (?at ?N)\<lparr>pn_pc := PruneDone\<rparr>)"
    using second1 [OF reslice [of "?at ?N" "?m ?n"]] by simp
  note twice = rtranclp_trans [OF rtranclp_trans [OF c1 cut] c2]
  have "samples_of (?m ?N) = ?zs" by (simp add: samples_of_def)
  with rtranclp_trans [OF both twice] have "\<exists>m p q. race_step\<^sup>*\<^sup>* ?s0 (m, p, q) \<and> \<not> tm_panicked m \<and>
      pn_pc p = PruneDone \<and> pn_pc q = PruneDone \<and> samples_of m = ?zs"
    by (intro exI [of _ "?m ?N"] exI [of _ ?done] exI [of _ "(?at ?N)\<lparr>pn_pc := PruneDone\<rparr>"]) simp
  moreover have "\<exists>m p q. race_step\<^sup>*\<^sup>* ?s0 (m, p, q) \<and> tm_panicked m"
    using rtranclp_trans [OF both panic]
    by (intro exI [of _ "(?m ?n)\<lparr>tm_panicked := True\<rparr>"] exI [of _ ?done] exI [of _ ?have]) simp
  ultimately show ?thesis by (rule conjI [rotated])
qed

definition aging_tracker :: backend_tracker where
  "aging_tracker = (NewBackendTracker 10 100)\<lparr>bt_samples :=
     [\<lparr>smp_latencyMs = 5, smp_failed = False, smp_at = 0\<rparr>, \<lparr>smp_latencyMs = 900, smp_failed = True, smp_at = 8\<rparr>]\<rparr>"

lemma concurrent_snapshots_race_witness:
  "(\<exists>m p q. race_step\<^sup>*\<^sup>* (mem_of aging_tracker, snapshot_at 12 aging_tracker, snapshot_at 12 aging_tracker) (m, p, q) \<and> tm_panicked m) \<and>
   (\<exists>m p q. race_step\<^sup>*\<^sup>* (mem_of aging_tracker, snapshot_at 12 aging_tracker, snapshot_at 12 aging_tracker) (m, p, q) \<and>
      \<not> tm_panicked m \<and> pn_pc p = PruneDone \<and> pn_pc q = PruneDone \<and> map smp_failed (samples_of m) = [True, True])"
proof -
  let ?a = "\<lparr>smp_latencyMs = 5, smp_failed = False, smp_at = 0\<rparr>"
  let ?b = "\<lparr>smp_latencyMs = 900, smp_failed = True, smp_at = 8\<rparr>"
  have t: "bt_samples aging_tracker = ?a # [?b]" "bt_window aging_tracker = 10"
    by (simp_all add: aging_tracker_def NewBackendTracker_def)
  let ?s = "(mem_of aging_tracker, snapshot_at 12 aging_tracker, snapshot_at 12 aging_tracker)"
  have "[?b] \<noteq> []" "smp_at ?a \<le> 12 - bt_window aging_tracker" "\<forall>s \<in> set [?b]. 12 - bt_window aging_tracker < smp_at s"
    by (simp_all add: t(2))
  note race = concurrent_snapshots_race [OF t(1) this]
  from race [THEN conjunct2] obtain m p q where r: "race_step\<^sup>*\<^sup>* ?s (m, p, q)" "\<not> tm_panicked m"
    "pn_pc p = PruneDone" "pn_pc q = PruneDone" "samples_of m = [?b] @ [last [?b]]" by (elim exE conjE)
  have "map smp_failed (samples_of m) = [True, True]" unfolding r(5) by simp
  with r(1-4) have "\<exists>m p q. race_step\<^sup>*\<^sup>* ?s (m, p, q) \<and> \<not> tm_panicked m \<and> pn_pc p = PruneDone \<and>
      pn_pc q = PruneDone \<and> map smp_failed (samples_of m) = [True, True]" by (intro exI conjI)
  with race [THEN conjunct1] show ?thesis by (rule conjI)
qed

end
