(* ===== verification/Spec2Isabelle.thy ===== *)
theory Spec2Isabelle
  imports Background_Loops Process_Migration Command_Logs Tracker_Races Container_Options
begin

text \<open>
  A verification library for the kranix runtime (\<open>src/\<close>, Go): the process that deploys
  workloads on Kubernetes, Docker, Podman, Compose or a remote host behind one interface, and
  the services around it.

  \<^bold>\<open>The program and its theories.\<close> \<open>cmd/runtime/main.go\<close> reads the configuration, builds a
  plugin manager, registers the driver factories, resolves the driver of the default backend
  and pings it. Every backend implements \<open>types.RuntimeDriver\<close>; migration, the ephemeral
  environments and the edge agent use it only through that interface.

  \<^item> \<open>Prelude\<close>: Go values (maps as association lists in an arbitrary iteration order,
    errors, results, wrapping integers), the contracts \<open>kv_store\<close> and \<open>lossy_store\<close>, and the
    interpretation of the first on Go maps. \<open>Go_Strings\<close>, \<open>Go_Time\<close>: the functions of the
    standard library that the code calls, from their documentation and algorithms.
  \<^item> \<open>Workload_Types\<close>: the records and enumerations exchanged with the rest of kranix, and
    \<open>runtime_driver\<close>, the interface as a record of functions on an outside state \<open>'w\<close>.
  \<^item> \<open>Runtime_Contract\<close>: what a client of that interface relies on, as locales.
  \<^item> \<open>Config\<close> (\<open>config/config.go\<close>), \<open>Registry\<close> (\<open>internal/registry\<close>, \<open>internal/plugin\<close>,
    \<open>cmd/runtime/main.go\<close>).
  \<^item> \<open>Ephemeral\<close> (\<open>internal/ephemeral/lifecycle.go\<close>), \<open>Migration\<close>
    (\<open>internal/migration/orchestrator.go\<close>), \<open>Edge_Agent\<close> (\<open>internal/edge/agent.go\<close>).
  \<^item> \<open>Image_Cache\<close> (\<open>internal/cache/image.go\<close>), \<open>Metrics\<close> (\<open>internal/metrics/collector.go\<close>),
    \<open>Health\<close> (\<open>internal/health\<close>), \<open>Checkpoint_Store\<close> (\<open>internal/checkpoint\<close>).
  \<^item> \<open>Scheduling\<close> (\<open>internal/placement\<close>, \<open>internal/arch\<close>, \<open>pkg/imageutil/platform.go\<close>,
    \<open>internal/kubernetes/scheduling.go\<close>, \<open>labels.go\<close>), \<open>Container_Options\<close> (\<open>internal/gpu\<close>,
    \<open>internal/bandwidth\<close>, \<open>internal/probes\<close>, \<open>pkg/imageutil/image.go\<close>).
  \<^item> \<open>Kubernetes_Objects\<close> (the objects and conversions), \<open>Kubernetes_Driver\<close> (the operations,
    with the claims of \<open>internal/volume\<close>), \<open>Kubernetes_Backend\<close> (construction, the driver as a
    \<open>runtime_driver\<close>): \<open>internal/kubernetes\<close>.
  \<^item> \<open>Docker_Driver\<close> (\<open>internal/docker\<close>), \<open>Cli_Drivers\<close> (\<open>internal/podman\<close>,
    \<open>internal/compose\<close>, \<open>internal/remote\<close>), \<open>Log_Streams\<close> (the log requests and the one reader
    goroutine of Docker, Kubernetes and the remote driver), \<open>Command_Logs\<close> (the two goroutines
    that copy the output of \<open>podman logs\<close> and \<open>docker compose logs\<close>).
  \<^item> \<open>Background_Loops\<close>: the goroutines with a ticker and a stop channel of the image cache, the
    metrics collector, the environment manager and the edge agent, over one locale
    \<open>background\<close>. \<open>Tracker_Races\<close>: \<open>Snapshot\<close> of the health tracker, access by access.
  \<^item> \<open>Runtime_Process\<close>: the registry with the five real constructors; a driver is an object in a
    heap and \<open>registry_Get\<close> hands out a handle on a new one. \<open>Process_Migration\<close>: a
    migration that the process runs between Docker, Podman and Compose.
  \<^item> This theory: an ephemeral environment on Kubernetes.

  \<^bold>\<open>How code becomes definitions.\<close> An operation is one definition with the name of the Go
  function. The receiver's mutable fields and the outside world are threaded through it; a Go
  \<open>error\<close> is a sum or an option; a panic is \<open>None\<close>; a reading of the clock is an argument. A
  method that holds its mutex from start to end is one atomic step; where a method gives the
  lock up (\<open>Get\<close> of the image cache, \<open>HandlePRMerge\<close>, the log goroutines) its sections are
  separate steps. State machines are \<open>inductive\<close> step relations with their reachable states
  (\<open>manager_step\<close>, \<open>edge_exec\<close>, \<open>loop_step\<close>, \<open>log_step\<close>, \<open>reader_step\<close>, \<open>race_step\<close>). \<open>int32\<close> and \<open>int64\<close> arithmetic wraps around
  explicitly (\<open>i32\<close>, \<open>i64\<close>) where the code can reach the bounds.
  What is not under \<open>src/\<close> is a parameter: the Kubernetes API and client-go (\<open>kube_api\<close>,
  \<open>client_go\<close>), the Docker engine (\<open>docker_api\<close>), running a program or an ssh command, YAML,
  quantity parsing, \<open>grpc.Dial\<close>. Laws that a theorem needs of them are its hypotheses, and its
  witness instantiates them with a concrete function.

  \<^bold>\<open>What the lemmas show.\<close> For each component: its operations preserve a well-formedness
  invariant (environments, cache, registry, tracker, agent); the stores refine maps
  (\<open>cache_never_stale\<close>, \<open>store_refines_map\<close>, \<open>metrics_cache_refines_map\<close>,
  \<open>tracker_is_sliding_window\<close>); the functional behaviour of the translators (pod specs,
  selectors, network policies, binds, command lines) and their round trips; the life cycles of
  environments and agents; the safety of a migration, and which failures leave something behind.
  The locale \<open>backend\<close> is the contract of the driver interface; the Docker driver keeps it over
  every engine with the laws \<open>engine_laws\<close>, the Podman and the Compose driver over every program with
  \<open>podman_laws\<close> and \<open>compose_laws\<close>, and \<open>migration_pair\<close> proves once for two such drivers what a
  migration moves; \<open>registry_migration_moves_workload\<close> then only rests on the laws of the outside.
  The Kubernetes driver does not keep the contract, since it looks for a workload in the default
  namespace (\<open>deploy_elsewhere_fails\<close>), and the remote driver does not, since its command lines
  are not quoted (\<open>remote_command_words\<close>) and a new handle is not connected.
  A log stream is delivered completely (\<open>inevitable\<close> is liveness of a step relation) unless its
  consumer leaves.
  Theorems about defects of the code (for instance \<open>empty_reference_hangs_put\<close>,
  \<open>failed_cutover_leaves_shadow\<close>, \<open>teardown_misses_workload\<close>) state what it does on the
  faulty path.

  \<^bold>\<open>Termination and fuel.\<close> Loops that Go ends by a structure recurse on it. The parser of
  durations has the length of its input as fuel, and every term consumes a byte. The polling
  loop of a migration is a \<open>partial_function\<close> over the clock; \<open>migrate_returns\<close> proves that it
  ends when the clock advances. Docker's wait for a log line terminates by a measure. The
  eviction loop of the image cache is a \<open>partial_function\<close> as well: it ends for every cache
  without an image under the empty reference (\<open>evict_loop_returns\<close>), and one such image can make
  it run forever (\<open>empty_reference_hangs_put\<close>). Every step of a log reader decreases \<open>reader_left\<close>,
  every step of a followed command \<open>log_left\<close>, and every step of a stopped background loop
  \<open>rounds_left\<close>.

  \<^bold>\<open>Not modelled.\<close>
  \<^item> \<open>MarshalJSON\<close> of the edge agent (the JSON encoder) and the response types of its RPCs, which no
    code uses.
  \<^item> The signal wait and the empty gRPC server of \<open>main.go\<close>, and log output.
  \<^item> \<open>float64\<close> rounding: scores, averages and percentages are exact rationals. Case folding and
    white space outside ASCII.
  \<^item> \<open>saveCacheMetadata\<close>, whose body is empty.
  \<^item> The Go memory model below sequential consistency: the accesses in \<open>Tracker_Races\<close> interleave,
    and are not reordered or torn.
\<close>

section \<open>Ephemeral environments on Kubernetes\<close>


lemma cluster_absent:
  "absent_in_default cluster_api demo_driver name (\<lambda>w. gm_get (cl_deployments w) (''default'', name) = None)"
  by (auto simp: absent_in_default_def cluster_api_def demo_driver_def missing_def quoted_def is_ok_def
      HasSuffix_def HasPrefix_def split: if_splits)


end
